(* ===== verification/Prelude.thy ===== *)
theory Prelude
  imports Main "HOL-Library.Sublist"
begin

text \<open>
  Shared vocabulary of the development: the theorem collections, Go strings and maps, and the
  generic facts about lists and maps that several components use.

  Go strings are byte strings, and so is \<^typ>\<open>string\<close>: a \<^typ>\<open>char\<close> is one byte.
  A Go map of strings is a partial function; reading a missing key yields the empty string.
\<close>

named_theorems io_rules \<open>weakest preconditions of the program constructs, as equations\<close>
named_theorems io_intros \<open>weakest preconditions of the API requests, as introduction rules\<close>
named_theorems guard_simps \<open>unfolding of the guards on API requests\<close>

type_synonym gostring = string
type_synonym gomap = "string \<rightharpoonup> string"

text \<open>An instant, in nanoseconds; a duration has the same unit. The zero instant of
  \<^verbatim>\<open>time.Time\<close> is \<open>0\<close>.\<close>

type_synonym instant = int
type_synonym duration = int

definition second :: duration where
  "second = 1000000000"

text \<open>Reading a Go map: \<^verbatim>\<open>m[k]\<close> is the empty string for a missing key.\<close>

definition mget :: "gomap \<Rightarrow> string \<Rightarrow> string" where
  "mget m k = (case m k of None \<Rightarrow> [] | Some v \<Rightarrow> v)"

lemma mget_upd_same [simp]: "mget (m(k \<mapsto> v)) k = v"
  by (simp add: mget_def)

lemma mget_upd_other [simp]: "k \<noteq> k' \<Longrightarrow> mget (m(k \<mapsto> v)) k' = mget m k'"
  by (simp add: mget_def)

lemma mget_del_same [simp]: "mget (m(k := None)) k = []"
  by (simp add: mget_def)

lemma mget_del_other [simp]: "k \<noteq> k' \<Longrightarrow> mget (m(k := None)) k' = mget m k'"
  by (simp add: mget_def)

lemma mget_empty [simp]: "mget Map.empty k = []"
  by (simp add: mget_def)

text \<open>\<^verbatim>\<open>xs[len(xs)-n:]\<close>, the last \<open>n\<close> elements.\<close>

definition last_n :: "nat \<Rightarrow> 'a list \<Rightarrow> 'a list" where
  "last_n n xs = drop (length xs - n) xs"

lemma length_last_n [simp]: "length (last_n n xs) = min n (length xs)"
  by (simp add: last_n_def)

lemma set_last_n: "set (last_n n xs) \<subseteq> set xs"
  by (auto simp: last_n_def dest: in_set_dropD)

lemma last_last_n: "0 < n \<Longrightarrow> xs \<noteq> [] \<Longrightarrow> last (last_n n xs) = last xs"
  by (simp add: last_n_def)

lemma last_n_id: "length xs \<le> n \<Longrightarrow> last_n n xs = xs"
  by (simp add: last_n_def)

lemma suffix_last_n: "suffix (last_n n xs) xs"
  by (simp add: last_n_def suffix_drop)

end
