(* ===== verification/Errors.thy ===== *)
theory Errors
  imports Prelude
begin

text \<open>
  Errors of the program (\<^verbatim>\<open>internal/domain/errors.go\<close>) as values. An error is a
  tree: a domain error may wrap a cause, \<^verbatim>\<open>errors.Join\<close> has several children,
  \<^verbatim>\<open>fmt.Errorf("...%w")\<close> wraps one. \<^verbatim>\<open>errors.As\<close> and
  \<^verbatim>\<open>errors.Is\<close> walk that tree depth first, an error before its children.
  The human-readable message of an error is not kept; its category, its operation and its cause
  are.
\<close>

datatype ErrorCategory =
    ErrorValidation | ErrorPrecondition | ErrorConflict | ErrorKubernetes
  | ErrorCopy | ErrorTimeout | ErrorInternal

text \<open>The operation an error reports (\<^verbatim>\<open>Error.Op\<close>).\<close>

definition OpTransition :: string where "OpTransition = ''transition''"
definition OpReactivate :: string where "OpReactivate = ''reactivate''"
definition OpSession :: string where "OpSession = ''session''"
definition OpUnusedStoragePolicy :: string where "OpUnusedStoragePolicy = ''unused storage policy''"
definition OpActivatePVC :: string where "OpActivatePVC = ''activate PVC''"
definition OpActivateVolume :: string where "OpActivateVolume = ''activate volume''"
definition OpActivePVC :: string where "OpActivePVC = ''active PVC''"
definition OpCreateActivePVC :: string where "OpCreateActivePVC = ''create active PVC''"
definition OpValidateActivePVC :: string where "OpValidateActivePVC = ''validate active PVC''"
definition OpDeletePVC :: string where "OpDeletePVC = ''delete PVC''"
definition OpReservePV :: string where "OpReservePV = ''reserve PV''"
definition OpRetainPV :: string where "OpRetainPV = ''retain PV''"
definition OpVerifyBinding :: string where "OpVerifyBinding = ''verify binding''"
definition OpVerifyPVCOffline :: string where "OpVerifyPVCOffline = ''verify PVC offline''"
definition OpVerifyPVOffline :: string where "OpVerifyPVOffline = ''verify PV offline''"
definition OpVerifyActivationRecovery :: string where "OpVerifyActivationRecovery = ''verify activation recovery''"
definition OpMarkPVPair :: string where "OpMarkPVPair = ''mark PV pair''"
definition OpRollbackVolume :: string where "OpRollbackVolume = ''rollback volume''"
definition OpRollbackPVC :: string where "OpRollbackPVC = ''rollback PVC''"
definition OpRenamePVC :: string where "OpRenamePVC = ''rename PVC''"
definition OpVerifyRebindRecovery :: string where "OpVerifyRebindRecovery = ''verify PVC rebind recovery''"
definition OpRebindPVC :: string where "OpRebindPVC = ''rebind PVC''"
definition OpVerifySourceSnapshot :: string where "OpVerifySourceSnapshot = ''verify source snapshot''"
definition OpAcquirePVC :: string where "OpAcquirePVC = ''acquire PVC''"
definition OpReleasePVC :: string where "OpReleasePVC = ''release PVC''"
definition OpFinalizePVC :: string where "OpFinalizePVC = ''finalize PVC''"
definition OpAcquireSessionLock :: string where "OpAcquireSessionLock = ''acquire session lock''"
definition OpRenewSessionLock :: string where "OpRenewSessionLock = ''renew session lock''"
definition OpReleaseSessionLock :: string where "OpReleaseSessionLock = ''release session lock''"
definition OpDeleteSessionLock :: string where "OpDeleteSessionLock = ''delete session lock''"
definition OpSessionLock :: string where "OpSessionLock = ''session lock''"
definition OpWorkflow :: string where "OpWorkflow = ''workflow''"
definition OpWorkflowHandoff :: string where "OpWorkflowHandoff = ''workflow handoff''"
definition OpWorkflowNameCollision :: string where "OpWorkflowNameCollision = ''check workflow name collision''"
definition OpWait :: string where "OpWait = ''wait''"
definition OpCheckpoint :: string where "OpCheckpoint = ''checkpoint''"
definition OpMigration :: string where "OpMigration = ''migration''"

text \<open>The reason of a Kubernetes API error. \<open>Forbidden b\<close>: the message says that the
  namespace is being terminated iff \<open>b\<close>.\<close>

datatype api_reason =
  NotFound | AlreadyExists | Conflict | Forbidden bool | OtherReason

datatype go_error =
    DomainError ErrorCategory string "go_error option"
  | ApiError api_reason
  | ContextCanceled
  | ContextDeadlineExceeded
  | ErrSessionLockContention
  | ErrSessionNamespaceTerminating
  | PlainError
  | WrapfError go_error
  | JoinError "go_error list"

abbreviation NewError :: "ErrorCategory \<Rightarrow> string \<Rightarrow> go_error" where
  "NewError c op \<equiv> DomainError c op None"

abbreviation WrapError :: "ErrorCategory \<Rightarrow> string \<Rightarrow> go_error \<Rightarrow> go_error" where
  "WrapError c op cause \<equiv> DomainError c op (Some cause)"

text \<open>\<^verbatim>\<open>errors.Join\<close>: the nil arguments are dropped; nil when nothing is left.\<close>

definition errors_join :: "go_error option list \<Rightarrow> go_error option" where
  "errors_join es =
     (case List.map_filter id es of [] \<Rightarrow> None | xs \<Rightarrow> Some (JoinError xs))"

text \<open>The errors of the tree in the order in which \<^verbatim>\<open>errors.As\<close> visits them.\<close>

fun err_chain :: "go_error \<Rightarrow> go_error list" and err_chains :: "go_error list \<Rightarrow> go_error list" where
  "err_chain (DomainError c op None) = [DomainError c op None]"
| "err_chain (DomainError c op (Some e)) = DomainError c op (Some e) # err_chain e"
| "err_chain (WrapfError e) = WrapfError e # err_chain e"
| "err_chain (JoinError es) = JoinError es # err_chains es"
| "err_chain e = [e]"
| "err_chains [] = []"
| "err_chains (e # es) = err_chain e @ err_chains es"

fun domain_category :: "go_error \<Rightarrow> ErrorCategory option" where
  "domain_category (DomainError c op cause) = Some c"
| "domain_category _ = None"

fun api_reason_of :: "go_error \<Rightarrow> api_reason option" where
  "api_reason_of (ApiError r) = Some r"
| "api_reason_of _ = None"

definition CategoryOf :: "go_error \<Rightarrow> ErrorCategory" where
  "CategoryOf e =
     (case List.map_filter domain_category (err_chain e) of
        [] \<Rightarrow> ErrorInternal | c # _ \<Rightarrow> c)"

definition ExitCode :: "go_error \<Rightarrow> int" where
  "ExitCode e =
     (case CategoryOf e of
        ErrorValidation \<Rightarrow> 2
      | ErrorPrecondition \<Rightarrow> 3
      | ErrorConflict \<Rightarrow> 4
      | ErrorKubernetes \<Rightarrow> 5
      | ErrorCopy \<Rightarrow> 6
      | ErrorTimeout \<Rightarrow> 7
      | _ \<Rightarrow> 1)"

text \<open>\<^verbatim>\<open>apierrors.ReasonForError\<close>: the reason of the first API status error in the tree.\<close>

definition reason_of :: "go_error \<Rightarrow> api_reason option" where
  "reason_of e =
     (case List.map_filter api_reason_of (err_chain e) of [] \<Rightarrow> None | r # _ \<Rightarrow> Some r)"

definition IsNotFound :: "go_error \<Rightarrow> bool" where
  "IsNotFound e = (reason_of e = Some NotFound)"

definition IsAlreadyExists :: "go_error \<Rightarrow> bool" where
  "IsAlreadyExists e = (reason_of e = Some AlreadyExists)"

definition IsConflict :: "go_error \<Rightarrow> bool" where
  "IsConflict e = (reason_of e = Some Conflict)"

definition IsForbidden :: "go_error \<Rightarrow> bool" where
  "IsForbidden e = (reason_of e = Some (Forbidden True) \<or> reason_of e = Some (Forbidden False))"

definition errors_Is :: "go_error \<Rightarrow> go_error \<Rightarrow> bool" where
  "errors_Is e target = (target \<in> set (err_chain e))"

text \<open>Whether \<^verbatim>\<open>Error()\<close> says that the namespace is being terminated: a domain error prints its own
  message and not its cause, the other wrappers print what they wrap.\<close>

fun says_terminated :: "go_error \<Rightarrow> bool" and any_says_terminated :: "go_error list \<Rightarrow> bool" where
  "says_terminated (ApiError (Forbidden b)) = b"
| "says_terminated (WrapfError e) = says_terminated e"
| "says_terminated (JoinError es) = any_says_terminated es"
| "says_terminated _ = False"
| "any_says_terminated [] = False"
| "any_says_terminated (e # es) = (says_terminated e \<or> any_says_terminated es)"

lemma errors_join_None [simp]: "errors_join [] = None" "errors_join [None] = None"
  by (simp_all add: errors_join_def)

lemma errors_join_eq_None: "errors_join es = None \<longleftrightarrow> set es \<subseteq> {None}"
proof -
  have "List.map_filter id es = [] \<longleftrightarrow> set es \<subseteq> {None}"
    by (induction es) (auto split: option.splits)
  then show ?thesis
    by (cases "List.map_filter id es") (simp_all add: errors_join_def)
qed

lemma CategoryOf_domain [simp]: "CategoryOf (DomainError c op cause) = c"
  by (cases cause) (simp_all add: CategoryOf_def)

lemma err_chain_self: "e \<in> set (err_chain e)"
  by (cases e rule: err_chain.cases) simp_all

text \<open>A domain error keeps its exit code whatever it wraps, and the code is never 0.\<close>

lemma ExitCode_bounds: "1 \<le> ExitCode e \<and> ExitCode e \<le> 7"
  by (simp add: ExitCode_def split: ErrorCategory.splits)

lemma ExitCode_inj:
  "CategoryOf e \<noteq> ErrorInternal \<Longrightarrow> ExitCode e = ExitCode e' \<Longrightarrow> CategoryOf e = CategoryOf e'"
  by (simp add: ExitCode_def split: ErrorCategory.splits)

end
