(* ===== verification/Lifecycle.thy ===== *)
theory Lifecycle
  imports Errors
begin

text \<open>
  The workflow lifecycle: \<^verbatim>\<open>internal/domain/workflow_registry.go\<close>,
  \<^verbatim>\<open>workflow_lifecycle.go\<close>, \<^verbatim>\<open>identity_lifecycle.go\<close>,
  \<^verbatim>\<open>reclaim_policy.go\<close> and the status types of
  \<^verbatim>\<open>api/v1alpha1/workflow_types.go\<close>. A phase is a string in Go; the constants of
  the source are constructors, any other spelling is \<open>PhaseOther\<close>, and the empty string is
  \<open>PhaseNone\<close>.
\<close>

subsection \<open>Operations and phases\<close>

datatype Operation =
    OperationMigrate | OperationMigratePod | OperationReserve | OperationCopy
  | OperationRename | OperationMove | OperationBackup | OperationRestore

definition RebindsPVC :: "Operation \<Rightarrow> bool" where
  "RebindsPVC o' = (o' = OperationRename \<or> o' = OperationMove)"

definition RecreatesPVC :: "Operation \<Rightarrow> bool" where
  "RecreatesPVC o' = (o' = OperationMigrate \<or> o' = OperationMigratePod \<or> RebindsPVC o')"

datatype Phase =
    PhaseNone
  | PhasePlanned | PhaseReserving | PhaseReserved | PhaseWarmCopying | PhaseWarmCopied
  | PhasePausing | PhasePaused | PhaseFinalSyncing | PhaseFinalSynced
  | PhaseActivating | PhaseActivated | PhaseResuming | PhaseCompleted
  | PhaseAborting | PhaseAborted | PhaseRollingBack | PhaseRolledBack
  | PhaseRenaming | PhaseMoving | PhaseFailed
  | PhaseOther string

definition MaxWorkflowHistoryEntries :: nat where "MaxWorkflowHistoryEntries = 256"
definition MaxWorkflowConditions :: nat where "MaxWorkflowConditions = 32"
definition MaxWorkflowConditionTypeBytes :: nat where "MaxWorkflowConditionTypeBytes = 64"
definition MaxWorkflowReasonBytes :: nat where "MaxWorkflowReasonBytes = 128"
definition MaxWorkflowMessageBytes :: nat where "MaxWorkflowMessageBytes = 8192"

lemmas workflow_limits =
  MaxWorkflowHistoryEntries_def MaxWorkflowConditions_def MaxWorkflowConditionTypeBytes_def
  MaxWorkflowReasonBytes_def MaxWorkflowMessageBytes_def

subsection \<open>Status records\<close>

record WorkflowCondition =
  wc_Type :: string
  wc_Status :: string
  wc_Reason :: string
  wc_Message :: string
  wc_LastTransitionTime :: instant

record WorkflowHistoryEntry =
  he_Phase :: Phase
  he_Time :: instant
  he_Message :: string

record WorkflowStatus =
  ws_ExecutionIntentHash :: string
  ws_ErrorCategory :: string
  ws_Phase :: Phase
  ws_ResumeFrom :: Phase
  ws_FailureReason :: string
  ws_ObservedGeneration :: int
  ws_StartedAt :: instant
  ws_UpdatedAt :: instant
  ws_CompletedAt :: "instant option"
  ws_Message :: string
  ws_Conditions :: "WorkflowCondition list"
  ws_History :: "WorkflowHistoryEntry list"

subsection \<open>Bounded text\<close>

text \<open>\<^verbatim>\<open>utf8.ValidString\<close>: RFC 3629 sequences, no overlong forms, no surrogates.\<close>

abbreviation byte :: "char \<Rightarrow> nat" where
  "byte c \<equiv> of_char c"

definition utf8_cont :: "char \<Rightarrow> bool" where
  "utf8_cont c = (128 \<le> byte c \<and> byte c \<le> 191)"

text \<open>Number of continuation bytes announced by a lead byte, and the range of the first one.\<close>

definition utf8_lead :: "char \<Rightarrow> (nat \<times> nat \<times> nat) option" where
  "utf8_lead c =
     (let b = byte c in
      if b < 128 then Some (0, 0, 0)
      else if 194 \<le> b \<and> b \<le> 223 then Some (1, 128, 191)
      else if b = 224 then Some (2, 160, 191)
      else if b = 237 then Some (2, 128, 159)
      else if 225 \<le> b \<and> b \<le> 239 then Some (2, 128, 191)
      else if b = 240 then Some (3, 144, 191)
      else if 241 \<le> b \<and> b \<le> 243 then Some (3, 128, 191)
      else if b = 244 then Some (3, 128, 143)
      else None)"

fun utf8_tail :: "nat \<Rightarrow> nat \<Rightarrow> nat \<Rightarrow> string \<Rightarrow> bool" where
  "utf8_tail 0 lo hi s = True"
| "utf8_tail (Suc n) lo hi [] = False"
| "utf8_tail (Suc n) lo hi (c # s) = (lo \<le> byte c \<and> byte c \<le> hi \<and> utf8_tail n 128 191 s)"

function utf8_valid :: "string \<Rightarrow> bool" where
  "utf8_valid [] = True"
| "utf8_valid (c # s) =
     (case utf8_lead c of
        None \<Rightarrow> False
      | Some (n, lo, hi) \<Rightarrow> utf8_tail n lo hi s \<and> utf8_valid (drop n s))"
  by pat_completeness auto
termination
  by (relation "measure length") auto

text \<open>The loop of \<^verbatim>\<open>boundWorkflowText\<close> that drops bytes until the text is valid.\<close>

function trim_utf8 :: "string \<Rightarrow> string" where
  "trim_utf8 s = (if utf8_valid s then s else trim_utf8 (butlast s))"
  by pat_completeness auto
termination
proof (relation "measure length")
  fix s :: string
  assume "\<not> utf8_valid s"
  then have "s \<noteq> []" by auto
  then show "(butlast s, s) \<in> measure length" by simp
qed simp

declare trim_utf8.simps [simp del]

definition boundWorkflowText :: "string \<Rightarrow> nat \<Rightarrow> string" where
  "boundWorkflowText v maxBytes =
     (if length v \<le> maxBytes then v else trim_utf8 (take maxBytes v))"

definition BoundWorkflowMessage :: "string \<Rightarrow> string" where
  "BoundWorkflowMessage m = boundWorkflowText m MaxWorkflowMessageBytes"

definition BoundWorkflowConditionType :: "string \<Rightarrow> string" where
  "BoundWorkflowConditionType v = boundWorkflowText v MaxWorkflowConditionTypeBytes"

definition BoundWorkflowReason :: "string \<Rightarrow> string" where
  "BoundWorkflowReason v = boundWorkflowText v MaxWorkflowReasonBytes"

subsection \<open>Recording transitions\<close>

definition trimWorkflowHistory :: "WorkflowStatus \<Rightarrow> WorkflowStatus" where
  "trimWorkflowHistory s =
     (if length (ws_History s) \<le> MaxWorkflowHistoryEntries then s
      else s\<lparr>ws_History := last_n MaxWorkflowHistoryEntries (ws_History s)\<rparr>)"

definition trimWorkflowConditions :: "WorkflowStatus \<Rightarrow> WorkflowStatus" where
  "trimWorkflowConditions s =
     (if length (ws_Conditions s) \<le> MaxWorkflowConditions then s
      else s\<lparr>ws_Conditions := last_n MaxWorkflowConditions (ws_Conditions s)\<rparr>)"

definition RecordWorkflowTransition ::
  "WorkflowStatus \<Rightarrow> Phase \<Rightarrow> string \<Rightarrow> instant \<Rightarrow> WorkflowStatus" where
  "RecordWorkflowTransition s next message now =
     (if ws_Phase s = next then s
      else
        let s1 = (if next = PhaseFailed
                    \<or> ((next = PhaseAborting \<or> next = PhaseRollingBack) \<and> ws_Phase s \<noteq> PhaseFailed)
                  then s\<lparr>ws_ResumeFrom := ws_Phase s\<rparr> else s);
            s2 = s1\<lparr>ws_Phase := next\<rparr>;
            s3 = (if next \<noteq> PhaseFailed
                  then s2\<lparr>ws_FailureReason := [], ws_ErrorCategory := []\<rparr> else s2);
            m = BoundWorkflowMessage message;
            s4 = s3\<lparr>ws_Message := m, ws_UpdatedAt := now,
                     ws_History := ws_History s3
                       @ [\<lparr>he_Phase = next, he_Time = now, he_Message = m\<rparr>]\<rparr>;
            s5 = trimWorkflowHistory s4
        in if next = PhaseCompleted \<or> next = PhaseAborted \<or> next = PhaseRolledBack
           then s5\<lparr>ws_CompletedAt := Some now\<rparr>
           else s5\<lparr>ws_CompletedAt := None\<rparr>)"

definition ReactivateWorkflow ::
  "WorkflowStatus \<Rightarrow> string \<Rightarrow> instant \<Rightarrow> go_error + WorkflowStatus" where
  "ReactivateWorkflow s message now =
     (if ws_Phase s \<noteq> PhaseFailed \<or> ws_ResumeFrom s = PhaseNone
      then Inl (NewError ErrorPrecondition OpReactivate)
      else
        let m = BoundWorkflowMessage message;
            p = ws_ResumeFrom s
        in Inr (trimWorkflowHistory
             (s\<lparr>ws_Phase := p, ws_FailureReason := [], ws_ErrorCategory := [],
                ws_Message := m, ws_UpdatedAt := now, ws_CompletedAt := None,
                ws_History := ws_History s @ [\<lparr>he_Phase = p, he_Time = now, he_Message = m\<rparr>]\<rparr>)))"

text \<open>The in-place replacement of the first condition of the same type, if there is one.\<close>

fun replace_condition ::
  "WorkflowCondition \<Rightarrow> WorkflowCondition list \<Rightarrow> WorkflowCondition list option" where
  "replace_condition c [] = None"
| "replace_condition c (x # xs) =
     (if wc_Type x = wc_Type c then Some (c # xs)
      else map_option ((#) x) (replace_condition c xs))"

definition SetWorkflowCondition :: "WorkflowStatus \<Rightarrow> WorkflowCondition \<Rightarrow> WorkflowStatus" where
  "SetWorkflowCondition s c0 =
     (let c = c0\<lparr>wc_Type := BoundWorkflowConditionType (wc_Type c0),
                 wc_Reason := BoundWorkflowReason (wc_Reason c0),
                 wc_Message := BoundWorkflowMessage (wc_Message c0)\<rparr>
      in case replace_condition c (ws_Conditions s) of
           Some cs \<Rightarrow> trimWorkflowConditions (s\<lparr>ws_Conditions := cs\<rparr>)
         | None \<Rightarrow> trimWorkflowConditions (s\<lparr>ws_Conditions := ws_Conditions s @ [c]\<rparr>))"

subsection \<open>The phase machines of repository and identity workflows\<close>

definition repository_policy :: "Phase \<Rightarrow> Phase list" where
  "repository_policy p =
     (case p of
        PhasePlanned \<Rightarrow> [PhaseWarmCopying, PhaseAborting, PhaseFailed]
      | PhaseWarmCopying \<Rightarrow> [PhaseWarmCopied, PhaseAborting, PhaseFailed]
      | PhaseWarmCopied \<Rightarrow> [PhaseCompleted, PhaseAborting, PhaseFailed]
      | PhaseAborting \<Rightarrow> [PhaseAborted, PhaseFailed]
      | PhaseFailed \<Rightarrow> [PhaseWarmCopying, PhaseAborting]
      | _ \<Rightarrow> [])"

definition TransitionRepository ::
  "WorkflowStatus \<Rightarrow> Phase \<Rightarrow> string \<Rightarrow> instant \<Rightarrow> go_error + WorkflowStatus" where
  "TransitionRepository s next message now =
     (if ws_Phase s = next then Inr s
      else if next \<notin> set (repository_policy (ws_Phase s))
      then Inl (NewError ErrorConflict OpTransition)
      else Inr (RecordWorkflowTransition s next message now))"

definition ValidateIdentityLifecycle :: "WorkflowStatus \<Rightarrow> Phase \<Rightarrow> go_error + unit" where
  "ValidateIdentityLifecycle s rebindPhase =
     (let allowed = [PhasePlanned, rebindPhase, PhaseCompleted, PhaseRollingBack, PhaseRolledBack,
                     PhaseAborting, PhaseAborted, PhaseFailed]
      in if ws_Phase s \<notin> set allowed
            \<or> (ws_ResumeFrom s \<noteq> PhaseNone \<and> ws_ResumeFrom s \<notin> set allowed)
         then Inl (NewError ErrorValidation OpSession)
         else Inr ())"

text \<open>The policy map; a later entry of the Go map literal overrides an earlier one with the
  same key, and \<open>rebindPhase\<close> is a key computed at run time.\<close>

definition identity_policy :: "Phase \<Rightarrow> Phase \<Rightarrow> Phase list" where
  "identity_policy rebindPhase p =
     (case map_of
        [(PhaseFailed, [rebindPhase, PhaseRollingBack, PhaseAborting]),
         (PhaseAborting, [PhaseAborted, PhaseFailed]),
         (PhaseRollingBack, [PhaseRolledBack, PhaseFailed]),
         (PhaseCompleted, [PhaseRollingBack]),
         (rebindPhase, [PhaseCompleted, PhaseFailed]),
         (PhasePlanned, [rebindPhase, PhaseAborting, PhaseFailed])] p of
        None \<Rightarrow> [] | Some ps \<Rightarrow> ps)"

definition TransitionIdentity ::
  "WorkflowStatus \<Rightarrow> bool \<Rightarrow> Phase \<Rightarrow> Phase \<Rightarrow> string \<Rightarrow> instant \<Rightarrow> go_error + WorkflowStatus" where
  "TransitionIdentity s planned rebindPhase next message now =
     (let current = ws_Phase s in
      if current = next then Inr s
      else if \<not> planned \<and> next = PhaseAborted
              \<and> (current = PhaseNone \<or> current = PhasePlanned \<or> current = PhaseFailed)
      then Inr (RecordWorkflowTransition s next message now)
      else if next \<notin> set (identity_policy rebindPhase current)
      then Inl (NewError ErrorConflict OpTransition)
      else Inr (RecordWorkflowTransition s next message now))"

subsection \<open>Unused storage\<close>

datatype UnusedStoragePolicy =
  UnusedStorageUnset | UnusedStorageKeep | UnusedStorageDelete | UnusedStorageOther string

definition ValidateUnusedStoragePolicy :: "UnusedStoragePolicy \<Rightarrow> go_error + unit" where
  "ValidateUnusedStoragePolicy policy =
     (if policy \<noteq> UnusedStorageUnset \<and> policy \<noteq> UnusedStorageKeep \<and> policy \<noteq> UnusedStorageDelete
      then Inl (NewError ErrorValidation OpUnusedStoragePolicy)
      else Inr ())"

definition DeletesUnusedStorage :: "UnusedStoragePolicy \<Rightarrow> bool" where
  "DeletesUnusedStorage policy = (policy = UnusedStorageDelete)"

subsection \<open>The registry of workflow kinds\<close>

datatype SessionType =
    SessionTypeReserve | SessionTypeMigrate | SessionTypeMigratePod | SessionTypeCopy
  | SessionTypeBackup | SessionTypeRename | SessionTypeMove | SessionTypeRestore

text \<open>A controller kind; \<open>KindUnset\<close> is the empty string of a missing form.\<close>

datatype ControllerKind =
    KindUnset
  | ControllerKindMigration | ControllerKindPodMigration | ControllerKindReservation
  | ControllerKindCopy | ControllerKindBackup | ControllerKindRestore | ControllerKindRename
  | ControllerKindClusterMigration | ControllerKindClusterReservation
  | ControllerKindClusterCopy | ControllerKindMove

record ControllerWorkflow =
  cw_Type :: SessionType
  cw_Kind :: ControllerKind
  cw_Resource :: string
  cw_Singular :: string
  cw_ClusterKind :: ControllerKind
  cw_ClusterResource :: string
  cw_ClusterSingular :: string

record ControllerResource =
  cr_Type :: SessionType
  cr_Kind :: ControllerKind
  cr_Resource :: string
  cr_Singular :: string
  cr_Cluster :: bool

definition workflow_entry ::
  "SessionType \<Rightarrow> ControllerKind \<Rightarrow> string \<Rightarrow> string \<Rightarrow> ControllerKind \<Rightarrow> string \<Rightarrow> string \<Rightarrow> ControllerWorkflow" where
  "workflow_entry t k r s ck crs cs =
     \<lparr>cw_Type = t, cw_Kind = k, cw_Resource = r, cw_Singular = s,
      cw_ClusterKind = ck, cw_ClusterResource = crs, cw_ClusterSingular = cs\<rparr>"

definition controllerWorkflowRegistry :: "ControllerWorkflow list" where
  "controllerWorkflowRegistry =
     [workflow_entry SessionTypeMigrate ControllerKindMigration ''migrations'' ''migration''
        ControllerKindClusterMigration ''clustermigrations'' ''clustermigration'',
      workflow_entry SessionTypeMigratePod ControllerKindPodMigration ''podmigrations'' ''podmigration''
        KindUnset [] [],
      workflow_entry SessionTypeReserve ControllerKindReservation ''reservations'' ''reservation''
        ControllerKindClusterReservation ''clusterreservations'' ''clusterreservation'',
      workflow_entry SessionTypeCopy ControllerKindCopy ''copies'' ''copy''
        ControllerKindClusterCopy ''clustercopies'' ''clustercopy'',
      workflow_entry SessionTypeBackup ControllerKindBackup ''backups'' ''backup'' KindUnset [] [],
      workflow_entry SessionTypeRestore ControllerKindRestore ''restores'' ''restore'' KindUnset [] [],
      workflow_entry SessionTypeRename ControllerKindRename ''renames'' ''rename'' KindUnset [] [],
      workflow_entry SessionTypeMove KindUnset [] [] ControllerKindMove ''moves'' ''move'']"

definition ControllerWorkflowForType :: "SessionType \<Rightarrow> ControllerWorkflow option" where
  "ControllerWorkflowForType t = List.find (\<lambda>w. cw_Type w = t) controllerWorkflowRegistry"

definition ControllerWorkflowForKind :: "ControllerKind \<Rightarrow> ControllerWorkflow option" where
  "ControllerWorkflowForKind k =
     (if k = KindUnset then None
      else List.find (\<lambda>w. cw_Kind w \<noteq> KindUnset \<and> cw_Kind w = k
                         \<or> cw_ClusterKind w \<noteq> KindUnset \<and> cw_ClusterKind w = k)
             controllerWorkflowRegistry)"

definition ControllerResourceForKind :: "ControllerKind \<Rightarrow> ControllerResource option" where
  "ControllerResourceForKind k =
     (case ControllerWorkflowForKind k of
        None \<Rightarrow> None
      | Some w \<Rightarrow>
          if cw_Kind w = k
          then Some \<lparr>cr_Type = cw_Type w, cr_Kind = k, cr_Resource = cw_Resource w,
                     cr_Singular = cw_Singular w, cr_Cluster = False\<rparr>
          else Some \<lparr>cr_Type = cw_Type w, cr_Kind = k, cr_Resource = cw_ClusterResource w,
                     cr_Singular = cw_ClusterSingular w, cr_Cluster = True\<rparr>)"

subsection \<open>Bounded text is a valid prefix\<close>

lemma trim_utf8_prefix: "prefix (trim_utf8 s) s"
proof (induction s rule: trim_utf8.induct)
  case (1 s)
  show ?case
  proof (cases "utf8_valid s")
    case True
    then show ?thesis by (subst trim_utf8.simps) simp
  next
    case False
    with "1.IH" have "prefix (trim_utf8 (butlast s)) (butlast s)" by simp
    then have "prefix (trim_utf8 (butlast s)) s"
      using prefixeq_butlast prefix_order.trans by blast
    with False show ?thesis by (subst trim_utf8.simps) simp
  qed
qed

lemma trim_utf8_valid: "utf8_valid (trim_utf8 s)"
proof (induction s rule: trim_utf8.induct)
  case (1 s)
  then show ?case by (cases "utf8_valid s") (simp_all add: trim_utf8.simps [of s])
qed

text \<open>The loop stops at the longest valid prefix.\<close>

lemma trim_utf8_longest: "j \<le> length s \<Longrightarrow> utf8_valid (take j s) \<Longrightarrow> j \<le> length (trim_utf8 s)"
proof (induction s rule: trim_utf8.induct)
  case (1 s)
  show ?case
  proof (cases "utf8_valid s")
    case True
    then show ?thesis using 1 by (simp add: trim_utf8.simps [of s])
  next
    case False
    then have "j \<noteq> length s" using "1.prems" by auto
    with "1.prems" have "j \<le> length (butlast s)" and "take j s = take j (butlast s)"
      by (auto simp: take_butlast)
    with "1.IH" False "1.prems" have "j \<le> length (trim_utf8 (butlast s))" by simp
    with False show ?thesis by (simp add: trim_utf8.simps [of s])
  qed
qed

lemma utf8_lead_bound: "utf8_lead c = Some (m, lo, hi) \<Longrightarrow> m \<le> 3"
  by (auto simp: utf8_lead_def Let_def split: if_splits)

lemma utf8_tail_take: "m \<le> n \<Longrightarrow> utf8_tail m lo hi (take n s) = utf8_tail m lo hi s"
proof (induction m lo hi s arbitrary: n rule: utf8_tail.induct)
  case (3 m lo hi c s)
  then show ?case by (cases n) simp_all
qed simp_all

text \<open>Cutting valid UTF-8 anywhere leaves a valid prefix after dropping at most three bytes.\<close>

lemma utf8_valid_cut:
  "utf8_valid s \<Longrightarrow> n \<le> length s \<Longrightarrow> \<exists>k\<le>3. k \<le> n \<and> utf8_valid (take (n - k) s)"
proof (induction s arbitrary: n rule: utf8_valid.induct)
  case 1
  then show ?case by auto
next
  case (2 c s)
  from "2.prems"(1) obtain m lo hi where lead: "utf8_lead c = Some (m, lo, hi)"
    and tail: "utf8_tail m lo hi s" and rest: "utf8_valid (drop m s)"
    by (auto split: option.splits)
  have m3: "m \<le> 3" using utf8_lead_bound [OF lead] .
  show ?case
  proof (cases "n \<le> m")
    case True
    with m3 show ?thesis by (intro exI [of _ n]) simp
  next
    case False
    then have "n - 1 - m \<le> length (drop m s)" using "2.prems"(2) by simp
    with "2.IH" lead rest obtain k where k: "k \<le> 3" "k \<le> n - 1 - m"
      "utf8_valid (take (n - 1 - m - k) (drop m s))" by blast
    let ?j = "n - k - 1"
    have j: "m \<le> ?j" using k False by simp
    have "take (n - k) (c # s) = c # take ?j s"
      using k False by (cases "n - k") simp_all
    moreover have "utf8_tail m lo hi (take ?j s)"
      using tail j by (simp add: utf8_tail_take)
    moreover have "drop m (take ?j s) = take (n - 1 - m - k) (drop m s)"
      by (simp add: drop_take algebra_simps)
    ultimately have "utf8_valid (take (n - k) (c # s))"
      using k(3) lead by simp
    with k show ?thesis by (intro exI [of _ k]) simp
  qed
qed

lemma boundWorkflowText_length [simp]: "length (boundWorkflowText v n) \<le> n"
proof -
  have "length (trim_utf8 (take n v)) \<le> length (take n v)"
    by (rule prefix_length_le [OF trim_utf8_prefix])
  then show ?thesis by (simp add: boundWorkflowText_def)
qed

text \<open>Status text stays within its byte limit, is a prefix of the original, and a valid UTF-8
  text stays valid and loses at most three bytes more than the limit demands.\<close>

lemma boundWorkflowText_spec:
  "length (boundWorkflowText v n) \<le> n \<and> prefix (boundWorkflowText v n) v
   \<and> (utf8_valid v \<longrightarrow> utf8_valid (boundWorkflowText v n)
        \<and> min n (length v) - 3 \<le> length (boundWorkflowText v n))"
proof (cases "length v \<le> n")
  case True
  then show ?thesis by (simp add: boundWorkflowText_def)
next
  case False
  have "prefix (trim_utf8 (take n v)) v"
    using trim_utf8_prefix take_is_prefix prefix_order.trans by blast
  moreover have "n - 3 \<le> length (trim_utf8 (take n v))" if "utf8_valid v"
  proof -
    from that False obtain k where k: "k \<le> 3" "utf8_valid (take (n - k) v)"
      using utf8_valid_cut [of v n] by auto
    then have "n - k \<le> length (trim_utf8 (take n v))"
      using False by (intro trim_utf8_longest) (simp_all add: take_take min_def)
    with k show ?thesis by simp
  qed
  moreover have "length (boundWorkflowText v n) \<le> n" by simp
  ultimately show ?thesis
    using False by (simp add: boundWorkflowText_def trim_utf8_valid)
qed

subsection \<open>Status size\<close>

definition entry_bounded :: "WorkflowHistoryEntry \<Rightarrow> bool" where
  "entry_bounded h = (length (he_Message h) \<le> MaxWorkflowMessageBytes)"

definition condition_bounded :: "WorkflowCondition \<Rightarrow> bool" where
  "condition_bounded c =
     (length (wc_Type c) \<le> MaxWorkflowConditionTypeBytes
      \<and> length (wc_Reason c) \<le> MaxWorkflowReasonBytes
      \<and> length (wc_Message c) \<le> MaxWorkflowMessageBytes)"

definition status_bounded :: "WorkflowStatus \<Rightarrow> bool" where
  "status_bounded s =
     (length (ws_History s) \<le> MaxWorkflowHistoryEntries
      \<and> length (ws_Conditions s) \<le> MaxWorkflowConditions
      \<and> length (ws_Message s) \<le> MaxWorkflowMessageBytes
      \<and> list_all entry_bounded (ws_History s)
      \<and> list_all condition_bounded (ws_Conditions s))"

lemma list_all_last_n: "list_all P xs \<Longrightarrow> list_all P (last_n n xs)"
  using set_last_n [of n xs] by (auto simp: list_all_iff)

lemma BoundWorkflowMessage_length [simp]: "length (BoundWorkflowMessage m) \<le> MaxWorkflowMessageBytes"
  by (simp add: BoundWorkflowMessage_def)

lemma trimWorkflowHistory_bounded:
  "length (ws_Conditions s) \<le> MaxWorkflowConditions \<Longrightarrow> length (ws_Message s) \<le> MaxWorkflowMessageBytes
   \<Longrightarrow> list_all entry_bounded (ws_History s) \<Longrightarrow> list_all condition_bounded (ws_Conditions s)
   \<Longrightarrow> status_bounded (trimWorkflowHistory s)"
  by (simp add: trimWorkflowHistory_def status_bounded_def list_all_last_n)

lemma trimWorkflowConditions_bounded:
  "length (ws_History s) \<le> MaxWorkflowHistoryEntries \<Longrightarrow> length (ws_Message s) \<le> MaxWorkflowMessageBytes
   \<Longrightarrow> list_all entry_bounded (ws_History s) \<Longrightarrow> list_all condition_bounded (ws_Conditions s)
   \<Longrightarrow> status_bounded (trimWorkflowConditions s)"
  by (simp add: trimWorkflowConditions_def status_bounded_def list_all_last_n)

lemma status_bounded_CompletedAt [simp]:
  "status_bounded (s\<lparr>ws_CompletedAt := c\<rparr>) = status_bounded s"
  by (simp add: status_bounded_def)

lemma status_boundedD:
  assumes "status_bounded s"
  shows "length (ws_History s) \<le> MaxWorkflowHistoryEntries"
    and "length (ws_Conditions s) \<le> MaxWorkflowConditions"
    and "length (ws_Message s) \<le> MaxWorkflowMessageBytes"
    and "list_all entry_bounded (ws_History s)"
    and "list_all condition_bounded (ws_Conditions s)"
  using assms by (simp_all add: status_bounded_def)

lemma RecordWorkflowTransition_bounded:
  assumes "status_bounded s"
  shows "status_bounded (RecordWorkflowTransition s next m now)"
  using assms status_boundedD [OF assms]
  by (simp add: RecordWorkflowTransition_def Let_def trimWorkflowHistory_bounded entry_bounded_def)

lemma ReactivateWorkflow_bounded:
  assumes "status_bounded s" and "ReactivateWorkflow s m now = Inr s'"
  shows "status_bounded s'"
proof -
  have "s' = trimWorkflowHistory
      (s\<lparr>ws_Phase := ws_ResumeFrom s, ws_FailureReason := [], ws_ErrorCategory := [],
         ws_Message := BoundWorkflowMessage m, ws_UpdatedAt := now, ws_CompletedAt := None,
         ws_History := ws_History s
           @ [\<lparr>he_Phase = ws_ResumeFrom s, he_Time = now, he_Message = BoundWorkflowMessage m\<rparr>]\<rparr>)"
    using assms(2) by (simp add: ReactivateWorkflow_def Let_def split: if_splits)
  then show ?thesis
    using status_boundedD [OF assms(1)]
    by (simp add: trimWorkflowHistory_bounded entry_bounded_def)
qed

lemma replace_condition_all:
  "list_all P xs \<Longrightarrow> P c \<Longrightarrow> replace_condition c xs = Some ys \<Longrightarrow> list_all P ys"
  by (induction xs arbitrary: ys) (auto split: if_splits)

lemma SetWorkflowCondition_bounded:
  assumes "status_bounded s"
  shows "status_bounded (SetWorkflowCondition s c)"
proof -
  let ?c = "c\<lparr>wc_Type := BoundWorkflowConditionType (wc_Type c),
              wc_Reason := BoundWorkflowReason (wc_Reason c),
              wc_Message := BoundWorkflowMessage (wc_Message c)\<rparr>"
  have c: "condition_bounded ?c"
    by (simp add: condition_bounded_def BoundWorkflowConditionType_def BoundWorkflowReason_def)
  note s = status_boundedD [OF assms]
  show ?thesis
  proof (cases "replace_condition ?c (ws_Conditions s)")
    case None
    then show ?thesis
      using s c by (simp add: SetWorkflowCondition_def trimWorkflowConditions_bounded)
  next
    case (Some cs)
    then have "list_all condition_bounded cs"
      using s c replace_condition_all by blast
    with Some s show ?thesis
      by (simp add: SetWorkflowCondition_def trimWorkflowConditions_bounded)
  qed
qed

text \<open>One step of a status: any of the operations that write it.\<close>

inductive status_step :: "WorkflowStatus \<Rightarrow> WorkflowStatus \<Rightarrow> bool" where
  step_record: "status_step s (RecordWorkflowTransition s next m now)"
| step_reactivate: "ReactivateWorkflow s m now = Inr s' \<Longrightarrow> status_step s s'"
| step_condition: "status_step s (SetWorkflowCondition s c)"
| step_repository: "TransitionRepository s next m now = Inr s' \<Longrightarrow> status_step s s'"
| step_identity: "TransitionIdentity s planned rebind next m now = Inr s' \<Longrightarrow> status_step s s'"

lemma status_step_bounded: "status_step s s' \<Longrightarrow> status_bounded s \<Longrightarrow> status_bounded s'"
  by (induction rule: status_step.induct)
     (auto simp: TransitionRepository_def TransitionIdentity_def Let_def
       RecordWorkflowTransition_bounded SetWorkflowCondition_bounded
       intro: ReactivateWorkflow_bounded split: if_splits)

text \<open>C23: whatever sequence of lifecycle operations runs on a status within the limits of the CRD
  schema, its history, conditions and texts stay within them.\<close>

theorem status_run_bounded:
  assumes "status_step\<^sup>*\<^sup>* s s'" and "status_bounded s"
  shows "status_bounded s'"
  using assms by (induction rule: rtranclp_induct) (auto intro: status_step_bounded)

definition fresh_status :: WorkflowStatus where
  "fresh_status = \<lparr>ws_ExecutionIntentHash = [], ws_ErrorCategory = [], ws_Phase = PhasePlanned,
     ws_ResumeFrom = PhaseNone, ws_FailureReason = [], ws_ObservedGeneration = 0,
     ws_StartedAt = 0, ws_UpdatedAt = 0, ws_CompletedAt = None, ws_Message = [],
     ws_Conditions = [], ws_History = []\<rparr>"

theorem status_run_bounded_witness:
  "status_step\<^sup>*\<^sup>* fresh_status
     (RecordWorkflowTransition (RecordWorkflowTransition fresh_status PhaseReserving ''go'' 1)
        PhaseFailed ''no'' 2)
   \<and> status_bounded (RecordWorkflowTransition
        (RecordWorkflowTransition fresh_status PhaseReserving ''go'' 1) PhaseFailed ''no'' 2)"
proof -
  let ?s1 = "RecordWorkflowTransition fresh_status PhaseReserving ''go'' 1"
  let ?s2 = "RecordWorkflowTransition ?s1 PhaseFailed ''no'' 2"
  have "status_step\<^sup>*\<^sup>* fresh_status ?s2"
    by (meson rtranclp.rtrancl_into_rtrancl rtranclp.rtrancl_refl status_step.step_record)
  moreover have "status_bounded fresh_status"
    by (simp add: status_bounded_def fresh_status_def)
  ultimately show ?thesis using status_run_bounded by blast
qed

subsection \<open>What a transition records\<close>

lemma trimWorkflowHistory_fields [simp]:
  "ws_Phase (trimWorkflowHistory s) = ws_Phase s"
  "ws_ResumeFrom (trimWorkflowHistory s) = ws_ResumeFrom s"
  "ws_FailureReason (trimWorkflowHistory s) = ws_FailureReason s"
  "ws_ErrorCategory (trimWorkflowHistory s) = ws_ErrorCategory s"
  "ws_StartedAt (trimWorkflowHistory s) = ws_StartedAt s"
  "ws_CompletedAt (trimWorkflowHistory s) = ws_CompletedAt s"
  "ws_Conditions (trimWorkflowHistory s) = ws_Conditions s"
  by (simp_all add: trimWorkflowHistory_def)

lemma RecordWorkflowTransition_Phase [simp]:
  "ws_Phase (RecordWorkflowTransition s next m now) = next"
  by (simp add: RecordWorkflowTransition_def Let_def)

lemma RecordWorkflowTransition_ResumeFrom:
  "ws_ResumeFrom (RecordWorkflowTransition s next m now) =
     (if ws_Phase s \<noteq> next
         \<and> (next = PhaseFailed
            \<or> ((next = PhaseAborting \<or> next = PhaseRollingBack) \<and> ws_Phase s \<noteq> PhaseFailed))
      then ws_Phase s else ws_ResumeFrom s)"
  by (auto simp: RecordWorkflowTransition_def Let_def)

lemma RecordWorkflowTransition_FailureReason:
  "ws_FailureReason (RecordWorkflowTransition s next m now) =
     (if ws_Phase s \<noteq> next \<and> next \<noteq> PhaseFailed then [] else ws_FailureReason s)"
  by (simp add: RecordWorkflowTransition_def Let_def)

lemma RecordWorkflowTransition_CompletedAt:
  "ws_Phase s \<noteq> next \<Longrightarrow>
   ws_CompletedAt (RecordWorkflowTransition s next m now) =
     (if next = PhaseCompleted \<or> next = PhaseAborted \<or> next = PhaseRolledBack then Some now else None)"
  by (simp add: RecordWorkflowTransition_def Let_def)

lemma trimWorkflowHistory_last:
  "ws_History s \<noteq> [] \<Longrightarrow> last (ws_History (trimWorkflowHistory s)) = last (ws_History s)"
  by (simp add: trimWorkflowHistory_def last_last_n MaxWorkflowHistoryEntries_def)

text \<open>C24: a workflow that failed in a phase is reopened by a resume in exactly that phase, with the
  failure cleared, no completion time, and the reopening as the newest history entry.\<close>

theorem fail_then_reactivate:
  assumes "ws_Phase s \<noteq> PhaseFailed" and "ws_Phase s \<noteq> PhaseNone"
  shows "\<exists>s'. ReactivateWorkflow (RecordWorkflowTransition s PhaseFailed m1 t1) m2 t2 = Inr s'
    \<and> ws_Phase s' = ws_Phase s \<and> ws_FailureReason s' = [] \<and> ws_ErrorCategory s' = []
    \<and> ws_CompletedAt s' = None
    \<and> last (ws_History s') =
        \<lparr>he_Phase = ws_Phase s, he_Time = t2, he_Message = BoundWorkflowMessage m2\<rparr>"
  using assms
  by (simp add: ReactivateWorkflow_def Let_def RecordWorkflowTransition_ResumeFrom
      trimWorkflowHistory_last)

theorem fail_then_reactivate_witness:
  "\<exists>s'. ReactivateWorkflow (RecordWorkflowTransition fresh_status PhaseFailed ''disk full'' 5)
       ''resume'' 9 = Inr s' \<and> ws_Phase s' = PhasePlanned \<and> ws_FailureReason s' = []
    \<and> ws_ErrorCategory s' = [] \<and> ws_CompletedAt s' = None
    \<and> last (ws_History s') =
        \<lparr>he_Phase = PhasePlanned, he_Time = 9, he_Message = BoundWorkflowMessage ''resume''\<rparr>"
  using fail_then_reactivate [of fresh_status "''disk full''" 5 "''resume''" 9]
  by (simp add: fresh_status_def)

subsection \<open>Conditions are a keyed store\<close>

definition find_condition :: "string \<Rightarrow> WorkflowCondition list \<Rightarrow> WorkflowCondition option" where
  "find_condition ty cs = List.find (\<lambda>c. wc_Type c = ty) cs"

lemma replace_condition_None:
  "replace_condition c cs = None \<longleftrightarrow> wc_Type c \<notin> wc_Type ` set cs"
  by (induction cs) auto

lemma replace_condition_find:
  "replace_condition c cs = Some cs' \<Longrightarrow>
   find_condition ty cs' = (if ty = wc_Type c then Some c else find_condition ty cs)"
  by (induction cs arbitrary: cs') (auto simp: find_condition_def split: if_splits)

lemma replace_condition_types:
  "replace_condition c cs = Some cs' \<Longrightarrow> map wc_Type cs' = map wc_Type cs"
  by (induction cs arbitrary: cs') (auto split: if_splits)

lemma find_condition_append:
  "find_condition ty (cs @ ds) =
     (case find_condition ty cs of None \<Rightarrow> find_condition ty ds | Some c \<Rightarrow> Some c)"
  by (induction cs) (simp_all add: find_condition_def)

lemma find_condition_single: "find_condition ty [c] = (if wc_Type c = ty then Some c else None)"
  by (simp add: find_condition_def)

lemma find_condition_None: "find_condition ty cs = None \<longleftrightarrow> ty \<notin> wc_Type ` set cs"
  by (auto simp: find_condition_def find_None_iff)

text \<open>Setting a condition on a status with room for it makes that condition the one found under
  its (bounded) type, leaves every other type's condition as it was, and never creates a second
  condition of one type.\<close>

lemma SetWorkflowCondition_lookup:
  assumes "length (ws_Conditions s) < MaxWorkflowConditions"
    and "distinct (map wc_Type (ws_Conditions s))"
  shows "distinct (map wc_Type (ws_Conditions (SetWorkflowCondition s c)))
    \<and> find_condition (BoundWorkflowConditionType (wc_Type c)) (ws_Conditions (SetWorkflowCondition s c))
        = Some (c\<lparr>wc_Type := BoundWorkflowConditionType (wc_Type c),
                  wc_Reason := BoundWorkflowReason (wc_Reason c),
                  wc_Message := BoundWorkflowMessage (wc_Message c)\<rparr>)
    \<and> (\<forall>ty. ty \<noteq> BoundWorkflowConditionType (wc_Type c) \<longrightarrow>
         find_condition ty (ws_Conditions (SetWorkflowCondition s c))
         = find_condition ty (ws_Conditions s))"
proof -
  let ?c = "c\<lparr>wc_Type := BoundWorkflowConditionType (wc_Type c),
              wc_Reason := BoundWorkflowReason (wc_Reason c),
              wc_Message := BoundWorkflowMessage (wc_Message c)\<rparr>"
  show ?thesis
  proof (cases "replace_condition ?c (ws_Conditions s)")
    case None
    then have new: "wc_Type ?c \<notin> wc_Type ` set (ws_Conditions s)"
      by (simp only: replace_condition_None not_False_eq_True)
    then have "find_condition (wc_Type ?c) (ws_Conditions s) = None"
      by (simp only: find_condition_None not_False_eq_True)
    moreover have "ws_Conditions (SetWorkflowCondition s c) = ws_Conditions s @ [?c]"
      using None assms by (simp add: SetWorkflowCondition_def trimWorkflowConditions_def)
    ultimately show ?thesis
      using new assms
      by (auto simp: find_condition_append find_condition_single split: option.splits)
  next
    case (Some cs)
    then have len: "length cs = length (ws_Conditions s)"
      using replace_condition_types by (metis length_map)
    have "ws_Conditions (SetWorkflowCondition s c) = cs"
      using Some assms len by (simp add: SetWorkflowCondition_def trimWorkflowConditions_def)
    then show ?thesis
      using replace_condition_find [OF Some] replace_condition_types [OF Some] assms by simp
  qed
qed

subsection \<open>Repository workflows\<close>

text \<open>A run of a repository workflow: its phase transitions, and resumes of a failed one, with the
  phases entered in order.\<close>

inductive repository_run :: "WorkflowStatus \<Rightarrow> Phase list \<Rightarrow> WorkflowStatus \<Rightarrow> bool" for s0 where
  run_start: "repository_run s0 [] s0"
| run_transition: "repository_run s0 ps s \<Longrightarrow> TransitionRepository s next m now = Inr s'
    \<Longrightarrow> repository_run s0 (ps @ [next]) s'"
| run_resume: "repository_run s0 ps s \<Longrightarrow> ReactivateWorkflow s m now = Inr s'
    \<Longrightarrow> repository_run s0 (ps @ [ws_Phase s']) s'"

fun repository_needs :: "Phase \<Rightarrow> Phase list" where
  "repository_needs PhaseWarmCopying = [PhaseWarmCopying]"
| "repository_needs PhaseWarmCopied = [PhaseWarmCopying, PhaseWarmCopied]"
| "repository_needs PhaseCompleted = [PhaseWarmCopying, PhaseWarmCopied, PhaseCompleted]"
| "repository_needs _ = []"

lemma repository_policy_needs:
  "next \<in> set (repository_policy p) \<Longrightarrow> subseq (repository_needs p) ps
   \<Longrightarrow> subseq (repository_needs next) (ps @ [next])"
  by (cases p) (auto simp: repository_policy_def intro: list_emb_append2
      list_emb_append_mono [of _ "[PhaseWarmCopying]" _ "[PhaseWarmCopied]", simplified]
      list_emb_append_mono [of _ "[PhaseWarmCopying, PhaseWarmCopied]" _ "[PhaseCompleted]", simplified])

lemma subseq_snoc: "subseq xs ys \<Longrightarrow> subseq xs (ys @ [y])"
  by (rule list_emb_prefix)

lemma ReactivateWorkflow_Phase:
  "ReactivateWorkflow s m now = Inr s' \<Longrightarrow>
   ws_Phase s' = ws_ResumeFrom s \<and> ws_ResumeFrom s' = ws_ResumeFrom s"
  by (auto simp: ReactivateWorkflow_def Let_def split: if_splits)

lemma repository_run_needs:
  assumes "repository_run s0 ps s" and "ws_Phase s0 = PhasePlanned" and "ws_ResumeFrom s0 = PhaseNone"
  shows "subseq (repository_needs (ws_Phase s)) ps \<and> subseq (repository_needs (ws_ResumeFrom s)) ps"
  using assms(1)
proof induction
  case run_start
  then show ?case using assms by simp
next
  case (run_transition ps s "next" m now s')
  show ?case
  proof (cases "ws_Phase s = next")
    case True
    then have "s' = s" using run_transition by (simp add: TransitionRepository_def)
    then show ?thesis using run_transition.IH by (simp add: subseq_snoc)
  next
    case False
    then have pol: "next \<in> set (repository_policy (ws_Phase s))"
      and s': "s' = RecordWorkflowTransition s next m now"
      using run_transition by (auto simp: TransitionRepository_def split: if_splits)
    show ?thesis
      using repository_policy_needs [OF pol] run_transition.IH
      by (simp add: s' RecordWorkflowTransition_ResumeFrom subseq_snoc)
  qed
next
  case (run_resume ps s m now s')
  then show ?case by (simp add: ReactivateWorkflow_Phase subseq_snoc)
qed

text \<open>C21: a backup or restore that reports Completed has entered WarmCopying, then WarmCopied, then
  Completed, in that order, whatever failures and resumes happened on the way.\<close>

theorem repository_completed_after_copy:
  assumes "repository_run s0 ps s" and "ws_Phase s0 = PhasePlanned" and "ws_ResumeFrom s0 = PhaseNone"
    and "ws_Phase s = PhaseCompleted"
  shows "subseq [PhaseWarmCopying, PhaseWarmCopied, PhaseCompleted] ps"
  using repository_run_needs [OF assms(1-3)] assms(4) by simp

lemma TransitionRepository_ok:
  "next \<in> set (repository_policy (ws_Phase s)) \<Longrightarrow>
   TransitionRepository s next m now = Inr (RecordWorkflowTransition s next m now)"
  by (simp add: TransitionRepository_def RecordWorkflowTransition_def)

theorem repository_completed_after_copy_witness:
  "subseq [PhaseWarmCopying, PhaseWarmCopied, PhaseCompleted]
     [PhaseWarmCopying, PhaseFailed, PhaseWarmCopying, PhaseWarmCopied, PhaseCompleted]"
proof -
  let ?step = "\<lambda>s p. RecordWorkflowTransition s p [] 1"
  let ?s1 = "?step fresh_status PhaseWarmCopying"
  let ?s2 = "?step ?s1 PhaseFailed"
  let ?s3 = "?step ?s2 PhaseWarmCopying"
  let ?s4 = "?step ?s3 PhaseWarmCopied"
  let ?s5 = "?step ?s4 PhaseCompleted"
  note run = repository_run.run_transition [where m = "[]" and now = 1]
  have fresh: "ws_Phase fresh_status = PhasePlanned" "ws_ResumeFrom fresh_status = PhaseNone"
    by (simp_all add: fresh_status_def)
  have "repository_run fresh_status [PhaseWarmCopying] ?s1"
    using run [OF repository_run.run_start, of fresh_status PhaseWarmCopying ?s1]
    by (simp add: TransitionRepository_ok repository_policy_def fresh)
  then have "repository_run fresh_status [PhaseWarmCopying, PhaseFailed] ?s2"
    using run [of fresh_status _ ?s1 PhaseFailed ?s2]
    by (force simp: TransitionRepository_ok repository_policy_def)
  then have "repository_run fresh_status [PhaseWarmCopying, PhaseFailed, PhaseWarmCopying] ?s3"
    using run [of fresh_status _ ?s2 PhaseWarmCopying ?s3]
    by (force simp: TransitionRepository_ok repository_policy_def)
  then have "repository_run fresh_status
      [PhaseWarmCopying, PhaseFailed, PhaseWarmCopying, PhaseWarmCopied] ?s4"
    using run [of fresh_status _ ?s3 PhaseWarmCopied ?s4]
    by (force simp: TransitionRepository_ok repository_policy_def)
  then have "repository_run fresh_status
      [PhaseWarmCopying, PhaseFailed, PhaseWarmCopying, PhaseWarmCopied, PhaseCompleted] ?s5"
    using run [of fresh_status _ ?s4 PhaseCompleted ?s5]
    by (force simp: TransitionRepository_ok repository_policy_def)
  then show ?thesis using repository_completed_after_copy fresh by simp
qed

subsection \<open>Identity workflows\<close>

lemma identity_policy_allowed:
  "next \<in> set (identity_policy rp p) \<Longrightarrow>
   next \<in> {rp, PhaseCompleted, PhaseRollingBack, PhaseRolledBack, PhaseAborting, PhaseAborted, PhaseFailed}"
  by (auto simp: identity_policy_def split: if_splits)

text \<open>C22: a rename or move whose recorded lifecycle is valid stays valid after every accepted
  transition, for either rebind phase.\<close>

theorem TransitionIdentity_keeps_lifecycle:
  assumes "ValidateIdentityLifecycle s rp = Inr ()"
    and "TransitionIdentity s planned rp next m now = Inr s'"
  shows "ValidateIdentityLifecycle s' rp = Inr ()"
proof (cases "ws_Phase s = next")
  case True
  then show ?thesis using assms by (simp add: TransitionIdentity_def)
next
  case False
  then have s': "s' = RecordWorkflowTransition s next m now"
    and "next = PhaseAborted \<or> next \<in> set (identity_policy rp (ws_Phase s))"
    using assms(2) by (auto simp: TransitionIdentity_def Let_def split: if_splits)
  then have "next \<in> {rp, PhaseCompleted, PhaseRollingBack, PhaseRolledBack, PhaseAborting,
      PhaseAborted, PhaseFailed}"
    using identity_policy_allowed by blast
  then show ?thesis
    using assms(1)
    by (auto simp: s' ValidateIdentityLifecycle_def RecordWorkflowTransition_ResumeFrom Let_def
        split: if_splits)
qed

theorem TransitionIdentity_keeps_lifecycle_witness:
  "ValidateIdentityLifecycle (RecordWorkflowTransition fresh_status PhaseRenaming [] 1) PhaseRenaming
     = Inr ()"
proof -
  have "ValidateIdentityLifecycle fresh_status PhaseRenaming = Inr ()"
    by (simp add: ValidateIdentityLifecycle_def fresh_status_def)
  moreover have "TransitionIdentity fresh_status True PhaseRenaming PhaseRenaming [] 1
      = Inr (RecordWorkflowTransition fresh_status PhaseRenaming [] 1)"
    by (simp add: TransitionIdentity_def identity_policy_def fresh_status_def)
  ultimately show ?thesis using TransitionIdentity_keeps_lifecycle by blast
qed

subsection \<open>The registry is a bijection\<close>

definition all_controller_kinds :: "ControllerKind list" where
  "all_controller_kinds =
     [ControllerKindMigration, ControllerKindPodMigration, ControllerKindReservation,
      ControllerKindCopy, ControllerKindBackup, ControllerKindRestore, ControllerKindRename,
      ControllerKindClusterMigration, ControllerKindClusterReservation,
      ControllerKindClusterCopy, ControllerKindMove]"

definition resource_name :: "ControllerKind \<Rightarrow> string" where
  "resource_name k = (case ControllerResourceForKind k of None \<Rightarrow> [] | Some r \<Rightarrow> cr_Resource r)"

lemma all_controller_kinds: "k \<noteq> KindUnset \<Longrightarrow> k \<in> set all_controller_kinds"
  by (cases k) (simp_all add: all_controller_kinds_def)

lemma resource_name_inj: "inj_on resource_name (set all_controller_kinds)"
proof -
  have "distinct (map resource_name all_controller_kinds)" by code_simp
  then show ?thesis by (simp add: distinct_map)
qed

lemma ControllerResourceForKind_total:
  "k \<noteq> KindUnset \<Longrightarrow> \<exists>r. ControllerResourceForKind k = Some r \<and> cr_Kind r = k
     \<and> ControllerWorkflowForType (cr_Type r) = ControllerWorkflowForKind k"
  by (cases k)
     (simp_all add: ControllerResourceForKind_def ControllerWorkflowForKind_def
       ControllerWorkflowForType_def controllerWorkflowRegistry_def workflow_entry_def)

text \<open>Every controller kind has exactly one API resource; the resource carries that kind, its
  session type leads back to the same registry entry, and no two kinds share a resource name.\<close>

lemma registry_bijective:
  assumes "k1 \<noteq> KindUnset" and "k2 \<noteq> KindUnset"
  shows "\<exists>r1 r2. ControllerResourceForKind k1 = Some r1 \<and> ControllerResourceForKind k2 = Some r2
    \<and> cr_Kind r1 = k1 \<and> ControllerWorkflowForType (cr_Type r1) = ControllerWorkflowForKind k1
    \<and> (cr_Resource r1 = cr_Resource r2 \<longleftrightarrow> k1 = k2)"
proof -
  obtain r1 r2 where r: "ControllerResourceForKind k1 = Some r1" "ControllerResourceForKind k2 = Some r2"
    "cr_Kind r1 = k1" "ControllerWorkflowForType (cr_Type r1) = ControllerWorkflowForKind k1"
    using ControllerResourceForKind_total assms by blast
  moreover have "resource_name k1 = resource_name k2 \<longleftrightarrow> k1 = k2"
    using inj_on_eq_iff [OF resource_name_inj] assms all_controller_kinds by blast
  ultimately show ?thesis by (simp add: resource_name_def)
qed

end
