(* ===== verification/Kube.thy ===== *)
theory Kube
  imports Errors "HOL-Library.List_Lexorder" "HOL-Library.Char_ord" "HOL-Library.Word"
begin

text \<open>
  The Kubernetes objects the program reads and writes, restricted to the fields it looks at, with
  the labels and annotations it owns (\<^verbatim>\<open>internal/kube/metadata.go\<close>), the references it
  records (\<^verbatim>\<open>api/v1alpha1\<close>, \<^verbatim>\<open>internal/kube/references.go\<close>), and the pure
  checks on them (\<^verbatim>\<open>pvc_finalizers.go\<close>, \<^verbatim>\<open>resource_state.go\<close>,
  the PVC consumers of \<^verbatim>\<open>reserver.go\<close>).

  A \<^verbatim>\<open>resource.Quantity\<close> is the number it denotes, in units of 1/10^9 (its finest
  precision). A map that is nil and one that is empty read alike, and both are the empty map here.
\<close>

section \<open>Labels and annotations\<close>

definition AppNameLabel :: string where "AppNameLabel = ''app.kubernetes.io/name''"
definition ManagedByLabel :: string where "ManagedByLabel = ''app.kubernetes.io/managed-by''"
definition ManagedByValue :: string where "ManagedByValue = ''pvc-migrate''"
definition SessionKey :: string where "SessionKey = ''migrate.sealos.io/session''"
definition ResourceRoleLabel :: string where "ResourceRoleLabel = ''migrate.sealos.io/role''"
definition OriginalPolicyAnnotation :: string where
  "OriginalPolicyAnnotation = ''migrate.sealos.io/original-reclaim-policy''"
definition SourcePVCUIDAnnotation :: string where
  "SourcePVCUIDAnnotation = ''migrate.sealos.io/source-pvc-uid''"
definition SourcePVAnnotation :: string where "SourcePVAnnotation = ''migrate.sealos.io/source-pv''"
definition RollbackPVAnnotation :: string where
  "RollbackPVAnnotation = ''migrate.sealos.io/rollback-pv''"
definition PairedPVAnnotation :: string where "PairedPVAnnotation = ''migrate.sealos.io/paired-pv''"
definition PVCProtectionFinalizer :: string where
  "PVCProtectionFinalizer = ''kubernetes.io/pvc-protection''"
definition PVCStorageResizerAnnotation :: string where
  "PVCStorageResizerAnnotation = ''volume.kubernetes.io/storage-resizer''"
definition pvcBindCompletedAnnotation :: string where
  "pvcBindCompletedAnnotation = ''pv.kubernetes.io/bind-completed''"
definition pvcBoundByControllerAnnotation :: string where
  "pvcBoundByControllerAnnotation = ''pv.kubernetes.io/bound-by-controller''"
definition pvcSelectedNodeAnnotation :: string where
  "pvcSelectedNodeAnnotation = ''volume.kubernetes.io/selected-node''"
definition pvcStorageProvisionerAnnotation :: string where
  "pvcStorageProvisionerAnnotation = ''volume.kubernetes.io/storage-provisioner''"
definition pvcBetaStorageProvisionerAnnotation :: string where
  "pvcBetaStorageProvisionerAnnotation = ''volume.beta.kubernetes.io/storage-provisioner''"
definition kubectlLastAppliedConfigAnnotation :: string where
  "kubectlLastAppliedConfigAnnotation = ''kubectl.kubernetes.io/last-applied-configuration''"

definition ResourceRoleSource :: string where "ResourceRoleSource = ''source''"
definition ResourceRoleDestination :: string where "ResourceRoleDestination = ''destination''"
definition ResourceRoleActive :: string where "ResourceRoleActive = ''active''"
definition ResourceRoleRollback :: string where "ResourceRoleRollback = ''rollback''"
definition ResourceRoleRename :: string where "ResourceRoleRename = ''rename''"
definition ResourceRoleReservationConsumer :: string where
  "ResourceRoleReservationConsumer = ''reservation-consumer''"

lemmas key_defs =
  ManagedByLabel_def SessionKey_def ResourceRoleLabel_def OriginalPolicyAnnotation_def
  SourcePVCUIDAnnotation_def SourcePVAnnotation_def RollbackPVAnnotation_def PairedPVAnnotation_def

text \<open>The keys the program owns are pairwise distinct.\<close>

lemma label_keys_distinct [simp]:
  "ManagedByLabel \<noteq> SessionKey" "SessionKey \<noteq> ManagedByLabel"
  "ManagedByLabel \<noteq> ResourceRoleLabel" "ResourceRoleLabel \<noteq> ManagedByLabel"
  "SessionKey \<noteq> ResourceRoleLabel" "ResourceRoleLabel \<noteq> SessionKey"
  by (simp_all add: key_defs)

lemma annotation_keys_distinct [simp]:
  "OriginalPolicyAnnotation \<noteq> PairedPVAnnotation" "PairedPVAnnotation \<noteq> OriginalPolicyAnnotation"
  "SessionKey \<noteq> RollbackPVAnnotation" "RollbackPVAnnotation \<noteq> SessionKey"
  "SessionKey \<noteq> SourcePVAnnotation" "SourcePVAnnotation \<noteq> SessionKey"
  "SessionKey \<noteq> SourcePVCUIDAnnotation" "SourcePVCUIDAnnotation \<noteq> SessionKey"
  by (simp_all add: key_defs)

text \<open>\<^verbatim>\<open>PVCAnnotationsForRecreation\<close>: a copy without the controller's binding state
  and without stale ownership.\<close>

definition recreation_dropped_keys :: "string list" where
  "recreation_dropped_keys =
     [pvcBindCompletedAnnotation, pvcBoundByControllerAnnotation, pvcSelectedNodeAnnotation,
      pvcStorageProvisionerAnnotation, pvcBetaStorageProvisionerAnnotation,
      PVCStorageResizerAnnotation, kubectlLastAppliedConfigAnnotation, SessionKey]"

definition PVCAnnotationsForRecreation :: "gomap \<Rightarrow> gomap" where
  "PVCAnnotationsForRecreation input =
     foldl (\<lambda>m k. m(k := None)) input recreation_dropped_keys"

definition MergeSessionLabels :: "gomap \<Rightarrow> string \<Rightarrow> gomap" where
  "MergeSessionLabels existing sid =
     existing(ManagedByLabel \<mapsto> ManagedByValue, SessionKey \<mapsto> sid)"

lemma foldl_del: "foldl (\<lambda>m k. m(k := None)) m ks = (\<lambda>k. if k \<in> set ks then None else m k)"
  by (induction ks arbitrary: m) (auto simp: fun_eq_iff)

lemma PVCAnnotationsForRecreation_get:
  "PVCAnnotationsForRecreation m k = (if k \<in> set recreation_dropped_keys then None else m k)"
  by (simp add: PVCAnnotationsForRecreation_def foldl_del)

section \<open>Objects\<close>

record ObjectReference =
  r_APIVersion :: string
  r_Kind :: string
  r_Namespace :: string
  r_Name :: string
  r_UID :: string
  r_ResourceVersion :: string

definition no_reference :: ObjectReference where
  "no_reference = \<lparr>r_APIVersion = [], r_Kind = [], r_Namespace = [], r_Name = [], r_UID = [],
     r_ResourceVersion = []\<rparr>"

text \<open>A \<^verbatim>\<open>resource.Quantity\<close>, counted in the finest unit it keeps, the nano unit.\<close>

type_synonym quantity = int

datatype AccessMode = ReadWriteOnce | ReadOnlyMany | ReadWriteMany | ReadWriteOncePod
datatype VolumeMode = Filesystem | Block
datatype ClaimPhase = ClaimPending | ClaimBound | ClaimLost
datatype VolumePhase = VolumePending | VolumeAvailable | VolumeBound | VolumeReleased | VolumeFailed
datatype PodPhase = PodPending | PodRunning | PodSucceeded | PodFailed | PodUnknown

text \<open>A reclaim policy is a string: volumes and annotations may hold any.\<close>

type_synonym ReclaimPolicy = string

definition ReclaimRecycle :: ReclaimPolicy where "ReclaimRecycle = ''Recycle''"
definition ReclaimDelete :: ReclaimPolicy where "ReclaimDelete = ''Delete''"
definition ReclaimRetain :: ReclaimPolicy where "ReclaimRetain = ''Retain''"

lemma reclaim_policies_distinct [simp]:
  "ReclaimRetain \<noteq> []" "ReclaimDelete \<noteq> []" "ReclaimRecycle \<noteq> []"
  "ReclaimRetain \<noteq> ReclaimDelete" "ReclaimDelete \<noteq> ReclaimRetain"
  by (simp_all add: ReclaimRecycle_def ReclaimDelete_def ReclaimRetain_def)

text \<open>An owner reference is carried around whole; a selector and a data source are only dropped or
  compared.\<close>

record OwnerReference =
  o_APIVersion :: string
  o_Kind :: string
  o_Name :: string
  o_UID :: string
  o_Controller :: "bool option"
  o_BlockOwnerDeletion :: "bool option"

record PVCSpec =
  s_AccessModes :: "AccessMode list"
  s_Selector :: "string option"
  s_StorageRequest :: "quantity option"
  s_VolumeName :: string
  s_StorageClassName :: "string option"
  s_VolumeMode :: "VolumeMode option"
  s_DataSource :: "string option"
  s_DataSourceRef :: "string option"
  s_VolumeAttributesClassName :: "string option"

record pvc =
  c_Namespace :: string
  c_Name :: string
  c_UID :: string
  c_ResourceVersion :: string
  c_Labels :: gomap
  c_Annotations :: gomap
  c_Finalizers :: "string list"
  c_OwnerReferences :: "OwnerReference list"
  c_DeletionTimestamp :: "instant option"
  c_Spec :: PVCSpec
  c_Phase :: ClaimPhase
  c_AllocatedStorage :: "quantity option"
  c_CurrentVolumeAttributesClassName :: "string option"
  c_TargetVolumeAttributesClassName :: "string option"

text \<open>The required node affinity of a volume: no terms when there is none.\<close>

datatype NodeSelectorOperator =
    NodeSelectorOpIn | NodeSelectorOpNotIn | NodeSelectorOpExists | NodeSelectorOpDoesNotExist
  | NodeSelectorOpGt | NodeSelectorOpLt | NodeSelectorOpOther string

record NodeSelectorRequirement =
  nr_Key :: string
  nr_Operator :: NodeSelectorOperator
  nr_Values :: "string list"

record NodeSelectorTerm =
  nt_MatchExpressions :: "NodeSelectorRequirement list"
  nt_MatchFields :: "NodeSelectorRequirement list"

text \<open>The \<^verbatim>\<open>claimRef\<close> of a volume is a \<^verbatim>\<open>corev1.ObjectReference\<close>.\<close>

record pv =
  v_Name :: string
  v_UID :: string
  v_ResourceVersion :: string
  v_Labels :: gomap
  v_Annotations :: gomap
  v_DeletionTimestamp :: "instant option"
  v_ReclaimPolicy :: ReclaimPolicy
  v_ClaimRef :: "ObjectReference option"
  v_Capacity :: "quantity option"
  v_Phase :: VolumePhase
  v_RequiredNodeTerms :: "NodeSelectorTerm list"

record Taint =
  ta_Key :: string
  ta_Value :: string
  ta_Effect :: string

text \<open>Conditions are pairs of a type and a status.\<close>

record node =
  n_Name :: string
  n_UID :: string
  n_Labels :: gomap
  n_Taints :: "Taint list"
  n_Unschedulable :: bool
  n_Conditions :: "(string \<times> string) list"

record Toleration =
  to_Key :: string
  to_Operator :: string
  to_Value :: string
  to_Effect :: string

text \<open>The topology terms of a storage class, each a list of label keys with their values.\<close>

record StorageClass =
  sc_Name :: string
  sc_AllowedTopologies :: "(string \<times> string list) list list"

record ServiceAccount =
  sa_Namespace :: string
  sa_Name :: string
  sa_Labels :: gomap
  sa_AutomountServiceAccountToken :: "bool option"

text \<open>What is read of a Job, Deployment, StatefulSet, DaemonSet or ReplicaSet.\<close>

record workload =
  k_Name :: string
  k_UID :: string
  k_OwnerReferences :: "OwnerReference list"

record pod =
  p_Namespace :: string
  p_Name :: string
  p_UID :: string
  p_ResourceVersion :: string
  p_Labels :: gomap
  p_ClaimVolumes :: "string option list"
  p_NodeName :: string
  p_Phase :: PodPhase
  p_Conditions :: "(string \<times> string) list"
  p_OwnerReferences :: "OwnerReference list"
  p_NodeSelector :: gomap
  p_Tolerations :: "Toleration list"
  p_Images :: "string list"

record VolumeAttachment =
  va_PersistentVolumeName :: "string option"
  va_Attached :: bool

text \<open>A coordination Lease. Its transition count is an \<^verbatim>\<open>int32\<close> that may wrap.\<close>

record lease =
  l_UID :: string
  l_ResourceVersion :: string
  l_Labels :: gomap
  l_HolderIdentity :: "string option"
  l_LeaseDurationSeconds :: "int option"
  l_AcquireTime :: "instant option"
  l_RenewTime :: "instant option"
  l_LeaseTransitions :: "32 word option"

text \<open>What the lock protocol reads of a workflow object, whatever its kind.\<close>

record workflow_meta =
  wm_Namespace :: string
  wm_Name :: string
  wm_UID :: string
  wm_ResourceVersion :: string
  wm_Deleting :: bool
  wm_Annotations :: gomap

text \<open>What admission reads of the policies of a namespace. The hard limits of a quota are an association
  list in some order: Go iterates over the map. A nil scope selector has no requirement.\<close>

record ScopeRequirement =
  sr_ScopeName :: string
  sr_Operator :: string
  sr_Values :: "string list"

record ResourceQuota =
  q_Name :: string
  q_Scopes :: "string list"
  q_MatchExpressions :: "ScopeRequirement list"
  q_Hard :: "(string \<times> quantity) list"
  q_Used :: "string \<rightharpoonup> quantity"

record LimitRangeItem =
  li_Type :: string
  li_MinStorage :: "quantity option"
  li_MaxStorage :: "quantity option"

record LimitRange =
  lr_Name :: string
  lr_Limits :: "LimitRangeItem list"

record PVCMetadata =
  m_Labels :: gomap
  m_Annotations :: gomap
  m_OwnerReferences :: "OwnerReference list"

definition CoreAPIVersion :: string where "CoreAPIVersion = ''v1''"
definition KindPod :: string where "KindPod = ''Pod''"
definition KindPersistentVolumeClaim :: string where
  "KindPersistentVolumeClaim = ''PersistentVolumeClaim''"
definition KindPersistentVolume :: string where "KindPersistentVolume = ''PersistentVolume''"

definition PodReference :: "pod \<Rightarrow> ObjectReference" where
  "PodReference p = \<lparr>r_APIVersion = CoreAPIVersion, r_Kind = KindPod, r_Namespace = p_Namespace p,
     r_Name = p_Name p, r_UID = p_UID p, r_ResourceVersion = p_ResourceVersion p\<rparr>"

definition PVCReference :: "pvc \<Rightarrow> ObjectReference" where
  "PVCReference c = \<lparr>r_APIVersion = CoreAPIVersion, r_Kind = KindPersistentVolumeClaim,
     r_Namespace = c_Namespace c, r_Name = c_Name c, r_UID = c_UID c,
     r_ResourceVersion = c_ResourceVersion c\<rparr>"

definition PVReference :: "pv \<Rightarrow> ObjectReference" where
  "PVReference v = \<lparr>r_APIVersion = CoreAPIVersion, r_Kind = KindPersistentVolume,
     r_Namespace = [], r_Name = v_Name v, r_UID = v_UID v,
     r_ResourceVersion = v_ResourceVersion v\<rparr>"

section \<open>Checks on objects\<close>

text \<open>\<^verbatim>\<open>BlockingPVCFinalizers\<close>: sorted, without duplicates.\<close>

definition BlockingPVCFinalizers :: "pvc \<Rightarrow> string list" where
  "BlockingPVCFinalizers c =
     remdups_adj (sort (filter (\<lambda>f. f \<noteq> [] \<and> f \<noteq> PVCProtectionFinalizer) (c_Finalizers c)))"

definition validatePVCDeletionFinalizers :: "pvc \<Rightarrow> string \<Rightarrow> go_error + unit" where
  "validatePVCDeletionFinalizers c operation =
     (if length (BlockingPVCFinalizers c) = 0 then Inr ()
      else Inl (NewError ErrorPrecondition operation))"

lemma BlockingPVCFinalizers_empty:
  "BlockingPVCFinalizers c = [] \<longleftrightarrow> set (c_Finalizers c) \<subseteq> {[], PVCProtectionFinalizer}"
proof -
  have "BlockingPVCFinalizers c = [] \<longleftrightarrow> set (BlockingPVCFinalizers c) = {}" by simp
  also have "\<dots> \<longleftrightarrow> {f \<in> set (c_Finalizers c). f \<noteq> [] \<and> f \<noteq> PVCProtectionFinalizer} = {}"
    by (simp only: BlockingPVCFinalizers_def remdups_adj_set set_sort set_filter)
  also have "\<dots> \<longleftrightarrow> set (c_Finalizers c) \<subseteq> {[], PVCProtectionFinalizer}" by blast
  finally show ?thesis .
qed

definition PodUsesPVC :: "pod \<Rightarrow> string \<Rightarrow> bool" where
  "PodUsesPVC p claim = list_ex (\<lambda>v. v = Some claim) (p_ClaimVolumes p)"

definition ActivePodUsesPVC :: "pod \<Rightarrow> string \<Rightarrow> bool" where
  "ActivePodUsesPVC p claim =
     (p_Phase p \<noteq> PodSucceeded \<and> p_Phase p \<noteq> PodFailed \<and> PodUsesPVC p claim)"

definition PodBlocksPVCDeletion :: "pod \<Rightarrow> string \<Rightarrow> bool" where
  "PodBlocksPVCDeletion p claim = (p_NodeName p \<noteq> [] \<and> PodUsesPVC p claim)"

definition PodPreventsSafePVCDeletion :: "pod \<Rightarrow> string \<Rightarrow> bool" where
  "PodPreventsSafePVCDeletion p claim = (ActivePodUsesPVC p claim \<or> PodBlocksPVCDeletion p claim)"

text \<open>\<^verbatim>\<open>ValidateBoundVolumeCapacity\<close>; \<open>required\<close> is its optional last argument.\<close>

definition ValidateBoundVolumeCapacity ::
    "pvc option \<Rightarrow> pv option \<Rightarrow> quantity option \<Rightarrow> go_error + unit" where
  "ValidateBoundVolumeCapacity c v required =
     (case v of None \<Rightarrow> Inl PlainError
      | Some volume \<Rightarrow>
         let provisioned = v_Capacity volume;
             validProvisioned = (case provisioned of None \<Rightarrow> False | Some q \<Rightarrow> q > 0);
             request = (case c of None \<Rightarrow> None | Some claim \<Rightarrow> s_StorageRequest (c_Spec claim));
             requestOK =
               (case request of None \<Rightarrow> True
                | Some requested \<Rightarrow>
                    requested > 0 \<longrightarrow> validProvisioned \<and> requested \<le> the provisioned)
         in if \<not> requestOK then Inl PlainError
            else case required of None \<Rightarrow> Inr ()
             | Some q \<Rightarrow>
                 if q \<le> 0 then Inl PlainError
                 else if \<not> validProvisioned \<or> the provisioned < q then Inl PlainError
                 else Inr ())"

lemma ValidateBoundVolumeCapacity_request:
  "ValidateBoundVolumeCapacity (Some c) (Some v) None = Inr () \<Longrightarrow>
   s_StorageRequest (c_Spec c) = Some q \<Longrightarrow> 0 < q \<Longrightarrow> \<exists>p. v_Capacity v = Some p \<and> q \<le> p"
  by (cases "v_Capacity v") (auto simp: ValidateBoundVolumeCapacity_def Let_def split: if_splits)

end
