(* ===== verification/Effects.thy ===== *)
theory Effects
  imports Kube Lifecycle
begin

text \<open>
  Programs that talk to the API server. A program is a function from the history of what it has
  done so far to its result and the events it adds, newest first. An event records a request with
  its response. The server, the clock, the context and the client-go retry helper are the fields of
  a \<open>world\<close>, arbitrary functions of the history: a theorem about every world is a theorem about
  every behaviour of the cluster, other clients included.

  The second half is a weakest-precondition calculus: \<open>wp G m Q h\<close> says that every event of the
  program \<open>m\<close>, started after history \<open>h\<close>, is allowed by the guard \<open>G\<close> at the moment it
  happens, and that \<open>Q\<close> holds of the result and the final history.
\<close>

section \<open>Events and worlds\<close>

text \<open>What is asked of the copy engine (\<^verbatim>\<open>copyengine/engine.go\<close>). Connection settings, rate
  limits and log writers are left out: they come from the configuration of the process.\<close>

datatype CopyMode = ModeWarm | ModeFinal

record AttemptIdentity =
  ai_SessionID :: string
  ai_Source :: ObjectReference
  ai_Mode :: CopyMode
  ai_Attempt :: int

record CopyRequest =
  cq_Identity :: AttemptIdentity
  cq_SourcePath :: string
  cq_MountReadWrite :: bool
  cq_Destination :: ObjectReference
  cq_DestinationPath :: string
  cq_Strategies :: "string list"
  cq_DeleteExtraneousFiles :: bool
  cq_VerifyChecksum :: bool
  cq_IgnoreSizes :: bool
  cq_ToolImage :: string
  cq_HelmValues :: "string list"
  cq_HelmStringValues :: "string list"

record CleanupRequest =
  cl_Identity :: AttemptIdentity
  cl_DestinationNamespace :: string
  cl_Strategies :: "string list"

type_synonym 'a res = "go_error + 'a"

datatype 's event =
    EvCheck "go_error option" "go_error option"
  | EvCtx "go_error option"
  | EvTick "go_error option"
  | EvGetPVC string string "pvc res"
  | EvCreatePVC bool pvc "pvc res"
  | EvUpdatePVC pvc "pvc res"
  | EvDeletePVC string string string string "unit res"
  | EvGetPV string "pv res"
  | EvUpdatePV pv "pv res"
  | EvListPods string "pod list option res"
  | EvListAttachments "VolumeAttachment list option res"
  | EvSave 's "unit res"
  | EvGetLease string string "lease res"
  | EvCreateLease string string lease "lease option res"
  | EvUpdateLease string string lease "lease option res"
  | EvDeleteLease string string string string "unit res"
  | EvNow instant
  | EvSleep duration
  | EvLoadWorkflow string string "workflow_meta res"
  | EvDeleteWorkflow string string string "unit res"
  | EvGetConfigMap string string "unit res"
  | EvGetWorkflow ControllerKind string string "unit res"
  | EvGetNamespace string "unit res"
  | EvListQuotas string "ResourceQuota list option res"
  | EvListLimitRanges string "LimitRange list option res"
  | EvDeletePV string string string "unit res"
  | EvDeletePod string string string "string option" "unit res"
  | EvGetNode string "node res"
  | EvListNodes "node list res"
  | EvGetStorageClass string "StorageClass res"
  | EvGetPod string string "pod res"
  | EvCreatePod pod "pod res"
  | EvListPodsBy string string "pod list option res"
  | EvGetServiceAccount string string "ServiceAccount option res"
  | EvCreateServiceAccount ServiceAccount "ServiceAccount option res"
  | EvUpdateServiceAccount ServiceAccount "ServiceAccount option res"
  | EvGetWorkload string string string "workload option res"
  | EvCopy CopyRequest "unit res"
  | EvCopyCleanup CleanupRequest "unit res"
  | EvSleepCtx duration "go_error option"

type_synonym 's hist = "'s event list"
type_synonym ('a, 's) io = "'s hist \<Rightarrow> 'a \<times> 's hist"

text \<open>
  \<^item> \<open>EvCheck c f\<close>: the write fence was read; \<open>c\<close> is \<^verbatim>\<open>ctx.Err()\<close> and \<open>f\<close> is
    \<^verbatim>\<open>LeaseFenceError(ctx)\<close>;
  \<^item> \<open>EvCtx c\<close>: \<^verbatim>\<open>ctx.Err()\<close> alone; \<open>EvTick None\<close>: the poll ticker fired,
    \<open>EvTick (Some e)\<close>: the context ended first;
  \<^item> \<open>EvCreatePVC d c r\<close>: create, a server-side dry run iff \<open>d\<close>;
  \<^item> \<open>EvDeletePVC ns n uid rv r\<close>: delete with the preconditions \<open>uid\<close> and \<open>rv\<close>;
  \<^item> \<open>EvSave s r\<close>: the workflow record was written with the state \<open>s\<close>;
  \<^item> the events of a Lease carry its namespace and name; a delete its preconditions;
  \<^item> \<open>EvNow t\<close>: the clock was read where the value decides what happens next; \<open>EvSleep d\<close>: the
    program slept;
  \<^item> \<open>EvLoadWorkflow\<close> and \<open>EvDeleteWorkflow\<close>: the workflow's own object in its store, deleted
    by namespace, name and UID;
    \<open>EvGetWorkflow kind ns n\<close> reads a workflow of another kind under the same name;
  \<^item> \<open>EvDeletePV n uid rv\<close> and \<open>EvDeletePod ns n uid rv\<close>: deletes with those preconditions, the
    version of a Pod an optional one;
  \<^item> \<open>EvListPodsBy ns selector\<close>: a list under a label selector; \<open>EvGetWorkload kind ns n\<close> reads a
    workload controller;
  \<^item> \<open>EvCopy q\<close>: the copy engine ran a transfer attempt, \<open>EvCopyCleanup\<close>: it removed
    what an attempt left; \<open>EvSleepCtx d e\<close>: a sleep that the end of the context, with error \<open>e\<close>, may cut short.

  The fields of a world: \<open>w_fences\<close> are the lease fences of the context, innermost first, an
  entry \<open>None\<close> a nil fence; \<open>w_patience h\<close> is how often the ticker of a wait that starts at
  \<open>h\<close> fires before the context is done, and \<open>w_done\<close> the context's error then;
  \<open>w_lost h holder\<close> is the error that the renewal goroutine of that lock holder has recorded by
  then, and \<open>w_unbound\<close> whether a context bound to the lock has been cancelled because the lock
  stopped; \<open>w_deletion\<close> is the context value that marks a deletion pass
  (\<^verbatim>\<open>workflowDeletionContextKey\<close>), \<open>w_finalize\<close> the one of a finalizing cleanup
  (\<^verbatim>\<open>workflowFinalizeContextKey\<close>), and \<open>w_timeout_err\<close> the error of a context that was detached
  from cancellation and given a timeout of its own.
\<close>

record 's world =
  w_ctx_err :: "'s hist \<Rightarrow> go_error option"
  w_fences :: "('s hist \<Rightarrow> go_error option) option list"
  w_patience :: "'s hist \<Rightarrow> nat"
  w_done :: "'s hist \<Rightarrow> go_error"
  w_now :: "'s hist \<Rightarrow> instant"
  w_retry :: "(unit res, 's) io \<Rightarrow> (unit res, 's) io"
  w_get_pvc :: "'s hist \<Rightarrow> string \<Rightarrow> string \<Rightarrow> pvc res"
  w_create_pvc :: "'s hist \<Rightarrow> bool \<Rightarrow> pvc \<Rightarrow> pvc res"
  w_update_pvc :: "'s hist \<Rightarrow> pvc \<Rightarrow> pvc res"
  w_delete_pvc :: "'s hist \<Rightarrow> string \<Rightarrow> string \<Rightarrow> string \<Rightarrow> string \<Rightarrow> unit res"
  w_get_pv :: "'s hist \<Rightarrow> string \<Rightarrow> pv res"
  w_update_pv :: "'s hist \<Rightarrow> pv \<Rightarrow> pv res"
  w_list_pods :: "'s hist \<Rightarrow> string \<Rightarrow> pod list option res"
  w_list_attachments :: "'s hist \<Rightarrow> VolumeAttachment list option res"
  w_get_lease :: "'s hist \<Rightarrow> string \<Rightarrow> string \<Rightarrow> lease res"
  w_create_lease :: "'s hist \<Rightarrow> string \<Rightarrow> string \<Rightarrow> lease \<Rightarrow> lease option res"
  w_update_lease :: "'s hist \<Rightarrow> string \<Rightarrow> string \<Rightarrow> lease \<Rightarrow> lease option res"
  w_delete_lease :: "'s hist \<Rightarrow> string \<Rightarrow> string \<Rightarrow> string \<Rightarrow> string \<Rightarrow> unit res"
  w_load_workflow :: "'s hist \<Rightarrow> string \<Rightarrow> string \<Rightarrow> workflow_meta res"
  w_delete_workflow :: "'s hist \<Rightarrow> string \<Rightarrow> string \<Rightarrow> string \<Rightarrow> unit res"
  w_get_configmap :: "'s hist \<Rightarrow> string \<Rightarrow> string \<Rightarrow> unit res"
  w_get_workflow :: "'s hist \<Rightarrow> ControllerKind \<Rightarrow> string \<Rightarrow> string \<Rightarrow> unit res"
  w_get_namespace :: "'s hist \<Rightarrow> string \<Rightarrow> unit res"
  w_list_quotas :: "'s hist \<Rightarrow> string \<Rightarrow> ResourceQuota list option res"
  w_list_limit_ranges :: "'s hist \<Rightarrow> string \<Rightarrow> LimitRange list option res"
  w_delete_pv :: "'s hist \<Rightarrow> string \<Rightarrow> string \<Rightarrow> string \<Rightarrow> unit res"
  w_delete_pod :: "'s hist \<Rightarrow> string \<Rightarrow> string \<Rightarrow> string \<Rightarrow> string option \<Rightarrow> unit res"
  w_get_node :: "'s hist \<Rightarrow> string \<Rightarrow> node res"
  w_list_nodes :: "'s hist \<Rightarrow> node list res"
  w_get_storage_class :: "'s hist \<Rightarrow> string \<Rightarrow> StorageClass res"
  w_get_pod :: "'s hist \<Rightarrow> string \<Rightarrow> string \<Rightarrow> pod res"
  w_create_pod :: "'s hist \<Rightarrow> pod \<Rightarrow> pod res"
  w_list_pods_by :: "'s hist \<Rightarrow> string \<Rightarrow> string \<Rightarrow> pod list option res"
  w_get_service_account :: "'s hist \<Rightarrow> string \<Rightarrow> string \<Rightarrow> ServiceAccount option res"
  w_create_service_account :: "'s hist \<Rightarrow> ServiceAccount \<Rightarrow> ServiceAccount option res"
  w_update_service_account :: "'s hist \<Rightarrow> ServiceAccount \<Rightarrow> ServiceAccount option res"
  w_get_workload :: "'s hist \<Rightarrow> string \<Rightarrow> string \<Rightarrow> string \<Rightarrow> workload option res"
  w_copy :: "'s hist \<Rightarrow> CopyRequest \<Rightarrow> unit res"
  w_copy_cleanup :: "'s hist \<Rightarrow> CleanupRequest \<Rightarrow> unit res"
  w_sleep :: "'s hist \<Rightarrow> duration \<Rightarrow> go_error option"
  w_save :: "'s hist \<Rightarrow> 's \<Rightarrow> unit res"
  w_deletion :: bool
  w_finalize :: bool
  w_timeout_err :: "'s hist \<Rightarrow> go_error option"
  w_lost :: "'s hist \<Rightarrow> string \<Rightarrow> go_error option"
  w_unbound :: "'s hist \<Rightarrow> string \<Rightarrow> bool"
  w_quantity_string :: "quantity \<Rightarrow> string"
  w_parse_quantity :: "string \<Rightarrow> quantity option"

section \<open>Programs\<close>

definition io_ret :: "'a \<Rightarrow> ('a, 's) io" where
  "io_ret x = (\<lambda>h. (x, []))"

definition io_bind :: "('a, 's) io \<Rightarrow> ('a \<Rightarrow> ('b, 's) io) \<Rightarrow> ('b, 's) io" where
  "io_bind m f = (\<lambda>h. case m h of (x, es) \<Rightarrow> case f x (es @ h) of (y, es') \<Rightarrow> (y, es' @ es))"

text \<open>\<^verbatim>\<open>if err != nil { return err }\<close>, and the same where the caller's status is part of the
  result.\<close>

definition io_try :: "('a res, 's) io \<Rightarrow> ('a \<Rightarrow> ('b res, 's) io) \<Rightarrow> ('b res, 's) io" where
  "io_try m k = io_bind m (\<lambda>r. case r of Inl e \<Rightarrow> io_ret (Inl e) | Inr x \<Rightarrow> k x)"

definition io_try_st ::
    "'t \<Rightarrow> ('a res, 's) io \<Rightarrow> ('a \<Rightarrow> ('t \<times> 'b res, 's) io) \<Rightarrow> ('t \<times> 'b res, 's) io" where
  "io_try_st st m k = io_bind m (\<lambda>r. case r of Inl e \<Rightarrow> io_ret (st, Inl e) | Inr x \<Rightarrow> k x)"

text \<open>The continuation of a call that itself returns the status.\<close>

definition io_then_st ::
    "('t \<times> 'a res, 's) io \<Rightarrow> ('t \<Rightarrow> 'a \<Rightarrow> ('t \<times> 'b res, 's) io) \<Rightarrow> ('t \<times> 'b res, 's) io" where
  "io_then_st m k =
     io_bind m (\<lambda>(st, r). case r of Inl e \<Rightarrow> io_ret (st, Inl e) | Inr x \<Rightarrow> k st x)"

definition io_request :: "('s hist \<Rightarrow> 'a) \<Rightarrow> ('a \<Rightarrow> 's event) \<Rightarrow> ('a, 's) io" where
  "io_request f ev = (\<lambda>h. (f h, [ev (f h)]))"

text \<open>A read that leaves no trace: of the clock, or of a value of this process.\<close>

definition io_read :: "('s hist \<Rightarrow> 'a) \<Rightarrow> ('a, 's) io" where
  "io_read f = (\<lambda>h. (f h, []))"

definition io_now :: "('s, 'x) world_scheme \<Rightarrow> (instant, 's) io" where
  "io_now w = (\<lambda>h. (w_now w h, []))"

fun to_res :: "go_error option \<Rightarrow> unit res" where
  "to_res None = Inr ()"
| "to_res (Some e) = Inl e"

fun err_of :: "'a res \<Rightarrow> go_error option" where
  "err_of (Inl e) = Some e"
| "err_of (Inr _) = None"

text \<open>\<^verbatim>\<open>WithLeaseFence\<close> and \<^verbatim>\<open>LeaseFenceError\<close> (\<^verbatim>\<open>lease_fence.go\<close>).\<close>

definition WithLeaseFence ::
    "('s hist \<Rightarrow> go_error option) option list \<Rightarrow> ('s hist \<Rightarrow> go_error option) option
      \<Rightarrow> ('s hist \<Rightarrow> go_error option) option list" where
  "WithLeaseFence fences fence = fence # fences"

definition LeaseFenceError ::
    "('s hist \<Rightarrow> go_error option) option list \<Rightarrow> 's hist \<Rightarrow> go_error option" where
  "LeaseFenceError fences h =
     foldl (\<lambda>result current. case current of None \<Rightarrow> result | Some f \<Rightarrow> errors_join [result, f h])
       None fences"

definition ctx_state :: "'s world \<Rightarrow> (go_error option \<times> go_error option, 's) io" where
  "ctx_state w =
     io_request (\<lambda>h. (w_ctx_err w h, LeaseFenceError (w_fences w) h)) (\<lambda>(c, f). EvCheck c f)"

text \<open>\<^verbatim>\<open>errors.Join(ctx.Err(), LeaseFenceError(ctx))\<close>, and with a preceding error.\<close>

definition fence_check :: "'s world \<Rightarrow> (unit res, 's) io" where
  "fence_check w = io_bind (ctx_state w) (\<lambda>(c, f). io_ret (to_res (errors_join [c, f])))"

definition fence_check_after :: "'s world \<Rightarrow> go_error option \<Rightarrow> (unit res, 's) io" where
  "fence_check_after w err =
     io_bind (ctx_state w) (\<lambda>(c, f). io_ret (to_res (errors_join [err, c, f])))"

definition ctx_err :: "'s world \<Rightarrow> (go_error option, 's) io" where
  "ctx_err w = io_request (w_ctx_err w) EvCtx"

definition get_pvc :: "'s world \<Rightarrow> string \<Rightarrow> string \<Rightarrow> (pvc res, 's) io" where
  "get_pvc w ns n = io_request (\<lambda>h. w_get_pvc w h ns n) (EvGetPVC ns n)"

definition create_pvc :: "'s world \<Rightarrow> bool \<Rightarrow> pvc \<Rightarrow> (pvc res, 's) io" where
  "create_pvc w dry c = io_request (\<lambda>h. w_create_pvc w h dry c) (EvCreatePVC dry c)"

definition update_pvc :: "'s world \<Rightarrow> pvc \<Rightarrow> (pvc res, 's) io" where
  "update_pvc w c = io_request (\<lambda>h. w_update_pvc w h c) (EvUpdatePVC c)"

definition delete_pvc :: "'s world \<Rightarrow> string \<Rightarrow> string \<Rightarrow> string \<Rightarrow> string \<Rightarrow> (unit res, 's) io" where
  "delete_pvc w ns n uid rv =
     io_request (\<lambda>h. w_delete_pvc w h ns n uid rv) (EvDeletePVC ns n uid rv)"

definition get_pv :: "'s world \<Rightarrow> string \<Rightarrow> (pv res, 's) io" where
  "get_pv w n = io_request (\<lambda>h. w_get_pv w h n) (EvGetPV n)"

definition update_pv :: "'s world \<Rightarrow> pv \<Rightarrow> (pv res, 's) io" where
  "update_pv w v = io_request (\<lambda>h. w_update_pv w h v) (EvUpdatePV v)"

definition list_pods :: "'s world \<Rightarrow> string \<Rightarrow> (pod list option res, 's) io" where
  "list_pods w ns = io_request (\<lambda>h. w_list_pods w h ns) (EvListPods ns)"

definition list_attachments :: "'s world \<Rightarrow> (VolumeAttachment list option res, 's) io" where
  "list_attachments w = io_request (w_list_attachments w) EvListAttachments"

definition get_lease :: "'s world \<Rightarrow> string \<Rightarrow> string \<Rightarrow> (lease res, 's) io" where
  "get_lease w ns n = io_request (\<lambda>h. w_get_lease w h ns n) (EvGetLease ns n)"

definition create_lease :: "'s world \<Rightarrow> string \<Rightarrow> string \<Rightarrow> lease \<Rightarrow> (lease option res, 's) io" where
  "create_lease w ns n l = io_request (\<lambda>h. w_create_lease w h ns n l) (EvCreateLease ns n l)"

definition update_lease :: "'s world \<Rightarrow> string \<Rightarrow> string \<Rightarrow> lease \<Rightarrow> (lease option res, 's) io" where
  "update_lease w ns n l = io_request (\<lambda>h. w_update_lease w h ns n l) (EvUpdateLease ns n l)"

definition delete_lease :: "'s world \<Rightarrow> string \<Rightarrow> string \<Rightarrow> string \<Rightarrow> string \<Rightarrow> (unit res, 's) io" where
  "delete_lease w ns n uid rv =
     io_request (\<lambda>h. w_delete_lease w h ns n uid rv) (EvDeleteLease ns n uid rv)"

definition read_clock :: "'s world \<Rightarrow> (instant, 's) io" where
  "read_clock w = io_request (w_now w) EvNow"

definition sleep :: "duration \<Rightarrow> (unit, 's) io" where
  "sleep d = io_request (\<lambda>_. ()) (\<lambda>_. EvSleep d)"

definition load_workflow :: "'s world \<Rightarrow> string \<Rightarrow> string \<Rightarrow> (workflow_meta res, 's) io" where
  "load_workflow w ns n = io_request (\<lambda>h. w_load_workflow w h ns n) (EvLoadWorkflow ns n)"

definition delete_workflow :: "'s world \<Rightarrow> workflow_meta \<Rightarrow> (unit res, 's) io" where
  "delete_workflow w m =
     io_request (\<lambda>h. w_delete_workflow w h (wm_Namespace m) (wm_Name m) (wm_UID m))
       (EvDeleteWorkflow (wm_Namespace m) (wm_Name m) (wm_UID m))"

definition get_configmap :: "'s world \<Rightarrow> string \<Rightarrow> string \<Rightarrow> (unit res, 's) io" where
  "get_configmap w ns n = io_request (\<lambda>h. w_get_configmap w h ns n) (EvGetConfigMap ns n)"

definition get_workflow :: "'s world \<Rightarrow> ControllerKind \<Rightarrow> string \<Rightarrow> string \<Rightarrow> (unit res, 's) io" where
  "get_workflow w kind ns n = io_request (\<lambda>h. w_get_workflow w h kind ns n) (EvGetWorkflow kind ns n)"

definition get_namespace :: "'s world \<Rightarrow> string \<Rightarrow> (unit res, 's) io" where
  "get_namespace w n = io_request (\<lambda>h. w_get_namespace w h n) (EvGetNamespace n)"

definition list_quotas :: "'s world \<Rightarrow> string \<Rightarrow> (ResourceQuota list option res, 's) io" where
  "list_quotas w ns = io_request (\<lambda>h. w_list_quotas w h ns) (EvListQuotas ns)"

definition list_limit_ranges :: "'s world \<Rightarrow> string \<Rightarrow> (LimitRange list option res, 's) io" where
  "list_limit_ranges w ns = io_request (\<lambda>h. w_list_limit_ranges w h ns) (EvListLimitRanges ns)"

definition save_state :: "'s world \<Rightarrow> 's \<Rightarrow> (unit res, 's) io" where
  "save_state w s = io_request (\<lambda>h. w_save w h s) (EvSave s)"

definition delete_pv :: "'s world \<Rightarrow> string \<Rightarrow> string \<Rightarrow> string \<Rightarrow> (unit res, 's) io" where
  "delete_pv w n uid rv = io_request (\<lambda>h. w_delete_pv w h n uid rv) (EvDeletePV n uid rv)"

definition delete_pod :: "'s world \<Rightarrow> string \<Rightarrow> string \<Rightarrow> string \<Rightarrow> string option \<Rightarrow> (unit res, 's) io" where
  "delete_pod w ns n uid rv = io_request (\<lambda>h. w_delete_pod w h ns n uid rv) (EvDeletePod ns n uid rv)"

definition get_node :: "'s world \<Rightarrow> string \<Rightarrow> (node res, 's) io" where
  "get_node w n = io_request (\<lambda>h. w_get_node w h n) (EvGetNode n)"

definition list_nodes :: "'s world \<Rightarrow> (node list res, 's) io" where
  "list_nodes w = io_request (w_list_nodes w) EvListNodes"

definition get_storage_class :: "'s world \<Rightarrow> string \<Rightarrow> (StorageClass res, 's) io" where
  "get_storage_class w n = io_request (\<lambda>h. w_get_storage_class w h n) (EvGetStorageClass n)"

definition get_pod :: "'s world \<Rightarrow> string \<Rightarrow> string \<Rightarrow> (pod res, 's) io" where
  "get_pod w ns n = io_request (\<lambda>h. w_get_pod w h ns n) (EvGetPod ns n)"

definition create_pod :: "'s world \<Rightarrow> pod \<Rightarrow> (pod res, 's) io" where
  "create_pod w p = io_request (\<lambda>h. w_create_pod w h p) (EvCreatePod p)"

definition list_pods_by :: "'s world \<Rightarrow> string \<Rightarrow> string \<Rightarrow> (pod list option res, 's) io" where
  "list_pods_by w ns selector = io_request (\<lambda>h. w_list_pods_by w h ns selector) (EvListPodsBy ns selector)"

definition get_service_account :: "'s world \<Rightarrow> string \<Rightarrow> string \<Rightarrow> (ServiceAccount option res, 's) io" where
  "get_service_account w ns n = io_request (\<lambda>h. w_get_service_account w h ns n) (EvGetServiceAccount ns n)"

definition create_service_account :: "'s world \<Rightarrow> ServiceAccount \<Rightarrow> (ServiceAccount option res, 's) io" where
  "create_service_account w a = io_request (\<lambda>h. w_create_service_account w h a) (EvCreateServiceAccount a)"

definition update_service_account :: "'s world \<Rightarrow> ServiceAccount \<Rightarrow> (ServiceAccount option res, 's) io" where
  "update_service_account w a = io_request (\<lambda>h. w_update_service_account w h a) (EvUpdateServiceAccount a)"

definition get_workload :: "'s world \<Rightarrow> string \<Rightarrow> string \<Rightarrow> string \<Rightarrow> (workload option res, 's) io" where
  "get_workload w kind ns n = io_request (\<lambda>h. w_get_workload w h kind ns n) (EvGetWorkload kind ns n)"

definition engine_copy :: "'s world \<Rightarrow> CopyRequest \<Rightarrow> (unit res, 's) io" where
  "engine_copy w q = io_request (\<lambda>h. w_copy w h q) (EvCopy q)"

definition engine_cleanup :: "'s world \<Rightarrow> CleanupRequest \<Rightarrow> (unit res, 's) io" where
  "engine_cleanup w q = io_request (\<lambda>h. w_copy_cleanup w h q) (EvCopyCleanup q)"

definition sleep_ctx :: "'s world \<Rightarrow> duration \<Rightarrow> (unit res, 's) io" where
  "sleep_ctx w d = io_bind (io_request (\<lambda>h. w_sleep w h d) (EvSleepCtx d)) (\<lambda>e. io_ret (to_res e))"

text \<open>The results of a program on each element, in order.\<close>

fun io_map :: "('a \<Rightarrow> ('b, 's) io) \<Rightarrow> 'a list \<Rightarrow> ('b list, 's) io" where
  "io_map f [] = io_ret []"
| "io_map f (x # xs) = io_bind (f x) (\<lambda>y. io_bind (io_map f xs) (\<lambda>ys. io_ret (y # ys)))"

text \<open>\<^verbatim>\<open>WaitFor\<close> and \<^verbatim>\<open>waitContextError\<close> (\<^verbatim>\<open>client.go\<close>). A condition
  that is ready yields a value. The loop ends when the condition is ready or fails, or when the
  context is done, which \<open>w_patience\<close> puts at some tick; a context that never ends makes the Go
  loop run on, and every finite part of such a run is a run for some patience.\<close>

definition waitContextError :: "go_error \<Rightarrow> go_error" where
  "waitContextError err = WrapError ErrorTimeout OpWait err"

fun wait_loop :: "nat \<Rightarrow> 's world \<Rightarrow> ('a option res, 's) io \<Rightarrow> ('a res, 's) io" where
  "wait_loop n w condition =
     io_bind (ctx_err w) (\<lambda>c. case c of Some err \<Rightarrow> io_ret (Inl (waitContextError err)) | None \<Rightarrow>
     io_bind condition (\<lambda>r. case r of
       Inl err \<Rightarrow> io_bind (ctx_err w) (\<lambda>c'. case c' of
           Some contextErr \<Rightarrow> io_ret (Inl (waitContextError contextErr))
         | None \<Rightarrow> io_ret (Inl err))
     | Inr (Some v) \<Rightarrow> io_ret (Inr v)
     | Inr None \<Rightarrow> (case n of
           0 \<Rightarrow> io_bind (io_request (w_done w) (\<lambda>e. EvTick (Some e)))
                 (\<lambda>e. io_ret (Inl (waitContextError e)))
         | Suc m \<Rightarrow> io_bind (io_request (\<lambda>_. ()) (\<lambda>_. EvTick None))
                 (\<lambda>_. wait_loop m w condition))))"

definition WaitFor :: "'s world \<Rightarrow> duration \<Rightarrow> ('a option res, 's) io \<Rightarrow> ('a res, 's) io" where
  "WaitFor w interval condition =
     (if interval \<le> 0 then io_ret (Inl (NewError ErrorValidation OpWait))
      else (\<lambda>h. wait_loop (w_patience w h) w condition h))"

text \<open>What client-go documents of \<^verbatim>\<open>retry.RetryOnConflict\<close>: it runs the function, again after
  each conflict error and up to a bound, and returns the error of the last attempt.\<close>

inductive attempts :: "(unit res, 's) io \<Rightarrow> 's hist \<Rightarrow> unit res \<times> 's hist \<Rightarrow> bool" for f where
  last_attempt: "attempts f h (f h)"
| next_attempt: "f h = (Inl e, es) \<Longrightarrow> IsConflict e \<Longrightarrow> attempts f (es @ h) (r, es')
    \<Longrightarrow> attempts f h (r, es' @ es)"

definition retry_contract :: "'s world \<Rightarrow> bool" where
  "retry_contract w \<longleftrightarrow> (\<forall>f h. attempts f h (w_retry w f h))"

fun retry_steps :: "nat \<Rightarrow> (unit res, 's) io \<Rightarrow> (unit res, 's) io" where
  "retry_steps 0 f h = f h"
| "retry_steps (Suc n) f h =
     (case f h of
        (Inl e, es) \<Rightarrow>
          if IsConflict e then (case retry_steps n f (es @ h) of (r, es') \<Rightarrow> (r, es' @ es))
          else (Inl e, es)
      | (Inr u, es) \<Rightarrow> (Inr u, es))"

lemma retry_steps_attempts: "attempts f h (retry_steps n f h)"
proof (induction n arbitrary: h)
  case 0
  show ?case using last_attempt [of f h] by simp
next
  case (Suc n)
  obtain r es where f: "f h = (r, es)" by fastforce
  show ?case
  proof (cases "\<exists>e. r = Inl e \<and> IsConflict e")
    case True
    then obtain e where e: "f h = (Inl e, es)" "IsConflict e" using f by blast
    obtain r' es' where r': "retry_steps n f (es @ h) = (r', es')" by fastforce
    then have "attempts f (es @ h) (r', es')" using Suc.IH [of "es @ h"] by simp
    from next_attempt [OF e this] show ?thesis by (simp add: e r')
  next
    case False
    then have "retry_steps (Suc n) f h = f h" using f by (auto split: sum.splits)
    then show ?thesis using last_attempt [of f h] by simp
  qed
qed

section \<open>Weakest preconditions\<close>

fun guarded :: "('s event \<Rightarrow> 's hist \<Rightarrow> bool) \<Rightarrow> 's hist \<Rightarrow> 's hist \<Rightarrow> bool" where
  "guarded G [] h = True"
| "guarded G (e # es) h = (G e (es @ h) \<and> guarded G es h)"

lemma guarded_append: "guarded G (es' @ es) h \<longleftrightarrow> guarded G es' (es @ h) \<and> guarded G es h"
  by (induction es') auto

lemma guarded_mono:
  "guarded G es h \<Longrightarrow> (\<And>e h'. suffix h h' \<Longrightarrow> G e h' \<Longrightarrow> G' e h') \<Longrightarrow> guarded G' es h"
  by (induction es) (auto simp: suffix_def)

lemma guarded_nth: "guarded G (es' @ e # es) h \<Longrightarrow> G e (es @ h)"
  by (simp add: guarded_append)

definition wp ::
    "('s event \<Rightarrow> 's hist \<Rightarrow> bool) \<Rightarrow> ('a, 's) io \<Rightarrow> ('a \<Rightarrow> 's hist \<Rightarrow> bool) \<Rightarrow> 's hist \<Rightarrow> bool" where
  "wp G m Q h = (case m h of (x, es) \<Rightarrow> guarded G es h \<and> Q x (es @ h))"

lemma wp_ret [io_rules]: "wp G (io_ret x) Q h = Q x h"
  by (simp add: wp_def io_ret_def)

lemma wp_bind [io_rules]: "wp G (io_bind m f) Q h = wp G m (\<lambda>x. wp G (f x) Q) h"
  by (auto simp: wp_def io_bind_def guarded_append split: prod.splits)

lemma wp_request [io_rules]:
  "wp G (io_request f ev) Q h = (G (ev (f h)) h \<and> Q (f h) (ev (f h) # h))"
  by (simp add: wp_def io_request_def)

lemma wp_now [io_rules]: "wp G (io_now w) Q h = Q (w_now w h) h"
  by (simp add: wp_def io_now_def)

lemma wp_try [io_rules]:
  "wp G (io_try m k) Q h =
   wp G m (\<lambda>r h'. case r of Inl e \<Rightarrow> Q (Inl e) h' | Inr x \<Rightarrow> wp G (k x) Q h') h"
  by (auto simp: io_try_def wp_bind wp_ret fun_eq_iff split: sum.splits intro!: arg_cong [where f = "\<lambda>Q. wp G m Q h"])

lemma wp_try_st [io_rules]:
  "wp G (io_try_st st m k) Q h =
   wp G m (\<lambda>r h'. case r of Inl e \<Rightarrow> Q (st, Inl e) h' | Inr x \<Rightarrow> wp G (k x) Q h') h"
  by (auto simp: io_try_st_def wp_bind wp_ret fun_eq_iff split: sum.splits intro!: arg_cong [where f = "\<lambda>Q. wp G m Q h"])

lemma wp_then_st [io_rules]:
  "wp G (io_then_st m k) Q h =
   wp G m (\<lambda>(st, r) h'. case r of Inl e \<Rightarrow> Q (st, Inl e) h' | Inr x \<Rightarrow> wp G (k st x) Q h') h"
  by (auto simp: io_then_st_def wp_bind wp_ret fun_eq_iff split: sum.splits intro!: arg_cong [where f = "\<lambda>Q. wp G m Q h"])

lemma wp_if [io_rules]: "wp G (if b then m else m') Q h = (if b then wp G m Q h else wp G m' Q h)"
  by simp

text \<open>The consequence rule, with its frame: facts about the earlier history carry over, since the
  history only grows.\<close>

lemma wp_conseq:
  assumes "wp G m Q h"
    and "\<And>e h'. suffix h h' \<Longrightarrow> G e h' \<Longrightarrow> G' e h'"
    and "\<And>x h'. suffix h h' \<Longrightarrow> Q x h' \<Longrightarrow> Q' x h'"
  shows "wp G' m Q' h"
  using assms by (auto simp: wp_def suffix_def split: prod.splits intro: guarded_mono)

lemma wp_conj: "wp G m Q h \<Longrightarrow> wp G' m Q' h \<Longrightarrow> wp (\<lambda>e h. G e h \<and> G' e h) m (\<lambda>x h. Q x h \<and> Q' x h) h"
proof -
  have "guarded G es h \<Longrightarrow> guarded G' es h \<Longrightarrow> guarded (\<lambda>e h. G e h \<and> G' e h) es h" for es
    by (induction es) auto
  then show "wp G m Q h \<Longrightarrow> wp G' m Q' h \<Longrightarrow> wp (\<lambda>e h. G e h \<and> G' e h) m (\<lambda>x h. Q x h \<and> Q' x h) h"
    by (auto simp: wp_def split: prod.splits)
qed

text \<open>A step of a chain of checks: its failure is a result, its success is followed by the rest.\<close>

lemma wp_try_st_step:
  assumes "wp G m (\<lambda>r h'. \<forall>x. r = Inr x \<longrightarrow> P x h') h" and "\<And>e h'. suffix h h' \<Longrightarrow> Q (st, Inl e) h'"
    and "\<And>x h'. suffix h h' \<Longrightarrow> P x h' \<Longrightarrow> wp G (k x) Q h'"
  shows "wp G (io_try_st st m k) Q h"
  unfolding wp_try_st by (rule wp_conseq [OF assms(1)]) (auto split: sum.split intro: assms(2,3))

text \<open>Whatever a program does, it does it after what has happened.\<close>

lemma wp_after: "wp (\<lambda>e h'. suffix h h') m (\<lambda>x h'. suffix h h') h"
proof -
  have "guarded (\<lambda>e h'. suffix h h') es h" for es
    by (induction es) (auto simp: suffix_def)
  then show ?thesis by (auto simp: wp_def suffix_def split: prod.splits)
qed

text \<open>An invariant of the history that every allowed event keeps.\<close>

lemma wp_stable:
  assumes "wp G m Q h" and "I h" and "\<And>e h'. G e h' \<Longrightarrow> I h' \<Longrightarrow> I (e # h')"
  shows "wp (\<lambda>e h'. G e h' \<and> I h') m (\<lambda>x h'. Q x h' \<and> I h') h"
proof -
  have "guarded G es h \<Longrightarrow> I (es @ h) \<and> guarded (\<lambda>e h'. G e h' \<and> I h') es h" for es
    using assms(2,3) by (induction es) auto
  then show ?thesis using assms(1) by (auto simp: wp_def split: prod.splits)
qed

lemma attempts_wp:
  "attempts f h r \<Longrightarrow> (\<And>h'. suffix h h' \<Longrightarrow> wp G f Q h') \<Longrightarrow>
   guarded G (snd r) h \<and> Q (fst r) (snd r @ h)"
proof (induction rule: attempts.induct)
  case (last_attempt h)
  from last_attempt [of h] show ?case by (auto simp: wp_def split: prod.splits)
next
  case (next_attempt h e es r es')
  have "guarded G es h" using next_attempt.prems [of h] next_attempt.hyps(1) by (simp add: wp_def)
  moreover have "guarded G es' (es @ h) \<and> Q r (es' @ es @ h)"
    using next_attempt.IH next_attempt.prems suffix_appendI [of h h es] by (auto dest: suffix_order.trans)
  ultimately show ?case by (simp add: guarded_append)
qed

lemma wp_retry:
  assumes "retry_contract w" and "\<And>h'. suffix h h' \<Longrightarrow> wp G f Q h'"
  shows "wp G (w_retry w f) Q h"
  using attempts_wp [of f h "w_retry w f h" G Q] assms
  by (auto simp: retry_contract_def wp_def split: prod.splits)

declare wait_loop.simps [simp del]

lemma wait_loop_wp:
  assumes cond: "\<And>h'. suffix h h' \<Longrightarrow> wp G condition (\<lambda>r h''. \<forall>v. r = Inr (Some v) \<longrightarrow> Q (Inr v) h'') h'"
    and err: "\<And>e h'. suffix h h' \<Longrightarrow> Q (Inl e) h'"
    and reads: "\<And>c h'. G (EvCtx c) h'" "\<And>c h'. G (EvTick c) h'"
    and h': "suffix h h'"
  shows "wp G (wait_loop n w condition) Q h'"
  using h'
proof (induction n arbitrary: h' rule: less_induct)
  case (less n)
  let ?next = "case n of 0 \<Rightarrow> io_bind (io_request (w_done w) (\<lambda>e. EvTick (Some e)))
        (\<lambda>e. io_ret (Inl (waitContextError e)))
    | Suc m \<Rightarrow> io_bind (io_request (\<lambda>_. ()) (\<lambda>_. EvTick None)) (\<lambda>_. wait_loop m w condition)"
  have "next": "wp G ?next Q h2" if "suffix h h2" for h2
    using that by (auto simp: io_rules reads split: nat.splits intro!: err suffix_ConsI less.IH)
  have h1: "suffix h (EvCtx c # h')" for c using less.prems by (rule suffix_ConsI)
  have tail: "suffix h h2" if "suffix (EvCtx c # h') h2" for c h2
    using h1 that by (rule suffix_order.trans)
  show ?case
    by (subst wait_loop.simps)
       (auto simp: io_rules ctx_err_def reads split: option.splits sum.splits
         intro!: wp_conseq [OF cond [OF h1]] err h1 "next" suffix_ConsI dest: tail)
qed

lemma wp_WaitFor:
  assumes "\<And>h'. suffix h h' \<Longrightarrow> wp G condition (\<lambda>r h''. \<forall>v. r = Inr (Some v) \<longrightarrow> Q (Inr v) h'') h'"
    and "\<And>e h'. suffix h h' \<Longrightarrow> Q (Inl e) h'"
    and "\<And>c h'. G (EvCtx c) h'" "\<And>c h'. G (EvTick c) h'"
  shows "wp G (WaitFor w interval condition) Q h"
  using wait_loop_wp [of h G condition Q h "w_patience w h" w, OF assms] assms(2)
  by (cases "interval \<le> 0") (simp_all add: WaitFor_def wp_def io_ret_def)

section \<open>Reads, writes and the fence\<close>

text \<open>A dry run and the bookkeeping events change nothing in the cluster.\<close>

fun is_read :: "'s event \<Rightarrow> bool" where
  "is_read (EvCreatePVC dry c r) = dry"
| "is_read (EvUpdatePVC c r) = False"
| "is_read (EvDeletePVC ns n uid rv r) = False"
| "is_read (EvUpdatePV v r) = False"
| "is_read (EvSave s r) = False"
| "is_read (EvCreateLease ns n l r) = False"
| "is_read (EvUpdateLease ns n l r) = False"
| "is_read (EvDeleteLease ns n uid rv r) = False"
| "is_read (EvDeleteWorkflow ns n uid r) = False"
| "is_read (EvDeletePV n uid rv r) = False"
| "is_read (EvDeletePod ns n uid rvo r) = False"
| "is_read (EvCreatePod p r) = False"
| "is_read (EvCreateServiceAccount a r) = False"
| "is_read (EvUpdateServiceAccount a r) = False"
| "is_read (EvCopy q r) = False"
| "is_read (EvCopyCleanup cq r) = False"
| "is_read e = True"

fun writes_storage :: "'s event \<Rightarrow> bool" where
  "writes_storage (EvCreatePVC dry c r) = (\<not> dry)"
| "writes_storage (EvUpdatePVC c r) = True"
| "writes_storage (EvDeletePVC ns n uid rv r) = True"
| "writes_storage (EvUpdatePV v r) = True"
| "writes_storage (EvDeletePV n uid rv r) = True"
| "writes_storage e = False"

lemma is_read_no_write: "is_read e \<Longrightarrow> \<not> writes_storage e"
  by (cases e) auto

text \<open>The last thing that happened was a fence check that passed.\<close>

fun fenced :: "'s hist \<Rightarrow> bool" where
  "fenced (EvCheck None None # h) = True"
| "fenced h = False"

definition only_reads :: "'s event \<Rightarrow> 's hist \<Rightarrow> bool" where
  "only_reads e h = is_read e"

lemma only_reads_simp [guard_simps]: "only_reads e h \<longleftrightarrow> is_read e"
  by (simp add: only_reads_def)

lemma wp_io_read [io_rules]: "wp G (io_read f) Q h = Q (f h) h"
  by (simp add: wp_def io_read_def)

lemma wp_ctx_state [io_intros]:
  "(\<And>c f. G (EvCheck c f) h) \<Longrightarrow> (\<And>c f. Q (c, f) (EvCheck c f # h)) \<Longrightarrow> wp G (ctx_state w) Q h"
  by (simp add: ctx_state_def io_rules)

lemma wp_fence_check [io_intros]:
  "(\<And>c f. G (EvCheck c f) h) \<Longrightarrow> Q (Inr ()) (EvCheck None None # h) \<Longrightarrow>
   (\<And>e c f. Q (Inl e) (EvCheck c f # h)) \<Longrightarrow> wp G (fence_check w) Q h"
  by (auto simp: fence_check_def io_rules errors_join_eq_None intro!: io_intros)
     (metis errors_join_eq_None insert_subset list.set(2) option.collapse singletonD to_res.simps)

lemma wp_fence_check_after [io_intros]:
  "(\<And>c f. G (EvCheck c f) h) \<Longrightarrow> (err = None \<Longrightarrow> Q (Inr ()) (EvCheck None None # h)) \<Longrightarrow>
   (\<And>e c f. Q (Inl e) (EvCheck c f # h)) \<Longrightarrow> wp G (fence_check_after w err) Q h"
  by (auto simp: fence_check_after_def io_rules errors_join_eq_None intro!: io_intros)
     (metis errors_join_eq_None insert_subset list.set(2) option.collapse singletonD to_res.simps)

lemma wp_get_pvc [io_intros]:
  "(\<And>r. G (EvGetPVC ns n r) h) \<Longrightarrow> (\<And>r. Q r (EvGetPVC ns n r # h)) \<Longrightarrow> wp G (get_pvc w ns n) Q h"
  by (simp add: get_pvc_def io_rules)

lemma wp_create_pvc [io_intros]:
  "(\<And>r. G (EvCreatePVC d c r) h) \<Longrightarrow> (\<And>r. Q r (EvCreatePVC d c r # h)) \<Longrightarrow> wp G (create_pvc w d c) Q h"
  by (simp add: create_pvc_def io_rules)

lemma wp_update_pvc [io_intros]:
  "(\<And>r. G (EvUpdatePVC c r) h) \<Longrightarrow> (\<And>r. Q r (EvUpdatePVC c r # h)) \<Longrightarrow> wp G (update_pvc w c) Q h"
  by (simp add: update_pvc_def io_rules)

lemma wp_delete_pvc [io_intros]:
  "(\<And>r. G (EvDeletePVC ns n uid rv r) h) \<Longrightarrow> (\<And>r. Q r (EvDeletePVC ns n uid rv r # h)) \<Longrightarrow>
   wp G (delete_pvc w ns n uid rv) Q h"
  by (simp add: delete_pvc_def io_rules)

lemma wp_get_pv [io_intros]:
  "(\<And>r. G (EvGetPV n r) h) \<Longrightarrow> (\<And>r. Q r (EvGetPV n r # h)) \<Longrightarrow> wp G (get_pv w n) Q h"
  by (simp add: get_pv_def io_rules)

lemma wp_update_pv [io_intros]:
  "(\<And>r. G (EvUpdatePV v r) h) \<Longrightarrow> (\<And>r. Q r (EvUpdatePV v r # h)) \<Longrightarrow> wp G (update_pv w v) Q h"
  by (simp add: update_pv_def io_rules)

lemma wp_list_pods [io_intros]:
  "(\<And>r. G (EvListPods ns r) h) \<Longrightarrow> (\<And>r. Q r (EvListPods ns r # h)) \<Longrightarrow> wp G (list_pods w ns) Q h"
  by (simp add: list_pods_def io_rules)

lemma wp_list_attachments [io_intros]:
  "(\<And>r. G (EvListAttachments r) h) \<Longrightarrow> (\<And>r. Q r (EvListAttachments r # h)) \<Longrightarrow>
   wp G (list_attachments w) Q h"
  by (simp add: list_attachments_def io_rules)

lemma wp_get_lease [io_intros]:
  "(\<And>r. G (EvGetLease ns n r) h) \<Longrightarrow> (\<And>r. Q r (EvGetLease ns n r # h)) \<Longrightarrow> wp G (get_lease w ns n) Q h"
  by (simp add: get_lease_def io_rules)

lemma wp_create_lease [io_intros]:
  "(\<And>r. G (EvCreateLease ns n l r) h) \<Longrightarrow> (\<And>r. Q r (EvCreateLease ns n l r # h)) \<Longrightarrow>
   wp G (create_lease w ns n l) Q h"
  by (simp add: create_lease_def io_rules)

lemma wp_update_lease [io_intros]:
  "(\<And>r. G (EvUpdateLease ns n l r) h) \<Longrightarrow> (\<And>r. Q r (EvUpdateLease ns n l r # h)) \<Longrightarrow>
   wp G (update_lease w ns n l) Q h"
  by (simp add: update_lease_def io_rules)

lemma wp_delete_lease [io_intros]:
  "(\<And>r. G (EvDeleteLease ns n uid rv r) h) \<Longrightarrow> (\<And>r. Q r (EvDeleteLease ns n uid rv r # h)) \<Longrightarrow>
   wp G (delete_lease w ns n uid rv) Q h"
  by (simp add: delete_lease_def io_rules)

lemma wp_read_clock [io_intros]:
  "(\<And>t. G (EvNow t) h) \<Longrightarrow> (\<And>t. Q t (EvNow t # h)) \<Longrightarrow> wp G (read_clock w) Q h"
  by (simp add: read_clock_def io_rules)

lemma wp_sleep [io_intros]:
  "G (EvSleep d) h \<Longrightarrow> Q () (EvSleep d # h) \<Longrightarrow> wp G (sleep d) Q h"
  by (simp add: sleep_def io_rules)

lemma wp_ctx_err [io_intros]:
  "(\<And>c. G (EvCtx c) h) \<Longrightarrow> (\<And>c. Q c (EvCtx c # h)) \<Longrightarrow> wp G (ctx_err w) Q h"
  by (simp add: ctx_err_def io_rules)

lemma wp_load_workflow [io_intros]:
  "(\<And>r. G (EvLoadWorkflow ns n r) h) \<Longrightarrow> (\<And>r. Q r (EvLoadWorkflow ns n r # h)) \<Longrightarrow>
   wp G (load_workflow w ns n) Q h"
  by (simp add: load_workflow_def io_rules)

lemma wp_get_configmap [io_intros]:
  "(\<And>r. G (EvGetConfigMap ns n r) h) \<Longrightarrow> (\<And>r. Q r (EvGetConfigMap ns n r # h)) \<Longrightarrow> wp G (get_configmap w ns n) Q h"
  by (simp add: get_configmap_def io_rules)

lemma wp_get_workflow [io_intros]:
  "(\<And>r. G (EvGetWorkflow kind ns n r) h) \<Longrightarrow> (\<And>r. Q r (EvGetWorkflow kind ns n r # h)) \<Longrightarrow> wp G (get_workflow w kind ns n) Q h"
  by (simp add: get_workflow_def io_rules)

lemma wp_get_namespace [io_intros]:
  "(\<And>r. G (EvGetNamespace n r) h) \<Longrightarrow> (\<And>r. Q r (EvGetNamespace n r # h)) \<Longrightarrow> wp G (get_namespace w n) Q h"
  by (simp add: get_namespace_def io_rules)

lemma wp_list_quotas [io_intros]:
  "(\<And>r. G (EvListQuotas ns r) h) \<Longrightarrow> (\<And>r. Q r (EvListQuotas ns r # h)) \<Longrightarrow> wp G (list_quotas w ns) Q h"
  by (simp add: list_quotas_def io_rules)

lemma wp_list_limit_ranges [io_intros]:
  "(\<And>r. G (EvListLimitRanges ns r) h) \<Longrightarrow> (\<And>r. Q r (EvListLimitRanges ns r # h)) \<Longrightarrow> wp G (list_limit_ranges w ns) Q h"
  by (simp add: list_limit_ranges_def io_rules)

lemma wp_save_state [io_intros]:
  "(\<And>r. G (EvSave s r) h) \<Longrightarrow> (\<And>r. Q r (EvSave s r # h)) \<Longrightarrow> wp G (save_state w s) Q h"
  by (simp add: save_state_def io_rules)

lemma wp_delete_pv [io_intros]:
  "(\<And>r. G (EvDeletePV n uid rv r) h) \<Longrightarrow> (\<And>r. Q r (EvDeletePV n uid rv r # h)) \<Longrightarrow> wp G (delete_pv w n uid rv) Q h"
  by (simp add: delete_pv_def io_rules)

lemma wp_delete_pod [io_intros]:
  "(\<And>r. G (EvDeletePod ns n uid rv r) h) \<Longrightarrow> (\<And>r. Q r (EvDeletePod ns n uid rv r # h)) \<Longrightarrow> wp G (delete_pod w ns n uid rv) Q h"
  by (simp add: delete_pod_def io_rules)

lemma wp_get_node [io_intros]:
  "(\<And>r. G (EvGetNode n r) h) \<Longrightarrow> (\<And>r. Q r (EvGetNode n r # h)) \<Longrightarrow> wp G (get_node w n) Q h"
  by (simp add: get_node_def io_rules)

lemma wp_list_nodes [io_intros]:
  "(\<And>r. G (EvListNodes r) h) \<Longrightarrow> (\<And>r. Q r (EvListNodes r # h)) \<Longrightarrow> wp G (list_nodes w) Q h"
  by (simp add: list_nodes_def io_rules)

lemma wp_get_storage_class [io_intros]:
  "(\<And>r. G (EvGetStorageClass n r) h) \<Longrightarrow> (\<And>r. Q r (EvGetStorageClass n r # h)) \<Longrightarrow> wp G (get_storage_class w n) Q h"
  by (simp add: get_storage_class_def io_rules)

lemma wp_get_pod [io_intros]:
  "(\<And>r. G (EvGetPod ns n r) h) \<Longrightarrow> (\<And>r. Q r (EvGetPod ns n r # h)) \<Longrightarrow> wp G (get_pod w ns n) Q h"
  by (simp add: get_pod_def io_rules)

lemma wp_create_pod [io_intros]:
  "(\<And>r. G (EvCreatePod p r) h) \<Longrightarrow> (\<And>r. Q r (EvCreatePod p r # h)) \<Longrightarrow> wp G (create_pod w p) Q h"
  by (simp add: create_pod_def io_rules)

lemma wp_list_pods_by [io_intros]:
  "(\<And>r. G (EvListPodsBy ns selector r) h) \<Longrightarrow> (\<And>r. Q r (EvListPodsBy ns selector r # h)) \<Longrightarrow> wp G (list_pods_by w ns selector) Q h"
  by (simp add: list_pods_by_def io_rules)

lemma wp_get_service_account [io_intros]:
  "(\<And>r. G (EvGetServiceAccount ns n r) h) \<Longrightarrow> (\<And>r. Q r (EvGetServiceAccount ns n r # h)) \<Longrightarrow> wp G (get_service_account w ns n) Q h"
  by (simp add: get_service_account_def io_rules)

lemma wp_create_service_account [io_intros]:
  "(\<And>r. G (EvCreateServiceAccount a r) h) \<Longrightarrow> (\<And>r. Q r (EvCreateServiceAccount a r # h)) \<Longrightarrow> wp G (create_service_account w a) Q h"
  by (simp add: create_service_account_def io_rules)

lemma wp_update_service_account [io_intros]:
  "(\<And>r. G (EvUpdateServiceAccount a r) h) \<Longrightarrow> (\<And>r. Q r (EvUpdateServiceAccount a r # h)) \<Longrightarrow> wp G (update_service_account w a) Q h"
  by (simp add: update_service_account_def io_rules)

lemma wp_get_workload [io_intros]:
  "(\<And>r. G (EvGetWorkload kind ns n r) h) \<Longrightarrow> (\<And>r. Q r (EvGetWorkload kind ns n r # h)) \<Longrightarrow> wp G (get_workload w kind ns n) Q h"
  by (simp add: get_workload_def io_rules)

lemma wp_engine_copy [io_intros]:
  "(\<And>r. G (EvCopy q r) h) \<Longrightarrow> (\<And>r. Q r (EvCopy q r # h)) \<Longrightarrow> wp G (engine_copy w q) Q h"
  by (simp add: engine_copy_def io_rules)

lemma wp_engine_cleanup [io_intros]:
  "(\<And>r. G (EvCopyCleanup q r) h) \<Longrightarrow> (\<And>r. Q r (EvCopyCleanup q r # h)) \<Longrightarrow> wp G (engine_cleanup w q) Q h"
  by (simp add: engine_cleanup_def io_rules)

lemma wp_sleep_ctx [io_intros]:
  "(\<And>e. G (EvSleepCtx d e) h) \<Longrightarrow> (\<And>e. Q (to_res e) (EvSleepCtx d e # h)) \<Longrightarrow> wp G (sleep_ctx w d) Q h"
  by (simp add: sleep_ctx_def io_rules)

lemma wp_delete_workflow [io_intros]:
  "(\<And>r. G (EvDeleteWorkflow (wm_Namespace m) (wm_Name m) (wm_UID m) r) h) \<Longrightarrow>
   (\<And>r. Q r (EvDeleteWorkflow (wm_Namespace m) (wm_Name m) (wm_UID m) r # h)) \<Longrightarrow>
   wp G (delete_workflow w m) Q h"
  by (simp add: delete_workflow_def io_rules)

lemma wp_io_map:
  assumes f: "\<And>x h'. x \<in> set xs \<Longrightarrow> wp G (f x) (\<lambda>y. R x y) h'"
    and stable: "\<And>x y h h'. suffix h h' \<Longrightarrow> R x y h \<Longrightarrow> R x y h'"
  shows "wp G (io_map f xs) (\<lambda>ys h'. list_all2 (\<lambda>x y. R x y h') xs ys) h"
  using f
proof (induction xs arbitrary: h)
  case Nil
  then show ?case by (simp add: io_rules)
next
  case (Cons a xs)
  have "wp G (io_map f xs) (\<lambda>ys h2. list_all2 (\<lambda>x y. R x y h2) (a # xs) (y # ys)) h1" if "R a y h1" for y h1
    by (rule wp_conseq [OF Cons.IH]) (use Cons.prems stable that in auto)
  then show ?case
    by (auto simp: io_rules fun_eq_iff [THEN iffD2, OF allI [OF wp_ret]] intro!: wp_conseq [OF Cons.prems])
qed

section \<open>A truthful server\<close>

text \<open>An API server answers a read with the object of the requested name, and a create with the
  object that was created; stored objects have a UID.\<close>

fun truthful :: "'s event \<Rightarrow> bool" where
  "truthful (EvGetPVC ns n (Inr c)) = (c_Namespace c = ns \<and> c_Name c = n \<and> c_UID c \<noteq> [])"
| "truthful (EvCreatePVC dry d (Inr c)) = (c_Namespace c = c_Namespace d \<and> c_Name c = c_Name d)"
| "truthful (EvGetPV n (Inr v)) = (v_Name v = n \<and> v_UID v \<noteq> [])"
| "truthful e = True"

definition honest :: "'s hist \<Rightarrow> bool" where
  "honest h \<longleftrightarrow> list_all truthful h"

lemma honest_simps [simp]: "honest (e # h) \<longleftrightarrow> truthful e \<and> honest h" "honest (h @ h') \<longleftrightarrow> honest h \<and> honest h'" "honest []"
  by (simp_all add: honest_def)

lemma honest_suffix: "honest h' \<Longrightarrow> suffix h h' \<Longrightarrow> honest h"
  by (auto simp: suffix_def)

text \<open>As far as the server has been truthful, the claim is the one under that name.\<close>

definition claim_at :: "string \<Rightarrow> string \<Rightarrow> pvc \<Rightarrow> 's hist \<Rightarrow> bool" where
  "claim_at ns n c h \<longleftrightarrow> (honest h \<longrightarrow> c_Namespace c = ns \<and> c_Name c = n \<and> c_UID c \<noteq> [])"

lemma claim_at_mono: "claim_at ns n c h \<Longrightarrow> suffix h h' \<Longrightarrow> claim_at ns n c h'"
  by (auto simp: claim_at_def dest: honest_suffix)

lemma honest_answers:
  "suffix (e # EvGetPVC ns n (Inr c) # h) h' \<Longrightarrow> honest h' \<Longrightarrow> c_Namespace c = ns \<and> c_Name c = n"
  "suffix (e # EvCreatePVC dry d (Inr c) # h) h' \<Longrightarrow> honest h' \<Longrightarrow> c_Namespace c = c_Namespace d \<and> c_Name c = c_Name d"
  by (auto dest: honest_suffix)

section \<open>From lemmas to runs\<close>

text \<open>What a caller of a lemma \<open>wp G m Q h\<close> learns about a run.\<close>

lemma wp_run: "wp G m Q h \<Longrightarrow> m h = (x, es) \<Longrightarrow> Q x (es @ h)"
  by (simp add: wp_def)

lemma wp_event: "wp G m Q h \<Longrightarrow> m h = (x, es2 @ e # es1) \<Longrightarrow> G e (es1 @ h)"
  by (simp add: wp_def guarded_append)

end
