(* ===== verification/Ownership.thy ===== *)
theory Ownership
  imports Effects
begin

text \<open>
  Session ownership of claims (\<^verbatim>\<open>internal/kube/ownership.go\<close>): a session marks a claim
  with an annotation, takes the mark off again, and finally restores the recorded metadata. Each
  operation is a read-modify-write under \<^verbatim>\<open>retry.RetryOnConflict\<close>; a write happens only right
  after a passed fence check, on a claim whose UID is the recorded one.
\<close>

section \<open>Operations\<close>

definition markPVSession :: "gomap \<Rightarrow> string \<Rightarrow> string \<Rightarrow> gomap \<times> bool" where
  "markPVSession labels sid role =
     foldl (\<lambda>(m, changed) (k, v). if mget m k \<noteq> v then (m(k \<mapsto> v), True) else (m, changed))
       (labels, False)
       [(ManagedByLabel, ManagedByValue), (SessionKey, sid), (ResourceRoleLabel, role)]"

definition validatePVCOwnershipInput :: "ObjectReference \<Rightarrow> string \<Rightarrow> string \<Rightarrow> unit res" where
  "validatePVCOwnershipInput ref sid operation =
     (if r_Namespace ref = [] \<or> r_Name ref = [] \<or> r_UID ref = []
      then Inl (NewError ErrorValidation operation)
      else if sid = [] then Inl (NewError ErrorValidation operation)
      else Inr ())"

text \<open>The claim with the session's mark, and without it.\<close>

definition acquired :: "string \<Rightarrow> pvc \<Rightarrow> pvc" where
  "acquired sid c = c\<lparr>c_Annotations := (c_Annotations c)(SessionKey \<mapsto> sid)\<rparr>"

definition released :: "pvc \<Rightarrow> pvc" where
  "released c = c\<lparr>c_Annotations := (c_Annotations c)(SessionKey := None)\<rparr>"

text \<open>The function literal \<^verbatim>\<open>AcquirePVC\<close> hands to the retry helper, then the operation.\<close>

definition acquire_attempt :: "'s world \<Rightarrow> ObjectReference \<Rightarrow> string \<Rightarrow> (unit res, 's) io" where
  "acquire_attempt w ref sid =
     io_try (fence_check w) (\<lambda>_.
     io_try (get_pvc w (r_Namespace ref) (r_Name ref)) (\<lambda>c.
       if c_UID c \<noteq> r_UID ref then io_ret (Inl (NewError ErrorConflict OpAcquirePVC))
       else let owner = mget (c_Annotations c) SessionKey in
         if owner \<noteq> [] \<and> owner \<noteq> sid then io_ret (Inl (NewError ErrorConflict OpAcquirePVC))
         else if owner = sid then io_ret (Inr ())
         else io_try (fence_check w) (\<lambda>_.
              io_bind (update_pvc w (acquired sid c)) (\<lambda>r.
              fence_check_after w (err_of r)))))"

definition AcquirePVC :: "'s world \<Rightarrow> ObjectReference \<Rightarrow> string \<Rightarrow> (unit res, 's) io" where
  "AcquirePVC w ref sid =
     (case validatePVCOwnershipInput ref sid OpAcquirePVC of
        Inl e \<Rightarrow> io_ret (Inl e)
      | Inr _ \<Rightarrow> io_bind (w_retry w (acquire_attempt w ref sid)) (\<lambda>r.
         case r of Inr _ \<Rightarrow> io_ret (Inr ())
         | Inl err \<Rightarrow>
             if CategoryOf err = ErrorConflict then io_ret (Inl err)
             else if IsConflict err then io_ret (Inl (WrapError ErrorConflict OpAcquirePVC err))
             else io_ret (Inl (WrapError ErrorKubernetes OpAcquirePVC err))))"

definition release_attempt :: "'s world \<Rightarrow> ObjectReference \<Rightarrow> string \<Rightarrow> (unit res, 's) io" where
  "release_attempt w ref sid =
     io_try (fence_check w) (\<lambda>_.
     io_bind (get_pvc w (r_Namespace ref) (r_Name ref)) (\<lambda>g.
       case g of
         Inl err \<Rightarrow> if IsNotFound err then io_ret (Inr ()) else io_ret (Inl err)
       | Inr c \<Rightarrow>
         if c_UID c \<noteq> r_UID ref then io_ret (Inl (NewError ErrorConflict OpReleasePVC))
         else if mget (c_Annotations c) SessionKey \<noteq> sid then io_ret (Inr ())
         else io_try (fence_check w) (\<lambda>_.
              io_bind (update_pvc w (released c)) (\<lambda>r.
              fence_check_after w (err_of r)))))"

definition ReleasePVC :: "'s world \<Rightarrow> ObjectReference \<Rightarrow> string \<Rightarrow> (unit res, 's) io" where
  "ReleasePVC w ref sid =
     (case validatePVCOwnershipInput ref sid OpReleasePVC of
        Inl e \<Rightarrow> io_ret (Inl e)
      | Inr _ \<Rightarrow> io_bind (w_retry w (release_attempt w ref sid)) (\<lambda>r.
         case r of Inr _ \<Rightarrow> io_ret (Inr ())
         | Inl err \<Rightarrow>
             if CategoryOf err = ErrorConflict then io_ret (Inl err)
             else io_ret (Inl (WrapError ErrorKubernetes OpReleasePVC err))))"

text \<open>The metadata \<^verbatim>\<open>FinalizePVC\<close> writes: the session's keys go, then the recorded labels and
  annotations are copied over what is left (\<^verbatim>\<open>maps.Copy\<close>).\<close>

definition finalized_pvc :: "pvc \<Rightarrow> PVCMetadata \<Rightarrow> pvc" where
  "finalized_pvc c original =
     c\<lparr>c_Labels :=
         (c_Labels c)(ManagedByLabel := None, SessionKey := None, ResourceRoleLabel := None)
           ++ m_Labels original,
       c_Annotations :=
         (c_Annotations c)(SessionKey := None, RollbackPVAnnotation := None,
            SourcePVAnnotation := None, SourcePVCUIDAnnotation := None)
           ++ m_Annotations original,
       c_OwnerReferences := m_OwnerReferences original\<rparr>"

definition finalize_attempt ::
    "'s world \<Rightarrow> ObjectReference \<Rightarrow> string \<Rightarrow> PVCMetadata \<Rightarrow> (unit res, 's) io" where
  "finalize_attempt w ref sid original =
     io_try (fence_check w) (\<lambda>_.
     io_bind (get_pvc w (r_Namespace ref) (r_Name ref)) (\<lambda>g.
       case g of
         Inl err \<Rightarrow> if IsNotFound err then io_ret (Inr ()) else io_ret (Inl err)
       | Inr c \<Rightarrow>
         if c_UID c \<noteq> r_UID ref then io_ret (Inl (NewError ErrorConflict OpFinalizePVC))
         else if list_ex (\<lambda>owner. owner \<noteq> [] \<and> owner \<noteq> sid)
                   [mget (c_Annotations c) SessionKey, mget (c_Labels c) SessionKey]
         then io_ret (Inl (NewError ErrorConflict OpFinalizePVC))
         else io_try (fence_check w) (\<lambda>_.
              io_bind (update_pvc w (finalized_pvc c original)) (\<lambda>r.
              fence_check_after w (err_of r)))))"

definition FinalizePVC ::
    "'s world \<Rightarrow> ObjectReference \<Rightarrow> string \<Rightarrow> PVCMetadata \<Rightarrow> (unit res, 's) io" where
  "FinalizePVC w ref sid original =
     (case validatePVCOwnershipInput ref sid OpFinalizePVC of
        Inl e \<Rightarrow> io_ret (Inl e)
      | Inr _ \<Rightarrow> io_bind (w_retry w (finalize_attempt w ref sid original)) (\<lambda>r.
         case r of Inr _ \<Rightarrow> io_ret (Inr ())
         | Inl err \<Rightarrow>
             if CategoryOf err = ErrorConflict then io_ret (Inl err)
             else io_ret (Inl (WrapError ErrorKubernetes OpFinalizePVC err))))"

section \<open>What they may write\<close>

text \<open>The claim was read under this reference and had the recorded UID.\<close>

definition seen_pvc :: "ObjectReference \<Rightarrow> pvc \<Rightarrow> 's hist \<Rightarrow> bool" where
  "seen_pvc ref c h \<longleftrightarrow>
     EvGetPVC (r_Namespace ref) (r_Name ref) (Inr c) \<in> set h \<and> c_UID c = r_UID ref"

lemma seen_pvc_Cons [simp]:
  "seen_pvc ref c (e # h) \<longleftrightarrow>
     seen_pvc ref c h \<or> (e = EvGetPVC (r_Namespace ref) (r_Name ref) (Inr c) \<and> c_UID c = r_UID ref)"
  by (auto simp: seen_pvc_def)

text \<open>A claim update is allowed when it follows a passed fence check and writes \<open>f c\<close> for a claim
  \<open>c\<close> that was read and that \<open>ok\<close> accepts.\<close>

definition pvc_update_guard ::
    "ObjectReference \<Rightarrow> (pvc \<Rightarrow> bool) \<Rightarrow> (pvc \<Rightarrow> pvc) \<Rightarrow> 's event \<Rightarrow> 's hist \<Rightarrow> bool" where
  "pvc_update_guard ref ok f e h \<longleftrightarrow> is_read e \<or>
     (fenced h \<and> (\<exists>c r. e = EvUpdatePVC (f c) r \<and> seen_pvc ref c h \<and> ok c))"

lemma pvc_update_guard_read [simp]: "is_read e \<Longrightarrow> pvc_update_guard ref ok f e h"
  by (simp add: pvc_update_guard_def)

lemma pvc_update_guardI:
  "fenced h \<Longrightarrow> seen_pvc ref c h \<Longrightarrow> ok c \<Longrightarrow> pvc_update_guard ref ok f (EvUpdatePVC (f c) r) h"
  by (auto simp: pvc_update_guard_def)

definition acquire_ok :: "string \<Rightarrow> pvc \<Rightarrow> bool" where
  "acquire_ok sid c \<longleftrightarrow> mget (c_Annotations c) SessionKey = []"

definition release_ok :: "string \<Rightarrow> pvc \<Rightarrow> bool" where
  "release_ok sid c \<longleftrightarrow> mget (c_Annotations c) SessionKey = sid"

definition finalize_ok :: "string \<Rightarrow> pvc \<Rightarrow> bool" where
  "finalize_ok sid c \<longleftrightarrow> mget (c_Annotations c) SessionKey \<in> {[], sid}
     \<and> mget (c_Labels c) SessionKey \<in> {[], sid}"

text \<open>The session is known to own the claim: it was read with its annotation, or the write of the
  annotation succeeded.\<close>

definition owns_pvc :: "ObjectReference \<Rightarrow> string \<Rightarrow> 's hist \<Rightarrow> bool" where
  "owns_pvc ref sid h \<longleftrightarrow>
     (\<exists>c. seen_pvc ref c h \<and> (mget (c_Annotations c) SessionKey = sid
        \<or> (\<exists>c'. EvUpdatePVC (acquired sid c) (Inr c') \<in> set h)))"

lemma err_of_None [simp]: "err_of r = None \<longleftrightarrow> (\<exists>x. r = Inr x)"
  by (cases r) auto

lemma owns_pvcI:
  "seen_pvc ref c h \<Longrightarrow> mget (c_Annotations c) SessionKey = sid \<Longrightarrow> owns_pvc ref sid h"
  "seen_pvc ref c h \<Longrightarrow> owns_pvc ref sid (EvUpdatePVC (acquired sid c) (Inr c') # h)"
  by (auto simp: owns_pvc_def)

lemma owns_pvc_check [simp]: "owns_pvc ref sid (EvCheck c f # h) = owns_pvc ref sid h"
  by (auto simp: owns_pvc_def)

lemma acquire_attempt_wp:
  "wp (pvc_update_guard ref (acquire_ok sid) (acquired sid)) (acquire_attempt w ref sid)
     (\<lambda>r h'. r = Inr () \<longrightarrow> owns_pvc ref sid h') h"
  unfolding acquire_attempt_def Let_def
  by (auto simp: io_rules acquire_ok_def split: sum.splits
      intro!: io_intros pvc_update_guardI owns_pvcI(2) intro: owns_pvcI(1))

lemma release_attempt_wp:
  "wp (pvc_update_guard ref (release_ok sid) released) (release_attempt w ref sid) (\<lambda>r h'. True) h"
  unfolding release_attempt_def
  by (auto simp: io_rules release_ok_def split: sum.splits intro!: io_intros pvc_update_guardI)

lemma finalize_attempt_wp:
  "wp (pvc_update_guard ref (finalize_ok sid) (\<lambda>c. finalized_pvc c original))
     (finalize_attempt w ref sid original) (\<lambda>r h'. True) h"
  unfolding finalize_attempt_def
  by (auto simp: io_rules finalize_ok_def split: sum.splits
      intro!: io_intros pvc_update_guardI [where f = "\<lambda>c. finalized_pvc c original"])

lemma AcquirePVC_wp:
  assumes "retry_contract w"
  shows "wp (pvc_update_guard ref (acquire_ok sid) (acquired sid)) (AcquirePVC w ref sid)
    (\<lambda>r h'. r = Inr () \<longrightarrow> owns_pvc ref sid h') h"
  unfolding AcquirePVC_def
  by (auto simp: io_rules split: sum.splits
      intro!: wp_conseq [OF wp_retry [OF assms acquire_attempt_wp]])

lemma ReleasePVC_wp:
  assumes "retry_contract w"
  shows "wp (pvc_update_guard ref (release_ok sid) released) (ReleasePVC w ref sid) (\<lambda>r h'. True) h"
  unfolding ReleasePVC_def
  by (auto simp: io_rules split: sum.splits
      intro!: wp_conseq [OF wp_retry [OF assms release_attempt_wp]])

lemma FinalizePVC_wp:
  assumes "retry_contract w"
  shows "wp (pvc_update_guard ref (finalize_ok sid) (\<lambda>c. finalized_pvc c original))
    (FinalizePVC w ref sid original) (\<lambda>r h'. True) h"
  unfolding FinalizePVC_def
  by (auto simp: io_rules split: sum.splits
      intro!: wp_conseq [OF wp_retry [OF assms finalize_attempt_wp]])

end
