(* ===== verification/Binding.thy ===== *)
theory Binding
  imports Ownership
begin

text \<open>
  The storage steps of the switcher: waiting for consumers and attachments to go away
  (\<^verbatim>\<open>internal/kube/switcher.go\<close>), deleting a claim, reserving, retaining and pairing
  volumes and checking a binding (\<^verbatim>\<open>switcher_pv_binding.go\<close>), and creating a bound claim
  (\<^verbatim>\<open>switcher_active_pvc.go\<close>). For each step there is a guard that says which events it may
  add to the history, and a lemma that the step stays within its guard and what its success means.
\<close>

section \<open>Consumers and attachments\<close>

definition switcher_poll :: duration where
  "switcher_poll = second"

fun ensureNoConsumerInPods :: "pod list \<Rightarrow> string \<Rightarrow> unit res" where
  "ensureNoConsumerInPods [] claim = Inr ()"
| "ensureNoConsumerInPods (p # ps) claim =
     (if PodPreventsSafePVCDeletion p claim then Inl (NewError ErrorPrecondition OpVerifyPVCOffline)
      else ensureNoConsumerInPods ps claim)"

definition ensureNoConsumers :: "'s world \<Rightarrow> string \<Rightarrow> string \<Rightarrow> (unit res, 's) io" where
  "ensureNoConsumers w ns claim =
     io_bind (list_pods w ns) (\<lambda>r. case r of
       Inl err \<Rightarrow> io_ret (Inl (WrapError ErrorKubernetes OpVerifyPVCOffline err))
     | Inr None \<Rightarrow> io_ret (Inl (NewError ErrorKubernetes OpVerifyPVCOffline))
     | Inr (Some pods) \<Rightarrow> io_ret (ensureNoConsumerInPods pods claim))"

definition attached_to :: "string list \<Rightarrow> VolumeAttachment \<Rightarrow> bool" where
  "attached_to wanted a =
     (va_Attached a \<and>
      (case va_PersistentVolumeName a of None \<Rightarrow> False | Some n \<Rightarrow> n \<in> set wanted))"

definition ensureVolumesDetached :: "'s world \<Rightarrow> string list \<Rightarrow> (unit res, 's) io" where
  "ensureVolumesDetached w pvNames =
     (if pvNames = [] then io_ret (Inr ())
      else WaitFor w switcher_poll
        (io_bind (list_attachments w) (\<lambda>r. case r of
           Inl err \<Rightarrow> io_ret (Inl (WrapError ErrorKubernetes OpVerifyPVOffline err))
         | Inr None \<Rightarrow> io_ret (Inl (NewError ErrorKubernetes OpVerifyPVOffline))
         | Inr (Some attachments) \<Rightarrow>
             if list_ex (attached_to pvNames) attachments then io_ret (Inr None)
             else io_ret (Inr (Some ())))))"

definition ensureDetached :: "'s world \<Rightarrow> string \<Rightarrow> (unit res, 's) io" where
  "ensureDetached w pvName =
     (if pvName = [] then io_ret (Inr ()) else ensureVolumesDetached w [pvName])"

text \<open>A progress callback sees the caller's status through its pointer; \<open>None\<close> is a nil callback.\<close>

type_synonym ('t, 's) progress = "('t \<Rightarrow> (unit res, 's) io) option"

definition callProgress :: "('t, 's) progress \<Rightarrow> 't \<Rightarrow> (unit res, 's) io" where
  "callProgress progress st = (case progress of None \<Rightarrow> io_ret (Inr ()) | Some f \<Rightarrow> f st)"

section \<open>Deleting a claim\<close>

text \<open>After the delete request: the fence again, then wait until the claim is gone.\<close>

definition deletePVC_wait :: "'s world \<Rightarrow> ObjectReference \<Rightarrow> pvc \<Rightarrow> (unit res, 's) io" where
  "deletePVC_wait w ref c =
     io_try (fence_check w) (\<lambda>_.
     WaitFor w switcher_poll
       (io_bind (get_pvc w (r_Namespace ref) (r_Name ref)) (\<lambda>g. case g of
          Inl getErr \<Rightarrow>
            if IsNotFound getErr then io_ret (Inr (Some ())) else io_ret (Inl getErr)
        | Inr current \<Rightarrow>
            if c_UID current \<noteq> c_UID c then io_ret (Inl (NewError ErrorConflict OpDeletePVC))
            else io_ret (Inr None))))"

definition deletePVC :: "'s world \<Rightarrow> ObjectReference \<Rightarrow> (unit res, 's) io" where
  "deletePVC w ref =
     (if r_Namespace ref = [] \<or> r_Name ref = [] \<or> r_UID ref = []
      then io_ret (Inl (NewError ErrorValidation OpDeletePVC))
      else io_bind (get_pvc w (r_Namespace ref) (r_Name ref)) (\<lambda>g. case g of
        Inl err \<Rightarrow>
          if IsNotFound err then io_ret (Inr ())
          else io_ret (Inl (WrapError ErrorKubernetes OpDeletePVC err))
      | Inr c \<Rightarrow>
          if c_UID c \<noteq> r_UID ref then io_ret (Inl (NewError ErrorConflict OpDeletePVC))
          else io_try (io_ret (validatePVCDeletionFinalizers c OpDeletePVC)) (\<lambda>_.
          io_try (fence_check w) (\<lambda>_.
          io_bind (delete_pvc w (r_Namespace ref) (r_Name ref) (c_UID c) (c_ResourceVersion c)) (\<lambda>d.
          case d of
            Inl err \<Rightarrow>
              if IsNotFound err then deletePVC_wait w ref c
              else if IsConflict err then io_ret (Inl (WrapError ErrorConflict OpDeletePVC err))
              else io_ret (Inl (WrapError ErrorKubernetes OpDeletePVC err))
          | Inr _ \<Rightarrow> deletePVC_wait w ref c)))))"

section \<open>Reserving a volume for a claim\<close>

definition claimRef_at :: "pv \<Rightarrow> string \<Rightarrow> string \<Rightarrow> bool" where
  "claimRef_at v ns claim =
     (case v_ClaimRef v of None \<Rightarrow> False | Some r \<Rightarrow> r_Namespace r = ns \<and> r_Name r = claim)"

definition claimRef_UID :: "pv \<Rightarrow> string" where
  "claimRef_UID v = (case v_ClaimRef v of None \<Rightarrow> [] | Some r \<Rightarrow> r_UID r)"

text \<open>The claim at the volume's \<^verbatim>\<open>claimRef\<close> is the one it is bound to.\<close>

definition claimRef_live :: "pv \<Rightarrow> pvc \<Rightarrow> bool" where
  "claimRef_live v current =
     (claimRef_UID v \<noteq> [] \<and> c_UID current = claimRef_UID v \<and> s_VolumeName (c_Spec current) = v_Name v)"

definition pvReadyForReservation ::
    "'s world \<Rightarrow> ObjectReference \<Rightarrow> string \<Rightarrow> string \<Rightarrow> (unit option res, 's) io" where
  "pvReadyForReservation w ref ns claim =
     io_try (get_pv w (r_Name ref)) (\<lambda>v.
       if v_UID v \<noteq> r_UID ref then io_ret (Inl (NewError ErrorConflict OpReservePV))
       else if \<not> claimRef_at v ns claim
       then io_ret (Inr (if v_Phase v = VolumeReleased \<or> v_Phase v = VolumeAvailable
                         then Some () else None))
       else io_bind (get_pvc w ns claim) (\<lambda>g. case g of
         Inr current \<Rightarrow>
           if claimRef_live v current then io_ret (Inr (Some ()))
           else io_ret (Inl (NewError ErrorConflict OpReservePV))
       | Inl getErr \<Rightarrow>
           if \<not> IsNotFound getErr then io_ret (Inl getErr) else io_ret (Inr (Some ()))))"

definition waitForPVReservation ::
    "'s world \<Rightarrow> ObjectReference \<Rightarrow> string \<Rightarrow> string \<Rightarrow> (unit res, 's) io" where
  "waitForPVReservation w ref ns claim =
     WaitFor w switcher_poll (pvReadyForReservation w ref ns claim)"

definition reserved_pv :: "string \<Rightarrow> string \<Rightarrow> pv \<Rightarrow> pv" where
  "reserved_pv ns claim v =
     v\<lparr>v_ClaimRef := Some \<lparr>r_APIVersion = CoreAPIVersion, r_Kind = KindPersistentVolumeClaim,
         r_Namespace = ns, r_Name = claim, r_UID = [], r_ResourceVersion = []\<rparr>\<rparr>"

definition owned_elsewhere :: "gomap \<Rightarrow> string \<Rightarrow> bool" where
  "owned_elsewhere labels sid \<longleftrightarrow> mget labels SessionKey \<noteq> [] \<and> mget labels SessionKey \<noteq> sid"

definition write_reservation ::
    "'s world \<Rightarrow> pv \<Rightarrow> string \<Rightarrow> string \<Rightarrow> (unit res, 's) io" where
  "write_reservation w v ns claim =
     io_try (fence_check w) (\<lambda>_.
     io_bind (update_pv w (reserved_pv ns claim v)) (\<lambda>r. fence_check_after w (err_of r)))"

definition updatePVReservation ::
    "'s world \<Rightarrow> ObjectReference \<Rightarrow> string \<Rightarrow> string \<Rightarrow> string \<Rightarrow> (unit res, 's) io" where
  "updatePVReservation w ref ns claim sid =
     io_try (get_pv w (r_Name ref)) (\<lambda>v.
       if v_UID v \<noteq> r_UID ref then io_ret (Inl (NewError ErrorConflict OpReservePV))
       else if owned_elsewhere (v_Labels v) sid then io_ret (Inl (NewError ErrorConflict OpReservePV))
       else if claimRef_at v ns claim
       then io_bind (get_pvc w ns claim) (\<lambda>g. case g of
         Inr current \<Rightarrow>
           if claimRef_live v current then io_ret (Inr ())
           else io_ret (Inl (NewError ErrorConflict OpReservePV))
       | Inl getErr \<Rightarrow>
           if \<not> IsNotFound getErr then io_ret (Inl getErr)
           else if claimRef_UID v = [] then io_ret (Inr ())
           else write_reservation w v ns claim)
       else write_reservation w v ns claim)"

definition wrap_unless_conflict :: "string \<Rightarrow> unit res \<Rightarrow> unit res" where
  "wrap_unless_conflict operation r =
     (case r of Inr _ \<Rightarrow> Inr ()
      | Inl err \<Rightarrow>
          if CategoryOf err = ErrorConflict then Inl err
          else Inl (WrapError ErrorKubernetes operation err))"

definition reservePV ::
    "'s world \<Rightarrow> ObjectReference \<Rightarrow> string \<Rightarrow> string \<Rightarrow> string \<Rightarrow> (unit res, 's) io" where
  "reservePV w ref ns claim sid =
     (if r_Name ref = [] \<or> r_UID ref = [] \<or> ns = [] \<or> claim = [] \<or> sid = []
      then io_ret (Inl (NewError ErrorValidation OpReservePV))
      else io_try (waitForPVReservation w ref ns claim) (\<lambda>_.
           io_bind (w_retry w (updatePVReservation w ref ns claim sid)) (\<lambda>r.
           io_ret (wrap_unless_conflict OpReservePV r))))"

section \<open>Retaining and pairing volumes\<close>

text \<open>The last part of the updates of \<^verbatim>\<open>ensureRetain\<close> and \<^verbatim>\<open>markPVPair\<close>: record the
  original policy once, and pin the policy to Retain; with the running \<^verbatim>\<open>changed\<close> flag.\<close>

definition pin_policy :: "pv \<times> bool \<Rightarrow> pv \<times> bool" where
  "pin_policy vc =
     (let (v, changed) = vc;
          (v, changed) =
            (if mget (v_Annotations v) OriginalPolicyAnnotation = []
             then (v\<lparr>v_Annotations :=
                      (v_Annotations v)(OriginalPolicyAnnotation \<mapsto> v_ReclaimPolicy v)\<rparr>, True)
             else (v, changed))
      in if v_ReclaimPolicy v \<noteq> ReclaimRetain
         then (v\<lparr>v_ReclaimPolicy := ReclaimRetain\<rparr>, True) else (v, changed))"

definition marked_pv :: "string \<Rightarrow> string \<Rightarrow> pv \<Rightarrow> pv \<times> bool" where
  "marked_pv sid role v =
     (case markPVSession (v_Labels v) sid role of (labels, changed) \<Rightarrow>
        (v\<lparr>v_Labels := labels\<rparr>, changed))"

definition retain_pv :: "string \<Rightarrow> string \<Rightarrow> pv \<Rightarrow> pv \<times> bool" where
  "retain_pv sid role v = pin_policy (marked_pv sid role v)"

definition pair_pv :: "string \<Rightarrow> string \<Rightarrow> string \<Rightarrow> pv \<Rightarrow> pv \<times> bool" where
  "pair_pv sid role other v =
     pin_policy
       (case marked_pv sid role v of (v, changed) \<Rightarrow>
          if mget (v_Annotations v) PairedPVAnnotation \<noteq> other
          then (v\<lparr>v_Annotations := (v_Annotations v)(PairedPVAnnotation \<mapsto> other)\<rparr>, True)
          else (v, changed))"

text \<open>The tail both closures share: no write when nothing changed, else a fenced update.\<close>

definition write_pv_if_changed :: "'s world \<Rightarrow> pv \<times> bool \<Rightarrow> (unit res, 's) io" where
  "write_pv_if_changed w vc =
     (if \<not> snd vc then io_ret (Inr ())
      else io_try (fence_check w) (\<lambda>_.
           io_bind (update_pv w (fst vc)) (\<lambda>r. fence_check_after w (err_of r))))"

definition retain_attempt ::
    "'s world \<Rightarrow> ObjectReference \<Rightarrow> string \<Rightarrow> string \<Rightarrow> (unit res, 's) io" where
  "retain_attempt w ref sid role =
     io_try (get_pv w (r_Name ref)) (\<lambda>v.
       if v_UID v \<noteq> r_UID ref then io_ret (Inl (NewError ErrorConflict OpRetainPV))
       else if owned_elsewhere (v_Labels v) sid then io_ret (Inl (NewError ErrorConflict OpRetainPV))
       else write_pv_if_changed w (retain_pv sid role v))"

definition ensureRetain ::
    "'s world \<Rightarrow> ObjectReference \<Rightarrow> string \<Rightarrow> string \<Rightarrow> (unit res, 's) io" where
  "ensureRetain w ref sid role =
     (if r_Name ref = [] \<or> r_UID ref = [] \<or> sid = [] \<or> role = []
      then io_ret (Inl (NewError ErrorValidation OpRetainPV))
      else io_bind (w_retry w (retain_attempt w ref sid role)) (\<lambda>r.
           io_ret (wrap_unless_conflict OpRetainPV r)))"

text \<open>One round of the loop of \<^verbatim>\<open>markPVPair\<close>. A missing rollback volume is tolerated once the
  source is active again.\<close>

definition pair_attempt ::
    "'s world \<Rightarrow> string \<Rightarrow> bool \<Rightarrow> ObjectReference \<Rightarrow> string \<Rightarrow> string \<Rightarrow> (unit res, 's) io" where
  "pair_attempt w sid rolledBack ref role other =
     io_bind (get_pv w (r_Name ref)) (\<lambda>g. case g of
       Inl err \<Rightarrow>
         if rolledBack \<and> role = ResourceRoleRollback \<and> IsNotFound err then io_ret (Inr ())
         else io_ret (Inl err)
     | Inr v \<Rightarrow>
         if v_UID v \<noteq> r_UID ref then io_ret (Inl (NewError ErrorConflict OpMarkPVPair))
         else if owned_elsewhere (v_Labels v) sid then io_ret (Inl (NewError ErrorConflict OpMarkPVPair))
         else write_pv_if_changed w (pair_pv sid role other v))"

fun markPVPair_loop ::
    "'s world \<Rightarrow> string \<Rightarrow> bool \<Rightarrow> (ObjectReference \<times> string \<times> string) list \<Rightarrow> (unit res, 's) io" where
  "markPVPair_loop w sid rolledBack [] = io_ret (Inr ())"
| "markPVPair_loop w sid rolledBack ((ref, role, other) # items) =
     io_try (io_bind (w_retry w (pair_attempt w sid rolledBack ref role other)) (\<lambda>r.
             io_ret (wrap_unless_conflict OpMarkPVPair r))) (\<lambda>_.
     markPVPair_loop w sid rolledBack items)"

definition markPVPair ::
    "'s world \<Rightarrow> string \<Rightarrow> ObjectReference \<Rightarrow> ObjectReference \<Rightarrow> bool \<Rightarrow> (unit res, 's) io" where
  "markPVPair w sid sourcePV destinationPV rolledBack =
     (if sid = [] \<or> r_Name sourcePV = [] \<or> r_UID sourcePV = [] \<or> r_Name destinationPV = []
         \<or> r_UID destinationPV = []
      then io_ret (Inl (NewError ErrorValidation OpMarkPVPair))
      else let (active, rollback) =
                 (if rolledBack then (sourcePV, destinationPV) else (destinationPV, sourcePV))
           in markPVPair_loop w sid rolledBack
                [(active, ResourceRoleActive, r_Name rollback),
                 (rollback, ResourceRoleRollback, r_Name active)])"

section \<open>Checking a binding\<close>

definition claimRef_is :: "pv \<Rightarrow> pvc \<Rightarrow> bool" where
  "claimRef_is v c =
     (case v_ClaimRef v of None \<Rightarrow> False
      | Some r \<Rightarrow> r_UID r = c_UID c \<and> r_Namespace r = c_Namespace c \<and> r_Name r = c_Name c)"

definition verifyBinding :: "'s world \<Rightarrow> pvc \<Rightarrow> ObjectReference \<Rightarrow> (unit res, 's) io" where
  "verifyBinding w c ref =
     (if c_Namespace c = [] \<or> c_Name c = [] \<or> c_UID c = [] \<or> r_Name ref = [] \<or> r_UID ref = []
      then io_ret (Inl (NewError ErrorValidation OpVerifyBinding))
      else if c_Phase c \<noteq> ClaimBound \<or> s_VolumeName (c_Spec c) \<noteq> r_Name ref
      then io_ret (Inl (NewError ErrorConflict OpVerifyBinding))
      else io_bind (get_pv w (r_Name ref)) (\<lambda>g. case g of
        Inl err \<Rightarrow> io_ret (Inl (WrapError ErrorKubernetes OpVerifyBinding err))
      | Inr v \<Rightarrow>
          if v_UID v \<noteq> r_UID ref then io_ret (Inl (NewError ErrorConflict OpVerifyBinding))
          else if \<not> claimRef_is v c then io_ret (Inl (NewError ErrorConflict OpVerifyBinding))
          else (case ValidateBoundVolumeCapacity (Some c) (Some v) None of
                  Inl _ \<Rightarrow> io_ret (Inl (NewError ErrorConflict OpVerifyBinding))
                | Inr _ \<Rightarrow> io_ret (Inr ()))))"

section \<open>What the steps may do, and what their success means\<close>

text \<open>Facts about the history: the volume was read under this reference with the recorded UID;
  the namespace was listed without a consumer of the claim; the attachments were listed without
  one of the volume; the claim was looked up and not found.\<close>

definition seen_pv :: "ObjectReference \<Rightarrow> pv \<Rightarrow> 's hist \<Rightarrow> bool" where
  "seen_pv ref v h \<longleftrightarrow> EvGetPV (r_Name ref) (Inr v) \<in> set h \<and> v_UID v = r_UID ref"

definition no_consumer :: "string \<Rightarrow> string \<Rightarrow> 's hist \<Rightarrow> bool" where
  "no_consumer ns claim h \<longleftrightarrow>
     (\<exists>pods. EvListPods ns (Inr (Some pods)) \<in> set h
        \<and> (\<forall>p\<in>set pods. \<not> PodPreventsSafePVCDeletion p claim))"

definition detached :: "string \<Rightarrow> 's hist \<Rightarrow> bool" where
  "detached n h \<longleftrightarrow>
     (\<exists>as. EvListAttachments (Inr (Some as)) \<in> set h
        \<and> (\<forall>a\<in>set as. va_Attached a \<longrightarrow> va_PersistentVolumeName a \<noteq> Some n))"

definition pvc_gone :: "string \<Rightarrow> string \<Rightarrow> 's hist \<Rightarrow> bool" where
  "pvc_gone ns n h \<longleftrightarrow> (\<exists>e. EvGetPVC ns n (Inl e) \<in> set h \<and> IsNotFound e)"

lemma seen_pv_Cons [simp]:
  "seen_pv ref v (e # h) \<longleftrightarrow>
     seen_pv ref v h \<or> (e = EvGetPV (r_Name ref) (Inr v) \<and> v_UID v = r_UID ref)"
  by (auto simp: seen_pv_def)

lemma pvc_gone_Cons [simp]:
  "pvc_gone ns n (e # h) \<longleftrightarrow>
     pvc_gone ns n h \<or> (\<exists>err. e = EvGetPVC ns n (Inl err) \<and> IsNotFound err)"
  by (auto simp: pvc_gone_def)

text \<open>These facts stay true as the history grows.\<close>

lemma history_facts_mono:
  assumes "suffix h h'"
  shows "seen_pv ref v h \<Longrightarrow> seen_pv ref v h'" "seen_pvc ref' c h \<Longrightarrow> seen_pvc ref' c h'"
    "no_consumer ns n h \<Longrightarrow> no_consumer ns n h'" "detached n h \<Longrightarrow> detached n h'"
    "pvc_gone ns n h \<Longrightarrow> pvc_gone ns n h'"
  using set_mono_suffix [OF assms]
  by (auto simp: seen_pv_def seen_pvc_def no_consumer_def detached_def pvc_gone_def)

subsection \<open>Steps that only read\<close>

lemma ensureNoConsumerInPods_ok:
  "ensureNoConsumerInPods ps claim = Inr () \<longleftrightarrow> (\<forall>p\<in>set ps. \<not> PodPreventsSafePVCDeletion p claim)"
  by (induction ps) auto

lemma ensureNoConsumers_wp:
  "wp only_reads (ensureNoConsumers w ns claim) (\<lambda>r h'. r = Inr () \<longrightarrow> no_consumer ns claim h') h"
  unfolding ensureNoConsumers_def
  by (auto simp: io_rules guard_simps no_consumer_def ensureNoConsumerInPods_ok
      split: sum.splits option.splits intro!: io_intros)

lemma detachedI:
  "\<forall>a\<in>set as. \<not> attached_to ns a \<Longrightarrow> n \<in> set ns \<Longrightarrow>
   detached n (EvListAttachments (Inr (Some as)) # h)"
  by (force simp: detached_def attached_to_def split: option.splits)

lemma ensureVolumesDetached_wp:
  "wp only_reads (ensureVolumesDetached w ns) (\<lambda>r h'. r = Inr () \<longrightarrow> (\<forall>n\<in>set ns. detached n h')) h"
proof (cases "ns = []")
  case False
  show ?thesis
    unfolding ensureVolumesDetached_def using False
    by (auto simp: io_rules guard_simps list_ex_iff
        split: sum.splits option.splits intro!: wp_WaitFor io_intros detachedI [where ns = ns])
qed (simp add: ensureVolumesDetached_def io_rules)

lemma ensureDetached_wp:
  "wp only_reads (ensureDetached w n) (\<lambda>r h'. r = Inr () \<longrightarrow> n = [] \<or> detached n h') h"
  unfolding ensureDetached_def
  by (auto simp: io_rules intro!: wp_conseq [OF ensureVolumesDetached_wp])

definition binding_verified :: "pvc \<Rightarrow> ObjectReference \<Rightarrow> 's hist \<Rightarrow> bool" where
  "binding_verified c ref h \<longleftrightarrow> c_Phase c = ClaimBound \<and> s_VolumeName (c_Spec c) = r_Name ref
     \<and> (\<exists>v. seen_pv ref v h \<and> claimRef_is v c
          \<and> ValidateBoundVolumeCapacity (Some c) (Some v) None = Inr ())"

lemma verifyBinding_wp:
  "wp only_reads (verifyBinding w c ref) (\<lambda>r h'. r = Inr () \<longrightarrow> binding_verified c ref h') h"
  unfolding verifyBinding_def
  by (auto simp: io_rules guard_simps binding_verified_def split: sum.splits intro!: io_intros)

subsection \<open>Deleting\<close>

text \<open>A claim may be deleted right after a passed fence check, when it was read with the recorded
  UID and without a blocking finalizer, and with the UID and version of that read as
  preconditions.\<close>

definition delete_guard :: "ObjectReference \<Rightarrow> 's event \<Rightarrow> 's hist \<Rightarrow> bool" where
  "delete_guard ref e h \<longleftrightarrow> is_read e \<or>
     (fenced h \<and> (\<exists>c r. e = EvDeletePVC (r_Namespace ref) (r_Name ref) (r_UID ref) (c_ResourceVersion c) r
        \<and> seen_pvc ref c h \<and> set (c_Finalizers c) \<subseteq> {[], PVCProtectionFinalizer}))"

lemma delete_guard_read [simp]: "is_read e \<Longrightarrow> delete_guard ref e h"
  by (simp add: delete_guard_def)

lemma delete_guardI:
  "fenced h \<Longrightarrow> seen_pvc ref c h \<Longrightarrow> BlockingPVCFinalizers c = [] \<Longrightarrow>
   delete_guard ref (EvDeletePVC (r_Namespace ref) (r_Name ref) (r_UID ref) (c_ResourceVersion c) r) h"
  by (auto simp: delete_guard_def BlockingPVCFinalizers_empty)

lemma deletePVC_wait_wp:
  "wp (delete_guard ref) (deletePVC_wait w ref c)
     (\<lambda>r h'. r = Inr () \<longrightarrow> pvc_gone (r_Namespace ref) (r_Name ref) h') h"
  unfolding deletePVC_wait_def
  by (auto simp: io_rules split: sum.splits intro!: wp_WaitFor io_intros)

lemma deletePVC_wp:
  "wp (delete_guard ref) (deletePVC w ref)
     (\<lambda>r h'. r = Inr () \<longrightarrow> pvc_gone (r_Namespace ref) (r_Name ref) h') h"
  unfolding deletePVC_def validatePVCDeletionFinalizers_def
  by (auto simp: io_rules split: sum.splits
      intro!: io_intros deletePVC_wait_wp delete_guardI)

subsection \<open>Writing volumes\<close>

text \<open>A volume update follows a passed fence check and writes \<open>f v\<close> for a volume \<open>v\<close> that was
  read with the recorded UID and that no other session owns.\<close>

definition pv_update_guard ::
    "ObjectReference \<Rightarrow> string \<Rightarrow> (pv \<Rightarrow> pv) \<Rightarrow> 's event \<Rightarrow> 's hist \<Rightarrow> bool" where
  "pv_update_guard ref sid f e h \<longleftrightarrow> is_read e \<or>
     (fenced h \<and> (\<exists>v r. e = EvUpdatePV (f v) r \<and> seen_pv ref v h \<and> \<not> owned_elsewhere (v_Labels v) sid))"

lemma pv_update_guard_read [simp]: "is_read e \<Longrightarrow> pv_update_guard ref sid f e h"
  by (simp add: pv_update_guard_def)

lemma pv_update_guardI:
  "fenced h \<Longrightarrow> seen_pv ref v h \<Longrightarrow> \<not> owned_elsewhere (v_Labels v) sid \<Longrightarrow>
   pv_update_guard ref sid f (EvUpdatePV (f v) r) h"
  by (auto simp: pv_update_guard_def)

lemma write_reservation_wp:
  "seen_pv ref v h \<Longrightarrow> \<not> owned_elsewhere (v_Labels v) sid \<Longrightarrow>
   wp (pv_update_guard ref sid (reserved_pv ns claim)) (write_reservation w v ns claim) (\<lambda>_ _. True) h"
  unfolding write_reservation_def
  by (auto simp: io_rules split: sum.splits intro!: io_intros pv_update_guardI)

lemma updatePVReservation_wp:
  "wp (pv_update_guard ref sid (reserved_pv ns claim)) (updatePVReservation w ref ns claim sid)
     (\<lambda>_ _. True) h"
  unfolding updatePVReservation_def
  by (auto simp: io_rules split: sum.splits intro!: io_intros wp_conseq [OF write_reservation_wp])

lemma reservePV_wp:
  assumes "retry_contract w"
  shows "wp (pv_update_guard ref sid (reserved_pv ns claim)) (reservePV w ref ns claim sid)
    (\<lambda>_ _. True) h"
  unfolding reservePV_def waitForPVReservation_def pvReadyForReservation_def
  by (auto simp: io_rules split: sum.splits
      intro!: wp_WaitFor io_intros wp_conseq [OF wp_retry [OF assms updatePVReservation_wp]])

text \<open>What marking, pinning and pairing do to a volume.\<close>

lemma markPVSession_get [simp]:
  "mget (fst (markPVSession m sid role)) SessionKey = sid"
  by (auto simp: markPVSession_def)

lemma markPVSession_unchanged: "\<not> snd (markPVSession m sid role) \<Longrightarrow> fst (markPVSession m sid role) = m"
  by (auto simp: markPVSession_def split: if_splits)

lemma marked_pv_simps [simp]:
  "mget (v_Labels (fst (marked_pv sid role v))) SessionKey = sid"
  "v_UID (fst (marked_pv sid role v)) = v_UID v"
  "v_Annotations (fst (marked_pv sid role v)) = v_Annotations v"
  "v_ReclaimPolicy (fst (marked_pv sid role v)) = v_ReclaimPolicy v"
  "v_ClaimRef (fst (marked_pv sid role v)) = v_ClaimRef v"
  "v_Name (fst (marked_pv sid role v)) = v_Name v"
  "v_ResourceVersion (fst (marked_pv sid role v)) = v_ResourceVersion v"
  by (simp_all add: marked_pv_def case_prod_beta)

lemma marked_pv_unchanged: "\<not> snd (marked_pv sid role v) \<Longrightarrow> fst (marked_pv sid role v) = v"
  using markPVSession_unchanged [of "v_Labels v" sid role]
  by (auto simp: marked_pv_def split: prod.splits)

lemma pin_policy_simps [simp]:
  "v_ReclaimPolicy (fst (pin_policy vc)) = ReclaimRetain"
  "v_Labels (fst (pin_policy vc)) = v_Labels (fst vc)"
  "v_UID (fst (pin_policy vc)) = v_UID (fst vc)"
  "v_ClaimRef (fst (pin_policy vc)) = v_ClaimRef (fst vc)"
  "v_Name (fst (pin_policy vc)) = v_Name (fst vc)"
  "v_ResourceVersion (fst (pin_policy vc)) = v_ResourceVersion (fst vc)"
  by (auto simp: pin_policy_def Let_def split: prod.splits)

lemma pin_policy_unchanged: "\<not> snd (pin_policy vc) \<Longrightarrow> fst (pin_policy vc) = fst vc \<and> \<not> snd vc"
  by (auto simp: pin_policy_def Let_def split: prod.splits if_splits)

lemma pin_policy_original:
  "mget (v_Annotations (fst (pin_policy vc))) OriginalPolicyAnnotation =
     (if mget (v_Annotations (fst vc)) OriginalPolicyAnnotation = []
      then v_ReclaimPolicy (fst vc)
      else mget (v_Annotations (fst vc)) OriginalPolicyAnnotation)"
  by (auto simp: pin_policy_def Let_def split: prod.splits)

text \<open>The volume is known to be retained by the session: it was read so, or a write to that effect
  succeeded.\<close>

definition retained :: "ObjectReference \<Rightarrow> string \<Rightarrow> 's hist \<Rightarrow> bool" where
  "retained ref sid h \<longleftrightarrow>
     (\<exists>v. (EvGetPV (r_Name ref) (Inr v) \<in> set h \<or> (\<exists>r. EvUpdatePV v (Inr r) \<in> set h))
        \<and> v_UID v = r_UID ref \<and> v_ReclaimPolicy v = ReclaimRetain
        \<and> mget (v_Labels v) SessionKey = sid)"

lemma retained_mono: "suffix h h' \<Longrightarrow> retained ref sid h \<Longrightarrow> retained ref sid h'"
  using set_mono_suffix [of h h'] by (auto simp: retained_def)

lemma retained_check [simp]: "retained ref sid (EvCheck c f # h) = retained ref sid h"
  by (auto simp: retained_def)

lemma retainedI:
  "v_UID v = r_UID ref \<Longrightarrow> v_ReclaimPolicy v = ReclaimRetain \<Longrightarrow> mget (v_Labels v) SessionKey = sid
    \<Longrightarrow> retained ref sid (EvGetPV (r_Name ref) (Inr v) # h)"
  "v_UID v = r_UID ref \<Longrightarrow> v_ReclaimPolicy v = ReclaimRetain \<Longrightarrow> mget (v_Labels v) SessionKey = sid
    \<Longrightarrow> retained ref sid (EvUpdatePV v (Inr r) # h)"
  by (auto simp: retained_def)

lemma write_pv_if_changed_wp:
  assumes "v_UID v = r_UID ref" and "\<not> owned_elsewhere (v_Labels v) sid"
    and "\<not> snd (f v) \<Longrightarrow> fst (f v) = v" and "v_ReclaimPolicy (fst (f v)) = ReclaimRetain"
    and "mget (v_Labels (fst (f v))) SessionKey = sid" and "v_UID (fst (f v)) = v_UID v"
  shows "wp (pv_update_guard ref sid (\<lambda>v. fst (f v))) (write_pv_if_changed w (f v))
    (\<lambda>r h'. r = Inr () \<longrightarrow> retained ref sid h') (EvGetPV (r_Name ref) (Inr v) # h)"
  using assms unfolding write_pv_if_changed_def
  by (auto simp: io_rules split: sum.splits
      intro!: io_intros pv_update_guardI [where f = "\<lambda>v. fst (f v)"] retainedI)

lemma retain_pv_facts:
  "v_ReclaimPolicy (fst (retain_pv sid role v)) = ReclaimRetain"
  "mget (v_Labels (fst (retain_pv sid role v))) SessionKey = sid"
  "v_UID (fst (retain_pv sid role v)) = v_UID v"
  "v_ClaimRef (fst (retain_pv sid role v)) = v_ClaimRef v"
  "\<not> snd (retain_pv sid role v) \<Longrightarrow> fst (retain_pv sid role v) = v"
  by (auto simp: retain_pv_def dest!: pin_policy_unchanged marked_pv_unchanged)

lemma pair_pv_facts:
  "v_ReclaimPolicy (fst (pair_pv sid role other v)) = ReclaimRetain"
  "mget (v_Labels (fst (pair_pv sid role other v))) SessionKey = sid"
  "v_UID (fst (pair_pv sid role other v)) = v_UID v"
  "v_ClaimRef (fst (pair_pv sid role other v)) = v_ClaimRef v"
  "\<not> snd (pair_pv sid role other v) \<Longrightarrow> fst (pair_pv sid role other v) = v"
  using marked_pv_unchanged [of sid role v] marked_pv_simps [of sid role v]
  by (auto simp: pair_pv_def case_prod_beta dest!: pin_policy_unchanged split: if_splits)

lemma retain_attempt_wp:
  "wp (pv_update_guard ref sid (\<lambda>v. fst (retain_pv sid role v))) (retain_attempt w ref sid role)
     (\<lambda>r h'. r = Inr () \<longrightarrow> retained ref sid h') h"
  unfolding retain_attempt_def
  by (auto simp: io_rules retain_pv_facts split: sum.splits
      intro!: io_intros write_pv_if_changed_wp)

lemma wrap_unless_conflict_ok [simp]: "wrap_unless_conflict op r = Inr () \<longleftrightarrow> r = Inr ()"
  by (cases r) (auto simp: wrap_unless_conflict_def)

lemma ensureRetain_wp:
  assumes "retry_contract w"
  shows "wp (pv_update_guard ref sid (\<lambda>v. fst (retain_pv sid role v))) (ensureRetain w ref sid role)
     (\<lambda>r h'. r = Inr () \<longrightarrow> retained ref sid h') h"
  unfolding ensureRetain_def
  by (auto simp: io_rules intro!: wp_conseq [OF wp_retry [OF assms retain_attempt_wp]])

text \<open>Pairing: both volumes end up retained, except that a rollback volume may be gone.\<close>

definition pv_gone :: "ObjectReference \<Rightarrow> 's hist \<Rightarrow> bool" where
  "pv_gone ref h \<longleftrightarrow> (\<exists>e. EvGetPV (r_Name ref) (Inl e) \<in> set h \<and> IsNotFound e)"

lemma pv_gone_mono: "suffix h h' \<Longrightarrow> pv_gone ref h \<Longrightarrow> pv_gone ref h'"
  using set_mono_suffix [of h h'] by (auto simp: pv_gone_def)

lemma pair_attempt_wp:
  "wp (pv_update_guard ref sid (\<lambda>v. fst (pair_pv sid role other v)))
     (pair_attempt w sid rolledBack ref role other)
     (\<lambda>r h'. r = Inr () \<longrightarrow> retained ref sid h'
        \<or> (rolledBack \<and> role = ResourceRoleRollback \<and> pv_gone ref h')) h"
  unfolding pair_attempt_def
  by (auto simp: io_rules pair_pv_facts pv_gone_def split: sum.splits
      intro!: io_intros wp_conseq [OF write_pv_if_changed_wp])

definition pair_guard ::
    "string \<Rightarrow> ObjectReference \<Rightarrow> ObjectReference \<Rightarrow> 's event \<Rightarrow> 's hist \<Rightarrow> bool" where
  "pair_guard sid src dst e h \<longleftrightarrow>
     (\<exists>ref\<in>{src, dst}. \<exists>role other. pv_update_guard ref sid (\<lambda>v. fst (pair_pv sid role other v)) e h)"

lemma pair_guardI:
  "pv_update_guard src sid (\<lambda>v. fst (pair_pv sid role other v)) e h \<Longrightarrow> pair_guard sid src dst e h"
  "pv_update_guard dst sid (\<lambda>v. fst (pair_pv sid role other v)) e h \<Longrightarrow> pair_guard sid src dst e h"
  by (auto simp: pair_guard_def)

lemma role_distinct [simp]:
  "ResourceRoleActive \<noteq> ResourceRoleRollback" "ResourceRoleActive \<noteq> []" "ResourceRoleRollback \<noteq> []"
  "ResourceRoleSource \<noteq> []" "ResourceRoleDestination \<noteq> []" "ResourceRoleRename \<noteq> []"
  by (simp_all add: ResourceRoleActive_def ResourceRoleRollback_def ResourceRoleSource_def
      ResourceRoleDestination_def ResourceRoleRename_def)

definition pair_marked ::
    "string \<Rightarrow> ObjectReference \<Rightarrow> ObjectReference \<Rightarrow> bool \<Rightarrow> 's hist \<Rightarrow> bool" where
  "pair_marked sid src dst rolledBack h \<longleftrightarrow>
     (if rolledBack then retained src sid h \<and> (retained dst sid h \<or> pv_gone dst h)
      else retained src sid h \<and> retained dst sid h)"

lemma markPVPair_wp:
  assumes "retry_contract w"
  shows "wp (pair_guard sid src dst) (markPVPair w sid src dst rolledBack)
    (\<lambda>r h'. r = Inr () \<longrightarrow> pair_marked sid src dst rolledBack h') h"
proof -
  note pair = wp_conseq [OF wp_retry [OF assms pair_attempt_wp]]
  show ?thesis
    unfolding markPVPair_def Let_def
    by (cases rolledBack)
       (auto simp: io_rules pair_marked_def intro!: pair split: sum.splits;
        blast intro: pair_guardI retained_mono pv_gone_mono)+
qed

end
