(* ===== verification/Activation.thy ===== *)
theory Activation
  imports Binding
begin

text \<open>
  Cutting a claim over to its prepared destination volume
  (\<^verbatim>\<open>internal/kube/switcher_activation.go\<close> and \<^verbatim>\<open>switcher_active_pvc.go\<close>). The activation
  status is the checkpoint of the operation; it is saved through a progress callback after each
  step and put back when the save fails.
\<close>

section \<open>Data\<close>

record PVCTransferBindings =
  b_SourcePVC :: ObjectReference
  b_SourcePV :: ObjectReference
  b_DestinationPVC :: ObjectReference
  b_DestinationPV :: ObjectReference

record ClusterVolumeActivationStatus =
  a_TemporaryPVCDeleted :: bool
  a_SourcePVCDeleted :: bool
  a_DestinationReserved :: bool
  a_ActivePVC :: "ObjectReference option"
  a_ActivatedAt :: "instant option"
  a_RolledBackAt :: "instant option"

type_synonym act = ClusterVolumeActivationStatus

section \<open>Creating the bound claim\<close>

definition activePVC ::
    "'s world \<Rightarrow> string \<Rightarrow> string \<Rightarrow> ObjectReference \<Rightarrow> ObjectReference \<Rightarrow> ObjectReference
      \<Rightarrow> (pvc option res, 's) io" where
  "activePVC w sid activateNamespace sourcePVC sourcePV destinationPV =
     io_bind (get_pvc w activateNamespace (r_Name sourcePVC)) (\<lambda>g. case g of
       Inl err \<Rightarrow>
         if IsNotFound err then io_ret (Inr None)
         else io_ret (Inl (WrapError ErrorKubernetes OpActivateVolume err))
     | Inr c \<Rightarrow>
         if c_UID c = r_UID sourcePVC \<and> s_VolumeName (c_Spec c) = r_Name sourcePV
         then io_try (verifyBinding w c sourcePV) (\<lambda>_. io_ret (Inr None))
         else if s_VolumeName (c_Spec c) = r_Name destinationPV
                 \<and> mget (c_Annotations c) SessionKey = sid
         then io_ret (Inr (Some c))
         else io_ret (Inl (NewError ErrorConflict OpActivateVolume)))"

definition owned_claim :: "string \<Rightarrow> pvc \<Rightarrow> bool" where
  "owned_claim sid c \<longleftrightarrow> mget (c_Labels c) ManagedByLabel = ManagedByValue
     \<and> mget (c_Labels c) SessionKey = sid \<and> mget (c_Annotations c) SessionKey = sid"

definition createBoundPVC :: "'s world \<Rightarrow> string \<Rightarrow> pvc \<Rightarrow> (pvc res, 's) io" where
  "createBoundPVC w sid c =
     io_try (fence_check w) (\<lambda>_.
     io_bind (io_bind (create_pvc w False c) (\<lambda>r. case r of
        Inl err \<Rightarrow> if IsAlreadyExists err then get_pvc w (c_Namespace c) (c_Name c) else io_ret (Inl err)
      | Inr created \<Rightarrow> io_ret (Inr created))) (\<lambda>r. case r of
       Inl err \<Rightarrow> io_ret (Inl (WrapError ErrorKubernetes OpCreateActivePVC err))
     | Inr created \<Rightarrow>
       io_try (fence_check w) (\<lambda>_.
         if c_UID created = [] then io_ret (Inl (NewError ErrorKubernetes OpCreateActivePVC))
         else if s_VolumeName (c_Spec created) \<noteq> s_VolumeName (c_Spec c) \<or> \<not> owned_claim sid created
         then io_ret (Inl (NewError ErrorConflict OpCreateActivePVC))
         else WaitFor w switcher_poll
           (io_try (get_pvc w (c_Namespace created) (c_Name created)) (\<lambda>current.
              if c_UID current \<noteq> c_UID created
              then io_ret (Inl (NewError ErrorConflict OpCreateActivePVC))
              else if \<not> owned_claim sid current
              then io_ret (Inl (NewError ErrorConflict OpCreateActivePVC))
              else if s_VolumeName (c_Spec current) \<noteq> s_VolumeName (c_Spec c)
              then io_ret (Inl (NewError ErrorConflict OpCreateActivePVC))
              else io_ret (Inr (if c_Phase current = ClaimBound then Some current else None)))))))"

definition validateBoundPVC :: "'s world \<Rightarrow> pvc \<Rightarrow> (unit res, 's) io" where
  "validateBoundPVC w c =
     io_bind (create_pvc w True c) (\<lambda>r. case r of
       Inl err \<Rightarrow> io_ret (Inl (WrapError ErrorPrecondition OpValidateActivePVC err))
     | Inr _ \<Rightarrow> io_ret (Inr ()))"

definition BoundPVCManifest ::
    "string \<Rightarrow> ObjectReference \<Rightarrow> string \<Rightarrow> PVCSpec \<Rightarrow> PVCMetadata \<Rightarrow> pvc" where
  "BoundPVCManifest sid claim pvName sourceSpec metadata =
     \<lparr>c_Namespace = r_Namespace claim,
      c_Name = r_Name claim,
      c_UID = [],
      c_ResourceVersion = [],
      c_Labels = (m_Labels metadata)(ManagedByLabel \<mapsto> ManagedByValue, SessionKey \<mapsto> sid),
      c_Annotations = (PVCAnnotationsForRecreation (m_Annotations metadata))(SessionKey \<mapsto> sid),
      c_Finalizers = [],
      c_OwnerReferences = m_OwnerReferences metadata,
      c_DeletionTimestamp = None,
      c_Spec = sourceSpec\<lparr>s_VolumeName := pvName, s_Selector := None, s_DataSource := None,
         s_DataSourceRef := None,
         s_StorageClassName :=
           (case s_StorageClassName sourceSpec of None \<Rightarrow> Some [] | Some sc \<Rightarrow> Some sc)\<rparr>,
      c_Phase = ClaimPending,
      c_AllocatedStorage = None,
      c_CurrentVolumeAttributesClassName = None,
      c_TargetVolumeAttributesClassName = None\<rparr>"

definition validateActivePVCRequest :: "'s world \<Rightarrow> pvc option \<Rightarrow> string \<Rightarrow> unit res" where
  "validateActivePVCRequest w c requiredCapacity =
     (case c of None \<Rightarrow> Inl (NewError ErrorValidation OpActivePVC)
      | Some claim \<Rightarrow>
        (case w_parse_quantity w requiredCapacity of
           None \<Rightarrow> Inl (NewError ErrorValidation OpActivePVC)
         | Some capacity \<Rightarrow>
             if capacity \<le> 0 then Inl (NewError ErrorValidation OpActivePVC)
             else if s_StorageRequest (c_Spec claim) \<noteq> Some capacity
             then Inl (NewError ErrorConflict OpActivePVC)
             else Inr ()))"

text \<open>\<^verbatim>\<open>Requests[storage]\<close> of a claim, the zero quantity when it is missing.\<close>

definition storage_request :: "pvc \<Rightarrow> quantity" where
  "storage_request c = (case s_StorageRequest (c_Spec c) of None \<Rightarrow> 0 | Some q \<Rightarrow> q)"

section \<open>Checkpoints\<close>

definition saveActivationCheckpoint ::
    "'s world \<Rightarrow> act \<Rightarrow> act \<Rightarrow> (act, 's) progress \<Rightarrow> (act \<times> unit res, 's) io" where
  "saveActivationCheckpoint w status previous progress =
     io_bind (io_try (fence_check w) (\<lambda>_. callProgress progress status)) (\<lambda>r.
       case r of Inl err \<Rightarrow> io_ret (previous, Inl err) | Inr _ \<Rightarrow> io_ret (status, Inr ()))"

definition completeActivation ::
    "'s world \<Rightarrow> string \<Rightarrow> PVCTransferBindings \<Rightarrow> pvc \<Rightarrow> act \<Rightarrow> pvc \<Rightarrow> (act, 's) progress
      \<Rightarrow> (act \<times> unit res, 's) io" where
  "completeActivation w sid volume desired status c progress =
     io_try_st status
       (io_ret (validateActivePVCRequest w (Some c) (w_quantity_string w (storage_request desired)))) (\<lambda>_.
     io_try_st status (verifyBinding w c (b_DestinationPV volume)) (\<lambda>_.
     io_try_st status (markPVPair w sid (b_SourcePV volume) (b_DestinationPV volume) False) (\<lambda>_.
     io_bind (io_now w) (\<lambda>now.
     saveActivationCheckpoint w
       (status\<lparr>a_ActivePVC := Some (PVCReference c), a_ActivatedAt := Some now,
          a_TemporaryPVCDeleted := True, a_SourcePVCDeleted := True,
          a_DestinationReserved := True\<rparr>)
       status progress))))"

definition completeRollback ::
    "'s world \<Rightarrow> string \<Rightarrow> PVCTransferBindings \<Rightarrow> act \<Rightarrow> pvc \<Rightarrow> (act, 's) progress
      \<Rightarrow> (act \<times> unit res, 's) io" where
  "completeRollback w sid volume status c progress =
     io_try_st status (verifyBinding w c (b_SourcePV volume)) (\<lambda>_.
     io_try_st status (markPVPair w sid (b_SourcePV volume) (b_DestinationPV volume) True) (\<lambda>_.
     io_bind (io_now w) (\<lambda>now.
     saveActivationCheckpoint w
       (status\<lparr>a_ActivePVC := Some (PVCReference c), a_RolledBackAt := Some now\<rparr>)
       status progress)))"

section \<open>Activation\<close>

definition deleteTemporaryActivationPVC ::
    "'s world \<Rightarrow> PVCTransferBindings \<Rightarrow> act \<Rightarrow> (act, 's) progress \<Rightarrow> (act \<times> unit res, 's) io" where
  "deleteTemporaryActivationPVC w volume status progress =
     (if a_TemporaryPVCDeleted status then io_ret (status, Inr ())
      else io_try_st status (deletePVC w (b_DestinationPVC volume)) (\<lambda>_.
           io_try_st status (ensureDetached w (r_Name (b_DestinationPV volume))) (\<lambda>_.
           saveActivationCheckpoint w (status\<lparr>a_TemporaryPVCDeleted := True\<rparr>) status progress)))"

definition deleteSourceActivationPVC ::
    "'s world \<Rightarrow> PVCTransferBindings \<Rightarrow> act \<Rightarrow> (act, 's) progress \<Rightarrow> (act \<times> unit res, 's) io" where
  "deleteSourceActivationPVC w volume status progress =
     (if a_SourcePVCDeleted status then io_ret (status, Inr ())
      else io_try_st status (deletePVC w (b_SourcePVC volume)) (\<lambda>_.
           io_try_st status (ensureDetached w (r_Name (b_SourcePV volume))) (\<lambda>_.
           saveActivationCheckpoint w (status\<lparr>a_SourcePVCDeleted := True\<rparr>) status progress)))"

definition reserveActivationDestination ::
    "'s world \<Rightarrow> string \<Rightarrow> PVCTransferBindings \<Rightarrow> pvc \<Rightarrow> act \<Rightarrow> (act, 's) progress
      \<Rightarrow> (act \<times> unit res, 's) io" where
  "reserveActivationDestination w sid volume desired status progress =
     (if a_DestinationReserved status then io_ret (status, Inr ())
      else io_try_st status (validateBoundPVC w desired) (\<lambda>_.
           io_try_st status
             (reservePV w (b_DestinationPV volume) (c_Namespace desired) (c_Name desired) sid) (\<lambda>_.
           saveActivationCheckpoint w (status\<lparr>a_DestinationReserved := True\<rparr>) status progress)))"

text \<open>The two halves of \<^verbatim>\<open>activateVolumeResources\<close>: the checks, and the cutover itself when no
  active claim exists yet.\<close>

definition activate_cutover ::
    "'s world \<Rightarrow> string \<Rightarrow> PVCTransferBindings \<Rightarrow> pvc \<Rightarrow> act \<Rightarrow> (act, 's) progress
      \<Rightarrow> (act \<times> unit res, 's) io" where
  "activate_cutover w sid volume desired status progress =
     io_then_st (deleteTemporaryActivationPVC w volume status progress) (\<lambda>status _.
     io_then_st (deleteSourceActivationPVC w volume status progress) (\<lambda>status _.
     io_then_st (reserveActivationDestination w sid volume desired status progress) (\<lambda>status _.
     io_try_st status (createBoundPVC w sid desired) (\<lambda>created.
     completeActivation w sid volume desired status created progress))))"

definition activateVolumeResources ::
    "'s world \<Rightarrow> string \<Rightarrow> string \<Rightarrow> PVCTransferBindings \<Rightarrow> pvc \<Rightarrow> act \<Rightarrow> (act, 's) progress
      \<Rightarrow> (act \<times> unit res, 's) io" where
  "activateVolumeResources w sid activateNamespace volume desired status progress =
     io_try_st status
       (ensureNoConsumers w (r_Namespace (b_SourcePVC volume)) (r_Name (b_SourcePVC volume))) (\<lambda>_.
     io_try_st status
       (ensureNoConsumers w (r_Namespace (b_DestinationPVC volume)) (r_Name (b_DestinationPVC volume))) (\<lambda>_.
     io_try_st status (ensureDetached w (r_Name (b_SourcePV volume))) (\<lambda>_.
     io_try_st status (ensureDetached w (r_Name (b_DestinationPV volume))) (\<lambda>_.
     io_try_st status
       (activePVC w sid activateNamespace (b_SourcePVC volume) (b_SourcePV volume)
          (b_DestinationPV volume)) (\<lambda>active.
     case active of
       Some c \<Rightarrow> completeActivation w sid volume desired status c progress
     | None \<Rightarrow>
       io_try_st status (ensureRetain w (b_SourcePV volume) sid ResourceRoleSource) (\<lambda>_.
       io_try_st status (ensureRetain w (b_DestinationPV volume) sid ResourceRoleDestination) (\<lambda>_.
       activate_cutover w sid volume desired status progress)))))))"

definition validateTemporaryActivationPVC ::
    "'s world \<Rightarrow> pvc \<Rightarrow> PVCTransferBindings \<Rightarrow> act \<Rightarrow> (unit res, 's) io" where
  "validateTemporaryActivationPVC w temporaryPVC volume status =
     (if a_TemporaryPVCDeleted status then io_ret (Inl (NewError ErrorConflict OpActivateVolume))
      else if c_UID temporaryPVC \<noteq> r_UID (b_DestinationPVC volume)
      then io_ret (Inl (NewError ErrorConflict OpActivateVolume))
      else verifyBinding w temporaryPVC (b_DestinationPV volume))"

text \<open>The early returns of \<^verbatim>\<open>ActivatePVC\<close> before the first request.\<close>

definition validateActivatePVC ::
    "string \<Rightarrow> string \<Rightarrow> PVCTransferBindings \<Rightarrow> pvc \<Rightarrow> unit res" where
  "validateActivatePVC sid activateNamespace volume desired =
     (if sid = [] \<or> activateNamespace = [] then Inl (NewError ErrorValidation OpActivatePVC)
      else if r_Namespace (b_SourcePVC volume) = [] \<or> r_Name (b_SourcePVC volume) = []
           \<or> r_UID (b_SourcePVC volume) = [] \<or> r_Name (b_SourcePV volume) = []
           \<or> r_UID (b_SourcePV volume) = [] \<or> r_Namespace (b_DestinationPVC volume) = []
           \<or> r_Name (b_DestinationPVC volume) = [] \<or> r_UID (b_DestinationPVC volume) = []
           \<or> r_Name (b_DestinationPV volume) = [] \<or> r_UID (b_DestinationPV volume) = []
      then Inl (NewError ErrorPrecondition OpActivatePVC)
      else if c_Namespace desired \<noteq> activateNamespace \<or> c_Name desired \<noteq> r_Name (b_SourcePVC volume)
           \<or> s_VolumeName (c_Spec desired) \<noteq> r_Name (b_DestinationPV volume)
           \<or> \<not> owned_claim sid desired
      then Inl (NewError ErrorConflict OpActivatePVC)
      else if storage_request desired \<le> 0 then Inl (NewError ErrorValidation OpActivatePVC)
      else Inr ())"

definition ActivatePVC ::
    "'s world \<Rightarrow> string \<Rightarrow> string \<Rightarrow> PVCTransferBindings \<Rightarrow> pvc option \<Rightarrow> act option
      \<Rightarrow> (act, 's) progress \<Rightarrow> (act option \<times> unit res, 's) io" where
  "ActivatePVC w sid activateNamespace volume desired status progress =
     (case (desired, status) of
        (Some d, Some st) \<Rightarrow>
          io_bind
            (io_try_st st (io_ret (validateActivatePVC sid activateNamespace volume d)) (\<lambda>_.
             io_try_st st (fence_check w) (\<lambda>_.
             io_bind (get_pvc w (r_Namespace (b_DestinationPVC volume)) (r_Name (b_DestinationPVC volume))) (\<lambda>g.
             case g of
               Inl err \<Rightarrow>
                 if \<not> IsNotFound err
                 then io_ret (st, Inl (WrapError ErrorKubernetes OpActivatePVC err))
                 else activateVolumeResources w sid activateNamespace volume d st progress
             | Inr temporaryPVC \<Rightarrow>
                 io_try_st st (validateTemporaryActivationPVC w temporaryPVC volume st) (\<lambda>_.
                 activateVolumeResources w sid activateNamespace volume d st progress)))))
            (\<lambda>(st, r). io_ret (Some st, r))
      | _ \<Rightarrow> io_ret (status, Inl (NewError ErrorValidation OpActivatePVC)))"

section \<open>What activation may do\<close>

text \<open>A progress callback writes the workflow record and does not touch claims or volumes.\<close>

definition saves_only :: "('t, 's) progress \<Rightarrow> bool" where
  "saves_only p \<longleftrightarrow> (\<forall>f st h. p = Some f \<longrightarrow> wp (\<lambda>e _. \<not> writes_storage e) (f st) (\<lambda>_ _. True) h)"

text \<open>Before the first delete: no Pod uses either claim, neither volume is attached, and both are
  retained for the session.\<close>

definition cutover_ready :: "string \<Rightarrow> PVCTransferBindings \<Rightarrow> 's hist \<Rightarrow> bool" where
  "cutover_ready sid vol h \<longleftrightarrow>
     no_consumer (r_Namespace (b_SourcePVC vol)) (r_Name (b_SourcePVC vol)) h
   \<and> no_consumer (r_Namespace (b_DestinationPVC vol)) (r_Name (b_DestinationPVC vol)) h
   \<and> (r_Name (b_SourcePV vol) = [] \<or> detached (r_Name (b_SourcePV vol)) h)
   \<and> (r_Name (b_DestinationPV vol) = [] \<or> detached (r_Name (b_DestinationPV vol)) h)
   \<and> retained (b_SourcePV vol) sid h \<and> retained (b_DestinationPV vol) sid h"

text \<open>A claim is retired when the checkpoint the operation started from says so, or when it was
  looked up and not found.\<close>

definition temporary_retired :: "act \<Rightarrow> PVCTransferBindings \<Rightarrow> 's hist \<Rightarrow> bool" where
  "temporary_retired st0 vol h \<longleftrightarrow> a_TemporaryPVCDeleted st0
     \<or> pvc_gone (r_Namespace (b_DestinationPVC vol)) (r_Name (b_DestinationPVC vol)) h"

definition source_retired :: "act \<Rightarrow> PVCTransferBindings \<Rightarrow> 's hist \<Rightarrow> bool" where
  "source_retired st0 vol h \<longleftrightarrow> a_SourcePVCDeleted st0
     \<or> pvc_gone (r_Namespace (b_SourcePVC vol)) (r_Name (b_SourcePVC vol)) h"

definition activation_guard ::
    "string \<Rightarrow> act \<Rightarrow> PVCTransferBindings \<Rightarrow> pvc \<Rightarrow> 's event \<Rightarrow> 's hist \<Rightarrow> bool" where
  "activation_guard sid st0 vol desired e h \<longleftrightarrow>
     \<not> writes_storage e
   \<or> pv_update_guard (b_SourcePV vol) sid (\<lambda>v. fst (retain_pv sid ResourceRoleSource v)) e h
   \<or> pv_update_guard (b_DestinationPV vol) sid (\<lambda>v. fst (retain_pv sid ResourceRoleDestination v)) e h
   \<or> pair_guard sid (b_SourcePV vol) (b_DestinationPV vol) e h
   \<or> (cutover_ready sid vol h \<and>
       (delete_guard (b_DestinationPVC vol) e h
      \<or> (temporary_retired st0 vol h \<and>
          (delete_guard (b_SourcePVC vol) e h
         \<or> (source_retired st0 vol h \<and>
             (pv_update_guard (b_DestinationPV vol) sid (reserved_pv (c_Namespace desired) (c_Name desired)) e h
            \<or> (fenced h \<and> (\<exists>r. e = EvCreatePVC False desired r))))))))"

lemma activation_guard_quiet [simp]:
  "\<not> writes_storage e \<Longrightarrow> activation_guard sid st0 vol desired e h"
  "is_read e \<Longrightarrow> activation_guard sid st0 vol desired e h"
  by (simp_all add: activation_guard_def is_read_no_write)

lemma activation_guard_retain:
  "pv_update_guard (b_SourcePV vol) sid (\<lambda>v. fst (retain_pv sid ResourceRoleSource v)) e h
     \<Longrightarrow> activation_guard sid st0 vol desired e h"
  "pv_update_guard (b_DestinationPV vol) sid (\<lambda>v. fst (retain_pv sid ResourceRoleDestination v)) e h
     \<Longrightarrow> activation_guard sid st0 vol desired e h"
  "pair_guard sid (b_SourcePV vol) (b_DestinationPV vol) e h \<Longrightarrow> activation_guard sid st0 vol desired e h"
  by (simp_all add: activation_guard_def)

lemma activation_guard_cutover:
  assumes "cutover_ready sid vol h"
  shows "delete_guard (b_DestinationPVC vol) e h \<Longrightarrow> activation_guard sid st0 vol desired e h"
    and "temporary_retired st0 vol h \<Longrightarrow> delete_guard (b_SourcePVC vol) e h
      \<Longrightarrow> activation_guard sid st0 vol desired e h"
    and "temporary_retired st0 vol h \<Longrightarrow> source_retired st0 vol h
      \<Longrightarrow> pv_update_guard (b_DestinationPV vol) sid (reserved_pv (c_Namespace desired) (c_Name desired)) e h
      \<Longrightarrow> activation_guard sid st0 vol desired e h"
    and "temporary_retired st0 vol h \<Longrightarrow> source_retired st0 vol h \<Longrightarrow> fenced h
      \<Longrightarrow> activation_guard sid st0 vol desired (EvCreatePVC False desired r) h"
  using assms by (auto simp: activation_guard_def)

lemma cutover_mono:
  assumes "suffix h h'"
  shows "cutover_ready sid vol h \<Longrightarrow> cutover_ready sid vol h'"
    "temporary_retired st0 vol h \<Longrightarrow> temporary_retired st0 vol h'"
    "source_retired st0 vol h \<Longrightarrow> source_retired st0 vol h'"
  using history_facts_mono [OF assms] retained_mono [OF assms]
  by (auto simp: cutover_ready_def temporary_retired_def source_retired_def)

text \<open>The claim recorded as active: bound to the destination volume, which like the source is
  retained and paired.\<close>

definition activated :: "string \<Rightarrow> PVCTransferBindings \<Rightarrow> act \<Rightarrow> 's hist \<Rightarrow> bool" where
  "activated sid vol st h \<longleftrightarrow>
     (\<exists>c t. a_ActivePVC st = Some (PVCReference c) \<and> binding_verified c (b_DestinationPV vol) h
        \<and> pair_marked sid (b_SourcePV vol) (b_DestinationPV vol) False h
        \<and> a_ActivatedAt st = Some t)
     \<and> a_TemporaryPVCDeleted st \<and> a_SourcePVCDeleted st \<and> a_DestinationReserved st"

text \<open>Every checkpoint that is set was set before, or has its evidence in the history.\<close>

definition checkpoint_progress ::
    "act \<Rightarrow> PVCTransferBindings \<Rightarrow> act \<Rightarrow> 's hist \<Rightarrow> bool" where
  "checkpoint_progress st0 vol st h \<longleftrightarrow>
     a_ActivePVC st = a_ActivePVC st0 \<and> a_ActivatedAt st = a_ActivatedAt st0
   \<and> a_RolledBackAt st = a_RolledBackAt st0
   \<and> (a_TemporaryPVCDeleted st0 \<longrightarrow> a_TemporaryPVCDeleted st)
   \<and> (a_SourcePVCDeleted st0 \<longrightarrow> a_SourcePVCDeleted st)
   \<and> (a_DestinationReserved st0 \<longrightarrow> a_DestinationReserved st)
   \<and> (a_TemporaryPVCDeleted st \<longrightarrow> temporary_retired st0 vol h)
   \<and> (a_SourcePVCDeleted st \<longrightarrow> source_retired st0 vol h)"

lemma checkpoint_progress_refl: "checkpoint_progress st0 vol st0 h"
  by (simp add: checkpoint_progress_def temporary_retired_def source_retired_def)

lemma checkpoint_progress_mono:
  "suffix h h' \<Longrightarrow> checkpoint_progress st0 vol st h \<Longrightarrow> checkpoint_progress st0 vol st h'"
  by (auto simp: checkpoint_progress_def intro: cutover_mono)

lemma binding_verified_mono: "suffix h h' \<Longrightarrow> binding_verified c ref h \<Longrightarrow> binding_verified c ref h'"
  by (auto simp: binding_verified_def intro: history_facts_mono)

lemma pair_marked_mono: "suffix h h' \<Longrightarrow> pair_marked sid s d b h \<Longrightarrow> pair_marked sid s d b h'"
  by (auto simp: pair_marked_def intro: retained_mono pv_gone_mono split: if_splits)

lemma callProgress_wp: "saves_only p \<Longrightarrow> wp (\<lambda>e _. \<not> writes_storage e) (callProgress p st) (\<lambda>_ _. True) h"
  by (cases p) (auto simp: callProgress_def saves_only_def io_rules)

lemma saveActivationCheckpoint_wp:
  assumes "saves_only p"
  shows "wp (\<lambda>e _. \<not> writes_storage e) (saveActivationCheckpoint w st prev p)
    (\<lambda>(st', r) h'. if r = Inr () then st' = st else st' = prev) h"
  unfolding saveActivationCheckpoint_def
  by (auto simp: io_rules split: sum.splits intro!: io_intros wp_conseq [OF callProgress_wp [OF assms]])

lemma activatedI:
  "binding_verified c (b_DestinationPV vol) h1 \<Longrightarrow> suffix h1 h2 \<Longrightarrow>
   pair_marked sid (b_SourcePV vol) (b_DestinationPV vol) False h2 \<Longrightarrow> suffix h2 h \<Longrightarrow>
   activated sid vol (st\<lparr>a_ActivePVC := Some (PVCReference c), a_ActivatedAt := Some now,
     a_TemporaryPVCDeleted := True, a_SourcePVCDeleted := True, a_DestinationReserved := True\<rparr>) h"
  by (force simp: activated_def intro: binding_verified_mono pair_marked_mono suffix_order.trans)

lemmas mono_rules = suffix_order.trans cutover_mono checkpoint_progress_mono retained_mono
  history_facts_mono binding_verified_mono pair_marked_mono

lemma completeActivation_wp:
  assumes w: "retry_contract w" and p: "saves_only p" and st: "checkpoint_progress st0 vol st h"
  shows "wp (activation_guard sid st0 vol desired) (completeActivation w sid vol desired st c p)
    (\<lambda>(st', r) h'. if r = Inr () then activated sid vol st' h' else checkpoint_progress st0 vol st' h') h"
proof -
  note calls = wp_conseq [OF verifyBinding_wp] wp_conseq [OF markPVPair_wp [OF w]]
    wp_conseq [OF saveActivationCheckpoint_wp [OF p]]
  show ?thesis
    unfolding completeActivation_def
    by (auto simp: io_rules guard_simps split: sum.splits if_splits intro!: calls activatedI)
       (blast intro: activation_guard_retain mono_rules st)+
qed

lemma progress_retired:
  "checkpoint_progress st0 vol st h \<Longrightarrow> a_TemporaryPVCDeleted st \<Longrightarrow> temporary_retired st0 vol h"
  "checkpoint_progress st0 vol st h \<Longrightarrow> a_SourcePVCDeleted st \<Longrightarrow> source_retired st0 vol h"
  by (simp_all add: checkpoint_progress_def)

lemma progress_update:
  "checkpoint_progress st0 vol st h \<Longrightarrow> temporary_retired st0 vol h \<Longrightarrow>
   checkpoint_progress st0 vol (st\<lparr>a_TemporaryPVCDeleted := True\<rparr>) h"
  "checkpoint_progress st0 vol st h \<Longrightarrow> source_retired st0 vol h \<Longrightarrow>
   checkpoint_progress st0 vol (st\<lparr>a_SourcePVCDeleted := True\<rparr>) h"
  "checkpoint_progress st0 vol st h \<Longrightarrow>
   checkpoint_progress st0 vol (st\<lparr>a_DestinationReserved := True\<rparr>) h"
  by (simp_all add: checkpoint_progress_def)

lemma retiredI:
  "pvc_gone (r_Namespace (b_DestinationPVC vol)) (r_Name (b_DestinationPVC vol)) h \<Longrightarrow>
     temporary_retired st0 vol h"
  "pvc_gone (r_Namespace (b_SourcePVC vol)) (r_Name (b_SourcePVC vol)) h \<Longrightarrow> source_retired st0 vol h"
  by (simp_all add: temporary_retired_def source_retired_def)

lemma deleteTemporaryActivationPVC_wp:
  assumes p: "saves_only p" and st: "checkpoint_progress st0 vol st h" and ready: "cutover_ready sid vol h"
  shows "wp (activation_guard sid st0 vol desired) (deleteTemporaryActivationPVC w vol st p)
    (\<lambda>(st', r) h'. checkpoint_progress st0 vol st' h' \<and> (r = Inr () \<longrightarrow> temporary_retired st0 vol h')) h"
proof -
  note calls = wp_conseq [OF deletePVC_wp] wp_conseq [OF ensureDetached_wp]
    wp_conseq [OF saveActivationCheckpoint_wp [OF p]]
  show ?thesis
    unfolding deleteTemporaryActivationPVC_def
    by (auto simp: io_rules guard_simps split: sum.splits if_splits intro!: calls progress_update)
       (blast intro: activation_guard_cutover mono_rules st ready retiredI progress_retired)+
qed

lemma deleteSourceActivationPVC_wp:
  assumes p: "saves_only p" and st: "checkpoint_progress st0 vol st h" and ready: "cutover_ready sid vol h"
    and temporary: "temporary_retired st0 vol h"
  shows "wp (activation_guard sid st0 vol desired) (deleteSourceActivationPVC w vol st p)
    (\<lambda>(st', r) h'. checkpoint_progress st0 vol st' h' \<and> (r = Inr () \<longrightarrow> source_retired st0 vol h')) h"
proof -
  note calls = wp_conseq [OF deletePVC_wp] wp_conseq [OF ensureDetached_wp]
    wp_conseq [OF saveActivationCheckpoint_wp [OF p]]
  show ?thesis
    unfolding deleteSourceActivationPVC_def
    by (auto simp: io_rules guard_simps split: sum.splits if_splits intro!: calls progress_update)
       (blast intro: activation_guard_cutover mono_rules st ready temporary retiredI progress_retired)+
qed

lemma validateBoundPVC_wp: "wp only_reads (validateBoundPVC w c) (\<lambda>_ _. True) h"
  unfolding validateBoundPVC_def
  by (auto simp: io_rules guard_simps split: sum.splits intro!: io_intros)

lemma reserveActivationDestination_wp:
  assumes w: "retry_contract w" and p: "saves_only p" and st: "checkpoint_progress st0 vol st h"
    and ready: "cutover_ready sid vol h"
    and retired: "temporary_retired st0 vol h" "source_retired st0 vol h"
  shows "wp (activation_guard sid st0 vol desired) (reserveActivationDestination w sid vol desired st p)
    (\<lambda>(st', r) h'. checkpoint_progress st0 vol st' h') h"
proof -
  note calls = wp_conseq [OF validateBoundPVC_wp] wp_conseq [OF reservePV_wp [OF w]]
    wp_conseq [OF saveActivationCheckpoint_wp [OF p]]
  show ?thesis
    unfolding reserveActivationDestination_def
    by (auto simp: io_rules guard_simps st split: sum.splits if_splits intro!: calls progress_update)
       (blast intro: activation_guard_cutover mono_rules st ready retired)+
qed

text \<open>The only write of \<^verbatim>\<open>createBoundPVC\<close> is the fenced create; what it returns is a claim that was
  read Bound, with the wanted volume and the session's marks.\<close>

definition create_guard :: "pvc \<Rightarrow> 's event \<Rightarrow> 's hist \<Rightarrow> bool" where
  "create_guard c e h \<longleftrightarrow> is_read e \<or> (fenced h \<and> (\<exists>r. e = EvCreatePVC False c r))"

lemma create_guard_simps [simp]:
  "is_read e \<Longrightarrow> create_guard c e h"
  "create_guard c (EvCreatePVC False c' r) h \<longleftrightarrow> fenced h \<and> c' = c"
  by (auto simp: create_guard_def)

definition bound_claim :: "string \<Rightarrow> pvc \<Rightarrow> pvc \<Rightarrow> 's hist \<Rightarrow> bool" where
  "bound_claim sid c b h \<longleftrightarrow> c_Phase b = ClaimBound \<and> owned_claim sid b
     \<and> s_VolumeName (c_Spec b) = s_VolumeName (c_Spec c) \<and> (\<exists>ns n. EvGetPVC ns n (Inr b) \<in> set h)"

lemma bound_claimI:
  "c_Phase b = ClaimBound \<Longrightarrow> owned_claim sid b \<Longrightarrow> s_VolumeName (c_Spec b) = s_VolumeName (c_Spec c) \<Longrightarrow>
   bound_claim sid c b (EvGetPVC ns n (Inr b) # h)"
  by (auto simp: bound_claim_def)

lemma createBoundPVC_wp:
  "wp (create_guard c) (createBoundPVC w sid c) (\<lambda>r h'. \<forall>b. r = Inr b \<longrightarrow> bound_claim sid c b h') h"
  unfolding createBoundPVC_def
  by (auto simp: io_rules split: sum.splits if_splits intro!: wp_WaitFor io_intros bound_claimI)

lemma activePVC_wp:
  "wp only_reads (activePVC w sid ns sp sv dv) (\<lambda>_ _. True) h"
  unfolding activePVC_def
  by (auto simp: io_rules guard_simps split: sum.splits if_splits
      intro!: io_intros wp_conseq [OF verifyBinding_wp])

lemma activation_guard_create:
  "create_guard desired e h \<Longrightarrow> cutover_ready sid vol h \<Longrightarrow> temporary_retired st0 vol h \<Longrightarrow>
   source_retired st0 vol h \<Longrightarrow> activation_guard sid st0 vol desired e h"
  by (auto simp: create_guard_def intro: activation_guard_cutover)

lemma cutover_readyI:
  "no_consumer (r_Namespace (b_SourcePVC vol)) (r_Name (b_SourcePVC vol)) h \<Longrightarrow>
   no_consumer (r_Namespace (b_DestinationPVC vol)) (r_Name (b_DestinationPVC vol)) h \<Longrightarrow>
   r_Name (b_SourcePV vol) = [] \<or> detached (r_Name (b_SourcePV vol)) h \<Longrightarrow>
   r_Name (b_DestinationPV vol) = [] \<or> detached (r_Name (b_DestinationPV vol)) h \<Longrightarrow>
   retained (b_SourcePV vol) sid h \<Longrightarrow> retained (b_DestinationPV vol) sid h \<Longrightarrow> cutover_ready sid vol h"
  by (simp add: cutover_ready_def)

definition act_result ::
    "string \<Rightarrow> act \<Rightarrow> PVCTransferBindings \<Rightarrow> act \<times> unit res \<Rightarrow> 's hist \<Rightarrow> bool" where
  "act_result sid st0 vol = (\<lambda>(st', r) h'.
     if r = Inr () then activated sid vol st' h' else checkpoint_progress st0 vol st' h')"

lemma act_result_Inl [simp]: "act_result sid st0 vol (st, Inl e) h = checkpoint_progress st0 vol st h"
  by (simp add: act_result_def)

lemma activate_cutover_wp:
  assumes w: "retry_contract w" and p: "saves_only p" and st: "checkpoint_progress st0 vol st h"
    and ready: "cutover_ready sid vol h"
  shows "wp (activation_guard sid st0 vol desired) (activate_cutover w sid vol desired st p)
    (act_result sid st0 vol) h"
proof -
  note calls = wp_conseq [OF deleteTemporaryActivationPVC_wp [OF p]]
    wp_conseq [OF deleteSourceActivationPVC_wp [OF p]]
    wp_conseq [OF reserveActivationDestination_wp [OF w p]]
    wp_conseq [OF createBoundPVC_wp]
    completeActivation_wp [OF w p, folded act_result_def]
  show ?thesis
    unfolding activate_cutover_def
    by (auto simp: io_rules split: sum.splits intro!: calls)
       (blast intro: activation_guard_create mono_rules st ready)+
qed

lemma activateVolumeResources_wp:
  assumes w: "retry_contract w" and p: "saves_only p"
  shows "wp (activation_guard sid st vol desired) (activateVolumeResources w sid ns vol desired st p)
    (act_result sid st vol) h"
proof -
  note calls = wp_conseq [OF ensureNoConsumers_wp] wp_conseq [OF ensureDetached_wp]
    wp_conseq [OF activePVC_wp] wp_conseq [OF ensureRetain_wp [OF w]]
    activate_cutover_wp [OF w p] completeActivation_wp [OF w p, folded act_result_def]
  show ?thesis
    unfolding activateVolumeResources_def
    by (auto simp: io_rules guard_simps checkpoint_progress_refl split: sum.splits option.splits
        intro!: calls cutover_readyI)
       (blast intro: activation_guard_retain mono_rules)+
qed

lemma validateTemporaryActivationPVC_wp:
  "wp only_reads (validateTemporaryActivationPVC w c vol st) (\<lambda>_ _. True) h"
  unfolding validateTemporaryActivationPVC_def
  by (auto simp: io_rules intro!: wp_conseq [OF verifyBinding_wp])

lemma ActivatePVC_wp:
  assumes w: "retry_contract w" and p: "saves_only p"
  shows "wp (activation_guard sid st vol d) (ActivatePVC w sid ns vol (Some d) (Some st) p)
    (\<lambda>(st', r) h'. \<exists>s. st' = Some s \<and> act_result sid st vol (s, r) h') h"
proof -
  note calls = wp_conseq [OF validateTemporaryActivationPVC_wp] wp_conseq [OF activateVolumeResources_wp [OF w p]]
  show ?thesis
    unfolding ActivatePVC_def
    by (auto simp: io_rules guard_simps checkpoint_progress_refl split: sum.splits intro!: io_intros calls)
qed

section \<open>The status that is left in memory is the one that was saved last\<close>

fun is_save :: "'s event \<Rightarrow> bool" where
  "is_save (EvSave s r) = True"
| "is_save e = False"

lemma is_read_no_save: "is_read e \<Longrightarrow> \<not> is_save e"
  by (cases e) auto

text \<open>The newest state the record was successfully written with, or \<open>d\<close>.\<close>

fun last_saved :: "'s \<Rightarrow> 's hist \<Rightarrow> 's" where
  "last_saved d [] = d"
| "last_saved d (EvSave s (Inr ()) # h) = s"
| "last_saved d (e # h) = last_saved d h"

lemma last_saved_skip: "\<not> is_save e \<Longrightarrow> last_saved d (e # h) = last_saved d h"
  by (cases e) auto

lemma guarded_no_save: "guarded (\<lambda>e _. \<not> is_save e) es h \<Longrightarrow> last_saved d (es @ h) = last_saved d h"
  by (induction es) (simp_all add: last_saved_skip)

lemma wp_no_save:
  assumes "wp G m Q h" and "\<And>e h'. G e h' \<Longrightarrow> \<not> is_save e"
  shows "wp (\<lambda>_ _. True) m (\<lambda>_ h'. \<forall>d. last_saved d h' = last_saved d h) h"
proof -
  obtain x es where m: "m h = (x, es)" by fastforce
  then have "guarded (\<lambda>e _. \<not> is_save e) es h"
    using assms guarded_mono [of G es h "\<lambda>e _. \<not> is_save e"] by (simp add: wp_def)
  moreover have "guarded (\<lambda>_ _. True) es h" by (induction es) auto
  ultimately show ?thesis by (simp add: wp_def m guarded_no_save)
qed

text \<open>A callback that writes the status it is given and reports the outcome of that write.\<close>

definition saves_status :: "('t, 't) progress \<Rightarrow> bool" where
  "saves_status p \<longleftrightarrow> (\<exists>f. p = Some f \<and> (\<forall>st h. \<exists>r. f st h = (r, [EvSave st r])))"

lemma saves_status_only:
  assumes "saves_status p"
  shows "saves_only p"
proof -
  obtain f where f: "p = Some f" "\<And>st h. \<exists>r. f st h = (r, [EvSave st r])"
    using assms by (auto simp: saves_status_def)
  have "wp (\<lambda>e _. \<not> writes_storage e) (f st) (\<lambda>_ _. True) h" for st h
    using f(2) [of st h] by (auto simp: wp_def)
  then show ?thesis by (auto simp: saves_only_def f(1))
qed

lemma update_guards_no_save:
  "pv_update_guard ref sid f e h \<Longrightarrow> \<not> is_save e"
  "pair_guard sid s d e h \<Longrightarrow> \<not> is_save e"
  "delete_guard ref e h \<Longrightarrow> \<not> is_save e"
  "create_guard c e h \<Longrightarrow> \<not> is_save e"
  "only_reads e h \<Longrightarrow> \<not> is_save e"
  by (auto simp: pv_update_guard_def pair_guard_def delete_guard_def create_guard_def guard_simps
      dest: is_read_no_save)

definition status_saved :: "act \<Rightarrow> act \<times> unit res \<Rightarrow> act hist \<Rightarrow> bool" where
  "status_saved d = (\<lambda>(st, r) h. st = last_saved d h)"

lemma status_saved_simp [simp]: "status_saved d (st, r) h \<longleftrightarrow> st = last_saved d h"
  by (simp add: status_saved_def)

lemma saveActivationCheckpoint_saved:
  assumes "saves_status p" and "prev = last_saved d h"
  shows "wp (\<lambda>_ _. True) (saveActivationCheckpoint w st prev p) (status_saved d) h"
proof -
  obtain f where f: "p = Some f" "\<And>st h. \<exists>r. f st h = (r, [EvSave st r])"
    using assms(1) by (auto simp: saves_status_def)
  have "wp (\<lambda>_ _. True) (f st) Q h" if "\<And>r. Q r (EvSave st r # h)" for h Q
    using f(2) [of st h] that by (auto simp: wp_def)
  then show ?thesis
    unfolding saveActivationCheckpoint_def callProgress_def f
    by (auto simp: io_rules assms(2) split: sum.splits intro!: io_intros)
qed

lemmas step_no_save =
  wp_no_save [OF ensureNoConsumers_wp update_guards_no_save(5)]
  wp_no_save [OF ensureDetached_wp update_guards_no_save(5)]
  wp_no_save [OF activePVC_wp update_guards_no_save(5)]
  wp_no_save [OF verifyBinding_wp update_guards_no_save(5)]
  wp_no_save [OF validateBoundPVC_wp update_guards_no_save(5)]
  wp_no_save [OF validateTemporaryActivationPVC_wp update_guards_no_save(5)]
  wp_no_save [OF deletePVC_wp update_guards_no_save(3)]
  wp_no_save [OF createBoundPVC_wp update_guards_no_save(4)]

lemmas step_no_save_retry =
  wp_no_save [OF ensureRetain_wp update_guards_no_save(1)]
  wp_no_save [OF reservePV_wp update_guards_no_save(1)]
  wp_no_save [OF markPVPair_wp update_guards_no_save(2)]

lemma completeActivation_saved:
  assumes "retry_contract w" and "saves_status p" and "st = last_saved d h"
  shows "wp (\<lambda>_ _. True) (completeActivation w sid vol desired st c p) (status_saved d) h"
  unfolding completeActivation_def
  by (auto simp: io_rules assms(3) split: sum.splits
      intro!: saveActivationCheckpoint_saved [OF assms(2)] step_no_save [THEN wp_conseq]
        step_no_save_retry [OF assms(1), THEN wp_conseq])

lemma activate_cutover_saved:
  assumes "retry_contract w" and "saves_status p" and "st = last_saved d h"
  shows "wp (\<lambda>_ _. True) (activate_cutover w sid vol desired st p) (status_saved d) h"
proof -
  have delete_temporary: "wp (\<lambda>_ _. True) (deleteTemporaryActivationPVC w vol st p) (status_saved d) h"
    if "st = last_saved d h" for st h
    unfolding deleteTemporaryActivationPVC_def
    by (auto simp: io_rules that split: sum.splits
        intro!: saveActivationCheckpoint_saved [OF assms(2)] step_no_save [THEN wp_conseq])
  have delete_source: "wp (\<lambda>_ _. True) (deleteSourceActivationPVC w vol st p) (status_saved d) h"
    if "st = last_saved d h" for st h
    unfolding deleteSourceActivationPVC_def
    by (auto simp: io_rules that split: sum.splits
        intro!: saveActivationCheckpoint_saved [OF assms(2)] step_no_save [THEN wp_conseq])
  have reserve: "wp (\<lambda>_ _. True) (reserveActivationDestination w sid vol desired st p) (status_saved d) h"
    if "st = last_saved d h" for st h
    unfolding reserveActivationDestination_def
    by (auto simp: io_rules that split: sum.splits
        intro!: saveActivationCheckpoint_saved [OF assms(2)] step_no_save [THEN wp_conseq]
          step_no_save_retry [OF assms(1), THEN wp_conseq])
  show ?thesis
    unfolding activate_cutover_def
    by (auto simp: io_rules assms(3) split: sum.splits
        intro!: delete_temporary [THEN wp_conseq] delete_source [THEN wp_conseq] reserve [THEN wp_conseq]
          step_no_save [THEN wp_conseq] completeActivation_saved [OF assms(1,2)])
qed

lemma activateVolumeResources_saved:
  assumes "retry_contract w" and "saves_status p" and "st = last_saved d h"
  shows "wp (\<lambda>_ _. True) (activateVolumeResources w sid ns vol desired st p) (status_saved d) h"
  unfolding activateVolumeResources_def
  by (auto simp: io_rules assms(3) split: sum.splits option.splits
      intro!: step_no_save [THEN wp_conseq] step_no_save_retry [OF assms(1), THEN wp_conseq]
        activate_cutover_saved [OF assms(1,2)] completeActivation_saved [OF assms(1,2)])

lemma ActivatePVC_saved:
  assumes "retry_contract w" and "saves_status p" and "st = last_saved d h"
  shows "wp (\<lambda>_ _. True) (ActivatePVC w sid ns vol (Some c) (Some st) p)
    (\<lambda>(st', r) h'. st' = Some (last_saved d h')) h"
  unfolding ActivatePVC_def
  by (auto simp: io_rules assms(3) split: sum.splits
      intro!: io_intros step_no_save [THEN wp_conseq]
        activateVolumeResources_saved [OF assms(1,2), THEN wp_conseq])

end
