(* ===== verification/Rollback.thy ===== *)
theory Rollback
  imports Activation
begin

text \<open>
  The other two ways the switcher rebinds a retained volume: going back to the source binding
  (\<^verbatim>\<open>internal/kube/switcher_rollback.go\<close>) and giving the volume a claim of another name or
  namespace (\<^verbatim>\<open>switcher_rename.go\<close>).
\<close>

section \<open>Rollback\<close>

definition validateRollbackPVC :: "string \<Rightarrow> PVCTransferBindings \<Rightarrow> pvc \<Rightarrow> unit res" where
  "validateRollbackPVC sid volume desired =
     (if sid = [] then Inl (NewError ErrorValidation OpRollbackPVC)
      else if r_Namespace (b_SourcePVC volume) = [] \<or> r_Name (b_SourcePVC volume) = []
           \<or> r_UID (b_SourcePVC volume) = [] \<or> r_Name (b_SourcePV volume) = []
           \<or> r_UID (b_SourcePV volume) = [] \<or> r_Name (b_DestinationPV volume) = []
           \<or> r_UID (b_DestinationPV volume) = []
      then Inl (NewError ErrorPrecondition OpRollbackPVC)
      else if c_Namespace desired \<noteq> r_Namespace (b_SourcePVC volume)
           \<or> c_Name desired \<noteq> r_Name (b_SourcePVC volume)
           \<or> s_VolumeName (c_Spec desired) \<noteq> r_Name (b_SourcePV volume)
           \<or> \<not> owned_claim sid desired
      then Inl (NewError ErrorConflict OpRollbackPVC)
      else if storage_request desired \<le> 0 then Inl (NewError ErrorValidation OpRollbackPVC)
      else Inr ())"

text \<open>The reference \<^verbatim>\<open>removeActiveDestination\<close> builds from the claim it was given.\<close>

definition live_reference :: "pvc \<Rightarrow> ObjectReference" where
  "live_reference c = no_reference\<lparr>r_Namespace := c_Namespace c, r_Name := c_Name c,
     r_UID := c_UID c, r_ResourceVersion := c_ResourceVersion c\<rparr>"

definition removeActiveDestination ::
    "'s world \<Rightarrow> string \<Rightarrow> PVCTransferBindings \<Rightarrow> pvc \<Rightarrow> (unit res, 's) io" where
  "removeActiveDestination w sid volume current =
     (if s_VolumeName (c_Spec current) \<noteq> r_Name (b_DestinationPV volume)
         \<or> mget (c_Annotations current) SessionKey \<noteq> sid
      then io_ret (Inl (NewError ErrorConflict OpRollbackVolume))
      else io_try (verifyBinding w current (b_DestinationPV volume)) (\<lambda>_.
           io_try (ensureRetain w (b_DestinationPV volume) sid ResourceRoleDestination) (\<lambda>_.
           io_try (deletePVC w (live_reference current)) (\<lambda>_.
           ensureDetached w (r_Name (b_DestinationPV volume))))))"

text \<open>\<^verbatim>\<open>RollbackPVC\<close> in three parts: retiring an active claim in another namespace, looking at the
  claim under the source name, and restoring the source claim.\<close>

definition rollback_other_namespace ::
    "'s world \<Rightarrow> string \<Rightarrow> string \<Rightarrow> PVCTransferBindings \<Rightarrow> (unit res, 's) io" where
  "rollback_other_namespace w sid activateNamespace volume =
     (if activateNamespace = r_Namespace (b_SourcePVC volume) then io_ret (Inr ())
      else io_bind (get_pvc w activateNamespace (r_Name (b_SourcePVC volume))) (\<lambda>g. case g of
        Inl err \<Rightarrow>
          if \<not> IsNotFound err then io_ret (Inl (WrapError ErrorKubernetes OpRollbackVolume err))
          else io_ret (Inr ())
      | Inr active \<Rightarrow> removeActiveDestination w sid volume active))"

definition rollback_restore ::
    "'s world \<Rightarrow> string \<Rightarrow> PVCTransferBindings \<Rightarrow> pvc \<Rightarrow> act \<Rightarrow> (act, 's) progress
      \<Rightarrow> (act \<times> unit res, 's) io" where
  "rollback_restore w sid volume manifest status progress =
     io_try_st status (ensureRetain w (b_SourcePV volume) sid ResourceRoleSource) (\<lambda>_.
     io_try_st status (ensureRetain w (b_DestinationPV volume) sid ResourceRoleDestination) (\<lambda>_.
     io_try_st status (validateBoundPVC w manifest) (\<lambda>_.
     io_try_st status
       (reservePV w (b_SourcePV volume) (r_Namespace (b_SourcePVC volume))
          (r_Name (b_SourcePVC volume)) sid) (\<lambda>_.
     io_try_st status (createBoundPVC w sid manifest) (\<lambda>recreated.
     completeRollback w sid volume status recreated progress)))))"

definition rollback_source ::
    "'s world \<Rightarrow> string \<Rightarrow> PVCTransferBindings \<Rightarrow> pvc \<Rightarrow> act \<Rightarrow> (act, 's) progress
      \<Rightarrow> (act \<times> unit res, 's) io" where
  "rollback_source w sid volume manifest status progress =
     io_bind (get_pvc w (r_Namespace (b_SourcePVC volume)) (r_Name (b_SourcePVC volume))) (\<lambda>g.
     case g of
       Inr current \<Rightarrow>
         if s_VolumeName (c_Spec current) = r_Name (b_SourcePV volume)
         then if c_UID current \<noteq> r_UID (b_SourcePVC volume)
                 \<and> mget (c_Annotations current) SessionKey \<noteq> sid
              then io_ret (status, Inl (NewError ErrorConflict OpRollbackVolume))
              else completeRollback w sid volume status current progress
         else io_try_st status (removeActiveDestination w sid volume current) (\<lambda>_.
              rollback_restore w sid volume manifest status progress)
     | Inl err \<Rightarrow>
         if \<not> IsNotFound err
         then io_ret (status, Inl (WrapError ErrorKubernetes OpRollbackVolume err))
         else rollback_restore w sid volume manifest status progress)"

definition RollbackPVC ::
    "'s world \<Rightarrow> string \<Rightarrow> string \<Rightarrow> PVCTransferBindings \<Rightarrow> pvc option \<Rightarrow> act option
      \<Rightarrow> (act, 's) progress \<Rightarrow> (act option \<times> unit res, 's) io" where
  "RollbackPVC w sid activateNamespace volume desired status progress =
     (case (desired, status) of
        (Some d, Some st) \<Rightarrow>
          io_bind
            (io_try_st st (io_ret (validateRollbackPVC sid volume d)) (\<lambda>_.
             io_try_st st (fence_check w) (\<lambda>_.
             io_try_st st (rollback_other_namespace w sid activateNamespace volume) (\<lambda>_.
             io_try_st st
               (ensureNoConsumers w (r_Namespace (b_SourcePVC volume)) (r_Name (b_SourcePVC volume))) (\<lambda>_.
             rollback_source w sid volume d st progress)))))
            (\<lambda>(st, r). io_ret (Some st, r))
      | _ \<Rightarrow> io_ret (status, Inl (NewError ErrorValidation OpRollbackPVC)))"

section \<open>Rename\<close>

definition validateRenamePVCRequest ::
    "string \<Rightarrow> ObjectReference \<Rightarrow> ObjectReference \<Rightarrow> pvc \<Rightarrow> unit res" where
  "validateRenamePVCRequest sid sourcePVC sourcePV destination =
     (if sid = [] then Inl (NewError ErrorValidation OpRenamePVC)
      else if r_Namespace sourcePVC = [] \<or> r_Name sourcePVC = [] \<or> r_UID sourcePVC = []
           \<or> r_Name sourcePV = [] \<or> r_UID sourcePV = [] \<or> c_Namespace destination = []
           \<or> c_Name destination = []
      then Inl (NewError ErrorPrecondition OpRenamePVC)
      else if s_VolumeName (c_Spec destination) \<noteq> r_Name sourcePV \<or> \<not> owned_claim sid destination
      then Inl (NewError ErrorValidation OpRenamePVC)
      else Inr ())"

text \<open>The claim already exists under its new name.\<close>

definition rename_existing ::
    "'s world \<Rightarrow> string \<Rightarrow> ObjectReference \<Rightarrow> pvc option \<Rightarrow> pvc \<Rightarrow> (pvc res, 's) io" where
  "rename_existing w sid sourcePV source existing =
     (if (case source of None \<Rightarrow> False
          | Some s \<Rightarrow> c_Namespace s \<noteq> c_Namespace existing \<or> c_Name s \<noteq> c_Name existing)
      then io_ret (Inl (NewError ErrorConflict OpRenamePVC))
      else if s_VolumeName (c_Spec existing) = r_Name sourcePV
              \<and> mget (c_Annotations existing) SessionKey = sid
      then io_try (ensureNoConsumers w (c_Namespace existing) (c_Name existing)) (\<lambda>_.
           io_try (verifyBinding w existing sourcePV) (\<lambda>_.
           io_try (ensureRetain w sourcePV sid ResourceRoleActive) (\<lambda>_.
           io_ret (Inr existing))))
      else io_ret (Inl (NewError ErrorConflict OpRenamePVC)))"

text \<open>The rebind proper, from the first \<^verbatim>\<open>ensureRetain\<close> on: retire the source claim, then
  create the destination claim. The callback has no status here.\<close>

definition rename_create ::
    "'s world \<Rightarrow> string \<Rightarrow> ObjectReference \<Rightarrow> pvc \<Rightarrow> (pvc res, 's) io" where
  "rename_create w sid sourcePV destination =
     io_try (validateBoundPVC w destination) (\<lambda>_.
     io_try (reservePV w sourcePV (c_Namespace destination) (c_Name destination) sid) (\<lambda>_.
     io_try (createBoundPVC w sid destination) (\<lambda>created.
     io_try (verifyBinding w created sourcePV) (\<lambda>_.
     io_try (ensureRetain w sourcePV sid ResourceRoleActive) (\<lambda>_.
     io_ret (Inr created))))))"

definition with_volume :: "string \<Rightarrow> pvc \<Rightarrow> pvc" where
  "with_volume n c = c\<lparr>c_Spec := (c_Spec c)\<lparr>s_VolumeName := n\<rparr>\<rparr>"

lemma with_volume_simps [simp]:
  "c_Namespace (with_volume n c) = c_Namespace c" "c_Name (with_volume n c) = c_Name c"
  by (simp_all add: with_volume_def)

definition rename_rebind ::
    "'s world \<Rightarrow> string \<Rightarrow> ObjectReference \<Rightarrow> ObjectReference \<Rightarrow> pvc \<Rightarrow> (unit, 's) progress
      \<Rightarrow> (pvc res, 's) io" where
  "rename_rebind w sid sourcePVC sourcePV destination progress =
     io_try (ensureRetain w sourcePV sid ResourceRoleRename) (\<lambda>_.
     io_try (deletePVC w sourcePVC) (\<lambda>_.
     io_try (ensureDetached w (r_Name sourcePV)) (\<lambda>_.
     io_try (callProgress progress ()) (\<lambda>_.
     rename_create w sid sourcePV (with_volume (r_Name sourcePV) destination)))))"

text \<open>The source claim as it was found, checked when it still exists.\<close>

definition rename_source ::
    "'s world \<Rightarrow> ObjectReference \<Rightarrow> ObjectReference \<Rightarrow> (pvc option res, 's) io" where
  "rename_source w sourcePVC sourcePV =
     io_bind (get_pvc w (r_Namespace sourcePVC) (r_Name sourcePVC)) (\<lambda>g. case g of
       Inl err \<Rightarrow>
         if \<not> IsNotFound err then io_ret (Inl (WrapError ErrorKubernetes OpRenamePVC err))
         else io_ret (Inr None)
     | Inr source \<Rightarrow>
         if c_UID source \<noteq> r_UID sourcePVC then io_ret (Inl (NewError ErrorConflict OpRenamePVC))
         else io_try (verifyBinding w source sourcePV) (\<lambda>_. io_ret (Inr (Some source))))"

definition RenamePVC ::
    "'s world \<Rightarrow> string \<Rightarrow> ObjectReference \<Rightarrow> ObjectReference \<Rightarrow> pvc option \<Rightarrow> (unit, 's) progress
      \<Rightarrow> (pvc res, 's) io" where
  "RenamePVC w sid sourcePVC sourcePV destination progress =
     (case destination of None \<Rightarrow> io_ret (Inl (NewError ErrorValidation OpRenamePVC))
      | Some d \<Rightarrow>
        io_try (io_ret (validateRenamePVCRequest sid sourcePVC sourcePV d)) (\<lambda>_.
        io_try (ensureNoConsumers w (r_Namespace sourcePVC) (r_Name sourcePVC)) (\<lambda>_.
        io_try (rename_source w sourcePVC sourcePV) (\<lambda>source.
        io_bind (get_pvc w (c_Namespace d) (c_Name d)) (\<lambda>g. case g of
          Inr existing \<Rightarrow> rename_existing w sid sourcePV source existing
        | Inl err \<Rightarrow>
            if \<not> IsNotFound err then io_ret (Inl (WrapError ErrorKubernetes OpRenamePVC err))
            else rename_rebind w sid sourcePVC sourcePV d progress)))))"

section \<open>What rollback may do\<close>

text \<open>The active claim that rollback retires: read, bound to the destination volume, marked by the
  session, and its volume retained.\<close>

definition retirable :: "string \<Rightarrow> PVCTransferBindings \<Rightarrow> pvc \<Rightarrow> 's hist \<Rightarrow> bool" where
  "retirable sid vol c h \<longleftrightarrow> mget (c_Annotations c) SessionKey = sid
     \<and> binding_verified c (b_DestinationPV vol) h \<and> retained (b_DestinationPV vol) sid h"

lemma retirable_mono: "suffix h h' \<Longrightarrow> retirable sid vol c h \<Longrightarrow> retirable sid vol c h'"
  by (auto simp: retirable_def intro: mono_rules)

definition rollback_guard ::
    "string \<Rightarrow> PVCTransferBindings \<Rightarrow> pvc \<Rightarrow> 's event \<Rightarrow> 's hist \<Rightarrow> bool" where
  "rollback_guard sid vol desired e h \<longleftrightarrow>
     \<not> writes_storage e
   \<or> pv_update_guard (b_SourcePV vol) sid (\<lambda>v. fst (retain_pv sid ResourceRoleSource v)) e h
   \<or> pv_update_guard (b_DestinationPV vol) sid (\<lambda>v. fst (retain_pv sid ResourceRoleDestination v)) e h
   \<or> pair_guard sid (b_SourcePV vol) (b_DestinationPV vol) e h
   \<or> (\<exists>c. retirable sid vol c h \<and> delete_guard (live_reference c) e h)
   \<or> (retained (b_SourcePV vol) sid h \<and> retained (b_DestinationPV vol) sid h
      \<and> no_consumer (r_Namespace (b_SourcePVC vol)) (r_Name (b_SourcePVC vol)) h
      \<and> (pv_update_guard (b_SourcePV vol) sid
            (reserved_pv (r_Namespace (b_SourcePVC vol)) (r_Name (b_SourcePVC vol))) e h
         \<or> create_guard desired e h))"

lemma rollback_guard_quiet [simp]:
  "\<not> writes_storage e \<Longrightarrow> rollback_guard sid vol desired e h"
  "is_read e \<Longrightarrow> rollback_guard sid vol desired e h"
  by (simp_all add: rollback_guard_def is_read_no_write)

lemma rollback_guardI:
  "pv_update_guard (b_SourcePV vol) sid (\<lambda>v. fst (retain_pv sid ResourceRoleSource v)) e h
     \<Longrightarrow> rollback_guard sid vol desired e h"
  "pv_update_guard (b_DestinationPV vol) sid (\<lambda>v. fst (retain_pv sid ResourceRoleDestination v)) e h
     \<Longrightarrow> rollback_guard sid vol desired e h"
  "pair_guard sid (b_SourcePV vol) (b_DestinationPV vol) e h \<Longrightarrow> rollback_guard sid vol desired e h"
  "retirable sid vol c h \<Longrightarrow> delete_guard (live_reference c) e h \<Longrightarrow> rollback_guard sid vol desired e h"
  "retained (b_SourcePV vol) sid h \<Longrightarrow> retained (b_DestinationPV vol) sid h \<Longrightarrow>
   no_consumer (r_Namespace (b_SourcePVC vol)) (r_Name (b_SourcePVC vol)) h \<Longrightarrow>
   pv_update_guard (b_SourcePV vol) sid
     (reserved_pv (r_Namespace (b_SourcePVC vol)) (r_Name (b_SourcePVC vol))) e h \<Longrightarrow>
   rollback_guard sid vol desired e h"
  "retained (b_SourcePV vol) sid h \<Longrightarrow> retained (b_DestinationPV vol) sid h \<Longrightarrow>
   no_consumer (r_Namespace (b_SourcePVC vol)) (r_Name (b_SourcePVC vol)) h \<Longrightarrow>
   create_guard desired e h \<Longrightarrow> rollback_guard sid vol desired e h"
  by (auto simp: rollback_guard_def)

text \<open>The claim recorded after a rollback is bound to the source volume.\<close>

definition rolled_back :: "string \<Rightarrow> PVCTransferBindings \<Rightarrow> act \<Rightarrow> 's hist \<Rightarrow> bool" where
  "rolled_back sid vol st h \<longleftrightarrow>
     (\<exists>c t. a_ActivePVC st = Some (PVCReference c) \<and> binding_verified c (b_SourcePV vol) h
        \<and> pair_marked sid (b_SourcePV vol) (b_DestinationPV vol) True h
        \<and> a_RolledBackAt st = Some t)"

definition rollback_result ::
    "string \<Rightarrow> act \<Rightarrow> PVCTransferBindings \<Rightarrow> act \<times> unit res \<Rightarrow> 's hist \<Rightarrow> bool" where
  "rollback_result sid st0 vol = (\<lambda>(st', r) h'. if r = Inr () then rolled_back sid vol st' h' else st' = st0)"

lemma rollback_result_Inl [simp]: "rollback_result sid st0 vol (st, Inl e) h \<longleftrightarrow> st = st0"
  by (simp add: rollback_result_def)

lemma rolled_backI:
  "binding_verified c (b_SourcePV vol) h1 \<Longrightarrow> suffix h1 h2 \<Longrightarrow>
   pair_marked sid (b_SourcePV vol) (b_DestinationPV vol) True h2 \<Longrightarrow> suffix h2 h \<Longrightarrow>
   rolled_back sid vol (st\<lparr>a_ActivePVC := Some (PVCReference c), a_RolledBackAt := Some now\<rparr>) h"
  by (force simp: rolled_back_def intro: mono_rules)

lemma completeRollback_wp:
  assumes w: "retry_contract w" and p: "saves_only p"
  shows "wp (rollback_guard sid vol desired) (completeRollback w sid vol st c p)
    (rollback_result sid st vol) h"
proof -
  note calls = wp_conseq [OF verifyBinding_wp] wp_conseq [OF markPVPair_wp [OF w]]
    wp_conseq [OF saveActivationCheckpoint_wp [OF p]]
  show ?thesis
    unfolding completeRollback_def
    by (auto simp: io_rules guard_simps rollback_result_def split: sum.splits if_splits
        intro!: calls rolled_backI)
       (blast intro: rollback_guardI mono_rules)+
qed

lemma removeActiveDestination_wp:
  assumes w: "retry_contract w"
  shows "wp (rollback_guard sid vol desired) (removeActiveDestination w sid vol c) (\<lambda>_ _. True) h"
proof -
  note calls = wp_conseq [OF verifyBinding_wp] wp_conseq [OF ensureRetain_wp [OF w]]
    wp_conseq [OF deletePVC_wp] wp_conseq [OF ensureDetached_wp]
  show ?thesis
    unfolding removeActiveDestination_def
    by (auto simp: io_rules guard_simps split: sum.splits intro!: calls)
       (blast intro: rollback_guardI mono_rules retirable_def [THEN iffD2])+
qed

lemma rollback_restore_wp:
  assumes w: "retry_contract w" and p: "saves_only p"
    and "no_consumer (r_Namespace (b_SourcePVC vol)) (r_Name (b_SourcePVC vol)) h"
  shows "wp (rollback_guard sid vol desired) (rollback_restore w sid vol desired st p)
    (rollback_result sid st vol) h"
proof -
  note calls = wp_conseq [OF ensureRetain_wp [OF w]] wp_conseq [OF validateBoundPVC_wp]
    wp_conseq [OF reservePV_wp [OF w]] wp_conseq [OF createBoundPVC_wp] completeRollback_wp [OF w p]
  show ?thesis
    unfolding rollback_restore_def
    by (auto simp: io_rules guard_simps split: sum.splits intro!: calls)
       (blast intro: rollback_guardI mono_rules assms(3))+
qed

lemma rollback_source_wp:
  assumes w: "retry_contract w" and p: "saves_only p"
    and "no_consumer (r_Namespace (b_SourcePVC vol)) (r_Name (b_SourcePVC vol)) h"
  shows "wp (rollback_guard sid vol desired) (rollback_source w sid vol desired st p)
    (rollback_result sid st vol) h"
proof -
  note calls = wp_conseq [OF removeActiveDestination_wp [OF w]] completeRollback_wp [OF w p]
    rollback_restore_wp [OF w p]
  have step: "no_consumer ns n (e # h')" if "no_consumer ns n h'" for ns n e and h' :: "'a hist"
    using that by (auto simp: no_consumer_def)
  show ?thesis
    unfolding rollback_source_def
    by (auto simp: io_rules split: sum.splits intro!: io_intros calls step assms(3))
       (blast intro: mono_rules step assms(3))+
qed

lemma RollbackPVC_wp:
  assumes w: "retry_contract w" and p: "saves_only p"
  shows "wp (rollback_guard sid vol d) (RollbackPVC w sid ns vol (Some d) (Some st) p)
    (\<lambda>(st', r) h'. \<exists>s. st' = Some s \<and> rollback_result sid st vol (s, r) h') h"
proof -
  note calls = wp_conseq [OF removeActiveDestination_wp [OF w]] wp_conseq [OF ensureNoConsumers_wp]
    wp_conseq [OF rollback_source_wp [OF w p]]
  show ?thesis
    unfolding RollbackPVC_def rollback_other_namespace_def
    by (auto simp: io_rules guard_simps split: sum.splits intro!: io_intros calls)
qed

section \<open>What rename may do\<close>

text \<open>Before the source claim goes: its volume is retained, no Pod uses it, and there is no claim
  under the new name.\<close>

definition rename_ready ::
    "string \<Rightarrow> ObjectReference \<Rightarrow> ObjectReference \<Rightarrow> pvc \<Rightarrow> 's hist \<Rightarrow> bool" where
  "rename_ready sid src pvr d h \<longleftrightarrow> retained pvr sid h
     \<and> no_consumer (r_Namespace src) (r_Name src) h \<and> pvc_gone (c_Namespace d) (c_Name d) h"

definition source_gone :: "ObjectReference \<Rightarrow> 's hist \<Rightarrow> bool" where
  "source_gone src h \<longleftrightarrow> pvc_gone (r_Namespace src) (r_Name src) h"

lemma rename_mono:
  "suffix h h' \<Longrightarrow> rename_ready sid src pvr d h \<Longrightarrow> rename_ready sid src pvr d h'"
  "suffix h h' \<Longrightarrow> source_gone src h \<Longrightarrow> source_gone src h'"
  by (auto simp: rename_ready_def source_gone_def intro: retained_mono history_facts_mono)

definition rename_guard ::
    "string \<Rightarrow> ObjectReference \<Rightarrow> ObjectReference \<Rightarrow> pvc \<Rightarrow> 's event \<Rightarrow> 's hist \<Rightarrow> bool" where
  "rename_guard sid src pvr d e h \<longleftrightarrow>
     \<not> writes_storage e
   \<or> (\<exists>role. pv_update_guard pvr sid (\<lambda>v. fst (retain_pv sid role v)) e h)
   \<or> (rename_ready sid src pvr d h
      \<and> (delete_guard src e h
         \<or> (source_gone src h
            \<and> (pv_update_guard pvr sid (reserved_pv (c_Namespace d) (c_Name d)) e h
               \<or> create_guard (with_volume (r_Name pvr) d) e h))))"

lemma rename_guard_quiet [simp]:
  "\<not> writes_storage e \<Longrightarrow> rename_guard sid src pvr d e h"
  "is_read e \<Longrightarrow> rename_guard sid src pvr d e h"
  by (simp_all add: rename_guard_def is_read_no_write)

lemma rename_guard_retain:
  "pv_update_guard pvr sid (\<lambda>v. fst (retain_pv sid role v)) e h \<Longrightarrow> rename_guard sid src pvr d e h"
  by (auto simp: rename_guard_def)

lemma rename_guard_rebind:
  "rename_ready sid src pvr d h \<Longrightarrow> delete_guard src e h \<Longrightarrow> rename_guard sid src pvr d e h"
  "rename_ready sid src pvr d h \<Longrightarrow> source_gone src h \<Longrightarrow>
     pv_update_guard pvr sid (reserved_pv (c_Namespace d) (c_Name d)) e h \<Longrightarrow> rename_guard sid src pvr d e h"
  "rename_ready sid src pvr d h \<Longrightarrow> source_gone src h \<Longrightarrow>
     create_guard (with_volume (r_Name pvr) d) e h \<Longrightarrow> rename_guard sid src pvr d e h"
  by (auto simp: rename_guard_def)

definition renamed :: "string \<Rightarrow> ObjectReference \<Rightarrow> pvc res \<Rightarrow> 's hist \<Rightarrow> bool" where
  "renamed sid pvr r h \<longleftrightarrow> (\<forall>c. r = Inr c \<longrightarrow> binding_verified c pvr h \<and> retained pvr sid h
     \<and> mget (c_Annotations c) SessionKey = sid)"

lemma renamed_simps [simp]:
  "renamed sid pvr (Inl e) h"
  "renamed sid pvr (Inr c) h \<longleftrightarrow> binding_verified c pvr h \<and> retained pvr sid h
     \<and> mget (c_Annotations c) SessionKey = sid"
  by (simp_all add: renamed_def)

lemma rename_existing_wp:
  assumes w: "retry_contract w"
  shows "wp (rename_guard sid src pvr d) (rename_existing w sid pvr source existing) (renamed sid pvr) h"
proof -
  note calls = wp_conseq [OF ensureNoConsumers_wp] wp_conseq [OF verifyBinding_wp]
    wp_conseq [OF ensureRetain_wp [OF w]]
  show ?thesis
    unfolding rename_existing_def
    by (auto simp: io_rules guard_simps split: sum.splits option.splits intro!: calls)
       (blast intro: rename_guard_retain binding_verified_mono)+
qed

lemma rename_create_wp:
  assumes w: "retry_contract w" and ready: "rename_ready sid src pvr d h" and gone: "source_gone src h"
  shows "wp (rename_guard sid src pvr d) (rename_create w sid pvr (with_volume (r_Name pvr) d))
    (renamed sid pvr) h"
proof -
  note calls = wp_conseq [OF validateBoundPVC_wp] wp_conseq [OF reservePV_wp [OF w]]
    wp_conseq [OF createBoundPVC_wp] wp_conseq [OF verifyBinding_wp] wp_conseq [OF ensureRetain_wp [OF w]]
  have owned: "bound_claim sid c b h \<Longrightarrow> mget (c_Annotations b) SessionKey = sid" for c b and h :: "'a hist"
    by (simp add: bound_claim_def owned_claim_def)
  show ?thesis
    unfolding rename_create_def
    by (auto simp: io_rules guard_simps owned split: sum.splits intro!: calls)
       (blast intro: rename_guard_retain rename_guard_rebind binding_verified_mono
         rename_mono(1) [OF _ ready] rename_mono(2) [OF _ gone] suffix_order.trans)+
qed

lemma rename_rebind_wp:
  assumes w: "retry_contract w" and p: "saves_only p"
    and pre: "no_consumer (r_Namespace src) (r_Name src) h" "pvc_gone (c_Namespace d) (c_Name d) h"
  shows "wp (rename_guard sid src pvr d) (rename_rebind w sid src pvr d p) (renamed sid pvr) h"
proof -
  note calls = wp_conseq [OF ensureRetain_wp [OF w]] wp_conseq [OF deletePVC_wp]
    wp_conseq [OF ensureDetached_wp] wp_conseq [OF callProgress_wp [OF p]] rename_create_wp [OF w]
  have ready: "rename_ready sid src pvr d h'" if "suffix h h'" "retained pvr sid h'" for h'
    using that pre by (simp add: rename_ready_def history_facts_mono)
  show ?thesis
    unfolding rename_rebind_def
    by (auto simp: io_rules guard_simps source_gone_def [symmetric] split: sum.splits intro!: calls)
       (blast intro: rename_guard_retain rename_guard_rebind rename_mono ready suffix_order.trans)+
qed

lemma rename_source_wp: "wp only_reads (rename_source w src pvr) (\<lambda>_ _. True) h"
  unfolding rename_source_def
  by (auto simp: io_rules guard_simps split: sum.splits intro!: io_intros wp_conseq [OF verifyBinding_wp])

lemma RenamePVC_wp:
  assumes w: "retry_contract w" and p: "saves_only p"
  shows "wp (rename_guard sid src pvr d) (RenamePVC w sid src pvr (Some d) p) (renamed sid pvr) h"
proof -
  note calls = wp_conseq [OF ensureNoConsumers_wp] wp_conseq [OF rename_source_wp]
    rename_existing_wp [OF w] rename_rebind_wp [OF w p]
  have step: "no_consumer ns n (e # h')" if "no_consumer ns n h'" for ns n e and h' :: "'a hist"
    using that by (auto simp: no_consumer_def)
  show ?thesis
    unfolding RenamePVC_def
    by (auto simp: io_rules guard_simps split: sum.splits intro!: io_intros calls step)
       (blast intro: mono_rules)+
qed

end
