(* ===== verification/Offline.thy ===== *)
theory Offline
  imports Activation
begin

text \<open>
  The read-only checks of the switcher before a destructive step: that claims and volumes are still
  the recorded ones, bound to each other, unused and detached (\<^verbatim>\<open>internal/kube/switcher.go\<close>,
  \<^verbatim>\<open>verifyPVCAndPVIdentity\<close>), that an interrupted activation or rebind can be recovered
  (\<^verbatim>\<open>switcher_activation_recovery.go\<close>, \<^verbatim>\<open>switcher_rebind_recovery.go\<close>), and that a
  planned source has not changed (\<^verbatim>\<open>switcher_rebind_validation.go\<close>).

  \<^verbatim>\<open>parallel.For\<close> runs its body once per index; the model runs it in index order. The Pod
  check and the detach check run concurrently in the source; the model runs the detach check
  first. A Pod error wins over a detach error in either order.
\<close>

section \<open>One claim and its volume\<close>

definition verifyRetainedActivationPV ::
    "'s world \<Rightarrow> string \<Rightarrow> ObjectReference \<Rightarrow> ObjectReference \<Rightarrow> ObjectReference \<Rightarrow> (unit res, 's) io" where
  "verifyRetainedActivationPV w sid pvcRef pvRef reservation =
     io_bind (get_pv w (r_Name pvRef)) (\<lambda>g. case g of
       Inl err \<Rightarrow> io_ret (Inl (WrapError ErrorKubernetes OpVerifyActivationRecovery err))
     | Inr v \<Rightarrow>
         if v_UID v \<noteq> r_UID pvRef \<or> v_DeletionTimestamp v \<noteq> None
            \<or> mget (v_Labels v) SessionKey \<noteq> sid \<or> v_ReclaimPolicy v \<noteq> ReclaimRetain
         then io_ret (Inl (NewError ErrorConflict OpVerifyActivationRecovery))
         else let original = (claimRef_at v (r_Namespace pvcRef) (r_Name pvcRef)
                              \<and> claimRef_UID v = r_UID pvcRef);
                  reserved = (r_Name reservation \<noteq> []
                              \<and> claimRef_at v (r_Namespace reservation) (r_Name reservation)
                              \<and> claimRef_UID v = [])
              in if \<not> original \<and> \<not> reserved
                 then io_ret (Inl (NewError ErrorConflict OpVerifyActivationRecovery))
                 else io_ret (Inr ()))"

definition foreign_owner :: "string \<Rightarrow> string \<Rightarrow> bool" where
  "foreign_owner sid owner \<longleftrightarrow> owner \<noteq> [] \<and> owner \<noteq> sid"

definition verifyPVCAndPVIdentity ::
    "'s world \<Rightarrow> ObjectReference \<Rightarrow> ObjectReference \<Rightarrow> string \<Rightarrow> ObjectReference option
      \<Rightarrow> (unit res, 's) io" where
  "verifyPVCAndPVIdentity w pvcRef pvRef sid recoveryClaim =
     (if r_Namespace pvcRef = [] \<or> r_Name pvcRef = [] \<or> r_UID pvcRef = []
      then io_ret (Inl (NewError ErrorPrecondition OpVerifyPVCOffline))
      else if r_Name pvRef = [] \<or> r_UID pvRef = []
      then io_ret (Inl (NewError ErrorPrecondition OpVerifyPVCOffline))
      else io_bind (get_pvc w (r_Namespace pvcRef) (r_Name pvcRef)) (\<lambda>g. case g of
        Inl err \<Rightarrow>
          (case recoveryClaim of
             Some claim \<Rightarrow>
               if IsNotFound err then verifyRetainedActivationPV w sid pvcRef pvRef claim
               else io_ret (Inl (WrapError ErrorKubernetes OpVerifyPVCOffline err))
           | None \<Rightarrow> io_ret (Inl (WrapError ErrorKubernetes OpVerifyPVCOffline err)))
      | Inr c \<Rightarrow>
          if c_UID c \<noteq> r_UID pvcRef then io_ret (Inl (NewError ErrorConflict OpVerifyPVCOffline))
          else io_try (io_ret (validatePVCDeletionFinalizers c OpVerifyPVCOffline)) (\<lambda>_.
          if sid \<noteq> [] \<and> list_ex (foreign_owner sid)
               [mget (c_Annotations c) SessionKey, mget (c_Labels c) SessionKey]
          then io_ret (Inl (NewError ErrorConflict OpVerifyPVCOffline))
          else if c_Phase c \<noteq> ClaimBound
          then io_ret (Inl (NewError ErrorPrecondition OpVerifyPVCOffline))
          else if s_VolumeName (c_Spec c) \<noteq> r_Name pvRef
          then io_ret (Inl (NewError ErrorConflict OpVerifyPVCOffline))
          else io_bind (get_pv w (r_Name pvRef)) (\<lambda>gv. case gv of
            Inl err \<Rightarrow> io_ret (Inl (WrapError ErrorKubernetes OpVerifyPVCOffline err))
          | Inr v \<Rightarrow>
              if v_UID v \<noteq> r_UID pvRef then io_ret (Inl (NewError ErrorConflict OpVerifyPVCOffline))
              else if sid \<noteq> [] \<and> foreign_owner sid (mget (v_Labels v) SessionKey)
              then io_ret (Inl (NewError ErrorConflict OpVerifyPVCOffline))
              else if \<not> claimRef_is v c then io_ret (Inl (NewError ErrorConflict OpVerifyPVCOffline))
              else io_ret (Inr ())))))"

section \<open>All volumes of a workflow\<close>

record offlineIdentityRead =
  i_pvc :: ObjectReference
  i_pv :: ObjectReference
  i_recoveryClaim :: "ObjectReference option"

fun find_index :: "('a \<Rightarrow> bool) \<Rightarrow> 'a list \<Rightarrow> nat option" where
  "find_index P [] = None"
| "find_index P (x # xs) = (if P x then Some 0 else map_option Suc (find_index P xs))"

text \<open>\<^verbatim>\<open>addIdentity\<close>: a pair that was added before is not read again.\<close>

definition addIdentity ::
    "bool \<Rightarrow> ObjectReference \<times> ObjectReference \<times> ObjectReference
      \<Rightarrow> offlineIdentityRead list \<times> nat list \<Rightarrow> offlineIdentityRead list \<times> nat list" where
  "addIdentity recovering item acc =
     (let (c, v, claim) = item; (ids, indexes) = acc in
      case find_index (\<lambda>i. i_pvc i = c \<and> i_pv i = v) ids of
        Some k \<Rightarrow> (ids, indexes @ [k])
      | None \<Rightarrow> (ids @ [\<lparr>i_pvc = c, i_pv = v,
                     i_recoveryClaim = (if recovering then Some claim else None)\<rparr>],
                 indexes @ [length ids]))"

definition identity_items ::
    "PVCTransferBindings list \<Rightarrow> (ObjectReference \<times> ObjectReference \<times> ObjectReference) list" where
  "identity_items volumes =
     concat (map (\<lambda>v. [(b_SourcePVC v, b_SourcePV v, no_reference),
                       (b_DestinationPVC v, b_DestinationPV v, b_SourcePVC v)]) volumes)"

definition offline_identities ::
    "bool \<Rightarrow> PVCTransferBindings list \<Rightarrow> offlineIdentityRead list \<times> nat list" where
  "offline_identities recovering volumes =
     fold (addIdentity recovering) (identity_items volumes) ([], [])"

fun first_error :: "unit res list \<Rightarrow> nat list \<Rightarrow> unit res" where
  "first_error results [] = Inr ()"
| "first_error results (k # ks) =
     (case results ! k of Inl e \<Rightarrow> Inl e | Inr _ \<Rightarrow> first_error results ks)"

text \<open>The elements in the order of their first occurrence.\<close>

definition first_occurrences :: "'a list \<Rightarrow> 'a list" where
  "first_occurrences xs = rev (remdups (rev xs))"

definition volume_claims :: "PVCTransferBindings list \<Rightarrow> ObjectReference list" where
  "volume_claims volumes = concat (map (\<lambda>v. [b_SourcePVC v, b_DestinationPVC v]) volumes)"

definition volume_pvNames :: "PVCTransferBindings list \<Rightarrow> string list" where
  "volume_pvNames volumes =
     first_occurrences (filter (\<lambda>n. n \<noteq> [])
       (concat (map (\<lambda>v. [r_Name (b_SourcePV v), r_Name (b_DestinationPV v)]) volumes)))"

fun checkPods :: "(string \<times> pod list option res) list \<Rightarrow> ObjectReference list \<Rightarrow> unit res" where
  "checkPods podLists [] = Inr ()"
| "checkPods podLists (ref # refs) =
     (case map_of podLists (r_Namespace ref) of
        Some (Inr (Some pods)) \<Rightarrow>
          (case ensureNoConsumerInPods pods (r_Name ref) of
             Inl e \<Rightarrow> Inl e | Inr _ \<Rightarrow> checkPods podLists refs)
      | Some (Inl err) \<Rightarrow> Inl (WrapError ErrorKubernetes OpVerifyPVCOffline err)
      | _ \<Rightarrow> Inl (WrapError ErrorKubernetes OpVerifyPVCOffline PlainError))"

definition verifyOfflineBindings ::
    "'s world \<Rightarrow> string \<Rightarrow> PVCTransferBindings list \<Rightarrow> bool \<Rightarrow> (unit res, 's) io" where
  "verifyOfflineBindings w sid volumes recovering =
     (let (ids, indexes) = offline_identities recovering volumes;
          namespaces = first_occurrences (map r_Namespace (volume_claims volumes))
      in io_bind (io_map (\<lambda>i. verifyPVCAndPVIdentity w (i_pvc i) (i_pv i) sid (i_recoveryClaim i)) ids) (\<lambda>results.
         io_try (io_ret (first_error results indexes)) (\<lambda>_.
         io_bind (ensureVolumesDetached w (volume_pvNames volumes)) (\<lambda>detachErr.
         io_bind (io_map (list_pods w) namespaces) (\<lambda>lists.
         io_try (io_ret (checkPods (zip namespaces lists) (volume_claims volumes))) (\<lambda>_.
         io_ret detachErr))))))"

text \<open>\<^verbatim>\<open>strings.TrimSpace(s) == ""\<close>: only white space, in UTF-8.\<close>

definition ascii_space :: "char \<Rightarrow> bool" where
  "ascii_space c \<longleftrightarrow> c \<in> set [CHR '' '', CHR 0x09, CHR 0x0A, CHR 0x0B, CHR 0x0C, CHR 0x0D]"

definition wide_space :: "char \<Rightarrow> char \<Rightarrow> char \<Rightarrow> bool" where
  "wide_space c d e \<longleftrightarrow>
     (c = CHR 0xE1 \<and> d = CHR 0x9A \<and> e = CHR 0x80)
   \<or> (c = CHR 0xE2 \<and> d = CHR 0x80 \<and>
        (of_char e \<in> {0x80..0x8A :: nat} \<or> e = CHR 0xA8 \<or> e = CHR 0xA9 \<or> e = CHR 0xAF))
   \<or> (c = CHR 0xE2 \<and> d = CHR 0x81 \<and> e = CHR 0x9F)
   \<or> (c = CHR 0xE3 \<and> d = CHR 0x80 \<and> e = CHR 0x80)"

fun blank :: "string \<Rightarrow> bool" where
  "blank [] = True"
| "blank [c] = ascii_space c"
| "blank [c, d] = (if ascii_space c then blank [d] else c = CHR 0xC2 \<and> (d = CHR 0x85 \<or> d = CHR 0xA0))"
| "blank (c # d # e # s) =
     (if ascii_space c then blank (d # e # s)
      else if c = CHR 0xC2 \<and> (d = CHR 0x85 \<or> d = CHR 0xA0) then blank (e # s)
      else wide_space c d e \<and> blank s)"

definition VerifyVolumesOffline :: "'s world \<Rightarrow> PVCTransferBindings list \<Rightarrow> (unit res, 's) io" where
  "VerifyVolumesOffline w volumes = verifyOfflineBindings w [] volumes False"

definition VerifyVolumeOffline :: "'s world \<Rightarrow> PVCTransferBindings \<Rightarrow> (unit res, 's) io" where
  "VerifyVolumeOffline w bindings = verifyOfflineBindings w [] [bindings] False"

definition VerifyVolumesOfflineForSession ::
    "'s world \<Rightarrow> string \<Rightarrow> PVCTransferBindings list \<Rightarrow> (unit res, 's) io" where
  "VerifyVolumesOfflineForSession w sid volumes =
     (if blank sid then io_ret (Inl (NewError ErrorValidation OpVerifyPVCOffline))
      else verifyOfflineBindings w sid volumes False)"

definition VerifyActivationRecovery ::
    "'s world \<Rightarrow> string \<Rightarrow> PVCTransferBindings list \<Rightarrow> (unit res, 's) io" where
  "VerifyActivationRecovery w sid volumes =
     (if blank sid then io_ret (Inl (NewError ErrorValidation OpVerifyActivationRecovery))
      else verifyOfflineBindings w sid volumes True)"

definition VerifyPVCOffline ::
    "'s world \<Rightarrow> string \<Rightarrow> ObjectReference \<Rightarrow> ObjectReference \<Rightarrow> (unit res, 's) io" where
  "VerifyPVCOffline w sid c v =
     verifyOfflineBindings w sid
       [\<lparr>b_SourcePVC = c, b_SourcePV = v, b_DestinationPVC = c, b_DestinationPV = v\<rparr>] False"

section \<open>Rebinding\<close>

text \<open>Recovering between the delete of a claim and the record of its replacement.\<close>

definition rebind_target_check ::
    "'s world \<Rightarrow> string \<Rightarrow> ObjectReference \<Rightarrow> ObjectReference \<Rightarrow> pvc \<Rightarrow> (unit res, 's) io" where
  "rebind_target_check w sid to pvRef target =
     (if c_DeletionTimestamp target \<noteq> None \<or> mget (c_Annotations target) SessionKey \<noteq> sid
         \<or> (r_UID to \<noteq> [] \<and> c_UID target \<noteq> r_UID to)
      then io_ret (Inl (NewError ErrorConflict OpVerifyRebindRecovery))
      else io_bind (get_pv w (r_Name pvRef)) (\<lambda>g. case g of
        Inl err \<Rightarrow> io_ret (Inl (WrapError ErrorKubernetes OpVerifyRebindRecovery err))
      | Inr v \<Rightarrow>
          if v_UID v \<noteq> r_UID pvRef \<or> v_DeletionTimestamp v \<noteq> None
             \<or> mget (v_Labels v) SessionKey \<noteq> sid \<or> v_ReclaimPolicy v \<noteq> ReclaimRetain
          then io_ret (Inl (NewError ErrorConflict OpVerifyRebindRecovery))
          else verifyPVCAndPVIdentity w (to\<lparr>r_UID := c_UID target\<rparr>) pvRef sid None))"

definition VerifyPVCRebindRecovery ::
    "'s world \<Rightarrow> string \<Rightarrow> ObjectReference \<Rightarrow> ObjectReference \<Rightarrow> ObjectReference \<Rightarrow> (unit res, 's) io" where
  "VerifyPVCRebindRecovery w sid from to pvRef =
     (if sid = [] \<or> r_Namespace from = [] \<or> r_Name from = [] \<or> r_UID from = []
         \<or> r_Namespace to = [] \<or> r_Name to = [] \<or> r_Name pvRef = [] \<or> r_UID pvRef = []
      then io_ret (Inl (NewError ErrorPrecondition OpVerifyRebindRecovery))
      else io_bind (get_pvc w (r_Namespace from) (r_Name from)) (\<lambda>g. case g of
        Inr _ \<Rightarrow> io_ret (Inl (NewError ErrorConflict OpVerifyRebindRecovery))
      | Inl err \<Rightarrow>
          if \<not> IsNotFound err then io_ret (Inl (WrapError ErrorKubernetes OpVerifyRebindRecovery err))
          else io_try
            (io_bind (get_pvc w (r_Namespace to) (r_Name to)) (\<lambda>t. case t of
               Inl err \<Rightarrow>
                 if IsNotFound err then verifyRetainedActivationPV w sid from pvRef to
                 else io_ret (Inl (WrapError ErrorKubernetes OpVerifyRebindRecovery err))
             | Inr target \<Rightarrow> rebind_target_check w sid to pvRef target)) (\<lambda>_.
            io_try (ensureNoConsumers w (r_Namespace from) (r_Name from)) (\<lambda>_.
            io_try (ensureNoConsumers w (r_Namespace to) (r_Name to)) (\<lambda>_.
            ensureDetached w (r_Name pvRef))))))"

record PVCSourceTemplate =
  t_Spec :: PVCSpec
  t_Metadata :: PVCMetadata
  t_ReclaimPolicy :: ReclaimPolicy

text \<open>\<open>same_spec\<close> and \<open>same_owners\<close> stand for \<^verbatim>\<open>apiequality.Semantic.DeepEqual\<close>,
  \<^verbatim>\<open>maps.Equal\<close> is equality.\<close>

definition VerifyPVCSourceSnapshot ::
    "(PVCSpec \<Rightarrow> PVCSpec \<Rightarrow> bool) \<Rightarrow> (OwnerReference list \<Rightarrow> OwnerReference list \<Rightarrow> bool)
      \<Rightarrow> 's world \<Rightarrow> ObjectReference \<Rightarrow> ObjectReference
      \<Rightarrow> PVCSourceTemplate \<Rightarrow> (unit res, 's) io" where
  "VerifyPVCSourceSnapshot same_spec same_owners w claim volume template =
     io_bind (get_pvc w (r_Namespace claim) (r_Name claim)) (\<lambda>g. case g of
       Inl err \<Rightarrow> io_ret (Inl (WrapError ErrorKubernetes OpVerifySourceSnapshot err))
     | Inr c \<Rightarrow>
         if c_UID c \<noteq> r_UID claim \<or> \<not> same_spec (c_Spec c) (t_Spec template)
         then io_ret (Inl (NewError ErrorConflict OpVerifySourceSnapshot))
         else if c_Labels c \<noteq> m_Labels (t_Metadata template)
              \<or> PVCAnnotationsForRecreation (c_Annotations c) \<noteq> m_Annotations (t_Metadata template)
              \<or> \<not> same_owners (c_OwnerReferences c) (m_OwnerReferences (t_Metadata template))
         then io_ret (Inl (NewError ErrorConflict OpVerifySourceSnapshot))
         else io_bind (get_pv w (r_Name volume)) (\<lambda>gv. case gv of
           Inl err \<Rightarrow> io_ret (Inl (WrapError ErrorKubernetes OpVerifySourceSnapshot err))
         | Inr v \<Rightarrow>
             if v_UID v \<noteq> r_UID volume \<or> v_ReclaimPolicy v \<noteq> t_ReclaimPolicy template
             then io_ret (Inl (NewError ErrorConflict OpVerifySourceSnapshot))
             else io_ret (Inr ())))"

definition VerifyPVCRebind ::
    "'s world \<Rightarrow> string \<Rightarrow> ObjectReference \<Rightarrow> ObjectReference \<Rightarrow> ObjectReference \<Rightarrow> bool
      \<Rightarrow> (unit res, 's) io" where
  "VerifyPVCRebind w sid from to pvr recovering =
     (if r_Namespace from = [] \<or> r_Name from = [] \<or> r_UID from = [] \<or> r_Namespace to = []
         \<or> r_Name to = [] \<or> r_Name pvr = [] \<or> r_UID pvr = []
         \<or> (r_Namespace from = r_Namespace to \<and> r_Name from = r_Name to)
      then io_ret (Inl (NewError ErrorValidation OpRebindPVC))
      else io_bind (get_pvc w (r_Namespace from) (r_Name from)) (\<lambda>g. case g of
        Inl err \<Rightarrow>
          if IsNotFound err \<and> recovering then VerifyPVCRebindRecovery w sid from to pvr
          else io_ret (Inl (WrapError ErrorKubernetes OpRebindPVC err))
      | Inr source \<Rightarrow>
          if c_UID source \<noteq> r_UID from then io_ret (Inl (NewError ErrorConflict OpRebindPVC))
          else io_bind (get_pvc w (r_Namespace to) (r_Name to)) (\<lambda>t. case t of
            Inr _ \<Rightarrow> io_ret (Inl (NewError ErrorConflict OpRebindPVC))
          | Inl err \<Rightarrow>
              if \<not> IsNotFound err then io_ret (Inl (WrapError ErrorKubernetes OpRebindPVC err))
              else VerifyPVCOffline w sid from pvr)))"

section \<open>The checks only read, and what their success means\<close>

text \<open>The claim and the volume were read with the recorded identities and point at each other; with a
  session, no other one owns them.\<close>

definition identity_verified ::
    "string \<Rightarrow> ObjectReference \<Rightarrow> ObjectReference \<Rightarrow> 's hist \<Rightarrow> bool" where
  "identity_verified sid pvcRef pvRef h \<longleftrightarrow>
     (\<exists>c v. seen_pvc pvcRef c h \<and> seen_pv pvRef v h \<and> c_Phase c = ClaimBound
        \<and> s_VolumeName (c_Spec c) = r_Name pvRef \<and> claimRef_is v c
        \<and> set (c_Finalizers c) \<subseteq> {[], PVCProtectionFinalizer}
        \<and> (sid \<noteq> [] \<longrightarrow> \<not> foreign_owner sid (mget (c_Annotations c) SessionKey)
             \<and> \<not> foreign_owner sid (mget (c_Labels c) SessionKey)
             \<and> \<not> foreign_owner sid (mget (v_Labels v) SessionKey)))"

text \<open>The claim is gone, and its volume is retained for the session and still names the claim, or is
  reserved for a given one.\<close>

definition recovery_verified ::
    "string \<Rightarrow> ObjectReference \<Rightarrow> ObjectReference \<Rightarrow> 's hist \<Rightarrow> bool" where
  "recovery_verified sid pvcRef pvRef h \<longleftrightarrow>
     pvc_gone (r_Namespace pvcRef) (r_Name pvcRef) h \<and> retained pvRef sid h
   \<and> (\<exists>v. seen_pv pvRef v h \<and> v_ClaimRef v \<noteq> None)"

lemma verified_mono:
  "suffix h h' \<Longrightarrow> identity_verified sid c v h \<Longrightarrow> identity_verified sid c v h'"
  "suffix h h' \<Longrightarrow> recovery_verified sid c v h \<Longrightarrow> recovery_verified sid c v h'"
   apply (unfold identity_verified_def, blast intro: history_facts_mono(1,2))
  apply (unfold recovery_verified_def, blast intro: history_facts_mono(1,5) retained_mono)
  done

lemma identity_verifiedI:
  "c_UID c = r_UID pvcRef \<Longrightarrow> v_UID v = r_UID pvRef \<Longrightarrow> c_Phase c = ClaimBound \<Longrightarrow>
   s_VolumeName (c_Spec c) = r_Name pvRef \<Longrightarrow> claimRef_is v c \<Longrightarrow> BlockingPVCFinalizers c = [] \<Longrightarrow>
   sid = [] \<or> (\<not> foreign_owner sid (mget (c_Annotations c) SessionKey)
      \<and> \<not> foreign_owner sid (mget (c_Labels c) SessionKey)
      \<and> \<not> foreign_owner sid (mget (v_Labels v) SessionKey)) \<Longrightarrow>
   identity_verified sid pvcRef pvRef
     (EvGetPV (r_Name pvRef) (Inr v) # EvGetPVC (r_Namespace pvcRef) (r_Name pvcRef) (Inr c) # h)"
  by (auto simp: identity_verified_def BlockingPVCFinalizers_empty)

lemma recovery_verifiedI:
  "IsNotFound e \<Longrightarrow> v_UID v = r_UID pvRef \<Longrightarrow> v_ReclaimPolicy v = ReclaimRetain \<Longrightarrow>
   mget (v_Labels v) SessionKey = sid \<Longrightarrow> v_ClaimRef v \<noteq> None \<Longrightarrow>
   recovery_verified sid pvcRef pvRef
     (EvGetPV (r_Name pvRef) (Inr v) # EvGetPVC (r_Namespace pvcRef) (r_Name pvcRef) (Inl e) # h)"
  by (auto simp: recovery_verified_def retained_def)

lemma claimRef_at_Some: "claimRef_at v ns n \<Longrightarrow> v_ClaimRef v \<noteq> None"
  by (auto simp: claimRef_at_def split: option.splits)

lemma verifyRetainedActivationPV_wp:
  "IsNotFound e \<Longrightarrow>
   wp only_reads (verifyRetainedActivationPV w sid c v claim)
     (\<lambda>r h'. r = Inr () \<longrightarrow> recovery_verified sid c v h')
     (EvGetPVC (r_Namespace c) (r_Name c) (Inl e) # h)"
  unfolding verifyRetainedActivationPV_def Let_def
  by (auto simp: io_rules guard_simps split: sum.splits if_splits
      intro!: io_intros recovery_verifiedI dest: claimRef_at_Some)

lemma verifyPVCAndPVIdentity_wp:
  "wp only_reads (verifyPVCAndPVIdentity w c v sid rc)
     (\<lambda>r h'. r = Inr () \<longrightarrow> identity_verified sid c v h' \<or> (rc \<noteq> None \<and> recovery_verified sid c v h')) h"
  unfolding verifyPVCAndPVIdentity_def validatePVCDeletionFinalizers_def
  by (auto simp: io_rules guard_simps split: sum.splits option.splits
      intro!: io_intros identity_verifiedI wp_conseq [OF verifyRetainedActivationPV_wp])

lemma find_index_Some: "find_index P xs = Some k \<Longrightarrow> k < length xs \<and> P (xs ! k)"
  by (induction xs arbitrary: k) (auto split: if_splits)

lemma find_index_None: "find_index P xs = None \<longleftrightarrow> (\<forall>x\<in>set xs. \<not> P x)"
  by (induction xs) auto

text \<open>Every pair is among the identities that are read, every identity is looked at, and the
  identities may be recovered exactly when the caller recovers.\<close>

definition identities_ok ::
    "bool \<Rightarrow> (ObjectReference \<times> ObjectReference) set \<Rightarrow> offlineIdentityRead list \<times> nat list \<Rightarrow> bool" where
  "identities_ok recovering keys acc \<longleftrightarrow>
     set (snd acc) = {..<length (fst acc)}
   \<and> (\<forall>i\<in>set (fst acc). i_recoveryClaim i \<noteq> None \<longrightarrow> recovering)
   \<and> (\<forall>(c, v)\<in>keys. \<exists>i\<in>set (fst acc). i_pvc i = c \<and> i_pv i = v)"

lemma addIdentity_ok:
  assumes "identities_ok recovering keys acc"
  shows "identities_ok recovering (insert (fst item, fst (snd item)) keys) (addIdentity recovering item acc)"
proof -
  obtain c v claim ids indexes where [simp]: "item = (c, v, claim)" "acc = (ids, indexes)"
    by (metis surj_pair)
  show ?thesis
  proof (cases "find_index (\<lambda>i. i_pvc i = c \<and> i_pv i = v) ids")
    case None
    then show ?thesis using assms by (auto simp: addIdentity_def identities_ok_def)
  next
    case (Some k)
    with find_index_Some [OF Some] show ?thesis
      using assms by (auto simp: addIdentity_def identities_ok_def)
  qed
qed

lemma fold_addIdentity_ok:
  "identities_ok recovering keys acc \<Longrightarrow>
   identities_ok recovering (keys \<union> (\<lambda>(c, v, _). (c, v)) ` set items) (fold (addIdentity recovering) items acc)"
proof (induction items arbitrary: keys acc)
  case (Cons item items)
  from Cons.IH [OF addIdentity_ok [OF Cons.prems, of item]] show ?case
    by (cases item) simp
qed simp

lemma offline_identities_ok:
  assumes "offline_identities recovering volumes = (ids, indexes)" and "vol \<in> set volumes"
  shows "set indexes = {..<length ids}" and "\<forall>i\<in>set ids. i_recoveryClaim i \<noteq> None \<longrightarrow> recovering"
    and "\<exists>i\<in>set ids. i_pvc i = b_SourcePVC vol \<and> i_pv i = b_SourcePV vol"
    and "\<exists>i\<in>set ids. i_pvc i = b_DestinationPVC vol \<and> i_pv i = b_DestinationPV vol"
proof -
  have *: "identities_ok recovering ({} \<union> (\<lambda>(c, v, _). (c, v)) ` set (identity_items volumes)) (ids, indexes)"
    using fold_addIdentity_ok [of recovering "{}" "([], [])" "identity_items volumes"] assms(1)
    by (simp add: offline_identities_def identities_ok_def)
  have "(b_SourcePVC vol, b_SourcePV vol, no_reference) \<in> set (identity_items volumes)"
    "(b_DestinationPVC vol, b_DestinationPV vol, b_SourcePVC vol) \<in> set (identity_items volumes)"
    using assms(2) by (auto simp: identity_items_def)
  then have "(b_SourcePVC vol, b_SourcePV vol) \<in> (\<lambda>(c, v, _). (c, v)) ` set (identity_items volumes)"
    "(b_DestinationPVC vol, b_DestinationPV vol) \<in> (\<lambda>(c, v, _). (c, v)) ` set (identity_items volumes)"
    by force+
  then show "set indexes = {..<length ids}" "\<forall>i\<in>set ids. i_recoveryClaim i \<noteq> None \<longrightarrow> recovering"
    "\<exists>i\<in>set ids. i_pvc i = b_SourcePVC vol \<and> i_pv i = b_SourcePV vol"
    "\<exists>i\<in>set ids. i_pvc i = b_DestinationPVC vol \<and> i_pv i = b_DestinationPV vol"
    using * by (auto simp: identities_ok_def)
qed

lemma first_error_ok: "first_error results ks = Inr () \<longleftrightarrow> (\<forall>k\<in>set ks. results ! k = Inr ())"
  by (induction ks) (auto split: sum.splits)

lemma checkPods_ok:
  "checkPods podLists refs = Inr () \<Longrightarrow> ref \<in> set refs \<Longrightarrow>
   \<exists>pods. (r_Namespace ref, Inr (Some pods)) \<in> set podLists
     \<and> (\<forall>p\<in>set pods. \<not> PodPreventsSafePVCDeletion p (r_Name ref))"
  by (induction refs)
     (auto split: option.splits sum.splits dest: map_of_SomeD simp: ensureNoConsumerInPods_ok)

lemma set_first_occurrences [simp]: "set (first_occurrences xs) = set xs"
  by (simp add: first_occurrences_def)

text \<open>What a passed offline check says about one volume.\<close>

definition pair_verified ::
    "bool \<Rightarrow> string \<Rightarrow> ObjectReference \<Rightarrow> ObjectReference \<Rightarrow> 's hist \<Rightarrow> bool" where
  "pair_verified recovering sid c v h \<longleftrightarrow>
     identity_verified sid c v h \<or> (recovering \<and> recovery_verified sid c v h)"

definition offline_verified :: "bool \<Rightarrow> string \<Rightarrow> PVCTransferBindings \<Rightarrow> 's hist \<Rightarrow> bool" where
  "offline_verified recovering sid vol h \<longleftrightarrow>
     pair_verified recovering sid (b_SourcePVC vol) (b_SourcePV vol) h
   \<and> pair_verified recovering sid (b_DestinationPVC vol) (b_DestinationPV vol) h
   \<and> no_consumer (r_Namespace (b_SourcePVC vol)) (r_Name (b_SourcePVC vol)) h
   \<and> no_consumer (r_Namespace (b_DestinationPVC vol)) (r_Name (b_DestinationPVC vol)) h
   \<and> (r_Name (b_SourcePV vol) = [] \<or> detached (r_Name (b_SourcePV vol)) h)
   \<and> (r_Name (b_DestinationPV vol) = [] \<or> detached (r_Name (b_DestinationPV vol)) h)"

definition identity_result :: "string \<Rightarrow> 's hist \<Rightarrow> offlineIdentityRead \<Rightarrow> unit res \<Rightarrow> bool" where
  "identity_result sid h i r \<longleftrightarrow> (r = Inr () \<longrightarrow> identity_verified sid (i_pvc i) (i_pv i) h
     \<or> (i_recoveryClaim i \<noteq> None \<and> recovery_verified sid (i_pvc i) (i_pv i) h))"

lemma identity_result_mono: "suffix h h' \<Longrightarrow> identity_result sid h i r \<Longrightarrow> identity_result sid h' i r"
  unfolding identity_result_def by (blast intro: verified_mono)

lemma verifyPVCAndPVIdentity_result:
  "wp only_reads (verifyPVCAndPVIdentity w (i_pvc i) (i_pv i) sid (i_recoveryClaim i))
     (\<lambda>r h'. identity_result sid h' i r) h"
  by (rule wp_conseq [OF verifyPVCAndPVIdentity_wp]) (simp_all add: identity_result_def)

lemma checked_identities:
  assumes ids: "offline_identities recovering volumes = (ids, indexes)" and vol: "vol \<in> set volumes"
    and results: "list_all2 (identity_result sid h) ids results"
    and ok: "first_error results indexes = Inr ()"
  shows "pair_verified recovering sid (b_SourcePVC vol) (b_SourcePV vol) h
    \<and> pair_verified recovering sid (b_DestinationPVC vol) (b_DestinationPV vol) h"
proof -
  note facts = offline_identities_ok [OF ids vol]
  have "pair_verified recovering sid (i_pvc i) (i_pv i) h" if i: "i \<in> set ids" for i
  proof -
    obtain k where k: "k < length ids" "ids ! k = i" using i unfolding in_set_conv_nth by blast
    have "results ! k = Inr ()" using ok facts(1) k(1) by (simp add: first_error_ok)
    then have "identity_result sid h i (Inr ())" using list_all2_nthD [OF results k(1)] k(2) by simp
    moreover have "i_recoveryClaim i \<noteq> None \<longrightarrow> recovering" using facts(2) i by (rule bspec)
    ultimately show ?thesis by (simp add: pair_verified_def identity_result_def) argo
  qed
  note verified = this
  from facts(3) verified have "pair_verified recovering sid (b_SourcePVC vol) (b_SourcePV vol) h" by force
  moreover from facts(4) verified
  have "pair_verified recovering sid (b_DestinationPVC vol) (b_DestinationPV vol) h" by force
  ultimately show ?thesis ..
qed

lemma checked_pods:
  assumes answers: "list_all2 (\<lambda>ns r. EvListPods ns r \<in> set h) namespaces answers"
    and ok: "checkPods (zip namespaces answers) refs = Inr ()" and "ref \<in> set refs"
  shows "no_consumer (r_Namespace ref) (r_Name ref) h"
proof -
  obtain pods where pods: "(r_Namespace ref, Inr (Some pods)) \<in> set (zip namespaces answers)"
    "\<forall>p\<in>set pods. \<not> PodPreventsSafePVCDeletion p (r_Name ref)"
    using checkPods_ok [OF ok assms(3)] by blast
  then have "EvListPods (r_Namespace ref) (Inr (Some pods)) \<in> set h"
    using answers by (auto simp: list_all2_iff)
  then show ?thesis using pods(2) by (auto simp: no_consumer_def)
qed

lemma offline_verifiedI:
  assumes "offline_identities recovering volumes = (ids, indexes)"
    and "list_all2 (identity_result sid h1) ids results" and "first_error results indexes = Inr ()"
    and "suffix h1 h2" and detached: "\<forall>n\<in>set (volume_pvNames volumes). detached n h2" and "suffix h2 h3"
    and "list_all2 (\<lambda>n r. EvListPods n r \<in> set h3) ns answers"
    and "checkPods (zip ns answers) (volume_claims volumes) = Inr ()" and vol: "vol \<in> set volumes"
  shows "offline_verified recovering sid vol h3"
proof -
  have "b_SourcePVC vol \<in> set (volume_claims volumes)" "b_DestinationPVC vol \<in> set (volume_claims volumes)"
    using vol by (auto simp: volume_claims_def)
  note claims = this [THEN checked_pods [OF assms(7,8)]]
  have "n = [] \<or> detached n h3" if "n \<in> {r_Name (b_SourcePV vol), r_Name (b_DestinationPV vol)}" for n
    using that vol detached history_facts_mono(4) [OF assms(6)] by (auto simp: volume_pvNames_def)
  moreover note verified_mono [OF suffix_order.trans [OF assms(4,6)]]
  ultimately show ?thesis
    using checked_identities [OF assms(1) vol assms(2,3)] claims
    by (auto simp: offline_verified_def pair_verified_def)
qed

lemma verifyOfflineBindings_wp:
  "wp only_reads (verifyOfflineBindings w sid volumes recovering)
     (\<lambda>r h'. r = Inr () \<longrightarrow> (\<forall>vol\<in>set volumes. offline_verified recovering sid vol h')) h"
proof -
  obtain ids indexes where ids: "offline_identities recovering volumes = (ids, indexes)" by fastforce
  have identities: "wp only_reads (io_map (\<lambda>i. verifyPVCAndPVIdentity w (i_pvc i) (i_pv i) sid (i_recoveryClaim i)) ids)
      (\<lambda>results h'. list_all2 (\<lambda>i r. identity_result sid h' i r) ids results) h" for h
    by (rule wp_io_map [OF verifyPVCAndPVIdentity_result identity_result_mono])
  have pods: "wp only_reads (io_map (list_pods w) ns)
      (\<lambda>answers h'. list_all2 (\<lambda>n r. EvListPods n r \<in> set h') ns answers) h" for ns h
    by (rule wp_io_map) (auto simp: guard_simps intro!: io_intros dest: set_mono_suffix)
  show ?thesis
    unfolding verifyOfflineBindings_def ids
    by (auto simp: io_rules Let_def split: sum.splits
        intro!: wp_conseq [OF identities] wp_conseq [OF ensureVolumesDetached_wp] wp_conseq [OF pods])
       (rule offline_verifiedI [OF ids], assumption+)
qed

lemma read_checks_wp:
  "wp only_reads (VerifyPVCRebindRecovery w sid from to pvr) (\<lambda>_ _. True) h"
  "wp only_reads (VerifyPVCSourceSnapshot same_spec same_owners w claim pvr template) (\<lambda>_ _. True) h"
  unfolding VerifyPVCRebindRecovery_def rebind_target_check_def VerifyPVCSourceSnapshot_def
    verifyRetainedActivationPV_def Let_def
  by (auto simp: io_rules guard_simps split: sum.splits
      intro!: io_intros wp_conseq [OF verifyPVCAndPVIdentity_wp] wp_conseq [OF ensureNoConsumers_wp]
        wp_conseq [OF ensureDetached_wp])

end
