(* ===== verification/StaticWorld.thy ===== *)
theory StaticWorld
  imports Effects
begin

text \<open>
  A world whose answers do not depend on the history, the base of the concrete runs that show that
  the hypotheses of the properties can be met, and how to pick an event out of a run.
\<close>

definition static_world ::
    "(string \<Rightarrow> string \<Rightarrow> pvc res) \<Rightarrow> (string \<Rightarrow> pv res) \<Rightarrow> 's world" where
  "static_world pvcs pvs =
     \<lparr>w_ctx_err = (\<lambda>h. None),
      w_fences = [],
      w_patience = (\<lambda>h. 0),
      w_done = (\<lambda>h. ContextDeadlineExceeded),
      w_now = (\<lambda>h. 7),
      w_retry = (\<lambda>f. f),
      w_get_pvc = (\<lambda>h. pvcs),
      w_create_pvc = (\<lambda>h dry c. Inr c),
      w_update_pvc = (\<lambda>h c. Inr c),
      w_delete_pvc = (\<lambda>h ns n uid rv. Inr ()),
      w_get_pv = (\<lambda>h. pvs),
      w_update_pv = (\<lambda>h v. Inr v),
      w_list_pods = (\<lambda>h ns. Inr (Some [])),
      w_list_attachments = (\<lambda>h. Inr (Some [])),
      w_get_lease = (\<lambda>h ns n. Inl (ApiError NotFound)),
      w_create_lease = (\<lambda>h ns n l. Inr (Some (l\<lparr>l_UID := ''lease''\<rparr>))),
      w_update_lease = (\<lambda>h ns n l. Inr (Some l)),
      w_delete_lease = (\<lambda>h ns n uid rv. Inr ()),
      w_load_workflow = (\<lambda>h ns n. Inl (ApiError NotFound)),
      w_delete_workflow = (\<lambda>h ns n uid. Inr ()),
      w_get_configmap = (\<lambda>h ns n. Inl (ApiError NotFound)),
      w_get_workflow = (\<lambda>h kind ns n. Inl (ApiError NotFound)),
      w_get_namespace = (\<lambda>h n. Inr ()),
      w_list_quotas = (\<lambda>h ns. Inr (Some [])),
      w_list_limit_ranges = (\<lambda>h ns. Inr (Some [])),
      w_delete_pv = (\<lambda>h n uid rv. Inr ()),
      w_delete_pod = (\<lambda>h ns n uid rv. Inr ()),
      w_get_node = (\<lambda>h n. Inl (ApiError NotFound)),
      w_list_nodes = (\<lambda>h. Inr []),
      w_get_storage_class = (\<lambda>h n. Inl (ApiError NotFound)),
      w_get_pod = (\<lambda>h ns n. Inl (ApiError NotFound)),
      w_create_pod = (\<lambda>h p. Inr p),
      w_list_pods_by = (\<lambda>h ns selector. Inr (Some [])),
      w_get_service_account = (\<lambda>h ns n. Inl (ApiError NotFound)),
      w_create_service_account = (\<lambda>h a. Inr (Some a)),
      w_update_service_account = (\<lambda>h a. Inr (Some a)),
      w_get_workload = (\<lambda>h kind ns n. Inl (ApiError NotFound)),
      w_copy = (\<lambda>h q. Inr ()),
      w_copy_cleanup = (\<lambda>h q. Inr ()),
      w_sleep = (\<lambda>h d. None),
      w_save = (\<lambda>h s. Inr ()),
      w_deletion = False,
      w_finalize = False,
      w_timeout_err = (\<lambda>h. None),
      w_lost = (\<lambda>h holder. None),
      w_unbound = (\<lambda>h holder. False),
      w_quantity_string = (\<lambda>q. if q = 2 then ''2'' else []),
      w_parse_quantity = (\<lambda>s. if s = ''2'' then Some 2 else None)\<rparr>"

lemma static_retry [simp]: "retry_contract (static_world pvcs pvs)"
  by (simp add: retry_contract_def static_world_def last_attempt)

lemma run_split:
  assumes "list_ex P (snd run)"
  obtains x es2 e es1 where "run = (x, es2 @ e # es1)" and "P e"
proof -
  obtain e where e: "e \<in> set (snd run)" "P e" using assms by (auto simp: list_ex_iff)
  then obtain es2 es1 where "snd run = es2 @ e # es1" by (meson split_list)
  then have "run = (fst run, es2 @ e # es1)" by (simp add: prod_eq_iff)
  then show ?thesis using that e(2) by blast
qed

end
