(* ===== verification/Runs.thy ===== *)
theory Runs
  imports Rollback Offline StaticWorld
begin

text \<open>
  Concrete worlds for concrete runs: a cluster whose answers do not change, with a source claim
  \<open>a\<close> on volume \<open>p\<close> and a destination claim \<open>b\<close> on volume \<open>q\<close>, owned by session
  \<open>s\<close>. The runs show that the hypotheses of the properties can be met.
\<close>

definition demo_spec :: "string \<Rightarrow> PVCSpec" where
  "demo_spec vol = \<lparr>s_AccessModes = [ReadWriteOnce], s_Selector = None, s_StorageRequest = Some 2,
     s_VolumeName = vol, s_StorageClassName = Some ''fast'', s_VolumeMode = None,
     s_DataSource = None, s_DataSourceRef = None, s_VolumeAttributesClassName = None\<rparr>"

definition demo_pvc :: "string \<Rightarrow> string \<Rightarrow> string \<Rightarrow> gomap \<Rightarrow> pvc" where
  "demo_pvc n uid vol annotations = \<lparr>c_Namespace = ''n'', c_Name = n, c_UID = uid, c_ResourceVersion = ''1'',
     c_Labels = Map.empty, c_Annotations = annotations, c_Finalizers = [],
     c_OwnerReferences = [], c_DeletionTimestamp = None, c_Spec = demo_spec vol, c_Phase = ClaimBound,
     c_AllocatedStorage = None, c_CurrentVolumeAttributesClassName = None,
     c_TargetVolumeAttributesClassName = None\<rparr>"

definition demo_labels :: "string \<Rightarrow> gomap" where
  "demo_labels role = [ManagedByLabel \<mapsto> ManagedByValue, SessionKey \<mapsto> ''s'', ResourceRoleLabel \<mapsto> role]"

definition demo_pv :: "string \<Rightarrow> string \<Rightarrow> pvc \<Rightarrow> pv" where
  "demo_pv n uid c = \<lparr>v_Name = n, v_UID = uid, v_ResourceVersion = ''1'', v_Labels = Map.empty,
     v_Annotations = Map.empty, v_DeletionTimestamp = None, v_ReclaimPolicy = ReclaimDelete,
     v_ClaimRef = Some (PVCReference c), v_Capacity = Some 2, v_Phase = VolumeBound,
     v_RequiredNodeTerms = []\<rparr>"

definition demo_src :: pvc where "demo_src = demo_pvc ''a'' ''u1'' ''p'' Map.empty"
definition demo_dst :: pvc where "demo_dst = demo_pvc ''b'' ''u2'' ''q'' Map.empty"
definition demo_active :: pvc where "demo_active = demo_pvc ''a'' ''u3'' ''q'' [SessionKey \<mapsto> ''s'']"

definition demo_bindings :: PVCTransferBindings where
  "demo_bindings = \<lparr>b_SourcePVC = PVCReference demo_src,
     b_SourcePV = PVReference (demo_pv ''p'' ''x1'' demo_src),
     b_DestinationPVC = PVCReference demo_dst,
     b_DestinationPV = PVReference (demo_pv ''q'' ''x2'' demo_dst)\<rparr>"

definition no_metadata :: PVCMetadata where
  "no_metadata = \<lparr>m_Labels = Map.empty, m_Annotations = Map.empty, m_OwnerReferences = []\<rparr>"

definition demo_desired :: pvc where
  "demo_desired = BoundPVCManifest ''s'' (PVCReference demo_src) ''q'' (demo_spec ''p'') no_metadata"

definition demo_restored :: pvc where
  "demo_restored = BoundPVCManifest ''s'' (PVCReference demo_src) ''p'' (demo_spec ''p'') no_metadata"

definition no_status :: act where
  "no_status = \<lparr>a_TemporaryPVCDeleted = False, a_SourcePVCDeleted = False, a_DestinationReserved = False,
     a_ActivePVC = None, a_ActivatedAt = None, a_RolledBackAt = None\<rparr>"

definition demo_progress :: "('t, 't) progress" where
  "demo_progress = Some (\<lambda>st. io_request (\<lambda>_. Inr ()) (EvSave st))"

lemma demo_saves [simp]: "saves_status demo_progress" "saves_only demo_progress"
  by (auto simp: saves_status_def demo_progress_def io_request_def intro!: saves_status_only)

text \<open>Before the cutover both claims exist; after it, only the activated claim does.\<close>

definition before_world :: "'s world" where
  "before_world = static_world
     (\<lambda>ns n. if n = ''a'' then Inr demo_src else if n = ''b'' then Inr demo_dst else Inl (ApiError NotFound))
     (\<lambda>n. if n = ''p'' then Inr (demo_pv ''p'' ''x1'' demo_src)
          else if n = ''q'' then Inr (demo_pv ''q'' ''x2'' demo_dst) else Inl (ApiError NotFound))"

definition after_world :: "'s world" where
  "after_world = static_world
     (\<lambda>ns n. if n = ''a'' then Inr demo_active else Inl (ApiError NotFound))
     (\<lambda>n. if n = ''p'' then Inr (demo_pv ''p'' ''x1'' demo_src)
          else if n = ''q'' then Inr (demo_pv ''q'' ''x2'' demo_active) else Inl (ApiError NotFound))"

lemma demo_retry [simp]: "retry_contract before_world" "retry_contract after_world"
  by (simp_all add: before_world_def after_world_def)

lemmas run_defs =
  static_world_def io_ret_def io_bind_def io_try_def io_try_st_def io_then_st_def io_request_def io_now_def
  ctx_state_def fence_check_def fence_check_after_def ctx_err_def get_pvc_def create_pvc_def update_pvc_def
  delete_pvc_def get_pv_def update_pv_def list_pods_def list_attachments_def WaitFor_def wait_loop.simps
  LeaseFenceError_def errors_join_def List.map_filter_simps IsNotFound_def IsConflict_def reason_of_def

lemmas step_defs =
  ensureNoConsumers_def ensureVolumesDetached_def ensureDetached_def callProgress_def deletePVC_wait_def
  deletePVC_def verifyBinding_def claimRef_is_def ensureRetain_def retain_attempt_def write_pv_if_changed_def
  wrap_unless_conflict_def markPVPair_def pair_attempt_def activePVC_def saveActivationCheckpoint_def
  completeActivation_def completeRollback_def validateActivePVCRequest_def storage_request_def
  deleteTemporaryActivationPVC_def activate_cutover_def activateVolumeResources_def
  validateTemporaryActivationPVC_def validateActivatePVC_def ActivatePVC_def owned_elsewhere_def
  validatePVCDeletionFinalizers_def BlockingPVCFinalizers_def switcher_poll_def second_def
  ValidateBoundVolumeCapacity_def owned_claim_def attached_to_def

lemmas demo_defs =
  demo_spec_def demo_pvc_def demo_pv_def demo_src_def demo_dst_def demo_active_def demo_bindings_def
  demo_desired_def demo_restored_def no_metadata_def no_status_def demo_progress_def BoundPVCManifest_def
  PVCReference_def PVReference_def PVCAnnotationsForRecreation_get

definition demo_activation :: "'s world \<Rightarrow> (act, 's) progress \<Rightarrow> (act option \<times> unit res, 's) io" where
  "demo_activation w p = ActivatePVC w ''s'' ''n'' demo_bindings (Some demo_desired) (Some no_status) p"

fun is_delete :: "'s event \<Rightarrow> bool" where
  "is_delete (EvDeletePVC ns n uid rv r) = True"
| "is_delete e = False"

lemma before_run_deletes: "list_ex is_delete (snd (demo_activation before_world demo_progress []))"
  by (simp add: demo_activation_def before_world_def run_defs step_defs demo_defs)

lemma after_run_succeeds: "snd (fst (demo_activation after_world demo_progress [])) = Inr ()"
  by (simp add: demo_activation_def after_world_def run_defs step_defs demo_defs)

fun is_create :: "'s event \<Rightarrow> bool" where
  "is_create (EvCreatePVC dry c r) = (\<not> dry)"
| "is_create e = False"

fun is_volume_update :: "'s event \<Rightarrow> bool" where
  "is_volume_update (EvUpdatePV v r) = True"
| "is_volume_update e = False"

lemma before_run_fails: "snd (fst (demo_activation before_world demo_progress [])) \<noteq> Inr ()"
  by (simp add: demo_activation_def before_world_def run_defs step_defs demo_defs)

lemma before_run_updates: "list_ex is_volume_update (snd (demo_activation before_world demo_progress []))"
  by (simp add: demo_activation_def before_world_def run_defs step_defs demo_defs retain_pv_def
      marked_pv_def pin_policy_def markPVSession_def)

text \<open>A cutover that was interrupted after its last checkpoint: both claims are gone.\<close>

definition gone_world :: "'s world" where
  "gone_world = static_world (\<lambda>ns n. Inl (ApiError NotFound))
     (\<lambda>n. if n = ''p'' then Inr (demo_pv ''p'' ''x1'' demo_src)
          else if n = ''q'' then Inr (demo_pv ''q'' ''x2'' demo_dst) else Inl (ApiError NotFound))"

lemma gone_retry [simp]: "retry_contract gone_world"
  by (simp add: gone_world_def)

definition reserved_status :: act where
  "reserved_status = no_status\<lparr>a_TemporaryPVCDeleted := True, a_SourcePVCDeleted := True,
     a_DestinationReserved := True\<rparr>"

lemma gone_run_creates:
  "list_ex is_create (snd (ActivatePVC gone_world ''s'' ''n'' demo_bindings (Some demo_desired)
     (Some reserved_status) demo_progress []))"
  by (simp add: gone_world_def reserved_status_def run_defs step_defs demo_defs
      deleteSourceActivationPVC_def reserveActivationDestination_def createBoundPVC_def)

text \<open>A listed kind of event splits the run at such an event.\<close>

section \<open>Rollback and rename runs\<close>

lemmas rollback_defs =
  RollbackPVC_def validateRollbackPVC_def rollback_other_namespace_def removeActiveDestination_def
  rollback_source_def rollback_restore_def live_reference_def no_reference_def
  RenamePVC_def validateRenamePVCRequest_def rename_source_def rename_existing_def rename_rebind_def

definition demo_rollback :: "'s world \<Rightarrow> string \<Rightarrow> (act, 's) progress \<Rightarrow> (act option \<times> unit res, 's) io" where
  "demo_rollback w ns p = RollbackPVC w ''s'' ns demo_bindings (Some demo_restored) (Some no_status) p"

lemma rollback_run_deletes: "list_ex is_delete (snd (demo_rollback after_world ''n'' demo_progress []))"
  by (simp add: demo_rollback_def after_world_def run_defs step_defs demo_defs rollback_defs)

lemma rollback_run_succeeds: "snd (fst (demo_rollback before_world ''n'' demo_progress [])) = Inr ()"
  by (simp add: demo_rollback_def before_world_def run_defs step_defs demo_defs rollback_defs)

text \<open>The activated claim lives in namespace \<open>m\<close>, and a running Pod there uses it.\<close>

definition demo_moved :: pvc where
  "demo_moved = demo_active\<lparr>c_Namespace := ''m''\<rparr>"

definition demo_pod :: pod where
  "demo_pod = \<lparr>p_Namespace = ''m'', p_Name = ''pod'', p_UID = ''u'', p_ResourceVersion = ''1'',
     p_Labels = Map.empty, p_ClaimVolumes = [Some ''a''], p_NodeName = ''node'', p_Phase = PodRunning,
     p_Conditions = [], p_OwnerReferences = [], p_NodeSelector = Map.empty, p_Tolerations = [], p_Images = []\<rparr>"

definition busy_world :: "'s world" where
  "busy_world = (static_world
     (\<lambda>ns n. if ns = ''m'' \<and> n = ''a'' then Inr demo_moved else Inl (ApiError NotFound))
     (\<lambda>n. if n = ''p'' then Inr (demo_pv ''p'' ''x1'' demo_src)
          else if n = ''q'' then Inr (demo_pv ''q'' ''x2'' demo_moved) else Inl (ApiError NotFound)))
     \<lparr>w_list_pods := (\<lambda>h ns. Inr (Some (if ns = ''m'' then [demo_pod] else [])))\<rparr>"

definition demo_renamed :: pvc where
  "demo_renamed = BoundPVCManifest ''s'' ((PVCReference demo_src)\<lparr>r_Name := ''z''\<rparr>) ''p''
     (demo_spec ''p'') no_metadata"

definition demo_rename :: "'s world \<Rightarrow> (unit, 's) progress \<Rightarrow> (pvc res, 's) io" where
  "demo_rename w p = RenamePVC w ''s'' (PVCReference demo_src) (b_SourcePV demo_bindings)
     (Some demo_renamed) p"

lemma rename_run_deletes: "list_ex is_delete (snd (demo_rename before_world demo_progress []))"
  by (simp add: demo_rename_def before_world_def run_defs step_defs demo_defs rollback_defs demo_renamed_def)

text \<open>The rename was interrupted after the claim had got its new name.\<close>

definition demo_target :: pvc where
  "demo_target = demo_pvc ''z'' ''u4'' ''p'' [SessionKey \<mapsto> ''s'']"

definition renamed_world :: "'s world" where
  "renamed_world = static_world
     (\<lambda>ns n. if n = ''z'' then Inr demo_target else Inl (ApiError NotFound))
     (\<lambda>n. if n = ''p'' then Inr (demo_pv ''p'' ''x1'' demo_target) else Inl (ApiError NotFound))"

lemma renamed_retry [simp]: "retry_contract renamed_world"
  by (simp add: renamed_world_def)

lemma rename_run_succeeds: "fst (demo_rename renamed_world demo_progress []) = Inr demo_target"
  by (simp add: demo_rename_def renamed_world_def demo_target_def run_defs step_defs demo_defs rollback_defs
      demo_renamed_def)

end
