(* ===== verification/SwitcherSafety.thy ===== *)
theory SwitcherSafety
  imports Runs
begin

text \<open>
  The properties of the switcher's three rebinding operations, for every world: every answer of the
  API server, every interleaving with other clients, every moment at which the context or the lease
  ends. A run is \<^verbatim>\<open>op [] = (result, events)\<close>, newest event first; in
  \<open>es2 @ e # es1\<close> the events \<open>es1\<close> are what happened before \<open>e\<close>.
\<close>

section \<open>From guards to facts about single events\<close>

lemma guards_fenced:
  "pv_update_guard ref sid f e h \<Longrightarrow> writes_storage e \<Longrightarrow> fenced h"
  "pair_guard sid s d e h \<Longrightarrow> writes_storage e \<Longrightarrow> fenced h"
  "delete_guard ref e h \<Longrightarrow> writes_storage e \<Longrightarrow> fenced h"
  "create_guard c e h \<Longrightarrow> writes_storage e \<Longrightarrow> fenced h"
  "pvc_update_guard ref ok g e h \<Longrightarrow> writes_storage e \<Longrightarrow> fenced h"
  by (auto simp: pv_update_guard_def pair_guard_def delete_guard_def create_guard_def
      pvc_update_guard_def is_read_no_write)

lemma guard_fenced:
  "activation_guard sid st0 vol d e h \<Longrightarrow> writes_storage e \<Longrightarrow> fenced h"
  "rollback_guard sid vol d e h \<Longrightarrow> writes_storage e \<Longrightarrow> fenced h"
  "rename_guard sid src pvr d e h \<Longrightarrow> writes_storage e \<Longrightarrow> fenced h"
  by (auto simp: activation_guard_def rollback_guard_def rename_guard_def dest: guards_fenced)

text \<open>Guards that never allow a delete, a create or a volume update.\<close>

lemma guards_exclude [simp]:
  "\<not> pv_update_guard ref sid f (EvDeletePVC ns n uid rv r) h"
  "\<not> pair_guard sid s d (EvDeletePVC ns n uid rv r) h"
  "\<not> create_guard c (EvDeletePVC ns n uid rv r) h"
  "\<not> pv_update_guard ref sid f (EvCreatePVC False c' r') h"
  "\<not> pair_guard sid s d (EvCreatePVC False c' r') h"
  "\<not> delete_guard ref (EvCreatePVC False c' r') h"
  "\<not> delete_guard ref (EvUpdatePV v r'') h"
  "\<not> create_guard c (EvUpdatePV v r'') h"
  by (auto simp: pv_update_guard_def pair_guard_def delete_guard_def create_guard_def)

text \<open>A delete of a recorded claim: identity and version of a claim that was read under that
  reference, with no finalizer but the built-in one.\<close>

definition delete_of ::
    "ObjectReference \<Rightarrow> string \<Rightarrow> string \<Rightarrow> string \<Rightarrow> string \<Rightarrow> 's hist \<Rightarrow> bool" where
  "delete_of ref ns n uid rv h \<longleftrightarrow> ns = r_Namespace ref \<and> n = r_Name ref \<and> uid = r_UID ref
     \<and> (\<exists>c. seen_pvc ref c h \<and> rv = c_ResourceVersion c
          \<and> set (c_Finalizers c) \<subseteq> {[], PVCProtectionFinalizer})"

lemma delete_guard_delete:
  "delete_guard ref (EvDeletePVC ns n uid rv r) h \<Longrightarrow> delete_of ref ns n uid rv h"
  by (auto simp: delete_guard_def delete_of_def)

text \<open>A volume update that is safe for the data: same volume, same version, the policy only ever
  pinned to Retain, and the original policy recorded once and for all.\<close>

definition safe_volume_update :: "pv \<Rightarrow> pv \<Rightarrow> bool" where
  "safe_volume_update v0 v \<longleftrightarrow>
     v_Name v = v_Name v0 \<and> v_UID v = v_UID v0 \<and> v_ResourceVersion v = v_ResourceVersion v0
   \<and> v_Capacity v = v_Capacity v0
   \<and> (v_ReclaimPolicy v = v_ReclaimPolicy v0
      \<or> (v_ReclaimPolicy v = ReclaimRetain
         \<and> mget (v_Annotations v) OriginalPolicyAnnotation =
             (if mget (v_Annotations v0) OriginalPolicyAnnotation = [] then v_ReclaimPolicy v0
              else mget (v_Annotations v0) OriginalPolicyAnnotation)))
   \<and> (mget (v_Annotations v0) OriginalPolicyAnnotation \<noteq> [] \<longrightarrow>
        mget (v_Annotations v) OriginalPolicyAnnotation = mget (v_Annotations v0) OriginalPolicyAnnotation)"

lemma pin_policy_Capacity [simp]: "v_Capacity (fst (pin_policy vc)) = v_Capacity (fst vc)"
  by (auto simp: pin_policy_def Let_def split: prod.splits)

lemma marked_pv_Capacity [simp]: "v_Capacity (fst (marked_pv sid role v)) = v_Capacity v"
  by (simp add: marked_pv_def case_prod_beta)

lemma volume_updates_safe:
  "safe_volume_update v (fst (retain_pv sid role v))"
  "safe_volume_update v (fst (pair_pv sid role other v))"
  "safe_volume_update v (reserved_pv ns claim v)"
  by (simp_all add: safe_volume_update_def retain_pv_def pair_pv_def reserved_pv_def pin_policy_original
      case_prod_beta)

definition update_of :: "ObjectReference \<Rightarrow> string \<Rightarrow> pv \<Rightarrow> 's hist \<Rightarrow> bool" where
  "update_of ref sid v h \<longleftrightarrow>
     (\<exists>v0. seen_pv ref v0 h \<and> \<not> owned_elsewhere (v_Labels v0) sid \<and> safe_volume_update v0 v)"

lemma update_guard_update:
  "pv_update_guard ref sid (\<lambda>v. fst (retain_pv sid role v)) (EvUpdatePV v r) h \<Longrightarrow> update_of ref sid v h"
  "pair_guard sid src dst (EvUpdatePV v r) h \<Longrightarrow> \<exists>ref\<in>{src, dst}. update_of ref sid v h"
  "pv_update_guard ref sid (reserved_pv ns claim) (EvUpdatePV v r) h \<Longrightarrow> update_of ref sid v h"
  using volume_updates_safe
  by (auto simp: pv_update_guard_def pair_guard_def update_of_def)

section \<open>Activation\<close>

lemma ActivatePVC_event:
  assumes "retry_contract w" and "saves_only p"
    and "ActivatePVC w sid ns vol d st p [] = (x, es2 @ e # es1)"
  obtains d' st' where "d = Some d'" "st = Some st'" "activation_guard sid st' vol d' e es1"
proof (cases "\<exists>d' st'. d = Some d' \<and> st = Some st'")
  case True
  then show ?thesis
    using that wp_event [OF ActivatePVC_wp [OF assms(1,2)]] assms(3) by fastforce
next
  case False
  then have "snd (ActivatePVC w sid ns vol d st p []) = []"
    by (cases d; cases st) (auto simp: ActivatePVC_def io_ret_def)
  then show ?thesis using assms(3) by simp
qed

text \<open>C2: write fencing of activation. Whatever the cluster answers, every write \<^verbatim>\<open>ActivatePVC\<close> sends
  (claim create, update or delete, volume update) comes directly after a check that found the
  context alive and every enclosing lease still held.\<close>

theorem activation_writes_fenced:
  assumes "retry_contract w" and "saves_only p"
    and "ActivatePVC w sid ns vol d st p [] = (x, es2 @ e # es1)" and "writes_storage e"
  shows "fenced es1"
  by (rule ActivatePVC_event [OF assms(1-3)]) (rule guard_fenced(1) [OF _ assms(4)])

lemma before_run_split:
  obtains x es2 ns n uid rv r es1 where
    "ActivatePVC before_world ''s'' ''n'' demo_bindings (Some demo_desired) (Some no_status) demo_progress []
       = (x, es2 @ EvDeletePVC ns n uid rv r # es1)"
proof (rule run_split [OF before_run_deletes])
  fix x es2 e es1
  assume run: "demo_activation before_world demo_progress [] = (x, es2 @ e # es1)" and "is_delete e"
  then obtain ns n uid rv r where "e = EvDeletePVC ns n uid rv r" by (cases e) auto
  with run show ?thesis by (intro that) (simp add: demo_activation_def)
qed

theorem activation_writes_fenced_witness:
  "\<exists>x es2 e es1. ActivatePVC before_world ''s'' ''n'' demo_bindings (Some demo_desired) (Some no_status)
       demo_progress [] = (x, es2 @ e # es1) \<and> writes_storage e \<and> fenced es1"
proof (rule before_run_split)
  fix x es2 dns n uid rv r es1
  assume run: "ActivatePVC before_world ''s'' ''n'' demo_bindings (Some demo_desired) (Some no_status)
    demo_progress [] = (x, es2 @ EvDeletePVC dns n uid rv r # es1)"
  from activation_writes_fenced [OF demo_retry(1) demo_saves(2) run] have "fenced es1" by simp
  moreover have "writes_storage (EvDeletePVC dns n uid rv r)" by simp
  ultimately show ?thesis using run by blast
qed

text \<open>C1: activation deletes safely. A claim is deleted only when it is one of the two recorded
  claims, under the UID and version it was read with and without a foreign finalizer; and by then
  both claims have been found unused, both volumes detached, and both volumes retained for this
  session. The source claim goes only after the temporary one.\<close>

theorem activation_deletes_safely:
  assumes "retry_contract w" and "saves_only p"
    and "ActivatePVC w sid ns vol d (Some st) p [] = (x, es2 @ EvDeletePVC dns n uid rv r # es1)"
  shows "cutover_ready sid vol es1
    \<and> (delete_of (b_DestinationPVC vol) dns n uid rv es1
       \<or> (delete_of (b_SourcePVC vol) dns n uid rv es1 \<and> temporary_retired st vol es1))"
  by (rule ActivatePVC_event [OF assms]) (auto simp: activation_guard_def dest: delete_guard_delete)

theorem activation_deletes_safely_witness:
  "\<exists>x es2 dns n uid rv r es1. ActivatePVC before_world ''s'' ''n'' demo_bindings (Some demo_desired)
       (Some no_status) demo_progress [] = (x, es2 @ EvDeletePVC dns n uid rv r # es1)
     \<and> cutover_ready ''s'' demo_bindings es1"
proof (rule before_run_split)
  fix x es2 dns n uid rv r es1
  assume run: "ActivatePVC before_world ''s'' ''n'' demo_bindings (Some demo_desired) (Some no_status)
    demo_progress [] = (x, es2 @ EvDeletePVC dns n uid rv r # es1)"
  from activation_deletes_safely [OF demo_retry(1) demo_saves(2) run]
  have "cutover_ready ''s'' demo_bindings es1" by (rule conjunct1)
  with run show ?thesis by blast
qed

text \<open>C6: the activated claim is created only from the desired manifest, after the same checks, and
  only when both old claims are retired: recorded as deleted in the checkpoint the call started
  from, or looked up and not found.\<close>

theorem activation_creates_last:
  assumes "retry_contract w" and "saves_only p"
    and "ActivatePVC w sid ns vol d (Some st) p [] = (x, es2 @ EvCreatePVC False c r # es1)"
  shows "d = Some c \<and> cutover_ready sid vol es1 \<and> temporary_retired st vol es1 \<and> source_retired st vol es1"
  by (rule ActivatePVC_event [OF assms]) (auto simp: activation_guard_def)

theorem activation_creates_last_witness:
  "\<exists>x es2 c r es1. ActivatePVC gone_world ''s'' ''n'' demo_bindings (Some demo_desired)
       (Some reserved_status) demo_progress [] = (x, es2 @ EvCreatePVC False c r # es1)
     \<and> c = demo_desired \<and> cutover_ready ''s'' demo_bindings es1"
proof (rule run_split [OF gone_run_creates])
  fix x es2 e es1
  assume run: "ActivatePVC gone_world ''s'' ''n'' demo_bindings (Some demo_desired)
     (Some reserved_status) demo_progress [] = (x, es2 @ e # es1)" and "is_create e"
  then obtain c r where e: "e = EvCreatePVC False c r" by (cases e) auto
  from activation_creates_last [OF gone_retry demo_saves(2) run [unfolded e]]
  have "c = demo_desired" "cutover_ready ''s'' demo_bindings es1" by auto
  with run e show ?thesis by blast
qed

text \<open>C3: activation only updates the two recorded volumes, and only in ways that keep the data safe:
  the update is based on a read of that very volume, no other session owns it, its version is that
  of the read, its reclaim policy is kept or pinned to Retain, and the policy it had originally is
  recorded in the same write and never overwritten.\<close>

theorem activation_updates_volumes_safely:
  assumes "retry_contract w" and "saves_only p"
    and "ActivatePVC w sid ns vol d st p [] = (x, es2 @ EvUpdatePV v r # es1)"
  shows "update_of (b_SourcePV vol) sid v es1 \<or> update_of (b_DestinationPV vol) sid v es1"
  by (rule ActivatePVC_event [OF assms])
     (auto simp: activation_guard_def dest: update_guard_update)

theorem activation_updates_volumes_safely_witness:
  "\<exists>x es2 v r es1. ActivatePVC before_world ''s'' ''n'' demo_bindings (Some demo_desired) (Some no_status)
       demo_progress [] = (x, es2 @ EvUpdatePV v r # es1)
     \<and> (update_of (b_SourcePV demo_bindings) ''s'' v es1 \<or> update_of (b_DestinationPV demo_bindings) ''s'' v es1)"
proof (rule run_split [OF before_run_updates])
  fix x es2 e es1
  assume run: "demo_activation before_world demo_progress [] = (x, es2 @ e # es1)" and "is_volume_update e"
  then obtain v r where e: "e = EvUpdatePV v r" by (cases e) auto
  note run' = run [unfolded e demo_activation_def]
  from activation_updates_volumes_safely [OF demo_retry(1) demo_saves(2) run'] run' show ?thesis by blast
qed

lemma ActivatePVC_result:
  assumes "retry_contract w" and "saves_only p"
    and "ActivatePVC w sid ns vol (Some d) (Some st) p [] = ((st', r), es)"
  shows "\<exists>s. st' = Some s \<and> act_result sid st vol (s, r) es"
  using wp_run [OF ActivatePVC_wp [OF assms(1,2)] assms(3)] by simp


lemma after_run_result:
  obtains st es where "ActivatePVC after_world ''s'' ''n'' demo_bindings (Some demo_desired) (Some no_status)
    demo_progress [] = ((st, Inr ()), es)"
  using after_run_succeeds
  by (cases "demo_activation after_world demo_progress []") (auto simp: demo_activation_def)






section \<open>Rollback\<close>

lemma RollbackPVC_event:
  assumes "retry_contract w" and "saves_only p"
    and "RollbackPVC w sid ns vol d st p [] = (x, es2 @ e # es1)"
  obtains d' st' where "d = Some d'" "st = Some st'" "rollback_guard sid vol d' e es1"
proof (cases "\<exists>d' st'. d = Some d' \<and> st = Some st'")
  case True
  then show ?thesis
    using that wp_event [OF RollbackPVC_wp [OF assms(1,2)]] assms(3) by fastforce
next
  case False
  then have "snd (RollbackPVC w sid ns vol d st p []) = []"
    by (cases d; cases st) (auto simp: RollbackPVC_def io_ret_def)
  then show ?thesis using assms(3) by simp
qed

text \<open>Write fencing of rollback, as for activation.\<close>

lemma rollback_writes_fenced:
  assumes "retry_contract w" and "saves_only p"
    and "RollbackPVC w sid ns vol d st p [] = (x, es2 @ e # es1)" and "writes_storage e"
  shows "fenced es1"
  by (rule RollbackPVC_event [OF assms(1-3)]) (rule guard_fenced(2) [OF _ assms(4)])

text \<open>Deletes in a rollback retire the activated claim, and nothing else.\<close>

definition retires :: "string \<Rightarrow> PVCTransferBindings \<Rightarrow> string \<Rightarrow> string \<Rightarrow> string \<Rightarrow> string \<Rightarrow> 's hist \<Rightarrow> bool" where
  "retires sid vol ns n uid rv h \<longleftrightarrow>
     (\<exists>c. retirable sid vol c h \<and> delete_of (live_reference c) ns n uid rv h)"

lemma rollback_run_split:
  obtains x es2 ns n uid rv r es1 where
    "RollbackPVC after_world ''s'' ''n'' demo_bindings (Some demo_restored) (Some no_status) demo_progress []
       = (x, es2 @ EvDeletePVC ns n uid rv r # es1)"
proof (rule run_split [OF rollback_run_deletes])
  fix x es2 e es1
  assume run: "demo_rollback after_world ''n'' demo_progress [] = (x, es2 @ e # es1)" and "is_delete e"
  then obtain ns n uid rv r where "e = EvDeletePVC ns n uid rv r" by (cases e) auto
  with run show ?thesis by (intro that) (simp add: demo_rollback_def)
qed






section \<open>Rename\<close>

lemma RenamePVC_event:
  assumes "retry_contract w" and "saves_only p"
    and "RenamePVC w sid src pvr d p [] = (x, es2 @ e # es1)"
  obtains d' where "d = Some d'" "rename_guard sid src pvr d' e es1"
proof (cases d)
  case None
  then show ?thesis using assms(3) by (simp add: RenamePVC_def io_ret_def)
next
  case (Some d')
  then show ?thesis using that wp_event [OF RenamePVC_wp [OF assms(1,2)]] assms(3) by fastforce
qed

text \<open>C10: renaming or moving a claim is fenced like activation, and deletes only the recorded source
  claim: by then its volume is retained for the session, no Pod uses the claim, and there is no
  claim under the new name.\<close>

theorem rename_writes_safely:
  assumes "retry_contract w" and "saves_only p"
    and "RenamePVC w sid src pvr (Some d) p [] = (x, es2 @ e # es1)" and "writes_storage e"
  shows "fenced es1 \<and> (\<forall>ns n uid rv r. e = EvDeletePVC ns n uid rv r \<longrightarrow>
    delete_of src ns n uid rv es1 \<and> rename_ready sid src pvr d es1)"
  using assms(4)
  by (rule_tac RenamePVC_event [OF assms(1-3)])
     (auto simp: rename_guard_def dest: guard_fenced(3) delete_guard_delete guards_fenced)

theorem rename_writes_safely_witness:
  "\<exists>x es2 ns n uid rv r es1. RenamePVC before_world ''s'' (PVCReference demo_src) (b_SourcePV demo_bindings)
       (Some demo_renamed) demo_progress [] = (x, es2 @ EvDeletePVC ns n uid rv r # es1)
     \<and> rename_ready ''s'' (PVCReference demo_src) (b_SourcePV demo_bindings) demo_renamed es1"
proof (rule run_split [OF rename_run_deletes])
  fix x es2 e es1
  assume run: "demo_rename before_world demo_progress [] = (x, es2 @ e # es1)" and "is_delete e"
  then obtain ns n uid rv r where e: "e = EvDeletePVC ns n uid rv r" by (cases e) auto
  note run' = run [unfolded e demo_rename_def]
  from rename_writes_safely [OF demo_retry(1) demo_saves(2) run']
  have "rename_ready ''s'' (PVCReference demo_src) (b_SourcePV demo_bindings) demo_renamed es1" by simp
  with run' show ?thesis by blast
qed

text \<open>C11: a claim that rename returns is bound to the retained source volume on both sides and carries
  the session's mark.\<close>

theorem rename_success:
  assumes "retry_contract w" and "saves_only p"
    and "RenamePVC w sid src pvr (Some d) p [] = (Inr c, es)"
  shows "binding_verified c pvr es \<and> retained pvr sid es \<and> mget (c_Annotations c) SessionKey = sid"
  using wp_run [OF RenamePVC_wp [OF assms(1,2)] assms(3)] by simp

theorem rename_success_witness:
  "\<exists>es. RenamePVC renamed_world ''s'' (PVCReference demo_src) (b_SourcePV demo_bindings)
       (Some demo_renamed) demo_progress [] = (Inr demo_target, es)
     \<and> binding_verified demo_target (b_SourcePV demo_bindings) es"
proof -
  obtain es where run: "RenamePVC renamed_world ''s'' (PVCReference demo_src) (b_SourcePV demo_bindings)
       (Some demo_renamed) demo_progress [] = (Inr demo_target, es)"
    using rename_run_succeeds [unfolded demo_rename_def] by (metis prod.collapse)
  from rename_success [OF renamed_retry demo_saves(2) run] run show ?thesis by blast
qed

section \<open>Offline checks\<close>

text \<open>C12: the offline check reads and never writes. When it passes, every volume of the workflow has
  been seen as planned: claim and volume with their recorded UIDs pointing at each other (or, in a
  recovery, the claim gone and its volume retained), no foreign owner, no Pod using either claim,
  and neither volume attached.\<close>

theorem offline_check_sound:
  assumes "verifyOfflineBindings w sid volumes recovering [] = (r, es)"
  shows "list_all is_read es \<and> (r = Inr () \<longrightarrow> list_all (\<lambda>vol. offline_verified recovering sid vol es) volumes)"
proof -
  have "guarded only_reads es [] \<Longrightarrow> list_all is_read es" for es :: "'a hist"
    by (induction es) (auto simp: guard_simps)
  then show ?thesis
    using verifyOfflineBindings_wp [of w sid volumes recovering "[]"] assms
    by (auto simp: wp_def list_all_iff)
qed

lemma offline_run_passes:
  "fst (verifyOfflineBindings before_world ''s'' [demo_bindings] False []) = Inr ()"
  by (simp add: before_world_def verifyOfflineBindings_def offline_identities_def identity_items_def addIdentity_def
      volume_claims_def volume_pvNames_def first_occurrences_def verifyPVCAndPVIdentity_def foreign_owner_def
      run_defs step_defs demo_defs)

theorem offline_check_sound_witness:
  "\<exists>es. verifyOfflineBindings (before_world :: unit world) ''s'' [demo_bindings] False [] = (Inr (), es)
     \<and> list_all is_read es \<and> offline_verified False ''s'' demo_bindings es"
proof -
  obtain es where run: "verifyOfflineBindings (before_world :: unit world) ''s'' [demo_bindings] False [] = (Inr (), es)"
    using offline_run_passes by (metis prod.collapse)
  from offline_check_sound [OF run] run show ?thesis by simp
qed

section \<open>Claim ownership\<close>

text \<open>C17: a session takes a claim only when it is free. Every update \<^verbatim>\<open>AcquirePVC\<close> sends comes directly
  after a passed fence check and adds the session's mark, and nothing else, to a claim that was
  read with the recorded UID and without an owner; success means the session owns the claim.\<close>

theorem acquire_takes_free_claims:
  assumes "retry_contract w" and "AcquirePVC w ref sid [] = (res, es)"
  shows "(\<forall>es2 c' r es1. es = es2 @ EvUpdatePVC c' r # es1 \<longrightarrow> fenced es1
      \<and> (\<exists>c. seen_pvc ref c es1 \<and> c' = acquired sid c \<and> mget (c_Annotations c) SessionKey = []))
    \<and> (res = Inr () \<longrightarrow> owns_pvc ref sid es)"
  using AcquirePVC_wp [OF assms(1), of ref sid "[]"] assms(2)
  by (auto simp: wp_def guarded_append pvc_update_guard_def acquire_ok_def)

lemma acquire_run: "fst (AcquirePVC before_world (PVCReference demo_src) ''s'' []) = Inr ()"
  by (simp add: AcquirePVC_def validatePVCOwnershipInput_def acquire_attempt_def before_world_def run_defs demo_defs)

theorem acquire_takes_free_claims_witness:
  "\<exists>es. AcquirePVC (before_world :: unit world) (PVCReference demo_src) ''s'' [] = (Inr (), es)
     \<and> owns_pvc (PVCReference demo_src) ''s'' es"
proof -
  obtain es where run: "AcquirePVC (before_world :: unit world) (PVCReference demo_src) ''s'' [] = (Inr (), es)"
    using acquire_run by (metis prod.collapse)
  from acquire_takes_free_claims [OF demo_retry(1) run] run show ?thesis by blast
qed

text \<open>C18: a session gives back only what is its own. Every update \<^verbatim>\<open>ReleasePVC\<close> sends is fenced and
  takes the session's mark, and nothing else, off a claim read with the recorded UID and that very
  mark.\<close>

theorem release_gives_back_own_claims:
  assumes "retry_contract w" and "ReleasePVC w ref sid [] = (res, es2 @ EvUpdatePVC c' r # es1)"
  shows "fenced es1 \<and> (\<exists>c. seen_pvc ref c es1 \<and> c' = released c \<and> mget (c_Annotations c) SessionKey = sid)"
  using wp_event [OF ReleasePVC_wp [OF assms(1)] assms(2)]
  by (auto simp: pvc_update_guard_def release_ok_def)

lemma release_run:
  "\<exists>r es2 c r' es1. ReleasePVC after_world (PVCReference demo_active) ''s'' [] = (r, es2 @ EvUpdatePVC c r' # es1)"
proof -
  have "ReleasePVC after_world (PVCReference demo_active) ''s'' [] = (Inr (),
     [EvCheck None None] @ EvUpdatePVC (released demo_active) (Inr (released demo_active)) #
     [EvCheck None None, EvGetPVC ''n'' ''a'' (Inr demo_active), EvCheck None None])"
    by (simp add: ReleasePVC_def validatePVCOwnershipInput_def release_attempt_def after_world_def run_defs
        demo_defs released_def)
  then show ?thesis by blast
qed

theorem release_gives_back_own_claims_witness:
  "\<exists>r es2 c r' es1. ReleasePVC (after_world :: unit world) (PVCReference demo_active) ''s'' []
      = (r, es2 @ EvUpdatePVC (released c) r' # es1)
     \<and> fenced es1 \<and> mget (c_Annotations c) SessionKey = ''s''"
proof -
  obtain r es2 c' r' es1 where run: "ReleasePVC (after_world :: unit world) (PVCReference demo_active) ''s'' []
      = (r, es2 @ EvUpdatePVC c' r' # es1)" using release_run by blast
  from release_gives_back_own_claims [OF demo_retry(2) run] run show ?thesis by blast
qed


end
