(* ===== verification/Names.thy ===== *)
theory Names
  imports Lifecycle "HOL-Library.Word"
begin

unbundle bit_operations_syntax

text \<open>
  The derived names of the program: bounded DNS names (\<^verbatim>\<open>internal/kube/names.go\<close>) and the name
  of a session's Lease (\<^verbatim>\<open>SessionLockName\<close> of \<^verbatim>\<open>session_lease.go\<close>), over SHA-256 and
  hexadecimal encoding of the Go library. A slice expression whose bound is out of range panics;
  that is the value \<open>None\<close>.
\<close>

section \<open>SHA-256 and hexadecimal text\<close>

text \<open>The round constants and the initial state: the first 32 bits of the fractional parts of the cube
  roots of the first 64 primes and of the square roots of the first 8.\<close>

definition sha256_k :: "32 word list" where
  "sha256_k =
    [1116352408, 1899447441, 3049323471, 3921009573, 961987163, 1508970993, 2453635748, 2870763221,
     3624381080, 310598401, 607225278, 1426881987, 1925078388, 2162078206, 2614888103, 3248222580,
     3835390401, 4022224774, 264347078, 604807628, 770255983, 1249150122, 1555081692, 1996064986,
     2554220882, 2821834349, 2952996808, 3210313671, 3336571891, 3584528711, 113926993, 338241895,
     666307205, 773529912, 1294757372, 1396182291, 1695183700, 1986661051, 2177026350, 2456956037,
     2730485921, 2820302411, 3259730800, 3345764771, 3516065817, 3600352804, 4094571909, 275423344,
     430227734, 506948616, 659060556, 883997877, 958139571, 1322822218, 1537002063, 1747873779,
     1955562222, 2024104815, 2227730452, 2361852424, 2428436474, 2756734187, 3204031479, 3329325298]"

record sha_state =
  h_a :: "32 word"
  h_b :: "32 word"
  h_c :: "32 word"
  h_d :: "32 word"
  h_e :: "32 word"
  h_f :: "32 word"
  h_g :: "32 word"
  h_h :: "32 word"

definition sha256_init :: sha_state where
  "sha256_init = \<lparr>h_a = 1779033703, h_b = 3144134277, h_c = 1013904242, h_d = 2773480762,
     h_e = 1359893119, h_f = 2600822924, h_g = 528734635, h_h = 1541459225\<rparr>"

definition rotr :: "nat \<Rightarrow> 32 word \<Rightarrow> 32 word" where
  "rotr n x = (drop_bit n x OR push_bit (32 - n) x)"

definition sha256_round :: "sha_state \<Rightarrow> 32 word \<times> 32 word \<Rightarrow> sha_state" where
  "sha256_round s kw =
     (let (k, w) = kw;
          s1 = rotr 6 (h_e s) XOR rotr 11 (h_e s) XOR rotr 25 (h_e s);
          ch = (h_e s AND h_f s) XOR (NOT (h_e s) AND h_g s);
          t1 = h_h s + s1 + ch + k + w;
          s0 = rotr 2 (h_a s) XOR rotr 13 (h_a s) XOR rotr 22 (h_a s);
          maj = (h_a s AND h_b s) XOR (h_a s AND h_c s) XOR (h_b s AND h_c s);
          t2 = s0 + maj
      in \<lparr>h_a = t1 + t2, h_b = h_a s, h_c = h_b s, h_d = h_c s,
          h_e = h_d s + t1, h_f = h_e s, h_g = h_f s, h_h = h_g s\<rparr>)"

text \<open>The message schedule, newest word first.\<close>

fun sha256_extend :: "nat \<Rightarrow> 32 word list \<Rightarrow> 32 word list" where
  "sha256_extend 0 ws = ws"
| "sha256_extend (Suc n) ws =
     (let w15 = ws ! 14; w2 = ws ! 1;
          s0 = rotr 7 w15 XOR rotr 18 w15 XOR drop_bit 3 w15;
          s1 = rotr 17 w2 XOR rotr 19 w2 XOR drop_bit 10 w2
      in sha256_extend n ((ws ! 15 + s0 + ws ! 6 + s1) # ws))"

definition sha256_block :: "sha_state \<Rightarrow> 32 word list \<Rightarrow> sha_state" where
  "sha256_block s block =
     (let ws = rev (sha256_extend 48 (rev block));
          t = foldl sha256_round s (zip sha256_k ws)
      in \<lparr>h_a = h_a s + h_a t, h_b = h_b s + h_b t, h_c = h_c s + h_c t, h_d = h_d s + h_d t,
          h_e = h_e s + h_e t, h_f = h_f s + h_f t, h_g = h_g s + h_g t, h_h = h_h s + h_h t\<rparr>)"

fun word_of_bytes :: "nat list \<Rightarrow> 32 word" where
  "word_of_bytes bs = foldl (\<lambda>w b. push_bit 8 w OR word_of_nat b) 0 bs"

function chunks :: "nat \<Rightarrow> 'a list \<Rightarrow> 'a list list" where
  "chunks n xs = (if xs = [] \<or> n = 0 then [] else take n xs # chunks n (drop n xs))"
  by pat_completeness auto
termination
  by (relation "measure (\<lambda>(n, xs). length xs)") auto

declare chunks.simps [simp del]

definition sha256_pad :: "nat list \<Rightarrow> nat list" where
  "sha256_pad bs =
     (let n = length bs; zeros = (119 - n mod 64) mod 64
      in bs @ [0x80] @ replicate zeros 0
         @ map (\<lambda>i. (n * 8 div 256 ^ (7 - i)) mod 256) [0..<8])"

definition word_bytes :: "32 word \<Rightarrow> nat list" where
  "word_bytes w = [unat (drop_bit 24 w) mod 256, unat (drop_bit 16 w) mod 256,
     unat (drop_bit 8 w) mod 256, unat w mod 256]"

definition sha256 :: "string \<Rightarrow> nat list" where
  "sha256 s =
     (let blocks = chunks 16 (map word_of_bytes (chunks 4 (sha256_pad (map byte s))));
          t = foldl sha256_block sha256_init blocks
      in concat (map word_bytes [h_a t, h_b t, h_c t, h_d t, h_e t, h_f t, h_g t, h_h t]))"

definition hex_digit :: "nat \<Rightarrow> char" where
  "hex_digit n = ''0123456789abcdef'' ! (n mod 16)"

definition hex_encode :: "nat list \<Rightarrow> string" where
  "hex_encode bs = concat (map (\<lambda>b. [hex_digit (b div 16), hex_digit b]) bs)"

lemma length_sha256: "length (sha256 s) = 32"
  by (simp add: sha256_def Let_def word_bytes_def)

lemma length_hex_encode: "length (hex_encode bs) = 2 * length bs"
  by (induction bs) (simp_all add: hex_encode_def)

definition hex_alphabet :: "char set" where
  "hex_alphabet = set ''0123456789abcdef''"

lemma hex_digit_alphabet: "hex_digit n \<in> hex_alphabet"
  unfolding hex_digit_def hex_alphabet_def by (rule nth_mem) simp

lemma hex_encode_alphabet: "set (hex_encode bs) \<subseteq> hex_alphabet"
  by (auto simp: hex_encode_def hex_digit_alphabet)

section \<open>Lease names\<close>

definition sessionLeasePrefix :: string where
  "sessionLeasePrefix = ''pvc-migrate-lock-''"

definition SessionLockName :: "string \<Rightarrow> string" where
  "SessionLockName sid = sessionLeasePrefix @ take 32 (hex_encode (sha256 sid))"

definition SessionConfigMapName :: "string \<Rightarrow> string" where
  "SessionConfigMapName sid = ''pvc-migrate-session-'' @ sid"

section \<open>Bounded names\<close>

definition maxDNSLabelLength :: nat where
  "maxDNSLabelLength = 63"

text \<open>The number of bytes of the first rune of \<open>c # s\<close>; an invalid byte counts alone.\<close>

definition rune_rest :: "char \<Rightarrow> string \<Rightarrow> nat" where
  "rune_rest c s =
     (case utf8_lead c of None \<Rightarrow> 0
      | Some (n, lo, hi) \<Rightarrow> if utf8_tail n lo hi s then n else 0)"

definition name_char :: "char \<Rightarrow> bool" where
  "name_char c \<longleftrightarrow> (97 \<le> byte c \<and> byte c \<le> 122) \<or> (48 \<le> byte c \<and> byte c \<le> 57) \<or> c = CHR ''-'' \<or> c = CHR ''.''"

definition lower_byte :: "char \<Rightarrow> char" where
  "lower_byte c = (if 65 \<le> byte c \<and> byte c \<le> 90 then char_of (byte c + 32) else c)"

text \<open>What one rune becomes: lower case, then kept or replaced by a dash. Two runes beyond ASCII
  have an ASCII lower case, U+0130 and U+212A.\<close>

definition clean_rune :: "char \<Rightarrow> string \<Rightarrow> char" where
  "clean_rune c rest =
     (if rest = [] then (if name_char (lower_byte c) then lower_byte c else CHR ''-'')
      else if c = CHR 0xC4 \<and> rest = [CHR 0xB0] then CHR ''i''
      else if c = CHR 0xE2 \<and> rest = [CHR 0x84, CHR 0xAA] then CHR ''k''
      else CHR ''-'')"

function clean_runes :: "string \<Rightarrow> string" where
  "clean_runes [] = []"
| "clean_runes (c # s) =
     (let n = rune_rest c s in clean_rune c (take n s) # clean_runes (drop n s))"
  by pat_completeness auto
termination
  by (relation "measure length") auto

definition dash_dot :: "char \<Rightarrow> bool" where
  "dash_dot c \<longleftrightarrow> c = CHR ''-'' \<or> c = CHR ''.''"

definition trim_right :: "string \<Rightarrow> string" where
  "trim_right s = rev (dropWhile dash_dot (rev s))"

definition trim_both :: "string \<Rightarrow> string" where
  "trim_both s = trim_right (dropWhile dash_dot s)"

definition cleanNamePart :: "string \<Rightarrow> string" where
  "cleanNamePart v = trim_both (clean_runes v)"

fun join_dash :: "string list \<Rightarrow> string" where
  "join_dash [] = []"
| "join_dash [s] = s"
| "join_dash (s # t # ss) = s @ ''-'' @ join_dash (t # ss)"

text \<open>The part of \<^verbatim>\<open>BoundedName\<close> for names that do not fit.\<close>

definition long_name :: "string \<Rightarrow> string list \<Rightarrow> string \<Rightarrow> string option" where
  "long_name cleanPrefix cleanParts hash =
     (let cleanParts = (if cleanParts = [] then [''item''] else cleanParts);
          lastPart = last cleanParts;
          fixed = cleanPrefix @ ''-'' @ lastPart @ ''-'' @ hash
      in if length fixed \<ge> maxDNSLabelLength \<and> length cleanPrefix + length hash + 2 > maxDNSLabelLength
         then None
         else let cut = (length fixed \<ge> maxDNSLabelLength);
                  lastPart = (if cut then take (maxDNSLabelLength - length cleanPrefix - length hash - 2) lastPart
                              else lastPart);
                  fixed = (if cut then cleanPrefix @ ''-'' @ trim_both lastPart @ ''-'' @ hash else fixed);
                  middle = join_dash (butlast cleanParts);
                  available = maxDNSLabelLength - length fixed - 1;
                  middle = (if length middle > available then trim_right (take available middle) else middle);
                  name = (if middle \<noteq> [] then cleanPrefix @ ''-'' @ middle @ ''-'' @ lastPart @ ''-'' @ hash
                          else fixed)
              in Some (trim_both name))"

definition BoundedName :: "string \<Rightarrow> string list \<Rightarrow> string option" where
  "BoundedName pre parts =
     (let raw = join_dash (pre # parts);
          cleanPrefix = cleanNamePart pre;
          cleanParts = map cleanNamePart parts;
          clean = trim_both (join_dash (cleanPrefix # cleanParts))
      in if length clean \<le> maxDNSLabelLength then Some clean
         else long_name cleanPrefix cleanParts (take 10 (hex_encode (sha256 raw))))"

section \<open>Cleaned text\<close>

definition trimmed :: "string \<Rightarrow> bool" where
  "trimmed s \<longleftrightarrow> s = [] \<or> (\<not> dash_dot (hd s) \<and> \<not> dash_dot (last s))"

lemma name_char_clean_rune: "name_char (clean_rune c rest)"
  by (auto simp: clean_rune_def name_char_def)

lemma set_clean_runes: "set (clean_runes s) \<subseteq> Collect name_char"
  by (induction s rule: clean_runes.induct) (auto simp: Let_def name_char_clean_rune)

lemma set_trim_right: "set (trim_right s) \<subseteq> set s"
  unfolding trim_right_def by (auto dest: set_dropWhileD)

lemma set_trim_both: "set (trim_both s) \<subseteq> set s"
  unfolding trim_both_def by (auto dest!: set_dropWhileD subsetD [OF set_trim_right])

lemma length_trim_right: "length (trim_right s) \<le> length s"
  unfolding trim_right_def using length_dropWhile_le [of dash_dot "rev s"] by simp

lemma length_trim_both: "length (trim_both s) \<le> length s"
  unfolding trim_both_def
  using length_trim_right length_dropWhile_le by (rule order_trans)

lemma trim_right_last: "trim_right s \<noteq> [] \<Longrightarrow> \<not> dash_dot (last (trim_right s))"
  unfolding trim_right_def by (simp add: last_rev hd_dropWhile)

lemma trim_right_prefix: "prefix (trim_right s) s"
  unfolding trim_right_def suffix_to_prefix [symmetric]
  using suffix_dropWhile [of dash_dot "rev s"] by (simp add: suffix_to_prefix)

lemma trimmed_trim_both: "trimmed (trim_both s)"
proof (cases "trim_both s = []")
  case False
  let ?t = "dropWhile dash_dot s"
  obtain t where t: "?t = trim_both s @ t"
    using trim_right_prefix [of ?t] unfolding trim_both_def prefix_def by blast
  then have "hd (trim_both s) = hd ?t" and ne: "?t \<noteq> []"
    using False by (auto simp: hd_append)
  with hd_dropWhile [OF ne] have "\<not> dash_dot (hd (trim_both s))"
    by simp
  moreover have "\<not> dash_dot (last (trim_both s))"
    using trim_right_last False unfolding trim_both_def by blast
  ultimately show ?thesis
    by (simp add: trimmed_def)
qed (simp add: trimmed_def)

lemma dropWhile_hd_id: "xs = [] \<or> \<not> P (hd xs) \<Longrightarrow> dropWhile P xs = xs"
  by (cases xs) auto

lemma trim_both_id: "trimmed s \<Longrightarrow> trim_both s = s"
  by (auto simp: trimmed_def trim_both_def trim_right_def dropWhile_hd_id hd_rev)

lemma cleanNamePart_chars: "set (cleanNamePart v) \<subseteq> Collect name_char"
  unfolding cleanNamePart_def using set_trim_both set_clean_runes by blast

lemma join_dash_chars: "(\<And>s. s \<in> set ss \<Longrightarrow> set s \<subseteq> A) \<Longrightarrow> CHR ''-'' \<in> A \<Longrightarrow> set (join_dash ss) \<subseteq> A"
  by (induction ss rule: join_dash.induct) auto

lemma name_char_dash: "name_char CHR ''-''"
  by (simp add: name_char_def)

lemma name_char_hex: "hex_alphabet \<subseteq> Collect name_char"
  unfolding hex_alphabet_def name_char_def by auto

section \<open>What the names promise\<close>

lemma long_name_chars:
  assumes "long_name p parts hash = Some n" "set p \<subseteq> Collect name_char"
    "\<And>s. s \<in> set parts \<Longrightarrow> set s \<subseteq> Collect name_char" "set hash \<subseteq> Collect name_char"
  shows "set n \<subseteq> Collect name_char \<and> trimmed n"
proof -
  let ?parts = "if parts = [] then [''item''] else parts"
  have parts: "set s \<subseteq> Collect name_char" if "s \<in> set ?parts" for s
    using that assms(3) by (auto simp: name_char_def split: if_splits)
  have lst: "set (last ?parts) \<subseteq> Collect name_char"
    by (rule parts) simp
  have mid: "set (join_dash (butlast ?parts)) \<subseteq> Collect name_char"
    by (rule join_dash_chars) (auto simp: name_char_dash dest!: in_set_butlastD parts)
  have cut: "x \<in> set (take k t) \<Longrightarrow> x \<in> set t" "x \<in> set (trim_both (take k t)) \<Longrightarrow> x \<in> set t"
    "x \<in> set (trim_right (take k t)) \<Longrightarrow> x \<in> set t" for x k and t :: string
    by (blast dest: in_set_takeD subsetD [OF set_trim_both] subsetD [OF set_trim_right])+
  have pieces: "set xs \<subseteq> Collect name_char"
    if "set xs \<subseteq> {CHR ''-''} \<union> set p \<union> set hash \<union> set (last ?parts) \<union> set (join_dash (butlast ?parts))"
    for xs
    using that lst mid assms(2,4) name_char_dash by blast
  obtain xs where n: "n = trim_both xs"
    and xs: "set xs \<subseteq> {CHR ''-''} \<union> set p \<union> set hash \<union> set (last ?parts) \<union> set (join_dash (butlast ?parts))"
    using assms(1) unfolding long_name_def Let_def
    by (clarsimp split: if_split_asm) (drule meta_spec, drule meta_mp, rule refl, erule meta_mp, auto dest!: cut)+
  show ?thesis
    unfolding n using set_trim_both [of xs] pieces [OF xs] trimmed_trim_both by blast
qed

lemma length_name_hash: "length (take 10 (hex_encode (sha256 raw))) = 10"
  by (simp add: length_hex_encode length_sha256)

lemma name_hash_chars: "set (take 10 (hex_encode (sha256 raw))) \<subseteq> Collect name_char"
  using hex_encode_alphabet name_char_hex by (blast dest: in_set_takeD)

lemma BoundedName_chars:
  assumes "BoundedName pre parts = Some n"
  shows "set n \<subseteq> Collect name_char \<and> trimmed n"
proof -
  let ?all = "join_dash (cleanNamePart pre # map cleanNamePart parts)"
  have "set ?all \<subseteq> Collect name_char"
    by (rule join_dash_chars) (auto simp: name_char_dash dest!: subsetD [OF cleanNamePart_chars])
  then have "set (trim_both ?all) \<subseteq> Collect name_char"
    using set_trim_both by blast
  with assms show ?thesis
    unfolding BoundedName_def Let_def
    by (auto split: if_split_asm simp del: join_dash.simps
        dest!: long_name_chars [OF _ cleanNamePart_chars _ name_hash_chars] simp: trimmed_trim_both)
      (use cleanNamePart_chars in blast)+
qed

lemma long_name_bounded:
  assumes p: "length p \<le> 51" and h: "length hash = 10"
    and few: "length parts \<le> 1 \<or> length p + length (last parts) \<le> 50"
  shows "\<exists>n. long_name p parts hash = Some n \<and> length n \<le> maxDNSLabelLength"
proof -
  let ?parts = "if parts = [] then [''item''] else parts"
  have mid: "join_dash (butlast ?parts) = [] \<or> length p + length (last ?parts) \<le> 50"
    using few by (cases parts) auto
  have le: "length (trim_both xs) \<le> 63" if "length xs \<le> 63" for xs
    using length_trim_both [of xs] that by linarith
  have tr: "length (trim_both (take k xs)) \<le> k" "length (trim_right (take k xs)) \<le> k" for k xs
    using length_trim_both [of "take k xs"] length_trim_right [of "take k xs"] by simp_all
  show ?thesis
  proof (cases "length p + length (last ?parts) \<le> 50")
    case True
    then show ?thesis
      using tr(2) [of "62 - (length p + length (last ?parts) + 12)" "join_dash (butlast ?parts)"] h
      unfolding long_name_def Let_def maxDNSLabelLength_def
      by (simp split del: if_split) (auto intro!: le split: if_split simp del: butlast.simps)
  next
    case False
    then show ?thesis
      using mid tr(1) [of "51 - length p" "last ?parts"] p h
      unfolding long_name_def Let_def maxDNSLabelLength_def
      by (simp split del: if_split) (auto intro!: le split: if_split simp: trim_right_def)
  qed
qed

section \<open>Properties\<close>

text \<open>C33: a bounded name exists and is short, clean text: when the cleaned prefix leaves room for the
  digest and the last part does not have to be cut (or is the only part), \<^verbatim>\<open>BoundedName\<close> does not
  panic, its result has at most 63 bytes, all of them lower case letters, digits, dashes or dots,
  and it neither starts nor ends with a dash or a dot.\<close>

theorem BoundedName_bounded:
  assumes "length (cleanNamePart pre) \<le> 51"
    and "length parts \<le> 1 \<or> length (cleanNamePart pre) + length (cleanNamePart (last parts)) \<le> 50"
  shows "\<exists>n. BoundedName pre parts = Some n \<and> length n \<le> maxDNSLabelLength
    \<and> (\<forall>c. c \<in> set n \<longrightarrow> name_char c) \<and> trimmed n"
proof -
  have few: "length (map cleanNamePart parts) \<le> 1
      \<or> length (cleanNamePart pre) + length (last (map cleanNamePart parts)) \<le> 50"
    using assms(2) by (cases "parts = []") (simp_all add: last_map)
  have "\<exists>n. BoundedName pre parts = Some n \<and> length n \<le> maxDNSLabelLength"
    using long_name_bounded [OF assms(1) length_name_hash few]
    unfolding BoundedName_def Let_def by auto
  then show ?thesis
    using BoundedName_chars by blast
qed

theorem BoundedName_bounded_witness:
  "\<exists>n. BoundedName ''pvc-migrate'' [replicate 80 CHR ''a'', ''offline''] = Some n
    \<and> length n \<le> maxDNSLabelLength \<and> (\<forall>c. c \<in> set n \<longrightarrow> name_char c) \<and> trimmed n"
proof (rule BoundedName_bounded)
  show "length (cleanNamePart ''pvc-migrate'') \<le> 51"
    by code_simp
  show "length [replicate 80 CHR ''a'', ''offline''] \<le> 1 \<or> length (cleanNamePart ''pvc-migrate'')
      + length (cleanNamePart (last [replicate 80 CHR ''a'', ''offline''])) \<le> 50"
    by code_simp
qed

definition double_dash_claim :: string where
  "double_dash_claim = replicate 33 CHR ''a'' @ ''--'' @ replicate 20 CHR ''b''"

lemma clean_double_dash:
  "cleanNamePart ''pvc-migrate-bind'' = ''pvc-migrate-bind''" "cleanNamePart ''s1'' = ''s1''"
  "cleanNamePart double_dash_claim = double_dash_claim"
  by code_simp+

lemma hex_last: "set hash \<subseteq> hex_alphabet \<Longrightarrow> hash \<noteq> [] \<Longrightarrow> \<not> dash_dot (last hash)"
  by (drule (1) subsetD [OF _ last_in_set]) (auto simp: hex_alphabet_def dash_dot_def)

lemma long_name_double_dash:
  assumes "length hash = 10" "set hash \<subseteq> hex_alphabet"
  shows "long_name ''pvc-migrate-bind'' [''s1'', double_dash_claim] hash
    = Some (''pvc-migrate-bind-s-'' @ replicate 33 CHR ''a'' @ ''--'' @ ''-'' @ hash)"
proof -
  have cut: "take 35 double_dash_claim = replicate 33 CHR ''a'' @ ''--''"
    "trim_both (replicate 33 CHR ''a'' @ ''--'') = replicate 33 CHR ''a''"
    "trim_right ''s'' = ''s''" "length double_dash_claim = 55"
    by code_simp+
  have "hash \<noteq> []"
    using assms(1) by auto
  then have "trimmed (''pvc-migrate-bind-s-'' @ replicate 33 CHR ''a'' @ ''--'' @ ''-'' @ hash)"
    using hex_last [OF assms(2)] by (simp add: trimmed_def dash_dot_def)
  from trim_both_id [OF this] show ?thesis
    using assms(1) cut unfolding long_name_def Let_def maxDNSLabelLength_def by simp
qed

text \<open>C34: a bounded name can be too long. The name of the binding Pod of a session \<^verbatim>\<open>s1\<close> and a claim
  whose name has two dashes where it is cut has 65 bytes, more than a DNS label may have: the room
  for the middle part is computed from the trimmed last part, the name is built from the untrimmed
  one.\<close>

theorem BoundedName_overflows:
  "map_option length (BoundedName ''pvc-migrate-bind'' [''s1'', double_dash_claim]) = Some 65"
proof -
  let ?hash = "take 10 (hex_encode (sha256 (join_dash [''pvc-migrate-bind'', ''s1'', double_dash_claim])))"
  have fit: "\<not> length (trim_both (join_dash [''pvc-migrate-bind'', ''s1'', double_dash_claim])) \<le> maxDNSLabelLength"
    by code_simp
  have hex: "set ?hash \<subseteq> hex_alphabet"
    using hex_encode_alphabet by (blast dest: in_set_takeD)
  show ?thesis
    using fit long_name_double_dash [OF length_name_hash hex]
    unfolding BoundedName_def Let_def list.map clean_double_dash
    by (simp only: if_False option.map length_append length_name_hash length_replicate) simp
qed

text \<open>The name of a session's Lease is a DNS label of 49 bytes, whatever the session id is: the
  fixed prefix and 32 hexadecimal digits.\<close>

lemma SessionLockName_label:
  "length (SessionLockName sid) = 49 \<and> prefix sessionLeasePrefix (SessionLockName sid)
    \<and> set (SessionLockName sid) \<subseteq> set ''pvc-migrate-lock-'' \<union> hex_alphabet"
  using hex_encode_alphabet [of "sha256 sid"]
  by (auto simp: SessionLockName_def sessionLeasePrefix_def length_hex_encode length_sha256
      dest: in_set_takeD)

end
