(* ===== verification/Lease.thy ===== *)
theory Lease
  imports Effects Names
begin

text \<open>
  The session lock (\<^verbatim>\<open>internal/kube/session_lease.go\<close>): a Lease object that one worker at a time
  holds, renews in the background, and releases or deletes at the end. The holder id is what
  \<^verbatim>\<open>uuid.NewUUID\<close> returned. The renewal goroutine is a program of its own (\<open>renewLoop\<close>); what it has
  recorded by a given moment is the field \<open>w_lost\<close> of the world. The waits of \<^verbatim>\<open>Release\<close> and
  \<^verbatim>\<open>Delete\<close> for that goroutine have no effect of their own and are not steps of the model.
\<close>

section \<open>Durations\<close>

definition defaultSessionLeaseDuration :: duration where
  "defaultSessionLeaseDuration = 30 * second"

definition defaultSessionLeaseRenewEvery :: duration where
  "defaultSessionLeaseRenewEvery = 10 * second"

definition maxLeaseDurationSeconds :: int where
  "maxLeaseDurationSeconds = 2 ^ 31 - 1"

definition leaseDurationSeconds :: "duration \<Rightarrow> int" where
  "leaseDurationSeconds d =
     (if d \<le> 0 then 1
      else let seconds = d div second;
               seconds = (if d mod second \<noteq> 0 then seconds + 1 else seconds)
           in if seconds > maxLeaseDurationSeconds then maxLeaseDurationSeconds else seconds)"

definition normalizeLeaseTiming :: "duration \<Rightarrow> duration \<Rightarrow> duration \<times> duration" where
  "normalizeLeaseTiming d renewEvery =
     (let d = (if d \<le> 0 then defaultSessionLeaseDuration else d);
          renewEvery = (if renewEvery \<le> 0 then defaultSessionLeaseRenewEvery else renewEvery);
          maxRenewEvery = d div 3;
          maxRenewEvery = (if maxRenewEvery \<le> 0 then 1 else maxRenewEvery)
      in (d, if renewEvery > maxRenewEvery then maxRenewEvery else renewEvery))"

text \<open>\<^verbatim>\<open>time.Time.Sub\<close> saturates at the bounds of an \<^verbatim>\<open>int64\<close>.\<close>

definition time_sub :: "instant \<Rightarrow> instant \<Rightarrow> duration" where
  "time_sub t u = max (- (2 ^ 63)) (min (2 ^ 63 - 1) (t - u))"

definition lease_term :: "lease \<Rightarrow> duration" where
  "lease_term l =
     (case l_LeaseDurationSeconds l of
        Some n \<Rightarrow> if n > 0 then n * second else defaultSessionLeaseDuration
      | None \<Rightarrow> defaultSessionLeaseDuration)"

definition sessionLeaseExpired :: "lease \<Rightarrow> instant \<Rightarrow> bool" where
  "sessionLeaseExpired l now =
     (case l_RenewTime l of
        Some renewed \<Rightarrow> time_sub now renewed \<ge> lease_term l
      | None \<Rightarrow> (case l_AcquireTime l of
            Some renewed \<Rightarrow> time_sub now renewed \<ge> lease_term l
          | None \<Rightarrow> True))"

section \<open>Acquiring\<close>

record session_lease =
  ls_namespace :: string
  ls_name :: string
  ls_sessionID :: string
  ls_holder :: string
  ls_uid :: string
  ls_duration :: duration
  ls_renewEvery :: duration
  ls_stopped :: bool
  ls_released :: bool
  ls_deleteDone :: bool
  ls_releaseErr :: "go_error option"
  ls_deleted :: bool

definition newSessionLeaseWithTiming ::
    "string \<Rightarrow> string \<Rightarrow> string \<Rightarrow> string \<Rightarrow> string \<Rightarrow> duration \<Rightarrow> duration \<Rightarrow> session_lease" where
  "newSessionLeaseWithTiming ns name sid holder uid d renewEvery =
     (let (d, renewEvery) = normalizeLeaseTiming d renewEvery
      in \<lparr>ls_namespace = ns, ls_name = name, ls_sessionID = sid, ls_holder = holder, ls_uid = uid,
          ls_duration = d, ls_renewEvery = renewEvery, ls_stopped = False, ls_released = False,
          ls_deleteDone = False, ls_releaseErr = None, ls_deleted = False\<rparr>)"

definition lease_labels :: "string \<Rightarrow> gomap" where
  "lease_labels sid = Map.empty(ManagedByLabel \<mapsto> ManagedByValue, SessionKey \<mapsto> sid)"

definition created_lease :: "string \<Rightarrow> string \<Rightarrow> duration \<Rightarrow> instant \<Rightarrow> lease" where
  "created_lease sid holder d now =
     \<lparr>l_UID = [], l_ResourceVersion = [], l_Labels = lease_labels sid, l_HolderIdentity = Some holder,
      l_LeaseDurationSeconds = Some (leaseDurationSeconds d), l_AcquireTime = Some now,
      l_RenewTime = Some now, l_LeaseTransitions = Some 1\<rparr>"

definition claimed_lease :: "string \<Rightarrow> duration \<Rightarrow> instant \<Rightarrow> lease \<Rightarrow> lease" where
  "claimed_lease holder d now l =
     l\<lparr>l_HolderIdentity := Some holder, l_LeaseDurationSeconds := Some (leaseDurationSeconds d),
       l_AcquireTime := Some now, l_RenewTime := Some now,
       l_LeaseTransitions := Some (case l_LeaseTransitions l of None \<Rightarrow> 1 | Some n \<Rightarrow> n + 1)\<rparr>"

text \<open>The holder that \<^verbatim>\<open>acquireWorkflowLease\<close> respects: a non-empty one.\<close>

definition lease_held :: "lease \<Rightarrow> bool" where
  "lease_held l = (case l_HolderIdentity l of None \<Rightarrow> False | Some p \<Rightarrow> p \<noteq> [])"

definition lease_labelled :: "string \<Rightarrow> lease \<Rightarrow> bool" where
  "lease_labelled sid l =
     (mget (l_Labels l) ManagedByLabel = ManagedByValue \<and> mget (l_Labels l) SessionKey = sid)"

definition claim_lease ::
    "'s world \<Rightarrow> string \<Rightarrow> string \<Rightarrow> string \<Rightarrow> string \<Rightarrow> duration \<Rightarrow> duration \<Rightarrow> instant \<Rightarrow> lease
      \<Rightarrow> (session_lease res, 's) io" where
  "claim_lease w ns name sid holder d renewEvery now l =
     io_bind (update_lease w ns name (claimed_lease holder d now l)) (\<lambda>r. case r of
         Inl e \<Rightarrow>
           if IsConflict e
           then io_ret (Inl (WrapError ErrorConflict OpAcquireSessionLock ErrSessionLockContention))
           else io_ret (Inl (WrapError ErrorKubernetes OpAcquireSessionLock e))
       | Inr None \<Rightarrow> io_ret (Inl (NewError ErrorKubernetes OpAcquireSessionLock))
       | Inr (Some c) \<Rightarrow>
           if l_UID c = [] then io_ret (Inl (NewError ErrorKubernetes OpAcquireSessionLock))
           else io_ret (Inr (newSessionLeaseWithTiming ns name sid holder (l_UID c) d renewEvery)))"

definition try_claim ::
    "'s world \<Rightarrow> string \<Rightarrow> string \<Rightarrow> string \<Rightarrow> string \<Rightarrow> duration \<Rightarrow> duration \<Rightarrow> instant \<Rightarrow> lease
      \<Rightarrow> (session_lease res, 's) io" where
  "try_claim w ns name sid holder d renewEvery now l =
     (if l_UID l = [] then io_ret (Inl (NewError ErrorKubernetes OpAcquireSessionLock))
      else if \<not> lease_labelled sid l then io_ret (Inl (NewError ErrorConflict OpAcquireSessionLock))
      else if lease_held l then io_bind (read_clock w) (\<lambda>t.
        if \<not> sessionLeaseExpired l t
        then io_ret (Inl (WrapError ErrorConflict OpAcquireSessionLock ErrSessionLockContention))
        else claim_lease w ns name sid holder d renewEvery now l)
      else claim_lease w ns name sid holder d renewEvery now l)"

fun acquire_rounds ::
    "nat \<Rightarrow> 's world \<Rightarrow> string \<Rightarrow> string \<Rightarrow> string \<Rightarrow> string \<Rightarrow> duration \<Rightarrow> duration \<Rightarrow> instant
      \<Rightarrow> (session_lease res, 's) io" where
  "acquire_rounds 0 w ns name sid holder d renewEvery now =
     io_ret (Inl (WrapError ErrorConflict OpAcquireSessionLock ErrSessionLockContention))"
| "acquire_rounds (Suc n) w ns name sid holder d renewEvery now =
     io_bind (get_lease w ns name) (\<lambda>r. case r of
         Inl e \<Rightarrow>
           if IsNotFound e then
             io_bind (create_lease w ns name (created_lease sid holder d now)) (\<lambda>cr. case cr of
                 Inr None \<Rightarrow> io_ret (Inl (NewError ErrorKubernetes OpAcquireSessionLock))
               | Inr (Some c) \<Rightarrow>
                   if l_UID c = [] then io_ret (Inl (NewError ErrorKubernetes OpAcquireSessionLock))
                   else io_ret (Inr (newSessionLeaseWithTiming ns name sid holder (l_UID c) d renewEvery))
               | Inl ce \<Rightarrow>
                   if IsAlreadyExists ce then acquire_rounds n w ns name sid holder d renewEvery now
                   else if IsForbidden ce \<and> says_terminated ce
                   then io_ret (Inl (WrapError ErrorKubernetes OpAcquireSessionLock ErrSessionNamespaceTerminating))
                   else io_ret (Inl (WrapError ErrorKubernetes OpAcquireSessionLock ce)))
           else io_ret (Inl (WrapError ErrorKubernetes OpAcquireSessionLock e))
       | Inr l \<Rightarrow> try_claim w ns name sid holder d renewEvery now l)"

definition acquireWorkflowLease ::
    "'s world \<Rightarrow> string \<Rightarrow> string \<Rightarrow> string \<Rightarrow> string \<Rightarrow> duration \<Rightarrow> duration
      \<Rightarrow> (session_lease res, 's) io" where
  "acquireWorkflowLease w ns sid labelSessionID holder d renewEvery =
     (if ns = [] \<or> sid = [] \<or> labelSessionID = []
      then io_ret (Inl (NewError ErrorValidation OpAcquireSessionLock))
      else let name = SessionLockName sid; (d, renewEvery) = normalizeLeaseTiming d renewEvery
           in io_bind (read_clock w) (\<lambda>now.
              acquire_rounds 2 w ns name labelSessionID holder d renewEvery now))"

section \<open>Renewing\<close>

definition owns :: "session_lease \<Rightarrow> lease \<Rightarrow> bool" where
  "owns l x =
     (ls_uid l \<noteq> [] \<and> l_UID x = ls_uid l \<and> lease_labelled (ls_sessionID l) x
      \<and> l_HolderIdentity x = Some (ls_holder l))"

definition renew :: "'s world \<Rightarrow> session_lease \<Rightarrow> (unit res, 's) io" where
  "renew w l =
     io_bind (get_lease w (ls_namespace l) (ls_name l)) (\<lambda>r. case r of
         Inl e \<Rightarrow>
           if IsNotFound e then io_ret (Inl (NewError ErrorConflict OpRenewSessionLock))
           else io_ret (Inl (WrapError ErrorKubernetes OpRenewSessionLock e))
       | Inr x \<Rightarrow>
           if \<not> owns l x then io_ret (Inl (NewError ErrorConflict OpRenewSessionLock))
           else io_bind (read_clock w) (\<lambda>now.
                io_bind (update_lease w (ls_namespace l) (ls_name l) (x\<lparr>l_RenewTime := Some now\<rparr>)) (\<lambda>u.
                case u of
                  Inl e \<Rightarrow>
                    if IsConflict e then io_ret (Inl (NewError ErrorConflict OpRenewSessionLock))
                    else io_ret (Inl (WrapError ErrorKubernetes OpRenewSessionLock e))
                | Inr _ \<Rightarrow> io_ret (Inr ()))))"

definition renewTimeout :: "session_lease \<Rightarrow> duration" where
  "renewTimeout l =
     (let timeout = (if ls_renewEvery l \<le> 0 \<or> ls_renewEvery l > ls_duration l div 3
                     then ls_duration l div 3 else ls_renewEvery l)
      in if timeout \<le> 0 then second else timeout)"

text \<open>One tick of the renewal loop: renew, again every second after a failure that is not a
  conflict, until the deadline. The number \<open>n\<close> bounds the attempts; \<open>None\<close> is a round that needs
  more.\<close>

datatype renew_round = RoundRenewed | RoundStopped | RoundLost go_error

definition renew_failed :: "'s world \<Rightarrow> go_error \<Rightarrow> (renew_round option, 's) io" where
  "renew_failed w e =
     io_bind (ctx_err w) (\<lambda>c. io_ret (Some (case c of Some _ \<Rightarrow> RoundStopped | None \<Rightarrow> RoundLost e)))"

fun renew_retry :: "nat \<Rightarrow> 's world \<Rightarrow> session_lease \<Rightarrow> instant \<Rightarrow> (renew_round option, 's) io" where
  "renew_retry 0 w l deadline = io_ret None"
| "renew_retry (Suc n) w l deadline =
     io_bind (renew w l) (\<lambda>r. case r of
         Inr _ \<Rightarrow> io_ret (Some RoundRenewed)
       | Inl e \<Rightarrow> io_bind (ctx_err w) (\<lambda>c. case c of
             Some _ \<Rightarrow> renew_failed w e
           | None \<Rightarrow>
               if CategoryOf e = ErrorConflict then renew_failed w e
               else io_bind (read_clock w) (\<lambda>t.
                 if t > deadline then renew_failed w e
                 else io_bind (sleep second) (\<lambda>_. renew_retry n w l deadline))))"

text \<open>The loop: \<open>ticks\<close> is how often the ticker fires before the context of the loop is done, \<open>n\<close>
  bounds the attempts of a round. The result is the error with which the lock was lost
  (\<^verbatim>\<open>markLost\<close>), if it was.\<close>

fun renewLoop :: "nat \<Rightarrow> nat \<Rightarrow> 's world \<Rightarrow> session_lease \<Rightarrow> (go_error option option, 's) io" where
  "renewLoop 0 n w l = io_ret (Some None)"
| "renewLoop (Suc ticks) n w l =
     io_bind (io_request (\<lambda>_. ()) (\<lambda>_. EvTick None)) (\<lambda>_.
     io_bind (read_clock w) (\<lambda>t.
     io_bind (renew_retry n w l (t + ls_duration l)) (\<lambda>r. case r of
         None \<Rightarrow> io_ret None
       | Some RoundRenewed \<Rightarrow> renewLoop ticks n w l
       | Some RoundStopped \<Rightarrow> io_ret (Some None)
       | Some (RoundLost e) \<Rightarrow> io_ret (Some (Some e)))))"

section \<open>The lock a worker holds\<close>

definition lease_Err :: "'s world \<Rightarrow> session_lease \<Rightarrow> 's hist \<Rightarrow> go_error option" where
  "lease_Err w l h = w_lost w h (ls_holder l)"

text \<open>\<^verbatim>\<open>Bind\<close>: the error of the bound context.\<close>

definition lease_Bind ::
    "'s world \<Rightarrow> session_lease \<Rightarrow> ('s hist \<Rightarrow> go_error option) \<Rightarrow> 's hist \<Rightarrow> go_error option" where
  "lease_Bind w l parent h =
     (case parent h of Some e \<Rightarrow> Some e
      | None \<Rightarrow> if w_unbound w h (ls_holder l) then Some ContextCanceled else None)"

definition setReleaseErr :: "go_error \<Rightarrow> session_lease \<Rightarrow> session_lease" where
  "setReleaseErr e l = l\<lparr>ls_releaseErr := Some e\<rparr>"

definition release_lease :: "'s world \<Rightarrow> session_lease \<Rightarrow> (session_lease, 's) io" where
  "release_lease w l =
     io_bind (get_lease w (ls_namespace l) (ls_name l)) (\<lambda>r. case r of
         Inl e \<Rightarrow>
           if IsNotFound e then io_ret l
           else io_ret (setReleaseErr (WrapError ErrorKubernetes OpReleaseSessionLock e) l)
       | Inr x \<Rightarrow>
           if \<not> owns l x then io_ret (setReleaseErr (NewError ErrorConflict OpReleaseSessionLock) l)
           else io_bind (update_lease w (ls_namespace l) (ls_name l)
                  (x\<lparr>l_HolderIdentity := None, l_RenewTime := None\<rparr>)) (\<lambda>u. case u of
               Inr _ \<Rightarrow> io_ret l
             | Inl e \<Rightarrow>
                 if IsNotFound e then io_ret l
                 else if IsConflict e
                 then io_ret (setReleaseErr (NewError ErrorConflict OpReleaseSessionLock) l)
                 else io_ret (setReleaseErr (WrapError ErrorKubernetes OpReleaseSessionLock e) l)))"

definition lease_Release :: "'s world \<Rightarrow> session_lease \<Rightarrow> (session_lease \<times> unit res, 's) io" where
  "lease_Release w l =
     io_bind
       (if ls_released l then io_ret l
        else let l = l\<lparr>ls_released := True, ls_stopped := True\<rparr>
             in if ls_deleted l then io_ret l
                else io_bind (io_read (lease_Err w l)) (\<lambda>e. case e of
                    Some e \<Rightarrow> io_ret (setReleaseErr e l)
                  | None \<Rightarrow> release_lease w l))
       (\<lambda>l. io_ret (l, to_res (ls_releaseErr l)))"

definition delete_lease_owned :: "'s world \<Rightarrow> session_lease \<Rightarrow> (session_lease \<times> unit res, 's) io" where
  "delete_lease_owned w l =
     io_bind (get_lease w (ls_namespace l) (ls_name l)) (\<lambda>r. case r of
         Inl e \<Rightarrow>
           if IsNotFound e then io_ret (l\<lparr>ls_deleted := True\<rparr>, Inr ())
           else io_ret (l, Inl (WrapError ErrorKubernetes OpDeleteSessionLock e))
       | Inr x \<Rightarrow>
           if \<not> owns l x then io_ret (l, Inl (NewError ErrorConflict OpDeleteSessionLock))
           else io_bind (delete_lease w (ls_namespace l) (ls_name l) (l_UID x) (l_ResourceVersion x))
             (\<lambda>u. case u of
               Inr _ \<Rightarrow> io_ret (l\<lparr>ls_deleted := True\<rparr>, Inr ())
             | Inl e \<Rightarrow>
                 if IsNotFound e then io_ret (l\<lparr>ls_deleted := True\<rparr>, Inr ())
                 else if IsConflict e
                 then io_ret (l, Inl (WrapError ErrorConflict OpDeleteSessionLock e))
                 else io_ret (l, Inl (WrapError ErrorKubernetes OpDeleteSessionLock e))))"

definition lease_Delete :: "'s world \<Rightarrow> session_lease \<Rightarrow> (session_lease \<times> unit res, 's) io" where
  "lease_Delete w l =
     (if ls_deleteDone l then io_ret (l, Inr ())
      else delete_lease_owned w (l\<lparr>ls_deleteDone := True\<rparr>))"

section \<open>What the programs of a lock do to the Lease\<close>

text \<open>The renew time of the last accepted write by which holder \<open>p\<close> kept the Lease; a release or a
  delete ends the term.\<close>

fun held :: "string \<Rightarrow> 's hist \<Rightarrow> instant option" where
  "held p [] = None"
| "held p (EvCreateLease ns n l (Inr _) # h) = l_RenewTime l"
| "held p (EvUpdateLease ns n l r # h) =
     (if l_HolderIdentity l = Some p then (case r of Inr _ \<Rightarrow> l_RenewTime l | Inl _ \<Rightarrow> held p h)
      else None)"
| "held p (EvDeleteLease ns n uid rv r # h) = None"
| "held p (_ # h) = held p h"

lemma held_create [simp]:
  "held p (EvCreateLease ns n l r # h) = (case r of Inr _ \<Rightarrow> l_RenewTime l | Inl _ \<Rightarrow> held p h)"
  by (cases r) simp_all

text \<open>The Lease may be claimed: it was just read, it carries the labels of the session, and nobody
  held it or its term had ended at a later reading of the clock.\<close>

definition claimable :: "string \<Rightarrow> string \<Rightarrow> string \<Rightarrow> lease \<Rightarrow> 's hist \<Rightarrow> bool" where
  "claimable ns n sid x h \<longleftrightarrow> l_UID x \<noteq> [] \<and> lease_labelled sid x \<and>
     ((\<not> lease_held x \<and> (\<exists>h'. h = EvGetLease ns n (Inr x) # h'))
      \<or> (\<exists>t h'. h = EvNow t # EvGetLease ns n (Inr x) # h' \<and> sessionLeaseExpired x t))"

definition claims :: "string \<Rightarrow> string \<Rightarrow> string \<Rightarrow> string \<Rightarrow> duration \<Rightarrow> lease \<Rightarrow> 's hist \<Rightarrow> bool" where
  "claims ns n sid p d l h \<longleftrightarrow> held p h = None \<and>
     (\<exists>x now. l = claimed_lease p d now x \<and> EvNow now \<in> set h \<and> claimable ns n sid x h)"

definition renews :: "string \<Rightarrow> string \<Rightarrow> string \<Rightarrow> string \<Rightarrow> lease \<Rightarrow> 's hist \<Rightarrow> bool" where
  "renews ns n sid p l h \<longleftrightarrow>
     (\<exists>x t h'. h = EvNow t # EvGetLease ns n (Inr x) # h' \<and> lease_labelled sid x
        \<and> l_HolderIdentity x = Some p \<and> l = x\<lparr>l_RenewTime := Some t\<rparr>)"

definition releases :: "string \<Rightarrow> string \<Rightarrow> string \<Rightarrow> string \<Rightarrow> lease \<Rightarrow> 's hist \<Rightarrow> bool" where
  "releases ns n sid p l h \<longleftrightarrow>
     (\<exists>x h'. h = EvGetLease ns n (Inr x) # h' \<and> lease_labelled sid x \<and> l_HolderIdentity x = Some p
        \<and> l = x\<lparr>l_HolderIdentity := None, l_RenewTime := None\<rparr>)"

definition creates :: "string \<Rightarrow> string \<Rightarrow> string \<Rightarrow> string \<Rightarrow> duration \<Rightarrow> lease \<Rightarrow> 's hist \<Rightarrow> bool" where
  "creates ns n sid p d l h \<longleftrightarrow> held p h = None \<and>
     (\<exists>now. l = created_lease sid p d now \<and> EvNow now \<in> set h) \<and>
     (\<exists>e h'. h = EvGetLease ns n (Inl e) # h' \<and> IsNotFound e)"

definition deletes :: "string \<Rightarrow> string \<Rightarrow> string \<Rightarrow> string \<Rightarrow> string \<Rightarrow> string \<Rightarrow> 's hist \<Rightarrow> bool" where
  "deletes ns n sid p uid rv h \<longleftrightarrow>
     (\<exists>x h'. h = EvGetLease ns n (Inr x) # h' \<and> lease_labelled sid x \<and> l_HolderIdentity x = Some p
        \<and> uid = l_UID x \<and> rv = l_ResourceVersion x)"

text \<open>What an acquisition may do, what a lock may do once it is held, and the two together.\<close>

fun acquire_client ::
    "string \<Rightarrow> string \<Rightarrow> string \<Rightarrow> string \<Rightarrow> duration \<Rightarrow> 's event \<Rightarrow> 's hist \<Rightarrow> bool" where
  "acquire_client ns n sid p d (EvCreateLease ns' n' l r) h =
     (ns' = ns \<and> n' = n \<and> creates ns n sid p d l h)"
| "acquire_client ns n sid p d (EvUpdateLease ns' n' l r) h =
     (ns' = ns \<and> n' = n \<and> claims ns n sid p d l h)"
| "acquire_client ns n sid p d e h = is_read e"

fun lock_client :: "string \<Rightarrow> string \<Rightarrow> string \<Rightarrow> string \<Rightarrow> 's event \<Rightarrow> 's hist \<Rightarrow> bool" where
  "lock_client ns n sid p (EvUpdateLease ns' n' l r) h =
     (ns' = ns \<and> n' = n \<and> (renews ns n sid p l h \<or> releases ns n sid p l h))"
| "lock_client ns n sid p (EvDeleteLease ns' n' uid rv r) h =
     (ns' = ns \<and> n' = n \<and> deletes ns n sid p uid rv h)"
| "lock_client ns n sid p e h = is_read e"

fun lease_client ::
    "string \<Rightarrow> string \<Rightarrow> string \<Rightarrow> string \<Rightarrow> duration \<Rightarrow> 's event \<Rightarrow> 's hist \<Rightarrow> bool" where
  "lease_client ns n sid p d (EvCreateLease ns' n' l r) h =
     (ns' = ns \<and> n' = n \<and> creates ns n sid p d l h)"
| "lease_client ns n sid p d (EvUpdateLease ns' n' l r) h =
     (ns' = ns \<and> n' = n \<and> (claims ns n sid p d l h \<or> renews ns n sid p l h \<or> releases ns n sid p l h))"
| "lease_client ns n sid p d (EvDeleteLease ns' n' uid rv r) h =
     (ns' = ns \<and> n' = n \<and> deletes ns n sid p uid rv h)"
| "lease_client ns n sid p d e h = is_read e"

lemma lease_client_iff:
  "lease_client ns n sid p d e h \<longleftrightarrow> acquire_client ns n sid p d e h \<or> lock_client ns n sid p e h"
  by (cases e) auto

text \<open>The lock that an acquisition for these arguments returns.\<close>

definition lock_for ::
    "string \<Rightarrow> string \<Rightarrow> string \<Rightarrow> string \<Rightarrow> duration \<Rightarrow> session_lease \<Rightarrow> bool" where
  "lock_for ns n sid p d l \<longleftrightarrow> ls_namespace l = ns \<and> ls_name l = n \<and> ls_sessionID l = sid \<and>
     ls_holder l = p \<and> ls_uid l \<noteq> [] \<and> ls_duration l = d"

lemma lock_for_update [simp]:
  "lock_for ns n sid p d (setReleaseErr e l) = lock_for ns n sid p d l"
  "lock_for ns n sid p d (l\<lparr>ls_deleted := b\<rparr>) = lock_for ns n sid p d l"
  "lock_for ns n sid p d (l\<lparr>ls_deleteDone := b\<rparr>) = lock_for ns n sid p d l"
  "lock_for ns n sid p d (l\<lparr>ls_stopped := b\<rparr>) = lock_for ns n sid p d l"
  "lock_for ns n sid p d (l\<lparr>ls_released := b\<rparr>) = lock_for ns n sid p d l"
  "lock_for ns n sid p d (l\<lparr>ls_releaseErr := e'\<rparr>) = lock_for ns n sid p d l"
  by (simp_all add: lock_for_def setReleaseErr_def)

section \<open>Durations, again\<close>

lemma normalizeLeaseTiming_positive:
  "normalizeLeaseTiming d r = (d', r') \<Longrightarrow> 0 < d' \<and> 0 < r' \<and> (3 \<le> d' \<longrightarrow> 3 * r' \<le> d')"
  by (auto simp: normalizeLeaseTiming_def Let_def defaultSessionLeaseDuration_def
      defaultSessionLeaseRenewEvery_def second_def split: if_splits)

lemma normalizeLeaseTiming_idem:
  "normalizeLeaseTiming d r = (d', r') \<Longrightarrow> normalizeLeaseTiming d' r' = (d', r')"
  using normalizeLeaseTiming_positive [of d r d' r']
  by (auto simp: normalizeLeaseTiming_def Let_def split: if_splits)

lemma lock_for_new:
  assumes "normalizeLeaseTiming d0 r0 = (d, r)" "uid \<noteq> []"
  shows "lock_for ns n sid p d (newSessionLeaseWithTiming ns n sid p uid d r)"
  using assms by (simp add: newSessionLeaseWithTiming_def normalizeLeaseTiming_idem [OF assms(1)] lock_for_def)

lemma held_claimed [simp]:
  "l_HolderIdentity (claimed_lease p d now x) = Some p"
  "l_RenewTime (claimed_lease p d now x) = Some now"
  "l_RenewTime (created_lease sid p d now) = Some now"
  by (simp_all add: claimed_lease_def created_lease_def)

section \<open>Guarantees\<close>

definition acquired :: "string \<Rightarrow> string \<Rightarrow> string \<Rightarrow> string \<Rightarrow> duration \<Rightarrow> instant \<Rightarrow> session_lease res \<Rightarrow> 's hist \<Rightarrow> bool" where
  "acquired ns n sid p d now r h \<longleftrightarrow>
     (\<forall>l. r = Inr l \<longrightarrow> lock_for ns n sid p d l \<and> held p h = Some now)"

lemma acquired_simps [simp]:
  "acquired ns n sid p d now (Inl e) h"
  "acquired ns n sid p d now (Inr l) h \<longleftrightarrow> lock_for ns n sid p d l \<and> held p h = Some now"
  by (simp_all add: acquired_def)

lemma claim_lease_wp:
  assumes "normalizeLeaseTiming d0 r0 = (d, ev)" "held p h = None" "EvNow now \<in> set h"
    "claimable ns n sid x h"
  shows "wp (acquire_client ns n sid p d) (claim_lease w ns n sid p d ev now x) (acquired ns n sid p d now) h"
proof -
  have "claims ns n sid p d (claimed_lease p d now x) h"
    using assms unfolding claims_def by blast
  then show ?thesis
    unfolding claim_lease_def
    by (auto simp: io_rules lock_for_new [OF assms(1)]
        intro!: io_intros split: sum.splits option.splits if_splits)
qed

lemma try_claim_wp:
  assumes "normalizeLeaseTiming d0 r0 = (d, ev)" "held p h = None" "EvNow now \<in> set h"
  shows "wp (acquire_client ns n sid p d) (try_claim w ns n sid p d ev now x) (acquired ns n sid p d now)
    (EvGetLease ns n (Inr x) # h)"
  using assms unfolding try_claim_def
  by (auto simp: io_rules claimable_def intro!: io_intros claim_lease_wp [OF assms(1)])

lemma acquire_rounds_wp:
  assumes "normalizeLeaseTiming d0 r0 = (d, ev)"
  shows "held p h = None \<Longrightarrow> EvNow now \<in> set h \<Longrightarrow>
    wp (acquire_client ns n sid p d) (acquire_rounds k w ns n sid p d ev now) (acquired ns n sid p d now) h"
proof (induction k arbitrary: h)
  case 0
  then show ?case by (simp add: io_rules)
next
  case (Suc k)
  have "creates ns n sid p d (created_lease sid p d now) (EvGetLease ns n (Inl e) # h)" if "IsNotFound e" for e
    using Suc.prems that by (auto simp: creates_def)
  with Suc.prems show ?case
    by (auto simp: io_rules lock_for_new [OF assms]
        intro!: io_intros Suc.IH try_claim_wp [OF assms] split: sum.splits option.splits if_splits)
qed

lemma acquireWorkflowLease_wp:
  assumes "held p h = None"
  shows "wp (acquire_client ns (SessionLockName sid) label p (fst (normalizeLeaseTiming d ev)))
    (acquireWorkflowLease w ns sid label p d ev)
    (\<lambda>r h'. \<forall>l. r = Inr l \<longrightarrow> lock_for ns (SessionLockName sid) label p (fst (normalizeLeaseTiming d ev)) l
      \<and> (\<exists>now. EvNow now \<in> set h' \<and> held p h' = Some now)) h"
proof -
  obtain d' ev' where norm: "normalizeLeaseTiming d ev = (d', ev')" by fastforce
  have "wp (acquire_client ns (SessionLockName sid) label p d')
      (acquire_rounds 2 w ns (SessionLockName sid) label p d' ev' t)
      (acquired ns (SessionLockName sid) label p d' t) (EvNow t # h)" for t
    using assms by (auto intro!: acquire_rounds_wp [OF norm])
  note call = wp_conseq [OF this]
  show ?thesis
    unfolding acquireWorkflowLease_def Let_def norm
    by (auto simp: io_rules intro!: io_intros call) (auto dest: set_mono_suffix)
qed

lemma owns_lock_for:
  "lock_for ns n sid p d l \<Longrightarrow> owns l x \<longleftrightarrow>
   l_UID x = ls_uid l \<and> lease_labelled sid x \<and> l_HolderIdentity x = Some p"
  by (auto simp: lock_for_def owns_def)

lemma renew_wp:
  assumes "lock_for ns n sid p d l"
  shows "wp (lock_client ns n sid p) (renew w l)
    (\<lambda>r h'. r = Inr () \<longrightarrow> (\<exists>t. EvNow t \<in> set h' \<and> held p h' = Some t)) h"
proof -
  have "renews ns n sid p (x\<lparr>l_RenewTime := Some t\<rparr>) (EvNow t # EvGetLease ns n (Inr x) # h)"
    if "lease_labelled sid x" "l_HolderIdentity x = Some p" for x t
    using that by (auto simp: renews_def)
  moreover have "ls_namespace l = ns" "ls_name l = n"
    using assms by (simp_all add: lock_for_def)
  ultimately show ?thesis
    unfolding renew_def
    by (auto simp: io_rules owns_lock_for [OF assms] intro!: io_intros split: sum.splits)
qed

lemma renew_retry_wp:
  assumes "lock_for ns n sid p d l"
  shows "wp (lock_client ns n sid p) (renew_retry k w l deadline) (\<lambda>r h'. True) h"
proof (induction k arbitrary: h)
  case 0
  then show ?case by (simp add: io_rules)
next
  case (Suc k)
  note call = wp_conseq [OF renew_wp [OF assms]]
  show ?case
    by (auto simp: io_rules renew_failed_def intro!: io_intros call Suc.IH split: sum.splits option.splits)
qed

lemma renewLoop_wp:
  assumes "lock_for ns n sid p d l"
  shows "wp (lock_client ns n sid p) (renewLoop ticks k w l) (\<lambda>r h'. True) h"
proof (induction ticks arbitrary: h)
  case 0
  then show ?case by (simp add: io_rules)
next
  case (Suc ticks)
  note call = wp_conseq [OF renew_retry_wp [OF assms]]
  show ?case
    by (auto simp: io_rules intro!: io_intros call Suc.IH split: option.splits renew_round.splits)
qed

text \<open>A release without an error leaves the Lease without this holder, or had nothing to release.\<close>

fun given_up :: "string \<Rightarrow> 's hist \<Rightarrow> bool" where
  "given_up p (EvUpdateLease ns n l r # h) = (l_HolderIdentity l \<noteq> Some p)"
| "given_up p (EvGetLease ns n (Inl e) # h) = IsNotFound e"
| "given_up p h = False"

lemma lease_Release_wp:
  assumes "lock_for ns n sid p d l"
  shows "wp (lock_client ns n sid p) (lease_Release w l)
    (\<lambda>(l', r) h'. lock_for ns n sid p d l' \<and> ls_released l' \<and>
       (r = Inr () \<and> \<not> ls_released l \<and> \<not> ls_deleted l \<longrightarrow> lease_Err w l h = None \<and> given_up p h')) h"
proof -
  have "releases ns n sid p (x\<lparr>l_HolderIdentity := None, l_RenewTime := None\<rparr>) (EvGetLease ns n (Inr x) # h)"
    if "lease_labelled sid x" "l_HolderIdentity x = Some p" for x
    using that by (auto simp: releases_def)
  moreover have "ls_namespace l = ns" "ls_name l = n"
    using assms by (simp_all add: lock_for_def)
  moreover have "lock_for ns n sid p d (l\<lparr>ls_released := True, ls_stopped := True\<rparr>)"
    using assms by simp
  ultimately show ?thesis
    using assms unfolding lease_Release_def release_lease_def Let_def
    by (auto simp: io_rules owns_lock_for setReleaseErr_def lease_Err_def intro!: io_intros
        split: sum.splits option.splits)
qed

lemma lease_Delete_wp:
  assumes "lock_for ns n sid p d l"
  shows "wp (lock_client ns n sid p) (lease_Delete w l) (\<lambda>(l', r) h'. lock_for ns n sid p d l') h"
proof -
  have "deletes ns n sid p (ls_uid l) (l_ResourceVersion x) (EvGetLease ns n (Inr x) # h)"
    if "lease_labelled sid x" "l_HolderIdentity x = Some p" "l_UID x = ls_uid l" for x
    using that by (auto simp: deletes_def)
  moreover have "ls_namespace l = ns" "ls_name l = n" "ls_uid l \<noteq> []"
    using assms by (simp_all add: lock_for_def)
  moreover have "lock_for ns n sid p d (l\<lparr>ls_deleteDone := True\<rparr>)"
    using assms by simp
  ultimately show ?thesis
    using assms unfolding lease_Delete_def delete_lease_owned_def
    by (auto simp: io_rules owns_lock_for intro!: io_intros split: sum.splits)
qed

end
