(* ===== verification/LeaseProtocol.thy ===== *)
theory LeaseProtocol
  imports Lease
begin

text \<open>
  Several workers on one Lease. Each worker has its own holder id and its own history of requests;
  the events of a worker are those of the programs of \<open>Lease\<close> (\<open>worker_event\<close>). The API server
  holds one object with optimistic concurrency: an update or a delete is accepted only for the
  resource version it stores, and every accepted write gets a version never used before. An accepted
  write may still be reported as an error. All clocks agree and do not run backwards. Requests of
  different workers interleave in any order.
\<close>

record 's lease_system =
  sy_lease :: "lease option"
  sy_used :: "string set"
  sy_clock :: instant
  sy_hist :: "string \<Rightarrow> 's hist"

section \<open>The server and the steps\<close>

inductive serves ::
    "instant \<Rightarrow> lease option \<Rightarrow> string set \<Rightarrow> 's event \<Rightarrow> lease option \<Rightarrow> string set \<Rightarrow> bool" where
  get_found: "serves t (Some x) U (EvGetLease ns n (Inr x)) (Some x) U"
| get_error: "(IsNotFound e \<Longrightarrow> cur = None) \<Longrightarrow> serves t cur U (EvGetLease ns n (Inl e)) cur U"
| update_accepted: "l_UID l = l_UID x \<Longrightarrow> l_ResourceVersion l = l_ResourceVersion x \<Longrightarrow> rv \<notin> U \<Longrightarrow>
    y = l\<lparr>l_ResourceVersion := rv\<rparr> \<Longrightarrow> r = Inr (Some y) \<or> (\<exists>e. r = Inl e) \<Longrightarrow>
    serves t (Some x) U (EvUpdateLease ns n l r) (Some y) (insert rv U)"
| update_rejected: "serves t cur U (EvUpdateLease ns n l (Inl e)) cur U"
| create_accepted: "uid \<noteq> [] \<Longrightarrow> rv \<notin> U \<Longrightarrow> y = l\<lparr>l_UID := uid, l_ResourceVersion := rv\<rparr> \<Longrightarrow>
    r = Inr (Some y) \<or> (\<exists>e. r = Inl e) \<Longrightarrow>
    serves t None U (EvCreateLease ns n l r) (Some y) (insert rv U)"
| create_rejected: "serves t cur U (EvCreateLease ns n l (Inl e)) cur U"
| delete_accepted: "uid = l_UID x \<Longrightarrow> rv = l_ResourceVersion x \<Longrightarrow>
    serves t (Some x) U (EvDeleteLease ns n uid rv r) None U"
| delete_rejected: "serves t cur U (EvDeleteLease ns n uid rv (Inl e)) cur U"
| clock_read: "serves t cur U (EvNow t) cur U"
| ticker: "serves t cur U (EvTick c) cur U"
| context_read: "serves t cur U (EvCtx c) cur U"
| slept: "serves t cur U (EvSleep d) cur U"

text \<open>The next event \<open>e\<close> of a worker after history \<open>h\<close>: an acquisition, the renewal loop, a release
  or a delete, started somewhere in that history, produces it.\<close>

definition worker_event ::
    "string \<Rightarrow> string \<Rightarrow> string \<Rightarrow> string \<Rightarrow> duration \<Rightarrow> 's event \<Rightarrow> 's hist \<Rightarrow> bool" where
  "worker_event ns lid sid p d e h \<longleftrightarrow>
     (\<exists>w d0 ev r es2 es1 h0. h = es1 @ h0 \<and> held p h0 = None \<and> fst (normalizeLeaseTiming d0 ev) = d
        \<and> acquireWorkflowLease w ns lid sid p d0 ev h0 = (r, es2 @ e # es1))
     \<or> (\<exists>w l es2 es1 h0. h = es1 @ h0 \<and> lock_for ns (SessionLockName lid) sid p d l \<and>
          ((\<exists>ticks k r. renewLoop ticks k w l h0 = (r, es2 @ e # es1))
           \<or> (\<exists>r. lease_Release w l h0 = (r, es2 @ e # es1))
           \<or> (\<exists>r. lease_Delete w l h0 = (r, es2 @ e # es1))))"

lemma worker_event_client:
  assumes "worker_event ns lid sid p d e h"
  shows "lease_client ns (SessionLockName lid) sid p d e h"
  using assms unfolding worker_event_def lease_client_iff
  by (auto dest: wp_event [OF acquireWorkflowLease_wp] wp_event [OF renewLoop_wp]
      wp_event [OF lease_Release_wp] wp_event [OF lease_Delete_wp])

inductive lease_step ::
    "string \<Rightarrow> string \<Rightarrow> string \<Rightarrow> (string \<Rightarrow> duration) \<Rightarrow> 's lease_system \<Rightarrow> 's lease_system \<Rightarrow> bool"
  for ns lid sid dur where
  time_passes: "sy_clock s \<le> t \<Longrightarrow> lease_step ns lid sid dur s (s\<lparr>sy_clock := t\<rparr>)"
| worker_acts: "p \<noteq> [] \<Longrightarrow> worker_event ns lid sid p (dur p) e (sy_hist s p) \<Longrightarrow>
    serves (sy_clock s) (sy_lease s) (sy_used s) e cur U \<Longrightarrow>
    lease_step ns lid sid dur s
      (s\<lparr>sy_lease := cur, sy_used := U, sy_hist := (sy_hist s)(p := e # sy_hist s p)\<rparr>)"

definition lease_start :: "'s lease_system \<Rightarrow> bool" where
  "lease_start s \<longleftrightarrow> (\<forall>p. sy_hist s p = []) \<and>
     (\<forall>x. sy_lease s = Some x \<longrightarrow> l_ResourceVersion x \<in> sy_used s \<and> l_HolderIdentity x = None)"

inductive reached ::
    "string \<Rightarrow> string \<Rightarrow> string \<Rightarrow> (string \<Rightarrow> duration) \<Rightarrow> 's lease_system \<Rightarrow> bool" for ns lid sid dur where
  reached_start: "lease_start s \<Longrightarrow> reached ns lid sid dur s"
| reached_step: "reached ns lid sid dur s \<Longrightarrow> lease_step ns lid sid dur s s' \<Longrightarrow> reached ns lid sid dur s'"

inductive_cases serves_updateE: "serves t cur U (EvUpdateLease ns n l r) cur' U'"
inductive_cases serves_createE: "serves t cur U (EvCreateLease ns n l r) cur' U'"
inductive_cases serves_deleteE: "serves t cur U (EvDeleteLease ns n uid rv r) cur' U'"
inductive_cases serves_getE: "serves t cur U (EvGetLease ns n r) cur' U'"
inductive_cases serves_nowE: "serves t cur U (EvNow t') cur' U'"

text \<open>A worker is in its term while less than its lease duration has passed since the renew time it
  last wrote.\<close>

definition in_term :: "(string \<Rightarrow> duration) \<Rightarrow> 's lease_system \<Rightarrow> string \<Rightarrow> bool" where
  "in_term dur s p \<longleftrightarrow> (\<exists>r. held p (sy_hist s p) = Some r \<and> sy_clock s < r + dur p)"

section \<open>The term on the server covers the term of the holder\<close>

definition duration_ok :: "duration \<Rightarrow> bool" where
  "duration_ok d \<longleftrightarrow> 0 < d \<and> d \<le> maxLeaseDurationSeconds * second"

lemma leaseDurationSeconds_covers:
  assumes "duration_ok d"
  shows "d \<le> leaseDurationSeconds d * second \<and> leaseDurationSeconds d * second < d + second
    \<and> 0 < leaseDurationSeconds d \<and> leaseDurationSeconds d \<le> maxLeaseDurationSeconds"
proof -
  obtain q r where qr: "d div second = q" "d mod second = r" by blast
  then have d: "d = q * second + r" "0 \<le> r" "r < second"
    using div_mult_mod_eq [of d second] by (auto simp: second_def)
  have "0 < d" "d \<le> maxLeaseDurationSeconds * second"
    using assms by (simp_all add: duration_ok_def)
  with d have "if r = 0 then 0 < q \<and> q \<le> maxLeaseDurationSeconds
      else 0 \<le> q \<and> q + 1 \<le> maxLeaseDurationSeconds"
    by (auto simp: second_def)
  with \<open>0 < d\<close> d show ?thesis
    unfolding leaseDurationSeconds_def Let_def qr by (cases "r = 0") (simp_all add: second_def)
qed

lemma expired_after_term:
  assumes "duration_ok d" "l_LeaseDurationSeconds x = Some (leaseDurationSeconds d)"
    "l_RenewTime x = Some r" "sessionLeaseExpired x t"
  shows "r + d \<le> t"
proof -
  have "lease_term x = leaseDurationSeconds d * second" and pos: "0 < leaseDurationSeconds d * second"
    using leaseDurationSeconds_covers [OF assms(1)] assms(2) by (simp_all add: lease_term_def second_def)
  then have "leaseDurationSeconds d * second \<le> time_sub t r"
    using assms(3,4) by (simp add: sessionLeaseExpired_def)
  with pos have "leaseDurationSeconds d * second \<le> t - r"
    by (auto simp: time_sub_def le_max_iff_disj)
  with leaseDurationSeconds_covers [OF assms(1)] show ?thesis by linarith
qed

section \<open>Invariants\<close>

definition observed :: "'s lease_system \<Rightarrow> lease set" where
  "observed s = {x. \<exists>ns n. EvGetLease ns n (Inr x) \<in> (\<Union>p. set (sy_hist s p))}"

definition versions_ok :: "'s lease_system \<Rightarrow> bool" where
  "versions_ok s \<longleftrightarrow> (\<forall>c. sy_lease s = Some c \<longrightarrow> l_ResourceVersion c \<in> sy_used s) \<and>
     (\<forall>x \<in> observed s. l_ResourceVersion x \<in> sy_used s \<and>
        (\<forall>c. sy_lease s = Some c \<and> l_ResourceVersion c = l_ResourceVersion x \<longrightarrow> c = x))"

definition clocks_ok :: "'s lease_system \<Rightarrow> bool" where
  "clocks_ok s \<longleftrightarrow> (\<forall>p.
     (\<forall>t. EvNow t \<in> set (sy_hist s p) \<longrightarrow> t \<le> sy_clock s) \<and>
     (\<forall>r. held p (sy_hist s p) = Some r \<longrightarrow> r \<le> sy_clock s) \<and>
     (\<forall>t h r. suffix (EvNow t # h) (sy_hist s p) \<and> held p h = Some r \<longrightarrow> r \<le> t))"

definition seconds_ok :: "(string \<Rightarrow> duration) \<Rightarrow> 's lease_system \<Rightarrow> bool" where
  "seconds_ok dur s \<longleftrightarrow> (\<forall>c p. sy_lease s = Some c \<and> l_HolderIdentity c = Some p \<and> p \<noteq> [] \<longrightarrow>
     l_LeaseDurationSeconds c = Some (leaseDurationSeconds (dur p)))"

definition covered :: "(string \<Rightarrow> duration) \<Rightarrow> 's lease_system \<Rightarrow> bool" where
  "covered dur s \<longleftrightarrow> (\<forall>p r. p \<noteq> [] \<and> held p (sy_hist s p) = Some r \<and> sy_clock s < r + dur p \<longrightarrow>
     (\<exists>c r'. sy_lease s = Some c \<and> l_HolderIdentity c = Some p \<and> l_RenewTime c = Some r' \<and> r \<le> r'))"

lemma observed_act:
  "observed (s\<lparr>sy_lease := cur, sy_used := U, sy_hist := (sy_hist s)(p := e # sy_hist s p)\<rparr>)
   = observed s \<union> {x. \<exists>ns n. e = EvGetLease ns n (Inr x)}"
proof -
  have "(\<Union>q. set (((sy_hist s)(p := e # sy_hist s p)) q)) = insert e (\<Union>q. set (sy_hist s q))"
    by (auto split: if_splits)
  then show ?thesis
    by (auto simp: observed_def simp del: fun_upd_apply UN_iff)
qed

lemma start_ok:
  assumes "lease_start s"
  shows "versions_ok s" "clocks_ok s" "seconds_ok dur s" "covered dur s"
  using assms
  by (auto simp: lease_start_def observed_def versions_ok_def clocks_ok_def seconds_ok_def covered_def)

lemma versions_step:
  assumes "versions_ok s" "lease_step ns lid sid dur s s'"
  shows "versions_ok s'"
  using assms(2)
proof cases
  case (time_passes t)
  then show ?thesis using assms(1) by (simp add: versions_ok_def observed_def)
next
  case (worker_acts p e cur U)
  have V: "l_ResourceVersion c \<in> sy_used s" if "sy_lease s = Some c" for c
    using assms(1) that by (simp add: versions_ok_def)
  have O: "l_ResourceVersion x \<in> sy_used s" "sy_lease s = Some c \<Longrightarrow> l_ResourceVersion c = l_ResourceVersion x \<Longrightarrow> c = x"
    if "x \<in> observed s" for x c
    using assms(1) that by (auto simp: versions_ok_def)
  from worker_acts(4) show ?thesis
    unfolding worker_acts(1) versions_ok_def observed_act
    by cases (simp_all, (blast dest: V O)+)
qed

text \<open>An accepted update is about the Lease the server holds: the version it carries was read from
  the server and no other content ever had it.\<close>

lemma current_read:
  assumes "versions_ok s" "EvGetLease ns n (Inr x) \<in> set (sy_hist s p)" "sy_lease s = Some c"
    "l_ResourceVersion x = l_ResourceVersion c"
  shows "x = c"
proof -
  have "x \<in> observed s" using assms(2) by (auto simp: observed_def)
  then show ?thesis using assms by (auto simp: versions_ok_def)
qed

lemma accepted_update:
  assumes "versions_ok s" "lease_client ns n sid p d (EvUpdateLease ns' n' l r) (sy_hist s p)"
    "sy_lease s = Some c" "l_ResourceVersion l = l_ResourceVersion c"
  obtains (claim) now where "held p (sy_hist s p) = None" "l = claimed_lease p d now c"
      "EvNow now \<in> set (sy_hist s p)"
      "\<not> lease_held c \<or> (\<exists>t. EvNow t \<in> set (sy_hist s p) \<and> sessionLeaseExpired c t)"
    | (renewal) t h where "l_HolderIdentity c = Some p" "l = c\<lparr>l_RenewTime := Some t\<rparr>"
      "sy_hist s p = EvNow t # h" "\<And>q. held q (sy_hist s p) = held q h"
    | (giving_up) "l_HolderIdentity c = Some p" "l = c\<lparr>l_HolderIdentity := None, l_RenewTime := None\<rparr>"
proof -
  note read = current_read [OF assms(1) _ assms(3)]
  from assms(2) consider "claims ns n sid p d l (sy_hist s p)" | "renews ns n sid p l (sy_hist s p)"
    | "releases ns n sid p l (sy_hist s p)" by auto
  then show thesis
  proof cases
    case 1
    then obtain x now where x: "held p (sy_hist s p) = None" "l = claimed_lease p d now x"
        "EvNow now \<in> set (sy_hist s p)" "claimable ns n sid x (sy_hist s p)"
      unfolding claims_def by blast
    then have "x = c"
      using assms(4) by (intro read [of ns n x p]) (auto simp: claimable_def claimed_lease_def)
    then show thesis
      by (intro claim [of now]) (use x in \<open>auto simp: claimable_def\<close>)
  next
    case 2
    then obtain x t h where x: "sy_hist s p = EvNow t # EvGetLease ns n (Inr x) # h"
        "l_HolderIdentity x = Some p" "l = x\<lparr>l_RenewTime := Some t\<rparr>"
      unfolding renews_def by blast
    then have "x = c" using assms(4) by (intro read [of ns n x p]) auto
    then show thesis using x renewal by simp
  next
    case 3
    then obtain x h where x: "sy_hist s p = EvGetLease ns n (Inr x) # h"
        "l_HolderIdentity x = Some p" "l = x\<lparr>l_HolderIdentity := None, l_RenewTime := None\<rparr>"
      unfolding releases_def by blast
    then have "x = c" using assms(4) by (intro read [of ns n x p]) auto
    then show thesis using x giving_up by simp
  qed
qed

lemma accepted_delete:
  assumes "versions_ok s" "lease_client ns n sid p d (EvDeleteLease ns' n' uid rv r) (sy_hist s p)"
    "sy_lease s = Some c" "rv = l_ResourceVersion c"
  shows "l_HolderIdentity c = Some p"
proof -
  from assms(2) obtain x h where "sy_hist s p = EvGetLease ns n (Inr x) # h"
      "l_HolderIdentity x = Some p" "rv = l_ResourceVersion x"
    by (auto simp: deletes_def)
  with assms(4) current_read [OF assms(1) _ assms(3), of ns n x p] show ?thesis by auto
qed

lemma held_new:
  "lease_client ns n sid p d e h \<Longrightarrow> held p (e # h) = Some r \<Longrightarrow> held p h = Some r \<or> EvNow r \<in> set h"
  by (cases e)
    (auto simp: creates_def claims_def renews_def releases_def split: sum.splits if_splits)

lemma clocks_step:
  assumes "clocks_ok s" "lease_step ns lid sid dur s s'"
  shows "clocks_ok s'"
  using assms(2)
proof cases
  case (time_passes t)
  then show ?thesis using assms(1) unfolding clocks_ok_def by (fastforce intro: order_trans)
next
  case (worker_acts p e cur U)
  note client = worker_event_client [OF worker_acts(3)]
  have now: "t = sy_clock s" if "e = EvNow t" for t
    using worker_acts(4) that by (auto elim: serves_nowE)
  have stamp: "t \<le> sy_clock s" if "EvNow t \<in> set (sy_hist s p)" for t
    using assms(1) that by (auto simp: clocks_ok_def)
  have bound: "r \<le> sy_clock s" if "held p (sy_hist s p) = Some r" for r
    using assms(1) that by (auto simp: clocks_ok_def)
  have order: "r \<le> t" if "suffix (EvNow t # h) (sy_hist s p)" "held p h = Some r" for t h r
    using assms(1) that unfolding clocks_ok_def by blast
  have "held p (e # sy_hist s p) = Some r \<Longrightarrow> r \<le> sy_clock s" for r
    using held_new [OF client] stamp bound by blast
  then show ?thesis
    using assms(1) now stamp bound order unfolding worker_acts(1) clocks_ok_def
    by (auto simp: suffix_Cons)
qed

lemma seconds_step:
  assumes "versions_ok s" "seconds_ok dur s" "lease_step ns lid sid dur s s'"
  shows "seconds_ok dur s'"
  using assms(3)
proof cases
  case (time_passes t)
  then show ?thesis using assms(2) by (simp add: seconds_ok_def)
next
  case (worker_acts p e cur U)
  note client0 = worker_event_client [OF worker_acts(3)]
  have cur: "sy_lease s' = cur" using worker_acts(1) by simp
  from worker_acts(4) show ?thesis
  proof cases
    case (update_accepted l x rv y r ns' n')
    have client: "lease_client ns (SessionLockName lid) sid p (dur p) (EvUpdateLease ns' n' l r) (sy_hist s p)"
      using client0 update_accepted by simp
    have new: "sy_lease s' = Some (l\<lparr>l_ResourceVersion := rv\<rparr>)"
      using update_accepted cur by simp
    show ?thesis
      by (rule accepted_update [OF assms(1) client update_accepted(1,6)])
        (use assms(2) update_accepted(1) new in \<open>auto simp: seconds_ok_def claimed_lease_def\<close>)
  next
    case (create_accepted uid rv y l r ns' n')
    then show ?thesis
      using client0 cur by (auto simp: seconds_ok_def creates_def created_lease_def)
  qed (use assms(2) cur in \<open>auto simp: seconds_ok_def\<close>)
qed

text \<open>Nobody else can take the Lease from a worker in its term.\<close>

lemma covered_holder:
  assumes "covered dur s" "in_term dur s p" "p \<noteq> []"
  obtains c r r' where "sy_lease s = Some c" "l_HolderIdentity c = Some p" "l_RenewTime c = Some r'"
    "held p (sy_hist s p) = Some r" "r \<le> r'" "sy_clock s < r + dur p"
  using assms unfolding covered_def in_term_def by blast

lemma no_claim_in_term:
  assumes "covered dur s" "seconds_ok dur s" "clocks_ok s" "duration_ok (dur p)" "in_term dur s p" "p \<noteq> []"
    "sy_lease s = Some c" "EvNow t \<in> set (sy_hist s q)"
  shows "lease_held c \<and> \<not> sessionLeaseExpired c t"
proof -
  obtain r r' where c: "l_HolderIdentity c = Some p" "l_RenewTime c = Some r'" "r \<le> r'" "sy_clock s < r + dur p"
    by (rule covered_holder [OF assms(1,5,6)]) (use assms(7) in auto)
  have "l_LeaseDurationSeconds c = Some (leaseDurationSeconds (dur p))"
    using assms(2,6,7) c(1) by (simp add: seconds_ok_def)
  moreover have "t \<le> sy_clock s"
    using assms(3,8) by (auto simp: clocks_ok_def)
  ultimately have "\<not> sessionLeaseExpired c t"
    using expired_after_term [OF assms(4) _ c(2)] c(3,4) by fastforce
  then show ?thesis
    using c(1) assms(6) by (simp add: lease_held_def)
qed

lemma others_keep_off:
  assumes inv: "covered dur s" "seconds_ok dur s" "clocks_ok s" "versions_ok s"
    and p: "duration_ok (dur p)" "in_term dur s p" "p \<noteq> []" "q \<noteq> p"
    and client: "lease_client ns n sid q (dur q) e (sy_hist s q)"
    and serves: "serves (sy_clock s) (sy_lease s) (sy_used s) e cur U"
  shows "cur = sy_lease s"
proof -
  obtain c where c: "sy_lease s = Some c" "l_HolderIdentity c = Some p"
    by (rule covered_holder [OF inv(1) p(2,3)])
  note free = no_claim_in_term [OF inv(1-3) p(1-3) c(1)]
  from serves show ?thesis
  proof cases
    case (update_accepted l x rv y r ns' n')
    have "lease_client ns n sid q (dur q) (EvUpdateLease ns' n' l r) (sy_hist s q)"
      "l_ResourceVersion l = l_ResourceVersion c"
      using client update_accepted c(1) by simp_all
    from accepted_update [OF inv(4) this(1) c(1) this(2)] show ?thesis
      using free c(2) p(4) by cases (blast, simp_all)
  next
    case (delete_accepted uid x rv ns' n' r)
    have "lease_client ns n sid q (dur q) (EvDeleteLease ns' n' uid rv r) (sy_hist s q)"
      "rv = l_ResourceVersion c"
      using client delete_accepted c(1) by simp_all
    from accepted_delete [OF inv(4) this(1) c(1) this(2)] show ?thesis
      using c(2) p(4) by simp
  qed (use c(1) in simp_all)
qed

lemma own_write_covered:
  assumes inv: "covered dur s" "clocks_ok s" "versions_ok s"
    and q: "q \<noteq> []" "held q (e # sy_hist s q) = Some r" "sy_clock s < r + dur q"
    and client: "lease_client ns n sid q (dur q) e (sy_hist s q)"
    and serves: "serves (sy_clock s) (sy_lease s) (sy_used s) e cur U"
  shows "\<exists>c r'. cur = Some c \<and> l_HolderIdentity c = Some q \<and> l_RenewTime c = Some r' \<and> r \<le> r'"
proof -
  have old: "\<exists>c r'. sy_lease s = Some c \<and> l_HolderIdentity c = Some q \<and> l_RenewTime c = Some r' \<and> r \<le> r'"
    if "held q (sy_hist s q) = Some r"
    using inv(1) q(1,3) that by (simp add: covered_def)
  from serves show ?thesis
  proof cases
    case (update_accepted l x rv y u ns' n')
    have client': "lease_client ns n sid q (dur q) (EvUpdateLease ns' n' l u) (sy_hist s q)"
      using client update_accepted by simp
    have h: "held q (EvUpdateLease ns' n' l u # sy_hist s q) = Some r"
      using q(2) update_accepted(2) by simp
    have cur: "cur = Some (l\<lparr>l_ResourceVersion := rv\<rparr>)" and u: "u = Inr (Some y) \<or> (\<exists>e. u = Inl e)"
      using update_accepted by simp_all
    show ?thesis
    proof (cases rule: accepted_update [OF inv(3) client' update_accepted(1,6)])
      case (1 now)
      then show ?thesis using h u cur by (auto simp: claimed_lease_def)
    next
      case (2 t h')
      have "r0 \<le> t" if "held q h' = Some r0" for r0
        using inv(2) 2(3) that unfolding clocks_ok_def by (metis suffix_order.refl)
      then show ?thesis using h u cur 2 by auto
    next
      case 3
      then show ?thesis using h by simp
    qed
  next
    case (create_accepted uid rv y l u ns' n')
    then show ?thesis
      using q(2) client by (auto simp: creates_def created_lease_def)
  qed (use old q(2) client in \<open>auto split: if_splits\<close>)
qed

lemma covered_step:
  assumes inv: "covered dur s" "seconds_ok dur s" "clocks_ok s" "versions_ok s"
    and dur: "\<And>p. duration_ok (dur p)" and step: "lease_step ns lid sid dur s s'"
  shows "covered dur s'"
  using step
proof cases
  case (time_passes t)
  then show ?thesis using inv(1) unfolding covered_def by fastforce
next
  case (worker_acts q e cur U)
  note client = worker_event_client [OF worker_acts(3)]
  have "\<exists>c r'. cur = Some c \<and> l_HolderIdentity c = Some p \<and> l_RenewTime c = Some r' \<and> r \<le> r'"
    if p: "p \<noteq> []" "held p (sy_hist s' p) = Some r" "sy_clock s < r + dur p" for p r
  proof (cases "p = q")
    case True
    with p own_write_covered [OF inv(1,3,4) worker_acts(2) _ _ client worker_acts(4)] show ?thesis
      unfolding worker_acts(1) by simp
  next
    case False
    then have held: "held p (sy_hist s p) = Some r"
      using p(2) unfolding worker_acts(1) by simp
    then have "in_term dur s p"
      using p(3) by (auto simp: in_term_def)
    from others_keep_off [OF inv dur this p(1) _ client worker_acts(4)] False have "cur = sy_lease s"
      by simp
    with inv(1) p(1,3) held show ?thesis
      by (simp add: covered_def)
  qed
  then show ?thesis
    unfolding covered_def worker_acts(1) by simp
qed

lemma reached_inv:
  assumes "reached ns lid sid dur s" "\<And>p. duration_ok (dur p)"
  shows "covered dur s \<and> seconds_ok dur s \<and> clocks_ok s \<and> versions_ok s"
  using assms(1)
proof induction
  case (reached_start s)
  then show ?case using start_ok by blast
next
  case (reached_step s s')
  then show ?case
    using assms(2) by (meson covered_step seconds_step clocks_step versions_step)
qed

end
