(* ===== verification/LeaseSafety.thy ===== *)
theory LeaseSafety
  imports LeaseProtocol StaticWorld
begin

text \<open>
  The properties of the session lock: what an acquisition may write, that the other operations touch
  only their own Lease, that the workers exclude each other, that a renewal round ends, and a world
  in which it ends only after the Lease has expired.
\<close>

section \<open>A demo lock\<close>

definition demo_lease :: lease where
  "demo_lease = \<lparr>l_UID = ''u'', l_ResourceVersion = ''1'', l_Labels = lease_labels ''s'',
     l_HolderIdentity = Some ''p'', l_LeaseDurationSeconds = Some 30, l_AcquireTime = Some 0,
     l_RenewTime = Some 0, l_LeaseTransitions = Some 1\<rparr>"

definition demo_lock :: session_lease where
  "demo_lock = newSessionLeaseWithTiming ''n'' (SessionLockName ''s'') ''s'' ''p'' ''u'' 0 0"

definition lease_world :: "(string \<Rightarrow> string \<Rightarrow> lease res) \<Rightarrow> 's world" where
  "lease_world leases =
     (static_world (\<lambda>ns n. Inl (ApiError NotFound)) (\<lambda>n. Inl (ApiError NotFound)))
       \<lparr>w_get_lease := (\<lambda>h. leases)\<rparr>"

lemmas lease_run_defs =
  io_bind_def io_ret_def io_request_def io_read_def io_now_def get_lease_def create_lease_def update_lease_def
  delete_lease_def read_clock_def ctx_err_def sleep_def

lemmas lease_demo_defs =
  lease_world_def static_world_def demo_lease_def demo_lock_def

lemma default_timing [simp]: "normalizeLeaseTiming 0 0 = (30000000000, 10000000000)"
  by (simp add: normalizeLeaseTiming_def Let_def defaultSessionLeaseDuration_def
      defaultSessionLeaseRenewEvery_def second_def)

lemma normal_timing [simp]: "normalizeLeaseTiming 30000000000 10000000000 = (30000000000, 10000000000)"
  by (simp add: normalizeLeaseTiming_def Let_def)

lemma demo_lock_eq:
  "demo_lock = \<lparr>ls_namespace = ''n'', ls_name = SessionLockName ''s'', ls_sessionID = ''s'',
     ls_holder = ''p'', ls_uid = ''u'', ls_duration = 30000000000, ls_renewEvery = 10000000000,
     ls_stopped = False, ls_released = False, ls_deleteDone = False, ls_releaseErr = None, ls_deleted = False\<rparr>"
  by (simp add: demo_lock_def newSessionLeaseWithTiming_def)

lemma demo_lock_for: "lock_for ''n'' (SessionLockName ''s'') ''s'' ''p'' (30 * second) demo_lock"
  by (simp add: lock_for_def demo_lock_eq second_def)

lemma demo_labelled: "lease_labelled ''s'' (demo_lease)"
  by (simp add: lease_labelled_def demo_lease_def lease_labels_def mget_def ManagedByLabel_def SessionKey_def)

section \<open>Acquiring\<close>

text \<open>C26: an acquisition respects the holder. Whatever the API server answers, every write of
  \<^verbatim>\<open>acquireWorkflowLease\<close> is either the creation of a Lease that was just reported missing, or an update
  of the Lease it has just read, which carries the session's labels and either has no holder or had
  expired when the clock was read after it; the update carries the resource version that was read.
  When a lock is returned, its last write was accepted.\<close>

theorem acquire_respects_holder:
  assumes "held p h = None" "acquireWorkflowLease w ns sid label p d ev h = (r, es2 @ e # es1)"
  shows "acquire_client ns (SessionLockName sid) label p (fst (normalizeLeaseTiming d ev)) e (es1 @ h)
    \<and> (\<forall>l. r = Inr l \<longrightarrow> lock_for ns (SessionLockName sid) label p (fst (normalizeLeaseTiming d ev)) l
         \<and> held p (es2 @ e # es1 @ h) \<noteq> None)"
proof -
  note wp = acquireWorkflowLease_wp [OF assms(1), of ns sid label d ev w]
  from wp_event [OF wp assms(2)] wp_run [OF wp assms(2)] show ?thesis by auto
qed

definition free_lease :: lease where
  "free_lease = demo_lease\<lparr>l_HolderIdentity := None\<rparr>"

lemma demo_acquire_run:
  "acquireWorkflowLease (lease_world (\<lambda>ns n. Inr free_lease) :: unit world) ''n'' ''s'' ''s'' ''q'' 0 0 [] =
    (Inr (newSessionLeaseWithTiming ''n'' (SessionLockName ''s'') ''s'' ''q'' ''u'' 30000000000 10000000000),
     [EvUpdateLease ''n'' (SessionLockName ''s'') (claimed_lease ''q'' 30000000000 7 free_lease)
        (Inr (Some (claimed_lease ''q'' 30000000000 7 free_lease))),
      EvGetLease ''n'' (SessionLockName ''s'') (Inr free_lease), EvNow 7])"
  using demo_labelled
  by (simp add: acquireWorkflowLease_def numeral_2_eq_2 try_claim_def claim_lease_def lease_run_defs Let_def
      lease_demo_defs free_lease_def lease_labelled_def lease_held_def claimed_lease_def)

theorem acquire_respects_holder_witness:
  "acquire_client ''n'' (SessionLockName ''s'') ''s'' ''q'' 30000000000
     (EvUpdateLease ''n'' (SessionLockName ''s'') (claimed_lease ''q'' 30000000000 7 free_lease)
        (Inr (Some (claimed_lease ''q'' 30000000000 7 free_lease))))
     [EvGetLease ''n'' (SessionLockName ''s'') (Inr free_lease), EvNow 7 :: unit event]"
  using acquire_respects_holder [where ?es2.0 = "[]", simplified append_Nil, OF _ demo_acquire_run] by simp

section \<open>Renewing, releasing and deleting\<close>

text \<open>C27: a lock touches only its own Lease. Every write of the renewal loop, of \<^verbatim>\<open>Release\<close> and of
  \<^verbatim>\<open>Delete\<close> is to the Lease with the lock's name, which was read immediately before and named this
  holder and this session; a renewal changes the renew time to the time just read, a release clears
  the holder, a delete carries the UID and the resource version just read.\<close>

theorem lock_touches_own_lease:
  assumes "lock_for ns n sid p d l"
  shows "(renewLoop ticks k w l h = (r, es2 @ e # es1) \<longrightarrow> lock_client ns n sid p e (es1 @ h))
    \<and> (lease_Release w l h = (r', es2 @ e # es1) \<longrightarrow> lock_client ns n sid p e (es1 @ h))
    \<and> (lease_Delete w l h = (r', es2 @ e # es1) \<longrightarrow> lock_client ns n sid p e (es1 @ h))"
  using wp_event [OF renewLoop_wp [OF assms]] wp_event [OF lease_Release_wp [OF assms]]
    wp_event [OF lease_Delete_wp [OF assms]] by blast

lemma demo_release_run:
  "lease_Release (lease_world (\<lambda>ns n. Inr demo_lease) :: unit world) demo_lock [] =
    ((demo_lock\<lparr>ls_released := True, ls_stopped := True\<rparr>, Inr ()),
     [EvUpdateLease ''n'' (SessionLockName ''s'') (demo_lease\<lparr>l_HolderIdentity := None, l_RenewTime := None\<rparr>)
        (Inr (Some (demo_lease\<lparr>l_HolderIdentity := None, l_RenewTime := None\<rparr>))),
      EvGetLease ''n'' (SessionLockName ''s'') (Inr demo_lease)])"
  using demo_labelled
  by (simp add: lease_Release_def release_lease_def lease_run_defs Let_def demo_lock_eq lease_Err_def owns_def
      lease_world_def static_world_def demo_lease_def lease_labelled_def)

theorem lock_touches_own_lease_witness:
  "releases ''n'' (SessionLockName ''s'') ''s'' ''p'' (demo_lease\<lparr>l_HolderIdentity := None, l_RenewTime := None\<rparr>)
     [EvGetLease ''n'' (SessionLockName ''s'') (Inr demo_lease) :: unit event]"
  using lock_touches_own_lease [OF demo_lock_for, where ?es2.0 = "[]", simplified append_Nil, THEN conjunct2, THEN conjunct1,
      THEN mp, OF demo_release_run]
  by (auto simp: renews_def)

section \<open>Workers exclude each other\<close>

definition demo_created :: lease where
  "demo_created = (created_lease ''s'' ''p'' 30000000000 0)\<lparr>l_UID := ''u'', l_ResourceVersion := ''1''\<rparr>"

definition missing_world :: "unit world" where
  "missing_world = (lease_world (\<lambda>ns n. Inl (ApiError NotFound)))
     \<lparr>w_now := (\<lambda>h. 0), w_create_lease := (\<lambda>h ns n l. Inr (Some demo_created))\<rparr>"

abbreviation demo_name :: string where
  "demo_name \<equiv> SessionLockName ''s''"

abbreviation demo_hist :: "unit hist" where
  "demo_hist \<equiv> [EvCreateLease ''n'' demo_name (created_lease ''s'' ''p'' 30000000000 0) (Inr (Some demo_created)),
     EvGetLease ''n'' demo_name (Inl (ApiError NotFound)), EvNow 0]"

lemma missing_run:
  "acquireWorkflowLease missing_world ''n'' ''s'' ''s'' ''p'' 0 0 [] =
    (Inr (newSessionLeaseWithTiming ''n'' demo_name ''s'' ''p'' ''u'' 30000000000 10000000000), demo_hist)"
  by (simp add: acquireWorkflowLease_def numeral_2_eq_2 lease_run_defs Let_def missing_world_def
      lease_world_def static_world_def demo_created_def IsNotFound_def reason_of_def)

lemma demo_worker_event:
  assumes "demo_hist = es2 @ e # es1"
  shows "worker_event ''n'' ''s'' ''s'' ''p'' 30000000000 e es1"
proof -
  have "\<exists>r. es1 = es1 @ [] \<and> held ''p'' [] = None \<and> fst (normalizeLeaseTiming 0 0) = 30000000000
      \<and> acquireWorkflowLease missing_world ''n'' ''s'' ''s'' ''p'' 0 0 [] = (r, es2 @ e # es1)"
    using missing_run [unfolded assms] by simp
  then show ?thesis
    unfolding worker_event_def by blast
qed

definition demo_system :: "unit lease_system" where
  "demo_system = \<lparr>sy_lease = Some demo_created, sy_used = {''1''}, sy_clock = 5,
     sy_hist = (\<lambda>_. [])(''p'' := demo_hist)\<rparr>"

text \<open>C25: at most one worker is in its term. Whatever the interleaving of the workers' requests,
  whichever accepted writes are reported as errors, and however much time passes between two
  requests: while less than its lease duration has passed since the renew time that one worker last
  wrote, no other worker is in a term of its own, and the Lease on the server names that worker.\<close>

theorem session_lock_exclusive:
  assumes "reached ns lid sid dur s" "\<And>p. duration_ok (dur p)"
    and "p \<noteq> []" "q \<noteq> []" "p \<noteq> q" "in_term dur s p"
  shows "\<not> in_term dur s q \<and> map_option l_HolderIdentity (sy_lease s) = Some (Some p)"
proof -
  have cov: "covered dur s" using reached_inv assms(1,2) by blast
  obtain c where c: "sy_lease s = Some c" "l_HolderIdentity c = Some p"
    by (rule covered_holder [OF cov assms(6,3)])
  moreover have False if "in_term dur s q"
    by (rule covered_holder [OF cov that assms(4)]) (use c assms(5) in auto)
  ultimately show ?thesis by auto
qed

lemma demo_system_reached: "reached ''n'' ''s'' ''s'' (\<lambda>_. 30000000000) demo_system"
proof -
  let ?step = "lease_step ''n'' ''s'' ''s'' (\<lambda>_. 30000000000)"
  let ?sys = "\<lambda>c U t h. \<lparr>sy_lease = c, sy_used = U, sy_clock = t, sy_hist = (\<lambda>_. [])(''p'' := h)\<rparr> :: unit lease_system"
  have act: "?step (?sys c U t h) (?sys c' U' t (e # h))"
    if "worker_event ''n'' ''s'' ''s'' ''p'' 30000000000 e h" "serves t c U e c' U'" for c c' U U' t e h
    using worker_acts [of "''p''" "''n''" "''s''" "''s''" "\<lambda>_. 30000000000" e "?sys c U t h" c' U'] that
    by simp
  have 1: "?step (?sys None {} 0 []) (?sys None {} 0 (drop 2 demo_hist))"
    by simp (rule act [OF demo_worker_event [of "take 2 demo_hist"]]; simp add: serves.intros)
  have 2: "?step (?sys None {} 0 (drop 2 demo_hist)) (?sys None {} 0 (drop 1 demo_hist))"
    by simp (rule act [OF demo_worker_event [of "take 1 demo_hist"]]; simp add: serves.intros)
  have 3: "?step (?sys None {} 0 (drop 1 demo_hist)) (?sys (Some demo_created) {''1''} 0 demo_hist)"
    by simp (rule act [OF demo_worker_event [of "[]"]];
        auto simp: demo_created_def intro!: create_accepted [of "''u''"])
  have 4: "?step (?sys (Some demo_created) {''1''} 0 demo_hist) demo_system"
    using time_passes [of "?sys (Some demo_created) {''1''} 0 demo_hist" 5] by (simp add: demo_system_def)
  have "lease_start (?sys None {} 0 [])"
    by (simp add: lease_start_def)
  from reached_start [OF this] 1 2 3 4 show ?thesis
    by (meson reached_step)
qed

theorem session_lock_exclusive_witness:
  "in_term (\<lambda>_. 30000000000) demo_system ''p'' \<and> \<not> in_term (\<lambda>_. 30000000000) demo_system ''q''
   \<and> map_option l_HolderIdentity (sy_lease demo_system) = Some (Some ''p'')"
proof -
  have "in_term (\<lambda>_. 30000000000) demo_system ''p''"
    by (simp add: in_term_def demo_system_def)
  moreover have "duration_ok (30000000000)"
    by (simp add: duration_ok_def second_def maxLeaseDurationSeconds_def)
  ultimately show ?thesis
    using session_lock_exclusive [OF demo_system_reached, of "''p''" "''q''"] by simp
qed

section \<open>A renewal round ends\<close>

text \<open>The clock never runs backwards, and a sleep lasts at least as long as asked.\<close>

fun slept :: "'s event \<Rightarrow> duration" where
  "slept (EvSleep d) = max 0 d"
| "slept e = 0"

definition clock_advances :: "'s world \<Rightarrow> bool" where
  "clock_advances w \<longleftrightarrow>
     (\<forall>h e. w_now w h + slept e \<le> w_now w (e # h))"

lemma clock_event: "clock_advances w \<Longrightarrow> w_now w h \<le> w_now w (e # h)"
  unfolding clock_advances_def by (cases e) (auto dest!: spec [of _ h] spec [of _ e])

lemma clock_sleep: "clock_advances w \<Longrightarrow> w_now w h + second \<le> w_now w (EvSleep second # h)"
  unfolding clock_advances_def by (auto dest!: spec [of _ h] spec [of _ "EvSleep second"] simp: second_def)

lemma clock_mono:
  assumes "clock_advances w"
  shows "suffix h h' \<Longrightarrow> w_now w h \<le> w_now w h'"
proof (induction h')
  case (Cons e h')
  then show ?case using clock_event [OF assms, of h' e] by (auto simp: suffix_Cons)
qed simp

abbreviation anything :: "'s event \<Rightarrow> 's hist \<Rightarrow> bool" where
  "anything \<equiv> \<lambda>e h. True"

lemma wp_anything: "wp anything m (\<lambda>x h. True) h"
proof -
  have "guarded anything es h" for es by (induction es) simp_all
  then show ?thesis by (simp add: wp_def split: prod.splits)
qed

lemma renew_retry_returns:
  assumes "clock_advances w"
  shows "deadline < w_now w h + int m * second \<Longrightarrow>
    wp anything (renew_retry (Suc m) w l deadline) (\<lambda>r h'. r \<noteq> None) h"
proof (induction m arbitrary: h)
  case 0
  have late: "deadline < w_now w (EvCtx c # h')" if "suffix h h'" for c h'
    using clock_mono [OF assms suffix_ConsI [OF that, of "EvCtx c"]] 0 by simp
  show ?case
    by (auto simp: io_rules renew_failed_def read_clock_def split: sum.splits option.splits
        intro!: io_intros wp_conseq [OF wp_anything [of "renew w l"]] simp: late)
next
  case (Suc m)
  have more: "deadline < w_now w (EvSleep second # EvNow t # EvCtx c # h') + int m * second"
    if "suffix h h'" for t c h'
    using clock_mono [OF assms suffix_ConsI [OF suffix_ConsI [OF that, of "EvCtx c"], of "EvNow t"]]
      clock_sleep [OF assms, of "EvNow t # EvCtx c # h'"] Suc.prems
    by (simp add: algebra_simps)
  show ?case
    by (subst renew_retry.simps)
      (auto simp: io_rules renew_failed_def read_clock_def sleep_def split: sum.splits option.splits
        intro!: io_intros wp_conseq [OF wp_anything [of "renew w l"]] Suc.IH more simp del: renew_retry.simps not_None_eq)
qed

text \<open>C28: a renewal loop that fails gives up. When the clock does not run backwards and sleeping
  takes the time it is asked for, every tick of the renewal loop needs at most as many attempts as
  the lease duration has seconds, plus two: the loop returns whatever the API server answers.\<close>

theorem renewLoop_returns:
  assumes "clock_advances w" "0 \<le> ls_duration l"
  shows "fst (renewLoop ticks (nat (ls_duration l div second) + 2) w l h) \<noteq> None"
proof -
  let ?n = "nat (ls_duration l div second) + 2"
  have "ls_duration l < (ls_duration l div second + 1) * second"
    using div_mult_mod_eq [of "ls_duration l" second] pos_mod_bound [of second "ls_duration l"]
    by (simp add: algebra_simps second_def)
  moreover have "0 \<le> ls_duration l div second"
    using assms(2) by (simp add: second_def)
  ultimately have "ls_duration l < int (?n - 1) * second"
    by (simp add: algebra_simps)
  then have "t + ls_duration l < t + int (?n - 1) * second" for t
    by simp
  then have round: "wp anything (renew_retry ?n w l (w_now w h' + ls_duration l)) (\<lambda>r h''. r \<noteq> None) (EvNow (w_now w h') # h')" for h'
    using renew_retry_returns [OF assms(1), of "w_now w h' + ls_duration l" "EvNow (w_now w h') # h'" "?n - 1" l]
      clock_event [OF assms(1), of h' "EvNow (w_now w h')"]
    by (simp del: renew_retry.simps)
  have "wp anything (renewLoop ticks n w l) (\<lambda>r h'. r \<noteq> None) h" if "n = ?n" for n
  proof (induction ticks arbitrary: h)
    case 0
    then show ?case by (simp add: io_rules)
  next
    case (Suc ticks)
    show ?case
      by (auto simp: io_rules read_clock_def that [symmetric]
          intro!: wp_conseq [OF round [unfolded that [symmetric]]] Suc.IH
          split: option.splits renew_round.splits simp del: renew_retry.simps not_None_eq)
  qed
  from this [OF refl] show ?thesis
    by (simp add: wp_def split: prod.splits)
qed

text \<open>A world in which the API server is down: every read of the Lease fails, the tick comes ten
  seconds after the last renewal at time 0, and only sleeping takes time.\<close>

definition outage_world :: "unit world" where
  "outage_world = (lease_world (\<lambda>ns n. Inl (ApiError OtherReason)))
     \<lparr>w_now := (\<lambda>h. 10 * second + sum_list (map slept h))\<rparr>"

theorem renewLoop_returns_witness:
  "clock_advances outage_world \<and> fst (renewLoop 1 32 outage_world demo_lock []) \<noteq> None"
proof -
  have clock: "clock_advances outage_world"
    by (simp add: clock_advances_def outage_world_def)
  have d: "0 \<le> ls_duration demo_lock" and n: "nat (ls_duration demo_lock div second) + 2 = 32"
    by (simp_all add: demo_lock_eq second_def)
  show ?thesis
    using renewLoop_returns [OF clock d, of 1 "[]", unfolded n] clock by blast
qed

abbreviation failed_read :: "unit event" where
  "failed_read \<equiv> EvGetLease ''n'' (SessionLockName ''s'') (Inl (ApiError OtherReason))"

abbreviation outage_error :: go_error where
  "outage_error \<equiv> WrapError ErrorKubernetes OpRenewSessionLock (ApiError OtherReason)"

lemma outage_renew: "renew outage_world demo_lock h = (Inl outage_error, [failed_read])"
  by (simp add: renew_def lease_run_defs outage_world_def lease_world_def demo_lock_eq IsNotFound_def reason_of_def)

lemma outage_now: "w_now outage_world (e # h) = w_now outage_world h + slept e"
  by (simp add: outage_world_def)

lemma outage_retry:
  "renew_retry (Suc n) outage_world demo_lock deadline h =
    (if w_now outage_world h > deadline
     then (Some (RoundLost outage_error), [EvCtx None, EvNow (w_now outage_world h), EvCtx None, failed_read])
     else case renew_retry n outage_world demo_lock deadline
              (EvSleep second # EvNow (w_now outage_world h) # EvCtx None # failed_read # h) of
            (r, es) \<Rightarrow> (r, es @ [EvSleep second, EvNow (w_now outage_world h), EvCtx None, failed_read]))"
  using outage_now [of "EvCtx None"] outage_now [of failed_read]
  by (simp add: outage_renew io_bind_def [of "renew _ _"] renew_failed_def split: prod.splits)
    (simp add: renew_failed_def lease_run_defs outage_world_def lease_world_def static_world_def split: prod.splits)

lemma outage_last_attempt:
  "w_now outage_world h = (40 - int j) * second \<Longrightarrow>
   \<exists>e es2 es1. renew_retry (j + Suc (Suc n)) outage_world demo_lock (40 * second) h
      = (Some (RoundLost e), es2 @ failed_read # es1) \<and> w_now outage_world (es1 @ h) = 40 * second"
proof (induction j arbitrary: h)
  case 0
  then show ?case
    by (simp add: outage_retry outage_now del: renew_retry.simps)
      (simp add: second_def, metis append.left_neutral append_Cons)
next
  case (Suc j)
  let ?h = "EvSleep second # EvNow (w_now outage_world h) # EvCtx None # failed_read # h"
  have "w_now outage_world ?h = (40 - int j) * second"
    using Suc.prems by (simp add: outage_now second_def)
  from Suc.IH [OF this] obtain e es2 es1 where
    r: "renew_retry (j + Suc (Suc n)) outage_world demo_lock (40 * second) ?h = (Some (RoundLost e), es2 @ failed_read # es1)"
    "w_now outage_world (es1 @ ?h) = 40 * second" by blast
  have "renew_retry (Suc j + Suc (Suc n)) outage_world demo_lock (40 * second) h
    = (Some (RoundLost e), es2 @ failed_read # es1 @ [EvSleep second, EvNow (w_now outage_world h), EvCtx None, failed_read])"
    using r(1) Suc.prems by (simp add: outage_retry second_def del: renew_retry.simps)
  then show ?case using r(2) by fastforce
qed

text \<open>C29: the loop gives up too late. With the API server down since the last renewal, the lock
  still counts as held ten seconds after its Lease has expired: the round keeps trying until a whole
  lease duration after the tick, not after the last renewal, so it still attempts to renew when the
  clock shows 40 seconds, while another worker may claim the Lease from second 30 on.\<close>

theorem renewal_outlives_lease:
  "sessionLeaseExpired demo_lease (30 * second)
   \<and> (\<exists>e es2 es1. renewLoop 1 40 outage_world demo_lock []
        = (Some (Some e), es2 @ failed_read # es1) \<and> w_now outage_world es1 = 40 * second)"
proof -
  let ?h = "[EvNow (10 * second), EvTick None] :: unit hist"
  have "w_now outage_world ?h = (40 - int 30) * second"
    by (simp add: outage_world_def)
  from outage_last_attempt [OF this, of 8] obtain e es2 es1 where
    "renew_retry 40 outage_world demo_lock (40 * second) ?h = (Some (RoundLost e), es2 @ failed_read # es1)"
    "w_now outage_world (es1 @ ?h) = 40 * second" by auto
  moreover have "10 * second + ls_duration demo_lock = 40 * second"
    by (simp add: demo_lock_eq second_def)
  ultimately have "renewLoop 1 40 outage_world demo_lock []
      = (Some (Some e), es2 @ failed_read # es1 @ ?h) \<and> w_now outage_world (es1 @ ?h) = 40 * second"
    by (simp add: io_bind_def io_request_def io_ret_def read_clock_def outage_now [of "EvTick None"]
        outage_world_def [THEN arg_cong, of "\<lambda>w. w_now w []"] del: renew_retry.simps)
  moreover have "sessionLeaseExpired demo_lease (30 * second)"
    by (simp add: sessionLeaseExpired_def demo_lease_def lease_term_def time_sub_def second_def)
  ultimately show ?thesis by blast
qed

section \<open>Timing\<close>

text \<open>The timing of a lock leaves room for renewals. For every requested duration and interval,
  after normalisation at least three renewals fit into the lease duration, one renewal attempt is
  given a positive time of at most a third of it, and the whole number of seconds written to the
  Lease covers the duration and exceeds it by less than a second.\<close>

lemma lease_timing_bounds:
  assumes "normalizeLeaseTiming d ev = (d', ev')" "3 \<le> d'" "d' \<le> maxLeaseDurationSeconds * second"
  shows "0 < ev' \<and> 3 * ev' \<le> d'
    \<and> 0 < renewTimeout (newSessionLeaseWithTiming ns n sid p uid d ev)
    \<and> 3 * renewTimeout (newSessionLeaseWithTiming ns n sid p uid d ev) \<le> d'
    \<and> d' \<le> leaseDurationSeconds d' * second \<and> leaseDurationSeconds d' * second < d' + second"
proof -
  have pos: "0 < d'" "0 < ev'" "3 * ev' \<le> d'"
    using normalizeLeaseTiming_positive [OF assms(1)] assms(2) by auto
  have "duration_ok d'"
    using pos(1) assms(3) by (simp add: duration_ok_def)
  from leaseDurationSeconds_covers [OF this] pos show ?thesis
    using assms(1,2) by (auto simp: renewTimeout_def newSessionLeaseWithTiming_def Let_def)
qed

end
