(* ===== verification/WorkflowLease.thy ===== *)
theory WorkflowLease
  imports LeaseSafety
begin

text \<open>
  The lock around a workflow operation: the lock interface and its two implementations
  (\<^verbatim>\<open>internal/kube/session_store.go\<close>, \<^verbatim>\<open>workflow_lease.go\<close>), the two lockers
  (\<^verbatim>\<open>workflow_locker.go\<close>) with the name checks they rest on (\<^verbatim>\<open>workflow_collision.go\<close>), the
  handoff annotations (\<^verbatim>\<open>workflow_handoff.go\<close>), \<^verbatim>\<open>WithWorkflowLease\<close>, and the wrappers of the
  executors (\<^verbatim>\<open>internal/app/workflow_lock.go\<close>). The holder id that \<^verbatim>\<open>uuid.NewUUID\<close> returns is an
  argument of a locker. A closure that runs under the lock returns what it leaves in the variables it
  captures, and the lock, which it may delete.
\<close>

section \<open>Locks\<close>

datatype session_lock = LeaseLock session_lease | DeletingLock

primrec lock_Bind ::
    "'s world \<Rightarrow> session_lock \<Rightarrow> ('s hist \<Rightarrow> go_error option) \<Rightarrow> 's hist \<Rightarrow> go_error option" where
  "lock_Bind w (LeaseLock l) = lease_Bind w l"
| "lock_Bind w DeletingLock = (\<lambda>parent. parent)"

primrec lock_Err :: "'s world \<Rightarrow> session_lock \<Rightarrow> 's hist \<Rightarrow> go_error option" where
  "lock_Err w (LeaseLock l) = lease_Err w l"
| "lock_Err w DeletingLock = (\<lambda>h. None)"

primrec lock_Release :: "'s world \<Rightarrow> session_lock \<Rightarrow> (session_lock \<times> unit res, 's) io" where
  "lock_Release w (LeaseLock l) =
     io_bind (lease_Release w l) (\<lambda>(l, r). io_ret (LeaseLock l, r))"
| "lock_Release w DeletingLock = io_ret (DeletingLock, Inr ())"

primrec lock_Delete :: "'s world \<Rightarrow> session_lock \<Rightarrow> (session_lock \<times> unit res, 's) io" where
  "lock_Delete w (LeaseLock l) =
     io_bind (lease_Delete w l) (\<lambda>(l, r). io_ret (LeaseLock l, r))"
| "lock_Delete w DeletingLock = io_ret (DeletingLock, Inr ())"

text \<open>A locker; \<open>None\<close> is a nil locker, and a nil lock where it returns one.\<close>

type_synonym 's locker = "'s world \<Rightarrow> string \<Rightarrow> string \<Rightarrow> (session_lock option res, 's) io"

definition AcquireRequiredSessionLock ::
    "'s world \<Rightarrow> 's locker option \<Rightarrow> string \<Rightarrow> string \<Rightarrow> (session_lock res, 's) io" where
  "AcquireRequiredSessionLock w locker ns sid =
     (case locker of None \<Rightarrow> io_ret (Inl (NewError ErrorInternal OpSessionLock))
      | Some acquire \<Rightarrow> io_try (acquire w ns sid) (\<lambda>lock. case lock of
            None \<Rightarrow> io_ret (Inl (NewError ErrorInternal OpSessionLock))
          | Some lk \<Rightarrow> io_ret (Inr lk)))"

section \<open>Name collisions\<close>

fun checkConfigMapNameCollision ::
    "'s world \<Rightarrow> bool \<Rightarrow> string \<Rightarrow> string list \<Rightarrow> bool \<Rightarrow> (unit res, 's) io" where
  "checkConfigMapNameCollision w configured sid [] failOnForbidden = io_ret (Inr ())"
| "checkConfigMapNameCollision w configured sid (ns # namespaces) failOnForbidden =
     (if \<not> configured then io_ret (Inr ())
      else io_bind (get_configmap w ns (SessionConfigMapName sid)) (\<lambda>r. case r of
          Inl err \<Rightarrow>
            if IsNotFound err \<or> IsForbidden err \<and> \<not> failOnForbidden
            then checkConfigMapNameCollision w configured sid namespaces failOnForbidden
            else io_ret (Inl (WrapError ErrorKubernetes OpWorkflowNameCollision err))
        | Inr _ \<Rightarrow> io_ret (Inl (NewError ErrorConflict OpWorkflowNameCollision))))"

definition CheckConfigMapIdentityCollision ::
    "'s world \<Rightarrow> bool \<Rightarrow> string \<Rightarrow> string list \<Rightarrow> (unit res, 's) io" where
  "CheckConfigMapIdentityCollision w configured sid namespaces =
     checkConfigMapNameCollision w configured sid namespaces True"

text \<open>The kinds of \<^verbatim>\<open>workflowCRDResourceRegistry\<close>, in its order, with their scope.\<close>

record crdResource =
  crd_kind :: ControllerKind
  crd_cluster :: bool

definition crd_resource :: "ControllerKind \<Rightarrow> bool \<Rightarrow> crdResource" where
  "crd_resource kind cluster = \<lparr>crd_kind = kind, crd_cluster = cluster\<rparr>"

definition workflowCRDResourceRegistry :: "crdResource list" where
  "workflowCRDResourceRegistry =
     [crd_resource ControllerKindMigration False,
      crd_resource ControllerKindClusterMigration True,
      crd_resource ControllerKindPodMigration False,
      crd_resource ControllerKindReservation False,
      crd_resource ControllerKindClusterReservation True,
      crd_resource ControllerKindCopy False,
      crd_resource ControllerKindClusterCopy True,
      crd_resource ControllerKindBackup False,
      crd_resource ControllerKindRestore False,
      crd_resource ControllerKindRename False,
      crd_resource ControllerKindMove True]"

definition workflowCRDResource :: "ControllerKind \<Rightarrow> crdResource option" where
  "workflowCRDResource kind = find (\<lambda>r. crd_kind r = kind) workflowCRDResourceRegistry"

definition resourceKey :: "crdResource \<Rightarrow> string \<Rightarrow> string \<Rightarrow> string \<times> string" where
  "resourceKey resource ns n = (if crd_cluster resource then [] else ns, n)"

definition collision_lookups ::
    "ControllerKind list \<Rightarrow> ControllerKind \<Rightarrow> string list \<Rightarrow> (crdResource \<times> string) list" where
  "collision_lookups kinds currentKind namespaces =
     (let resources = (if kinds = [] then workflowCRDResourceRegistry
                       else filter (\<lambda>r. crd_kind r \<in> set kinds) workflowCRDResourceRegistry)
      in concat (map (\<lambda>r. if crd_kind r = currentKind then []
                          else if crd_cluster r then [(r, [])]
                          else map (Pair r) namespaces) resources))"

text \<open>The parallel reads, in index order; then the first finding in index order decides.\<close>

fun lookup_all ::
    "'s world \<Rightarrow> string \<Rightarrow> (crdResource \<times> string) list \<Rightarrow> (unit res list, 's) io" where
  "lookup_all w sid [] = io_ret []"
| "lookup_all w sid ((resource, ns) # lookups) =
     (case resourceKey resource ns sid of (ns', n) \<Rightarrow>
      io_bind (get_workflow w (crd_kind resource) ns' n) (\<lambda>r.
      io_bind (lookup_all w sid lookups) (\<lambda>rs. io_ret (r # rs))))"

fun first_collision :: "bool \<Rightarrow> unit res list \<Rightarrow> unit res" where
  "first_collision failOnForbidden [] = Inr ()"
| "first_collision failOnForbidden (Inl err # rs) =
     (if IsNotFound err \<or> IsForbidden err \<and> \<not> failOnForbidden then first_collision failOnForbidden rs
      else Inl (WrapError ErrorKubernetes OpWorkflowNameCollision err))"
| "first_collision failOnForbidden (Inr _ # rs) = Inl (NewError ErrorConflict OpWorkflowNameCollision)"

text \<open>A nil client is \<open>False\<close> in \<open>configured\<close> and \<open>kubeConfigured\<close>.\<close>

definition CheckWorkflowIdentityCollision ::
    "'s world \<Rightarrow> bool \<Rightarrow> bool \<Rightarrow> ControllerKind list \<Rightarrow> string \<Rightarrow> ControllerKind \<Rightarrow> string list \<Rightarrow> bool
      \<Rightarrow> (unit res, 's) io" where
  "CheckWorkflowIdentityCollision w configured kubeConfigured kinds sid currentKind namespaces failOnForbidden =
     (if \<not> configured then io_ret (Inl (NewError ErrorKubernetes OpWorkflowNameCollision))
      else if sid = [] \<or> currentKind = KindUnset \<or> namespaces = []
      then io_ret (Inl (NewError ErrorValidation OpWorkflowNameCollision))
      else if [] \<in> set namespaces
      then io_ret (Inl (NewError ErrorValidation OpWorkflowNameCollision))
      else io_try (checkConfigMapNameCollision w kubeConfigured sid namespaces failOnForbidden) (\<lambda>_.
           io_bind (lookup_all w sid (collision_lookups kinds currentKind namespaces)) (\<lambda>rs.
           io_ret (first_collision failOnForbidden rs))))"

section \<open>Lockers\<close>

definition ConfigMapWorkflowLocker_AcquireSessionLock :: "bool \<Rightarrow> string \<Rightarrow> 's locker" where
  "ConfigMapWorkflowLocker_AcquireSessionLock configured holder w ns sid =
     (if \<not> configured then io_ret (Inl PlainError)
      else io_try (acquireWorkflowLease w ns sid sid holder 0 0) (\<lambda>l.
           io_ret (Inr (Some (LeaseLock l)))))"

definition CRDWorkflowLocker_AcquireSessionLock :: "bool \<Rightarrow> string \<Rightarrow> 's locker" where
  "CRDWorkflowLocker_AcquireSessionLock configured holder w ns sid =
     (if \<not> configured then io_ret (Inl (NewError ErrorKubernetes OpAcquireSessionLock))
      else io_try (checkConfigMapNameCollision w True sid [ns] True) (\<lambda>_.
           io_try (acquireWorkflowLease w ns sid sid holder 0 0) (\<lambda>l.
           io_bind (checkConfigMapNameCollision w True sid [ns] True) (\<lambda>r. case r of
               Inl err \<Rightarrow> io_bind (lease_Release w l) (\<lambda>(l, rel).
                 io_ret (Inl (the (errors_join [Some err, err_of rel]))))
             | Inr _ \<Rightarrow> io_ret (Inr (Some (LeaseLock l)))))))"

section \<open>Handoff\<close>

definition reservationCopyPendingAnnotation :: string where
  "reservationCopyPendingAnnotation = ''migrate.sealos.io/reservation-copy-pending''"

definition reservationCopyOriginAnnotation :: string where
  "reservationCopyOriginAnnotation = ''migrate.sealos.io/reservation-copy-origin''"

definition RequireWorkflowHandoffComplete :: "workflow_meta \<Rightarrow> unit res" where
  "RequireWorkflowHandoffComplete m =
     (if mget (wm_Annotations m) reservationCopyPendingAnnotation \<noteq> []
      then Inl (NewError ErrorConflict OpWorkflowHandoff) else Inr ())"

definition WorkflowHandoffChanged :: "workflow_meta \<Rightarrow> workflow_meta \<Rightarrow> bool" where
  "WorkflowHandoffChanged previous current =
     list_ex (\<lambda>key. mget (wm_Annotations previous) key \<noteq> mget (wm_Annotations current) key)
       [reservationCopyPendingAnnotation, reservationCopyOriginAnnotation]"

section \<open>Running under the lock\<close>

definition isSessionNamespaceTerminating :: "go_error \<Rightarrow> bool" where
  "isSessionNamespaceTerminating err =
     (errors_Is err ErrSessionNamespaceTerminating \<or> IsForbidden err \<and> says_terminated err)"

text \<open>The bound context, and the same with the lock as a lease fence.\<close>

definition bound_world :: "'s world \<Rightarrow> session_lock \<Rightarrow> 's world" where
  "bound_world w lk =
     w\<lparr>w_ctx_err := lock_Bind w lk (w_ctx_err w), w_fences := WithLeaseFence (w_fences w) (Some (lock_Err w lk))\<rparr>"

type_synonym ('t, 's) locked = "'s world \<Rightarrow> session_lock \<Rightarrow> ('t \<times> session_lock \<times> unit res, 's) io"

text \<open>What \<^verbatim>\<open>WithWorkflowLease\<close> does once it has the lock: \<open>locked_operation\<close> is the load with the
  decision about the operation, and \<open>hold_lock\<close> the rest with the deferred release.\<close>

definition locked_operation ::
    "'s world \<Rightarrow> session_lock \<Rightarrow> workflow_meta \<Rightarrow> bool \<Rightarrow> 't \<Rightarrow> ('t, 's) locked
      \<Rightarrow> ('t \<times> session_lock \<times> unit res, 's) io" where
  "locked_operation bound lk m allowDeleting st run =
     io_bind (load_workflow bound (wm_Namespace m) (wm_Name m)) (\<lambda>r. case r of
         Inl loadErr \<Rightarrow>
           if IsNotFound loadErr \<and> allowDeleting
           then io_bind (lock_Delete bound lk) (\<lambda>(lk, d). io_ret (st, lk, d))
           else io_ret (st, lk, Inl loadErr)
       | Inr latest \<Rightarrow>
           if wm_UID latest \<noteq> wm_UID m \<or> wm_ResourceVersion latest \<noteq> wm_ResourceVersion m
           then io_ret (st, lk, Inl (NewError ErrorConflict OpWorkflow))
           else if wm_Deleting latest \<and> \<not> allowDeleting
           then io_ret (st, lk, Inl (NewError ErrorPrecondition OpWorkflow))
           else io_bind (fence_check bound) (\<lambda>f. case f of
               Inl e \<Rightarrow> io_ret (st, lk, Inl e)
             | Inr _ \<Rightarrow> run bound lk))"

definition hold_lock ::
    "'s world \<Rightarrow> session_lock \<Rightarrow> workflow_meta \<Rightarrow> bool \<Rightarrow> 't \<Rightarrow> ('t, 's) locked
      \<Rightarrow> ('t \<times> unit res, 's) io" where
  "hold_lock w lk m allowDeleting st run =
     (let bound = bound_world w lk in
      io_bind (locked_operation bound lk m allowDeleting st run) (\<lambda>(st, lk, r).
      io_bind (io_read (LeaseFenceError (w_fences bound))) (\<lambda>fence.
      io_bind (lock_Release w lk) (\<lambda>(lk, rel).
      io_ret (st, to_res (errors_join [errors_join [err_of r, fence], err_of rel]))))))"

definition WithWorkflowLease ::
    "'s world \<Rightarrow> 's locker option \<Rightarrow> string \<Rightarrow> workflow_meta \<Rightarrow> bool \<Rightarrow> 't \<Rightarrow> ('t, 's) locked
      \<Rightarrow> ('t \<times> unit res, 's) io" where
  "WithWorkflowLease w locker ns m allowDeleting st run =
     (if wm_UID m = [] \<or> wm_ResourceVersion m = []
      then io_ret (st, Inl (NewError ErrorValidation OpWorkflow))
      else if wm_Deleting m \<and> \<not> allowDeleting
      then io_ret (st, Inl (NewError ErrorPrecondition OpWorkflow))
      else io_bind (AcquireRequiredSessionLock w locker ns (wm_Name m)) (\<lambda>r. case r of
          Inl err \<Rightarrow>
            if allowDeleting \<and> wm_Deleting m \<and> isSessionNamespaceTerminating err
            then io_bind (run w DeletingLock) (\<lambda>(st, lk, cleanup). case cleanup of
                Inl cleanupErr \<Rightarrow> io_ret (st, Inl cleanupErr)
              | Inr _ \<Rightarrow> io_bind (delete_workflow w m) (\<lambda>d. io_ret (st, d)))
            else io_ret (st, Inl err)
        | Inr lk \<Rightarrow> hold_lock w lk m allowDeleting st run))"

section \<open>The wrappers of the executors\<close>

definition withHeldSessionLock :: "'s world \<Rightarrow> session_lock \<Rightarrow> 's world" where
  "withHeldSessionLock w lk = w\<lparr>w_fences := WithLeaseFence (w_fences w) (Some (lock_Err w lk))\<rparr>"

definition withStoredWorkflowLease ::
    "'s world \<Rightarrow> 's locker option \<Rightarrow> string \<Rightarrow> workflow_meta \<Rightarrow> 't \<Rightarrow> ('t, 's) locked
      \<Rightarrow> ('t \<times> unit res, 's) io" where
  "withStoredWorkflowLease w locker ns m st run =
     WithWorkflowLease w locker ns m (w_deletion w) st
       (\<lambda>bound lk. run (withHeldSessionLock bound lk) lk)"

definition withStoredWorkflowLock ::
    "'s world \<Rightarrow> 's locker option \<Rightarrow> string \<Rightarrow> workflow_meta \<Rightarrow> 't \<Rightarrow> ('t, 's) locked
      \<Rightarrow> ('t \<times> unit res, 's) io" where
  "withStoredWorkflowLock w locker ns m st run =
     withStoredWorkflowLease w locker ns m st (\<lambda>bound lk.
       case RequireWorkflowHandoffComplete m of
         Inl err \<Rightarrow> io_ret (st, lk, Inl err)
       | Inr _ \<Rightarrow> run bound lk)"

section \<open>Guarantees\<close>

text \<open>A name check only reads; when it passes, every ConfigMap it looked for was reported missing.\<close>

lemma checkConfigMapNameCollision_wp:
  "wp only_reads (checkConfigMapNameCollision w True sid namespaces True)
     (\<lambda>r h'. r = Inr () \<longrightarrow>
        (\<forall>ns \<in> set namespaces. \<exists>e. IsNotFound e \<and> EvGetConfigMap ns (SessionConfigMapName sid) (Inl e) \<in> set h')) h"
proof (induction namespaces arbitrary: h)
  case Nil
  then show ?case by (simp add: io_rules)
next
  case (Cons ns namespaces)
  note call = wp_conseq [OF Cons.IH]
  show ?case
    by (auto simp: io_rules guard_simps split: sum.splits intro!: io_intros call)
       (meson list.set_intros(1) set_mono_suffix subsetD)
qed

lemma checkConfigMapNameCollision_reads:
  "wp only_reads (checkConfigMapNameCollision w c sid namespaces f) (\<lambda>r h'. True) h"
proof (cases c; cases f; induction namespaces arbitrary: h)
qed (auto simp: io_rules guard_simps split: sum.splits intro!: io_intros)

declare checkConfigMapNameCollision.simps [simp del]

text \<open>Reads do not change who holds the Lease.\<close>

lemma held_read [simp]: "is_read e \<Longrightarrow> held p (e # h) = held p h"
  by (cases e) auto

lemma reads_keep_held:
  assumes "wp only_reads m Q h"
  shows "wp only_reads m (\<lambda>x h'. Q x h' \<and> held p h' = held p h) h"
proof -
  have "guarded only_reads es h \<Longrightarrow> held p (es @ h) = held p h" for es
    by (induction es) (auto simp: guard_simps)
  with assms show ?thesis by (auto simp: wp_def split: prod.splits)
qed

lemma lookup_all_wp: "wp only_reads (lookup_all w sid lookups) (\<lambda>rs h'. length rs = length lookups) h"
proof (induction lookups arbitrary: h)
  case Nil
  then show ?case by (simp add: io_rules)
next
  case (Cons lookup lookups)
  note call = wp_conseq [OF Cons.IH]
  show ?case
    by (cases lookup) (auto simp: io_rules guard_simps resourceKey_def intro!: io_intros call)
qed

text \<open>A lock that an acquisition returns has not been released or deleted.\<close>

definition live_lock :: "session_lease \<Rightarrow> bool" where
  "live_lock l \<longleftrightarrow> \<not> ls_released l \<and> \<not> ls_deleted l \<and> \<not> ls_deleteDone l"

lemma live_lock_new [simp]: "live_lock (newSessionLeaseWithTiming ns n sid p uid d ev)"
  by (simp add: live_lock_def newSessionLeaseWithTiming_def Let_def case_prod_beta)

lemma acquire_rounds_live:
  "wp (\<lambda>_ _. True) (acquire_rounds k w ns n sid p d ev now) (\<lambda>r h'. \<forall>l. r = Inr l \<longrightarrow> live_lock l) h"
proof (induction k arbitrary: h)
  case 0
  then show ?case by (simp add: io_rules)
next
  case (Suc k)
  show ?case
    by (auto simp: io_rules try_claim_def claim_lease_def intro!: io_intros Suc.IH
        split: sum.splits option.splits if_splits)
qed

lemma acquireWorkflowLease_live:
  "wp (\<lambda>_ _. True) (acquireWorkflowLease w ns sid label p d ev) (\<lambda>r h'. \<forall>l. r = Inr l \<longrightarrow> live_lock l) h"
  unfolding acquireWorkflowLease_def
  by (auto simp: io_rules Let_def split: prod.splits intro!: io_intros acquire_rounds_live)

text \<open>The lock of a session: the Lease of the session in this namespace, held by \<open>p\<close>.\<close>

definition lock_of :: "string \<Rightarrow> string \<Rightarrow> string \<Rightarrow> session_lock \<Rightarrow> bool" where
  "lock_of ns sid p lk \<longleftrightarrow>
     (\<exists>l. lk = LeaseLock l \<and> lock_for ns (SessionLockName sid) sid p defaultSessionLeaseDuration l)"

abbreviation session_client :: "string \<Rightarrow> string \<Rightarrow> string \<Rightarrow> 's event \<Rightarrow> 's hist \<Rightarrow> bool" where
  "session_client ns sid p \<equiv> lease_client ns (SessionLockName sid) sid p defaultSessionLeaseDuration"

definition lock_live :: "session_lock \<Rightarrow> bool" where
  "lock_live lk \<longleftrightarrow> (\<exists>l. lk = LeaseLock l \<and> live_lock l)"

lemma lock_live_LeaseLock [simp]: "lock_live (LeaseLock l) = live_lock l" "\<not> lock_live DeletingLock"
  by (simp_all add: lock_live_def)

definition locker_result :: "string \<Rightarrow> string \<Rightarrow> string \<Rightarrow> session_lock option res \<Rightarrow> 's hist \<Rightarrow> bool" where
  "locker_result ns sid p r h \<longleftrightarrow>
     (\<forall>lk. r = Inr (Some lk) \<longrightarrow> lock_of ns sid p lk \<and> lock_live lk \<and> held p h \<noteq> None)"

lemma default_term: "fst (normalizeLeaseTiming 0 0) = defaultSessionLeaseDuration"
  by (simp add: defaultSessionLeaseDuration_def second_def)

lemma acquire_session_wp:
  assumes "held p h = None"
  shows "wp (acquire_client ns (SessionLockName sid) sid p defaultSessionLeaseDuration)
    (acquireWorkflowLease w ns sid sid p 0 0)
    (\<lambda>r h'. \<forall>l. r = Inr l \<longrightarrow>
       lock_for ns (SessionLockName sid) sid p defaultSessionLeaseDuration l \<and> live_lock l \<and> held p h' \<noteq> None) h"
  by (rule wp_conseq [OF wp_conj [OF acquireWorkflowLease_wp [OF assms, of ns sid sid 0 0 w]
        acquireWorkflowLease_live], unfolded default_term]) auto

lemma is_read_lease_client [simp]: "is_read e \<Longrightarrow> lease_client ns n sid p d e h"
  by (cases e) auto

section \<open>The contract of a locker\<close>

text \<open>The moment at which a closure may start: the stored workflow was just loaded, is the one the
  caller has, and the context and the fence were found intact while the Lease was held.\<close>

definition admission :: "string \<Rightarrow> workflow_meta \<Rightarrow> bool \<Rightarrow> 's hist \<Rightarrow> bool" where
  "admission p m allowDeleting h \<longleftrightarrow>
     (\<exists>latest h0. h = EvCheck None None # EvLoadWorkflow (wm_Namespace m) (wm_Name m) (Inr latest) # h0
        \<and> wm_UID latest = wm_UID m \<and> wm_ResourceVersion latest = wm_ResourceVersion m
        \<and> (wm_Deleting latest \<longrightarrow> allowDeleting) \<and> held p h0 \<noteq> None)"

text \<open>After an admission, or in a deletion pass over a workflow that is being deleted.\<close>

definition admitted :: "string \<Rightarrow> workflow_meta \<Rightarrow> bool \<Rightarrow> 's hist \<Rightarrow> bool" where
  "admitted p m allowDeleting h \<longleftrightarrow>
     (allowDeleting \<and> wm_Deleting m) \<or> (\<exists>h1. suffix h1 h \<and> admission p m allowDeleting h1)"

lemma admitted_mono: "admitted p m a h \<Longrightarrow> suffix h h' \<Longrightarrow> admitted p m a h'"
  by (auto simp: admitted_def intro: suffix_order.trans)

lemma admission_admitted: "admission p m a h \<Longrightarrow> suffix h h' \<Longrightarrow> admitted p m a h'"
  by (auto simp: admitted_def)

lemma wp_admitted: "admitted p m a h \<Longrightarrow> wp (\<lambda>e. admitted p m a) prog (\<lambda>x. admitted p m a) h"
  by (rule wp_conseq [OF wp_after]) (auto intro: admitted_mono)

lemma lock_of_cases:
  assumes "lock_of ns sid p lk"
  obtains l where "lk = LeaseLock l" "lock_for ns (SessionLockName sid) sid p defaultSessionLeaseDuration l"
  using assms by (auto simp: lock_of_def)

lemma lock_of_LeaseLock [simp]:
  "lock_of ns sid p (LeaseLock l) \<longleftrightarrow> lock_for ns (SessionLockName sid) sid p defaultSessionLeaseDuration l"
  by (simp add: lock_of_def)

lemma lock_client_session: "lock_client ns (SessionLockName sid) sid p e h \<Longrightarrow> session_client ns sid p e h"
  by (simp add: lease_client_iff)

lemma lock_Delete_wp:
  assumes "lock_of ns sid p lk"
  shows "wp (session_client ns sid p) (lock_Delete w lk) (\<lambda>(lk', r) h'. lock_of ns sid p lk') h"
  using assms
  by (rule lock_of_cases)
     (auto simp: io_rules split: prod.splits intro!: wp_conseq [OF lease_Delete_wp] lock_client_session)

lemma lock_Release_wp:
  assumes "lock_of ns sid p lk"
  shows "wp (session_client ns sid p) (lock_Release w lk)
    (\<lambda>(lk', r) h'. r = Inr () \<and> lock_live lk \<longrightarrow> given_up p h') h"
  using assms
  by (rule lock_of_cases)
     (auto simp: io_rules live_lock_def split: prod.splits intro!: wp_conseq [OF lease_Release_wp] lock_client_session)

text \<open>A run that succeeded: its closure did, and a lock it left alone has been given up.\<close>

definition finished ::
    "string \<Rightarrow> ('t \<Rightarrow> session_lock \<Rightarrow> 's hist \<Rightarrow> bool) \<Rightarrow> 't \<times> unit res \<Rightarrow> 's hist \<Rightarrow> bool" where
  "finished p Q = (\<lambda>(st, r) h. r = Inr () \<longrightarrow> (\<exists>lk h1. Q st lk h1 \<and> suffix h1 h
     \<and> (lock_live lk \<longrightarrow> given_up p h)))"

lemma finished_error [simp]: "finished p Q (st, Inl e) h"
  by (simp add: finished_def)

lemma finishedI:
  "(r = Inr () \<Longrightarrow> Q st lk h1) \<Longrightarrow> suffix h1 h \<Longrightarrow>
   (r = Inr () \<Longrightarrow> lock_live lk \<Longrightarrow> given_up p h) \<Longrightarrow> finished p Q (st, r) h"
  unfolding finished_def by blast

locale session_locker =
  fixes acquire :: "'s locker" and p :: string
  assumes acquire_wp:
    "held p h = None \<Longrightarrow> wp (session_client ns sid p) (acquire w ns sid) (locker_result ns sid p) h"
begin

lemma required_wp:
  assumes "held p h = None"
  shows "wp (session_client ns sid p) (AcquireRequiredSessionLock w (Some acquire) ns sid)
    (\<lambda>r. locker_result ns sid p (map_sum id Some r)) h"
  unfolding AcquireRequiredSessionLock_def
  by (auto simp: io_rules locker_result_def split: sum.splits option.splits
      intro!: wp_conseq [OF acquire_wp [OF assms]])

text \<open>A closure that keeps the lock in hand: what it may do, and what its success means. The lock itself keeps \<open>I\<close>.\<close>

lemma locked_operation_rule:
  assumes lk: "lock_of ns sid p lk" and held: "held p h \<noteq> None"
    and run: "\<And>h'. admission p m a h' \<Longrightarrow> suffix h h' \<Longrightarrow> I h' \<Longrightarrow>
      wp G (run bound lk) (\<lambda>(st', lk', r) h''. lock_of ns sid p lk' \<and> (r = Inr () \<longrightarrow> Q st' lk' h'')) h'"
    and del: "\<And>lk' h'. a \<Longrightarrow> lock_of ns sid p lk' \<Longrightarrow> Q st lk' h'"
    and I: "I h" "\<And>e h'. session_client ns sid p e h' \<Longrightarrow> I h' \<Longrightarrow> I (e # h')"
  shows "wp (\<lambda>e h'. session_client ns sid p e h' \<or> G e h') (locked_operation bound lk m a st run)
    (\<lambda>(st', lk', r) h'. lock_of ns sid p lk' \<and> (r = Inr () \<longrightarrow> Q st' lk' h')) h"
proof -
  have "admission p m a (EvCheck None None # EvLoadWorkflow (wm_Namespace m) (wm_Name m) (Inr latest) # h)"
    if "wm_UID latest = wm_UID m" "wm_ResourceVersion latest = wm_ResourceVersion m" "wm_Deleting latest \<longrightarrow> a"
    for latest using that held by (auto simp: admission_def)
  note call = wp_conseq [OF run [OF this _ I(2) [OF _ I(2) [OF _ I(1)]]]]
  show ?thesis
    unfolding locked_operation_def
    by (auto simp: io_rules lk split: sum.splits intro!: io_intros wp_conseq [OF lock_Delete_wp [OF lk]] call del
        suffix_ConsI)
qed

lemma hold_lock_rule:
  assumes lk: "lock_of ns sid p lk" and held: "held p h \<noteq> None"
    and run: "\<And>h'. admission p m a h' \<Longrightarrow> suffix h h' \<Longrightarrow> I h' \<Longrightarrow>
      wp G (run (bound_world w lk) lk)
        (\<lambda>(st', lk', r) h''. lock_of ns sid p lk' \<and> (r = Inr () \<longrightarrow> Q st' lk' h'')) h'"
    and del: "\<And>lk' h'. a \<Longrightarrow> lock_of ns sid p lk' \<Longrightarrow> Q st lk' h'"
    and I: "I h" "\<And>e h'. session_client ns sid p e h' \<Longrightarrow> I h' \<Longrightarrow> I (e # h')"
  shows "wp (\<lambda>e h'. session_client ns sid p e h' \<or> G e h') (hold_lock w lk m a st run)
    (finished p Q) h"
proof -
  have op: "wp (\<lambda>e h'. session_client ns sid p e h' \<or> G e h')
      (locked_operation (bound_world w lk) lk m a st run)
      (\<lambda>(st', lk', r) h'. lock_of ns sid p lk' \<and> (r = Inr () \<longrightarrow> Q st' lk' h')) h"
    by (rule locked_operation_rule [OF lk held, where I = I]) (auto intro: run del I)
  have ok: "r = Inr () \<and> rel = Inr ()" if "to_res (errors_join [errors_join [err_of r, f], err_of rel]) = Inr ()"
    for r rel :: "unit res" and f
    using that by (cases r; cases rel; cases f) (auto simp: errors_join_def List.map_filter_simps)
  have release: "wp (\<lambda>e h'. session_client ns sid p e h' \<or> G e h') (lock_Release w lk')
      (\<lambda>(lk'', rel). finished p Q (st', to_res (errors_join [errors_join [err_of r, f], err_of rel]))) h1"
    if "lock_of ns sid p lk'" "r = Inr () \<longrightarrow> Q st' lk' h1" for lk' r st' f h1
    by (rule wp_conseq [OF lock_Release_wp [OF that(1)]])
       (use that(2) in \<open>auto intro!: finishedI [where lk = lk' and ?h1.0 = h1] dest!: ok\<close>)
  show ?thesis
    unfolding hold_lock_def Let_def
    by (auto simp: io_rules split: prod.splits intro!: wp_conseq [OF op] wp_conseq [OF release])
qed

lemma WithWorkflowLease_rule:
  assumes free: "held p h = None"
    and run: "\<And>lk h'. lock_of ns (wm_Name m) p lk \<Longrightarrow> lock_live lk \<Longrightarrow> admission p m a h' \<Longrightarrow> suffix h h' \<Longrightarrow> I h' \<Longrightarrow>
      wp G (run (bound_world w lk) lk)
        (\<lambda>(st', lk', r) h''. lock_of ns (wm_Name m) p lk' \<and> (r = Inr () \<longrightarrow> Q st' lk' h'')) h'"
    and bypass: "\<And>h'. a \<Longrightarrow> wm_Deleting m \<Longrightarrow> suffix h h' \<Longrightarrow> I h' \<Longrightarrow>
      wp G (run w DeletingLock) (\<lambda>(st', lk', r) h''. r = Inr () \<longrightarrow> Q st' DeletingLock h''
        \<and> (\<forall>d. G (EvDeleteWorkflow (wm_Namespace m) (wm_Name m) (wm_UID m) d) h'')) h'"
    and del: "\<And>lk' h'. a \<Longrightarrow> Q st lk' h'"
    and I: "I h" "\<And>e h'. session_client ns (wm_Name m) p e h' \<Longrightarrow> I h' \<Longrightarrow> I (e # h')"
  shows "wp (\<lambda>e h'. session_client ns (wm_Name m) p e h' \<or> G e h')
    (WithWorkflowLease w (Some acquire) ns m a st run)
    (finished p Q) h"
proof -
  have hold: "wp (\<lambda>e h'. session_client ns (wm_Name m) p e h' \<or> G e h') (hold_lock w lk m a' st run) (finished p Q) h1"
    if "lock_of ns (wm_Name m) p lk" "held p h1 \<noteq> None" "suffix h h1" "a' = a" "lock_live lk" "I h1" for lk h1 a'
    unfolding that(4) by (rule hold_lock_rule [OF that(1,2), where I = I]) (auto intro: run del that I suffix_order.trans)
  note acquired = wp_stable [OF required_wp [OF free], where I = I, OF I]
  show ?thesis
    unfolding WithWorkflowLease_def
    by (auto simp: io_rules locker_result_def split: sum.splits prod.splits
        intro!: wp_conseq [OF acquired] hold wp_conseq [OF bypass] io_intros del)
       (rule finishedI, auto intro: suffix_ConsI)
qed

text \<open>A closure about which nothing is known.\<close>

lemma hold_lock_admits:
  assumes lk: "lock_of ns sid p lk" and held: "held p h \<noteq> None"
  shows "wp (\<lambda>e h'. session_client ns sid p e h' \<or> admitted p m a h') (hold_lock w lk m a st run) (\<lambda>_ _. True) h"
proof -
  have start: "admitted p m a (EvCheck None None # EvLoadWorkflow (wm_Namespace m) (wm_Name m) (Inr latest) # h)"
    if "wm_UID latest = wm_UID m" "wm_ResourceVersion latest = wm_ResourceVersion m" "wm_Deleting latest \<longrightarrow> a"
    for latest
    by (rule admission_admitted [OF _ suffix_order.refl]) (use that held in \<open>auto simp: admission_def\<close>)
  have op: "wp (\<lambda>e h'. session_client ns sid p e h' \<or> admitted p m a h')
      (locked_operation (bound_world w lk) lk m a st run)
      (\<lambda>(st', lk', r) h'. lock_of ns sid p lk' \<or> admitted p m a h') h"
    unfolding locked_operation_def
    by (auto simp: io_rules lk split: sum.splits intro!: io_intros wp_conseq [OF lock_Delete_wp [OF lk]]
        wp_conseq [OF wp_admitted [OF start], where m = "run _ _"])
  have release: "wp (\<lambda>e h'. session_client ns sid p e h' \<or> admitted p m a h') (lock_Release w lk') (\<lambda>_ _. True) h1"
    if "lock_of ns sid p lk' \<or> admitted p m a h1" for lk' h1
    using that by (auto intro: wp_conseq [OF lock_Release_wp] wp_conseq [OF wp_admitted])
  show ?thesis
    unfolding hold_lock_def Let_def
    by (auto simp: io_rules split: prod.splits intro!: wp_conseq [OF op] wp_conseq [OF release])
qed

lemma WithWorkflowLease_admits:
  assumes free: "held p h = None"
  shows "wp (\<lambda>e h'. session_client ns (wm_Name m) p e h' \<or> admitted p m a h')
    (WithWorkflowLease w (Some acquire) ns m a st run) (\<lambda>_ _. True) h"
proof -
  have deletion: "admitted p m a h1" if "a" "wm_Deleting m" for h1
    using that by (simp add: admitted_def)
  show ?thesis
    unfolding WithWorkflowLease_def
    by (auto simp: io_rules locker_result_def deletion split: sum.splits prod.splits
        intro!: wp_conseq [OF required_wp [OF free]] hold_lock_admits wp_conseq [OF wp_admitted [OF deletion], where m = "run _ _"]
          io_intros)
qed

end

section \<open>The two lockers keep it\<close>

lemma acquire_session_client:
  assumes "held p h = None"
  shows "wp (session_client ns sid p) (acquireWorkflowLease w ns sid sid p 0 0)
    (\<lambda>r h'. \<forall>l. r = Inr l \<longrightarrow> lock_of ns sid p (LeaseLock l) \<and> live_lock l \<and> held p h' \<noteq> None) h"
  by (rule wp_conseq [OF acquire_session_wp [OF assms]]) (auto simp: lease_client_iff)

interpretation configmap_locker: session_locker "ConfigMapWorkflowLocker_AcquireSessionLock configured p" p
  for configured p
proof
  fix h :: "'s hist" and ns sid w
  assume "held p h = None"
  note call = wp_conseq [OF acquire_session_client [OF this]]
  show "wp (session_client ns sid p) (ConfigMapWorkflowLocker_AcquireSessionLock configured p w ns sid)
      (locker_result ns sid p) h"
    unfolding ConfigMapWorkflowLocker_AcquireSessionLock_def
    by (auto simp: io_rules locker_result_def split: sum.splits intro!: call)
qed

text \<open>The CRD locker looks for a session ConfigMap of the same name once more while it holds the
  Lease, and gives the Lease up if there is one.\<close>

definition name_free :: "string \<Rightarrow> string \<Rightarrow> string \<Rightarrow> 's hist \<Rightarrow> bool" where
  "name_free ns sid p h \<longleftrightarrow>
     (\<exists>e h1. h = EvGetConfigMap ns (SessionConfigMapName sid) (Inl e) # h1 \<and> IsNotFound e \<and> held p h1 \<noteq> None)"

lemma collision_check_client:
  "wp (session_client ns sid p) (checkConfigMapNameCollision w True sid [ns] True)
    (\<lambda>r h'. held p h' = held p h \<and> (r = Inr () \<and> held p h \<noteq> None \<longrightarrow> name_free ns sid p h')) h"
  by (auto simp: io_rules checkConfigMapNameCollision.simps name_free_def split: sum.splits intro!: io_intros)

lemma release_client:
  assumes "lock_of ns sid p (LeaseLock l)"
  shows "wp (session_client ns sid p) (lease_Release w l) (\<lambda>(l', r) h'. r = Inr () \<and> live_lock l \<longrightarrow> given_up p h') h"
  using lock_Release_wp [OF assms, of w h]
  by (simp add: io_rules case_prod_beta) (erule wp_conseq; auto simp: io_rules)

lemma crd_locker_wp:
  assumes "held p h = None"
  shows "wp (session_client ns sid p) (CRDWorkflowLocker_AcquireSessionLock configured p w ns sid)
    (\<lambda>r h'. locker_result ns sid p r h' \<and> (\<forall>lk. r = Inr (Some lk) \<longrightarrow> name_free ns sid p h')) h"
proof -
  note call = wp_conseq [OF collision_check_client] wp_conseq [OF acquire_session_client]
    wp_conseq [OF release_client]
  show ?thesis
    unfolding CRDWorkflowLocker_AcquireSessionLock_def
    by (auto simp: io_rules locker_result_def assms split: sum.splits prod.splits intro!: call)
qed

interpretation crd_locker: session_locker "CRDWorkflowLocker_AcquireSessionLock configured p" p
  for configured p
  by unfold_locales (auto intro: wp_conseq [OF crd_locker_wp])

section \<open>Properties\<close>

definition session_lockers :: "string \<Rightarrow> 's locker set" where
  "session_lockers p = {ConfigMapWorkflowLocker_AcquireSessionLock True p, CRDWorkflowLocker_AcquireSessionLock True p}"

lemma session_lockers_contract: "locker \<in> session_lockers p \<Longrightarrow> session_locker locker p"
  by (auto simp: session_lockers_def intro: configmap_locker.session_locker_axioms crd_locker.session_locker_axioms)

lemma handoff_pending_client:
  assumes "locker \<in> session_lockers p" "RequireWorkflowHandoffComplete m = Inl err"
  shows "wp (session_client ns (wm_Name m) p) (withStoredWorkflowLock w (Some locker) ns m st run) (\<lambda>_ _. True) []"
proof -
  have "wp (\<lambda>e h. session_client ns (wm_Name m) p e h \<or> False)
      (withStoredWorkflowLock w (Some locker) ns m st run) (finished p (\<lambda>_ _ _. True)) []"
    unfolding withStoredWorkflowLock_def withStoredWorkflowLease_def assms(2)
    by (rule session_locker.WithWorkflowLease_rule [OF session_lockers_contract [OF assms(1)], where I = "\<lambda>_. True"])
       (simp_all add: io_rules)
  then show ?thesis by (rule wp_conseq) auto
qed


text \<open>A concrete run: the Lease does not exist yet, the stored workflow is the caller's, and the
  closure saves once.\<close>

definition demo_meta :: workflow_meta where
  "demo_meta = \<lparr>wm_Namespace = ''n'', wm_Name = ''s'', wm_UID = ''u'', wm_ResourceVersion = ''1'',
     wm_Deleting = False, wm_Annotations = Map.empty\<rparr>"

definition locked_world :: "unit world" where
  "locked_world = (lease_world (\<lambda>ns n. Inl (ApiError NotFound)))\<lparr>w_load_workflow := (\<lambda>h ns n. Inr demo_meta)\<rparr>"

definition demo_closure :: "(unit, unit) locked" where
  "demo_closure w lk = io_bind (save_state w ()) (\<lambda>r. io_ret ((), lk, r))"

definition demo_locked_run :: "(unit \<times> unit res) \<times> unit hist" where
  "demo_locked_run = withStoredWorkflowLock locked_world
     (Some (ConfigMapWorkflowLocker_AcquireSessionLock True ''p'')) ''n'' demo_meta () demo_closure []"

lemmas locked_run_defs =
  demo_locked_run_def withStoredWorkflowLock_def withStoredWorkflowLease_def WithWorkflowLease_def
  AcquireRequiredSessionLock_def ConfigMapWorkflowLocker_AcquireSessionLock_def acquireWorkflowLease_def
  acquire_rounds.simps numeral_2_eq_2 hold_lock_def locked_operation_def bound_world_def withHeldSessionLock_def
  load_workflow_def fence_check_def ctx_state_def WithLeaseFence_def LeaseFenceError_def lease_Bind_def lease_Err_def
  errors_join_def List.map_filter_simps IsNotFound_def reason_of_def lease_Release_def release_lease_def
  RequireWorkflowHandoffComplete_def demo_meta_def locked_world_def demo_closure_def save_state_def
  lease_run_defs lease_demo_defs io_try_def newSessionLeaseWithTiming_def

lemma demo_locked_run_eq:
  "demo_locked_run = (((), Inr ()),
     [EvGetLease ''n'' (SessionLockName ''s'') (Inl (ApiError NotFound)),
      EvSave () (Inr ()), EvCheck None None, EvLoadWorkflow ''n'' ''s'' (Inr demo_meta),
      EvCreateLease ''n'' (SessionLockName ''s'') (created_lease ''s'' ''p'' 30000000000 7)
        (Inr (Some ((created_lease ''s'' ''p'' 30000000000 7)\<lparr>l_UID := ''lease''\<rparr>))),
      EvGetLease ''n'' (SessionLockName ''s'') (Inl (ApiError NotFound)), EvNow 7])"
  by (simp add: locked_run_defs Let_def)

lemma demo_locker: "ConfigMapWorkflowLocker_AcquireSessionLock True p \<in> session_lockers p"
  "CRDWorkflowLocker_AcquireSessionLock True p \<in> session_lockers p"
  by (simp_all add: session_lockers_def)




text \<open>The CRD locker and the ConfigMap sessions do not share a name. When
  \<^verbatim>\<open>CRDWorkflowLocker.AcquireSessionLock\<close> returns a lock, that lock is the session's Lease held by this
  worker, and its very last request found the session ConfigMap of that name missing, at a moment when
  the Lease was already held; everything it sent before are reads and the lock's own Lease writes.\<close>

lemma crd_lock_checks_names:
  assumes "held p h = None" and "CRDWorkflowLocker_AcquireSessionLock configured p w ns sid h = (Inr (Some lk), es)"
  shows "lock_of ns sid p lk \<and> lock_live lk \<and> name_free ns sid p (es @ h) \<and> guarded (session_client ns sid p) es h"
  using crd_locker_wp [OF assms(1), of ns sid configured w] assms(2)
  by (auto simp: wp_def locker_result_def)

end
