(* ===== verification/Paths.thy ===== *)
theory Paths
  imports Lifecycle
begin

text \<open>
  Paths inside a volume: \<^verbatim>\<open>internal/domain/transfer.go\<close> and its users that insist on the stored form
  (\<^verbatim>\<open>validateCrossClusterPaths\<close> of \<^verbatim>\<open>internal/crosscluster/types.go\<close>, \<^verbatim>\<open>ValidatePath\<close> of
  \<^verbatim>\<open>internal/objectstore/s3.go\<close>, \<^verbatim>\<open>normalizeObjectTransferPath\<close> of \<^verbatim>\<open>internal/backup/runner.go\<close>), over
  \<^verbatim>\<open>strings.TrimSpace\<close>, \<^verbatim>\<open>strings.Split\<close>, \<^verbatim>\<open>unicode.IsControl\<close> and \<^verbatim>\<open>path.Clean\<close> of the Go library.
\<close>

section \<open>White space and control characters\<close>

text \<open>The UTF-8 encodings of the runes for which \<^verbatim>\<open>unicode.IsSpace\<close> holds.\<close>

definition space_runes :: "string list" where
  "space_runes =
     [[CHR 0x09], [CHR 0x0A], [CHR 0x0B], [CHR 0x0C], [CHR 0x0D], [CHR 0x20],
      [CHR 0xC2, CHR 0x85], [CHR 0xC2, CHR 0xA0], [CHR 0xE1, CHR 0x9A, CHR 0x80]]
     @ map (\<lambda>b. [CHR 0xE2, CHR 0x80, b])
         [CHR 0x80, CHR 0x81, CHR 0x82, CHR 0x83, CHR 0x84, CHR 0x85, CHR 0x86,
          CHR 0x87, CHR 0x88, CHR 0x89, CHR 0x8A, CHR 0xA8, CHR 0xA9, CHR 0xAF]
     @ [[CHR 0xE2, CHR 0x81, CHR 0x9F], [CHR 0xE3, CHR 0x80, CHR 0x80]]"

text \<open>A string without the given runes at its start.\<close>

function strip :: "string list \<Rightarrow> string \<Rightarrow> string" where
  "strip runes s =
     (case find (\<lambda>r. r \<noteq> [] \<and> prefix r s) runes of None \<Rightarrow> s | Some r \<Rightarrow> strip runes (drop (length r) s))"
  by pat_completeness auto
termination
proof (relation "measure (length \<circ> snd)")
  fix runes s r
  assume "find (\<lambda>r. r \<noteq> [] \<and> prefix r s) runes = Some r"
  then have "0 < length r" "length r \<le> length s" by (auto simp: find_Some_iff dest: prefix_length_le)
  then have "length s - length r < length s" by linarith
  then show "((runes, drop (length r) s), runes, s) \<in> measure (length \<circ> snd)" by simp
qed simp

declare strip.simps [simp del]

definition TrimSpace :: "string \<Rightarrow> string" where
  "TrimSpace s = rev (strip (map rev space_runes) (rev (strip space_runes s)))"

text \<open>\<^verbatim>\<open>unicode.IsControl\<close> on the runes of a string: the bytes below 32 and 127, and the two-byte
  encodings of 128 to 159. A byte 194 always starts a rune.\<close>

fun has_control :: "string \<Rightarrow> bool" where
  "has_control [] = False"
| "has_control (c # s) =
     (byte c < 32 \<or> byte c = 127 \<or> (byte c = 194 \<and> s \<noteq> [] \<and> 128 \<le> byte (hd s) \<and> byte (hd s) \<le> 159)
      \<or> has_control s)"

section \<open>Components\<close>

fun split_slash :: "string \<Rightarrow> string list" where
  "split_slash [] = [[]]"
| "split_slash (c # s) =
     (if c = CHR ''/'' then [] # split_slash s
      else case split_slash s of [] \<Rightarrow> [[c]] | w # ws \<Rightarrow> (c # w) # ws)"

fun join_slash :: "string list \<Rightarrow> string" where
  "join_slash [] = []"
| "join_slash [s] = s"
| "join_slash (s # t # ss) = s @ ''/'' @ join_slash (t # ss)"

text \<open>\<^verbatim>\<open>path.Clean\<close> on the components, newest first.\<close>

definition clean_step :: "bool \<Rightarrow> string list \<Rightarrow> string \<Rightarrow> string list" where
  "clean_step rooted acc c =
     (if c = [] \<or> c = ''.'' then acc
      else if c = ''..''
      then if acc \<noteq> [] \<and> hd acc \<noteq> ''..'' then tl acc else if rooted then acc else ''..'' # acc
      else c # acc)"

definition path_IsAbs :: "string \<Rightarrow> bool" where
  "path_IsAbs p = (p \<noteq> [] \<and> hd p = CHR ''/'')"

definition path_Clean :: "string \<Rightarrow> string" where
  "path_Clean p =
     (if p = [] then ''.''
      else let rooted = path_IsAbs p;
               out = join_slash (rev (foldl (clean_step rooted) [] (split_slash p)))
           in if rooted then ''/'' @ out else if out = [] then ''.'' else out)"

section \<open>Transfer paths\<close>

definition VolumeRootPath :: string where
  "VolumeRootPath = ''.''"

definition NormalizeTransferPath :: "string \<Rightarrow> go_error + string" where
  "NormalizeTransferPath v =
     (let v = TrimSpace v in
      if v = [] \<or> v = VolumeRootPath then Inr VolumeRootPath
      else if length v > 4096 then Inl PlainError
      else if path_IsAbs v then Inl PlainError
      else if CHR 0x5C \<in> set v then Inl PlainError
      else if has_control v then Inl PlainError
      else if ''..'' \<in> set (split_slash v) then Inl PlainError
      else let cleaned = path_Clean v in
        if cleaned = ''..'' \<or> prefix ''../'' cleaned then Inl PlainError else Inr cleaned)"

record TransferScope =
  ts_SourcePath :: string
  ts_DestinationPath :: string

definition NewTransferScope :: "string \<Rightarrow> string \<Rightarrow> go_error + TransferScope option" where
  "NewTransferScope sourcePath destinationPath =
     (case NormalizeTransferPath sourcePath of
        Inl err \<Rightarrow> Inl (WrapfError err)
      | Inr source \<Rightarrow> (case NormalizeTransferPath destinationPath of
            Inl err \<Rightarrow> Inl (WrapfError err)
          | Inr destination \<Rightarrow>
              if source = VolumeRootPath \<and> destination = VolumeRootPath then Inr None
              else Inr (Some \<lparr>ts_SourcePath = source, ts_DestinationPath = destination\<rparr>)))"

definition ValidateTransferScope :: "TransferScope option \<Rightarrow> go_error + unit" where
  "ValidateTransferScope scope =
     (case scope of None \<Rightarrow> Inr ()
      | Some s \<Rightarrow> (case NormalizeTransferPath (ts_SourcePath s) of
            Inl err \<Rightarrow> Inl (WrapfError err)
          | Inr source \<Rightarrow> (case NormalizeTransferPath (ts_DestinationPath s) of
                Inl err \<Rightarrow> Inl (WrapfError err)
              | Inr destination \<Rightarrow>
                  if source \<noteq> ts_SourcePath s \<or> destination \<noteq> ts_DestinationPath s then Inl PlainError
                  else if source = VolumeRootPath \<and> destination = VolumeRootPath then Inl PlainError
                  else Inr ())))"

definition SourceTransferPath :: "TransferScope option \<Rightarrow> string" where
  "SourceTransferPath scope = (case scope of None \<Rightarrow> VolumeRootPath | Some s \<Rightarrow> ts_SourcePath s)"

definition DestinationTransferPath :: "TransferScope option \<Rightarrow> string" where
  "DestinationTransferPath scope = (case scope of None \<Rightarrow> VolumeRootPath | Some s \<Rightarrow> ts_DestinationPath s)"

text \<open>The two paths of \<^verbatim>\<open>validateCrossClusterPaths\<close> are checked in some order, with one message for
  either.\<close>

definition stored_path_ok :: "string \<Rightarrow> bool" where
  "stored_path_ok v = (NormalizeTransferPath v = Inr v)"

definition validateCrossClusterPaths :: "string \<Rightarrow> string \<Rightarrow> go_error + unit" where
  "validateCrossClusterPaths sourcePath destinationPath =
     (if \<not> stored_path_ok sourcePath \<or> \<not> stored_path_ok destinationPath then Inl PlainError else Inr ())"

definition ValidatePath :: "string \<Rightarrow> go_error + unit" where
  "ValidatePath v =
     (if v = [] then Inr ()
      else case NormalizeTransferPath v of
        Inl err \<Rightarrow> Inl (WrapError ErrorValidation ''PVC path'' err)
      | Inr normalized \<Rightarrow>
          if normalized = VolumeRootPath \<or> normalized \<noteq> v then Inl (NewError ErrorValidation ''PVC path'')
          else Inr ())"

definition normalizeObjectTransferPath :: "string \<Rightarrow> go_error + string" where
  "normalizeObjectTransferPath v =
     (case NormalizeTransferPath v of
        Inl err \<Rightarrow> Inl (WrapError ErrorValidation ''transfer path'' err)
      | Inr normalized \<Rightarrow> if normalized = VolumeRootPath then Inr [] else Inr normalized)"

section \<open>Facts about the string functions\<close>

lemma suffix_strip: "suffix (strip runes s) s"
proof (induction runes s rule: strip.induct)
  case (1 runes s)
  show ?case
  proof (cases "find (\<lambda>r. r \<noteq> [] \<and> prefix r s) runes")
    case None
    then show ?thesis by (simp add: strip.simps)
  next
    case (Some r)
    with "1.IH" show ?thesis
      by (simp add: strip.simps [of runes s]) (meson suffix_drop suffix_order.trans)
  qed
qed

lemma length_TrimSpace: "length (TrimSpace s) \<le> length s"
  using suffix_length_le [OF suffix_strip, of "map rev space_runes" "rev (strip space_runes s)"]
    suffix_length_le [OF suffix_strip, of space_runes s]
  by (simp add: TrimSpace_def)

lemma suffix_same_length: "suffix xs ys \<Longrightarrow> length xs = length ys \<Longrightarrow> xs = ys"
  by (auto simp: suffix_def)

lemma TrimSpace_same_length:
  assumes "length (TrimSpace s) = length s"
  shows "TrimSpace s = s"
proof -
  let ?l = "strip space_runes s" and ?r = "strip (map rev space_runes) (rev (strip space_runes s))"
  have "length ?r \<le> length ?l" "length ?l \<le> length s"
    using suffix_length_le [OF suffix_strip, of "map rev space_runes" "rev ?l"]
      suffix_length_le [OF suffix_strip, of space_runes s] by simp_all
  then have "?l = s" "?r = rev ?l"
    using assms by (auto simp: TrimSpace_def intro!: suffix_same_length suffix_strip)
  then show ?thesis by (simp add: TrimSpace_def)
qed

lemma split_slash_nonempty [simp]: "split_slash s \<noteq> []"
  by (induction s) (auto split: list.splits)

lemma join_split: "join_slash (split_slash s) = s"
proof (induction s)
  case (Cons c s)
  then show ?case by (cases "split_slash s" rule: join_slash.cases) auto
qed simp

lemma split_no_slash: "w \<in> set (split_slash s) \<Longrightarrow> CHR ''/'' \<notin> set w"
  by (induction s arbitrary: w) (auto split: list.splits if_splits)

lemma split_append: "CHR ''/'' \<notin> set w \<Longrightarrow> split_slash (w @ CHR ''/'' # s) = w # split_slash s"
  by (induction w) auto

lemma split_single: "CHR ''/'' \<notin> set w \<Longrightarrow> split_slash w = [w]"
  by (induction w) auto

lemma split_join: "ws \<noteq> [] \<Longrightarrow> (\<And>w. w \<in> set ws \<Longrightarrow> CHR ''/'' \<notin> set w) \<Longrightarrow> split_slash (join_slash ws) = ws"
  by (induction ws rule: join_slash.induct) (auto simp: split_single split_append)

lemma has_control_slash: "has_control (w @ CHR ''/'' # s) \<longleftrightarrow> has_control w \<or> has_control s"
  by (induction w) (auto simp: hd_append)

lemma has_control_join: "has_control (join_slash ws) \<longleftrightarrow> (\<exists>w \<in> set ws. has_control w)"
  by (induction ws rule: join_slash.induct) (auto simp: has_control_slash)

lemma set_join_slash: "set (join_slash ws) \<subseteq> insert (CHR ''/'') (\<Union>(set ` set ws))"
  by (induction ws rule: join_slash.induct) auto

lemma set_join_subset: "w \<in> set ws \<Longrightarrow> set w \<subseteq> set (join_slash ws)"
  by (induction ws rule: join_slash.induct) auto

lemma length_join_Cons: "length (join_slash ws) \<le> length (join_slash (w # ws))"
  by (cases ws) auto

lemma length_join_filter: "length (join_slash (filter P ws)) \<le> length (join_slash ws)"
proof (induction ws)
  case (Cons w ws)
  show ?case
  proof (cases "P w")
    case True
    moreover have "length (join_slash (w # us)) \<le> length (join_slash (w # vs))"
      if "length (join_slash us) \<le> length (join_slash vs)" "vs = [] \<Longrightarrow> us = []" for us vs
      using that by (cases us; cases vs) auto
    ultimately show ?thesis using Cons by simp
  next
    case False
    with Cons length_join_Cons [of ws w] show ?thesis by simp
  qed
qed simp

text \<open>Without parent components, cleaning keeps the components that name something.\<close>

definition named :: "string \<Rightarrow> bool" where
  "named c \<longleftrightarrow> c \<noteq> [] \<and> c \<noteq> ''.''"

lemma foldl_clean_step:
  "''..'' \<notin> set cs \<Longrightarrow> foldl (clean_step rooted) acc cs = rev (filter named cs) @ acc"
  by (induction cs arbitrary: acc) (auto simp: clean_step_def named_def)

lemma path_Clean_relative:
  assumes "\<not> path_IsAbs p" "''..'' \<notin> set (split_slash p)"
  shows "path_Clean p = (let cs = filter named (split_slash p) in if cs = [] then ''.'' else join_slash cs)"
proof -
  have "join_slash cs = [] \<longleftrightarrow> cs = []" if "\<forall>c \<in> set cs. named c" for cs
    using that by (cases cs rule: join_slash.cases) (auto simp: named_def)
  from this [of "filter named (split_slash p)"] show ?thesis
    using assms by (auto simp: path_Clean_def foldl_clean_step Let_def)
qed

text \<open>A path that stays below the root of the volume: the root itself, or named components without
  a parent component.\<close>

definition below_root :: "string \<Rightarrow> bool" where
  "below_root q \<longleftrightarrow> q = VolumeRootPath \<or> (\<forall>c \<in> set (split_slash q). named c \<and> c \<noteq> ''..'')"

definition plain_path :: "string \<Rightarrow> bool" where
  "plain_path q \<longleftrightarrow> length q \<le> 4096 \<and> CHR 0x5C \<notin> set q \<and> \<not> has_control q"

lemma hd_split: "split_slash q = w # ws \<Longrightarrow> w \<noteq> [] \<Longrightarrow> q \<noteq> [] \<and> hd q = hd w"
  by (cases q) (auto split: if_splits list.splits)

lemma below_root_relative: "below_root q \<Longrightarrow> q \<noteq> [] \<and> \<not> path_IsAbs q \<and> ''..'' \<notin> set (split_slash q)"
proof (cases "q = VolumeRootPath")
  case False
  assume "below_root q"
  with False have named: "\<forall>c \<in> set (split_slash q). named c \<and> c \<noteq> ''..''" by (simp add: below_root_def)
  obtain w ws where split: "split_slash q = w # ws" by (cases "split_slash q") auto
  with named have "w \<noteq> []" by (auto simp: named_def)
  moreover have "CHR ''/'' \<notin> set w" using split_no_slash [of w q] split by simp
  ultimately have "hd w \<noteq> CHR ''/''" using hd_in_set [of w] by metis
  with \<open>w \<noteq> []\<close> show ?thesis
    using hd_split [OF split] named by (auto simp: path_IsAbs_def)
qed (simp add: VolumeRootPath_def path_IsAbs_def)

lemma Clean_below_root: "below_root q \<Longrightarrow> path_Clean q = q"
proof (cases "q = VolumeRootPath")
  case True
  then show ?thesis by (simp add: VolumeRootPath_def path_Clean_def path_IsAbs_def clean_step_def)
next
  case False
  assume q: "below_root q"
  with False have "filter named (split_slash q) = split_slash q" by (auto simp: below_root_def filter_id_conv)
  with q show ?thesis
    by (simp add: path_Clean_relative below_root_relative Let_def join_split)
qed

lemma Normalize_result:
  assumes "NormalizeTransferPath v = Inr q"
  shows "below_root q \<and> plain_path q"
proof (cases "TrimSpace v = [] \<or> TrimSpace v = VolumeRootPath")
  case True
  with assms have "q = VolumeRootPath" by (auto simp: NormalizeTransferPath_def Let_def)
  then show ?thesis by (simp add: below_root_def plain_path_def VolumeRootPath_def)
next
  case False
  let ?t = "TrimSpace v" let ?cs = "filter named (split_slash ?t)"
  from assms False have t: "length ?t \<le> 4096" "\<not> path_IsAbs ?t" "CHR 0x5C \<notin> set ?t" "\<not> has_control ?t"
      "''..'' \<notin> set (split_slash ?t)" and q: "q = path_Clean ?t"
    by (auto simp: NormalizeTransferPath_def Let_def split: if_splits)
  show ?thesis
  proof (cases "?cs = []")
    case True
    with q t(2,5) show ?thesis
      by (simp add: path_Clean_relative below_root_def plain_path_def VolumeRootPath_def)
  next
    case cs: False
    with q t(2,5) have "q = join_slash ?cs" by (simp add: path_Clean_relative Let_def)
    moreover have "split_slash (join_slash ?cs) = ?cs"
      using cs by (intro split_join) (auto dest: split_no_slash)
    moreover have "length (join_slash ?cs) \<le> length ?t"
      using length_join_filter [of named "split_slash ?t"] by (simp add: join_split)
    moreover have "\<not> has_control (join_slash ?cs)"
      using t(4) has_control_join [of "split_slash ?t"] by (auto simp: has_control_join join_split)
    moreover have "CHR 0x5C \<notin> set (join_slash ?cs)"
      using t(3) set_join_slash [of ?cs] set_join_subset [of _ "split_slash ?t"] by (auto simp: join_split)
    ultimately show ?thesis using t(1,5) by (auto simp: below_root_def plain_path_def)
  qed
qed

lemma Normalize_fixed:
  assumes "below_root q" "plain_path q" "TrimSpace q = q"
  shows "NormalizeTransferPath q = Inr q"
proof -
  have "q \<noteq> ''..'' \<and> \<not> prefix ''../'' q"
  proof -
    have "''..'' \<in> set (split_slash q)" if "q = ''..'' \<or> prefix ''../'' q"
      using that by (auto simp: prefix_def)
    then show ?thesis using below_root_relative [OF assms(1)] by blast
  qed
  then show ?thesis
    using assms below_root_relative [OF assms(1)]
    by (auto simp: NormalizeTransferPath_def Let_def plain_path_def Clean_below_root)
qed

lemma length_Clean: "\<not> path_IsAbs p \<Longrightarrow> ''..'' \<notin> set (split_slash p) \<Longrightarrow> p \<noteq> [] \<Longrightarrow> length (path_Clean p) \<le> length p"
  using length_join_filter [of named "split_slash p"]
  by (auto simp: path_Clean_relative Let_def join_split Suc_le_eq)

lemmas path_eval =
  NormalizeTransferPath_def TrimSpace_def space_runes_def strip.simps VolumeRootPath_def path_IsAbs_def
  path_Clean_def clean_step_def Let_def

lemma Normalize_fixed_iff:
  assumes "NormalizeTransferPath v = Inr q"
  shows "NormalizeTransferPath q = Inr q \<longleftrightarrow> TrimSpace q = q"
proof
  note q = Normalize_result [OF assms]
  assume fixed: "NormalizeTransferPath q = Inr q"
  show "TrimSpace q = q"
  proof (cases "TrimSpace q = [] \<or> TrimSpace q = VolumeRootPath")
    case True
    with fixed have "q = VolumeRootPath" by (auto simp: NormalizeTransferPath_def Let_def)
    moreover have "TrimSpace VolumeRootPath = VolumeRootPath" by (simp add: path_eval)
    ultimately show ?thesis by simp
  next
    case False
    with fixed have "q = path_Clean (TrimSpace q)" "\<not> path_IsAbs (TrimSpace q)"
        "''..'' \<notin> set (split_slash (TrimSpace q))"
      by (auto simp: NormalizeTransferPath_def Let_def split: if_splits)
    with False length_Clean have "length q \<le> length (TrimSpace q)" by metis
    with length_TrimSpace [of q] show ?thesis by (intro TrimSpace_same_length) simp
  qed
next
  assume "TrimSpace q = q"
  with Normalize_result [OF assms] show "NormalizeTransferPath q = Inr q" by (simp add: Normalize_fixed)
qed

section \<open>Properties\<close>

text \<open>C35: a normalized path never leaves the volume. What \<^verbatim>\<open>NormalizeTransferPath\<close> accepts is the root
  of the volume or a relative path of named components, none of them the parent directory; it has no
  backslash and no control character, and at most 4096 bytes.\<close>

theorem NormalizeTransferPath_below_root:
  assumes "NormalizeTransferPath v = Inr q"
  shows "below_root q \<and> \<not> path_IsAbs q \<and> ''..'' \<notin> set (split_slash q) \<and> plain_path q"
  using Normalize_result [OF assms] below_root_relative by blast

theorem NormalizeTransferPath_below_root_witness:
  "NormalizeTransferPath '' data//./mysql/ '' = Inr ''data/mysql''
   \<and> below_root ''data/mysql'' \<and> \<not> path_IsAbs ''data/mysql'' \<and> ''..'' \<notin> set (split_slash ''data/mysql'')
   \<and> plain_path ''data/mysql''"
proof -
  have "NormalizeTransferPath '' data//./mysql/ '' = Inr ''data/mysql''" by (simp add: path_eval)
  then show ?thesis using NormalizeTransferPath_below_root by blast
qed

text \<open>The round trip of a transfer scope. A scope that \<^verbatim>\<open>NewTransferScope\<close> makes passes
  \<^verbatim>\<open>ValidateTransferScope\<close> exactly if neither of its paths starts or ends with white space.\<close>

lemma TransferScope_roundtrip:
  assumes "NewTransferScope sourcePath destinationPath = Inr (Some scope)"
  shows "ValidateTransferScope (Some scope) = Inr () \<longleftrightarrow>
    TrimSpace (ts_SourcePath scope) = ts_SourcePath scope
    \<and> TrimSpace (ts_DestinationPath scope) = ts_DestinationPath scope"
proof -
  obtain s d where s: "NormalizeTransferPath sourcePath = Inr s" and d: "NormalizeTransferPath destinationPath = Inr d"
    and scope: "scope = \<lparr>ts_SourcePath = s, ts_DestinationPath = d\<rparr>" "\<not> (s = VolumeRootPath \<and> d = VolumeRootPath)"
    using assms by (auto simp: NewTransferScope_def split: sum.splits if_splits)
  have "ValidateTransferScope (Some scope) = Inr () \<longleftrightarrow>
      NormalizeTransferPath s = Inr s \<and> NormalizeTransferPath d = Inr d"
    using scope by (auto simp: ValidateTransferScope_def split: sum.splits if_splits)
  then show ?thesis
    using Normalize_fixed_iff [OF s] Normalize_fixed_iff [OF d] scope(1) by simp
qed


end
