(* ===== verification/Admission.thy ===== *)
theory Admission
  imports StaticWorld Paths "HOL-Library.Multiset"
begin

text \<open>
  The admission of replacement claims: the projection of claims against resource quotas and limit
  ranges (\<^verbatim>\<open>internal/kube/pvc_policy.go\<close>, \<^verbatim>\<open>ReadNamespaceResourcePolicies\<close> and the resource names of
  \<^verbatim>\<open>quota.go\<close>) and the checks the executors build on it (\<^verbatim>\<open>validateMigrationPVCAdmission\<close> of
  \<^verbatim>\<open>internal/app/workflow_support.go\<close>). A violation is the quota and the resource, or the limit range
  and the claim, of its message; the report's sorting by message text is left out. Concurrent reads
  are run in index order.
\<close>

section \<open>Quota resources\<close>

definition ResourceRequestsStorage :: string where "ResourceRequestsStorage = ''requests.storage''"
definition ResourcePersistentVolumeClaims :: string where
  "ResourcePersistentVolumeClaims = ''persistentvolumeclaims''"
definition countPersistentVolumeClaimsResource :: string where
  "countPersistentVolumeClaimsResource = ''count/persistentvolumeclaims''"
definition storageClassQuotaResourceInfix :: string where
  "storageClassQuotaResourceInfix = ''.storageclass.storage.k8s.io/''"
definition ResourceQuotaScopeVolumeAttributesClass :: string where
  "ResourceQuotaScopeVolumeAttributesClass = ''VolumeAttributesClass''"
definition LimitTypePersistentVolumeClaim :: string where
  "LimitTypePersistentVolumeClaim = ''PersistentVolumeClaim''"

text \<open>\<^verbatim>\<open>strings.Cut\<close>: around the first occurrence.\<close>

fun strings_Cut :: "string \<Rightarrow> string \<Rightarrow> (string \<times> string) option" where
  "strings_Cut [] sep = (if sep = [] then Some ([], []) else None)"
| "strings_Cut (c # s) sep =
     (if prefix sep (c # s) then Some ([], drop (length sep) (c # s))
      else map_option (\<lambda>(a, b). (c # a, b)) (strings_Cut s sep))"

definition storageClassQuotaResourceName :: "string \<Rightarrow> string \<Rightarrow> string" where
  "storageClassQuotaResourceName cls resourceName = cls @ storageClassQuotaResourceInfix @ resourceName"

definition splitStorageClassQuotaResourceName :: "string \<Rightarrow> string \<times> string \<times> bool" where
  "splitStorageClassQuotaResourceName name =
     (case strings_Cut name storageClassQuotaResourceInfix of
        None \<Rightarrow> (name, [], False) | Some (cls, resourceName) \<Rightarrow> (cls, resourceName, True))"

definition isPVCQuotaResource :: "string \<Rightarrow> bool" where
  "isPVCQuotaResource resourceName =
     (resourceName \<in> {ResourceRequestsStorage, ResourcePersistentVolumeClaims, countPersistentVolumeClaimsResource}
      \<or> (case splitStorageClassQuotaResourceName resourceName of (_, sfx, ok) \<Rightarrow>
           ok \<and> (sfx = ResourceRequestsStorage \<or> sfx = ResourcePersistentVolumeClaims)))"

section \<open>Volume attributes classes and quota scopes\<close>

fun unique_from :: "string list \<Rightarrow> string list \<Rightarrow> string list" where
  "unique_from seen [] = []"
| "unique_from seen (v # vs) =
     (if v = [] \<or> v \<in> set seen then unique_from seen vs else v # unique_from (v # seen) vs)"

definition uniqueNonEmptyStrings :: "string list \<Rightarrow> string list" where
  "uniqueNonEmptyStrings vs = unique_from [] vs"

definition option_list :: "'a option \<Rightarrow> 'a list" where
  "option_list x = (case x of None \<Rightarrow> [] | Some v \<Rightarrow> [v])"

definition referencedVolumeAttributesClassNames :: "pvc \<Rightarrow> string list" where
  "referencedVolumeAttributesClassNames c =
     uniqueNonEmptyStrings
       (option_list (s_VolumeAttributesClassName (c_Spec c))
        @ option_list (c_CurrentVolumeAttributesClassName c)
        @ option_list (c_TargetVolumeAttributesClassName c))"

definition RequestedVolumeAttributesClassNames :: "PVCSpec \<Rightarrow> string list" where
  "RequestedVolumeAttributesClassNames spec =
     (case s_VolumeAttributesClassName spec of None \<Rightarrow> [] | Some n \<Rightarrow> if n = [] then [] else [n])"

definition pvcMatchesScope :: "ScopeRequirement \<Rightarrow> string list \<Rightarrow> bool" where
  "pvcMatchesScope selector classNames =
     (if sr_ScopeName selector \<noteq> ResourceQuotaScopeVolumeAttributesClass then False
      else if sr_Operator selector = ''Exists'' then classNames \<noteq> []
      else if sr_Operator selector = ''DoesNotExist'' then classNames = []
      else if sr_Operator selector = ''In'' then list_ex (\<lambda>n. n \<in> set (sr_Values selector)) classNames
      else if sr_Operator selector = ''NotIn''
      then classNames = [] \<or> list_ex (\<lambda>n. n \<notin> set (sr_Values selector)) classNames
      else False)"

definition pvcMatchesQuotaScopes :: "ResourceQuota \<Rightarrow> string list \<Rightarrow> bool" where
  "pvcMatchesQuotaScopes quota classNames =
     (list_all (\<lambda>scope. pvcMatchesScope \<lparr>sr_ScopeName = scope, sr_Operator = ''Exists'', sr_Values = []\<rparr> classNames)
        (q_Scopes quota)
      \<and> list_all (\<lambda>selector. pvcMatchesScope selector classNames) (q_MatchExpressions quota))"

section \<open>Projection\<close>

record PVCAdmissionChange =
  ac_Namespace :: string
  ac_Name :: string
  ac_RequestedStorage :: quantity
  ac_RequestedStorageClass :: string
  ac_Existing :: bool
  ac_ExistingUID :: string
  ac_ExistingStorage :: quantity
  ac_ExistingStorageClass :: string
  ac_RequestedVolumeAttributesClassNames :: "string list"
  ac_ExistingVolumeAttributesClassNames :: "string list"

definition requestedPVCMatchesQuota :: "PVCAdmissionChange \<Rightarrow> ResourceQuota \<Rightarrow> bool" where
  "requestedPVCMatchesQuota change quota =
     pvcMatchesQuotaScopes quota (ac_RequestedVolumeAttributesClassNames change)"

definition existingPVCMatchesQuota :: "PVCAdmissionChange \<Rightarrow> ResourceQuota \<Rightarrow> bool" where
  "existingPVCMatchesQuota change quota =
     (ac_Existing change \<and> pvcMatchesQuotaScopes quota (ac_ExistingVolumeAttributesClassNames change))"

definition clampNonNegative :: "quantity \<Rightarrow> quantity" where
  "clampNonNegative q = (if q < 0 then 0 else q)"

text \<open>\<^verbatim>\<open>resource.NewQuantity(1, ...)\<close>.\<close>

definition quantity_one :: quantity where
  "quantity_one = 1000000000"

definition storage_step :: "ResourceQuota \<Rightarrow> string \<Rightarrow> quantity \<Rightarrow> PVCAdmissionChange \<Rightarrow> quantity" where
  "storage_step quota storageClass projected change =
     (let projected =
            (if existingPVCMatchesQuota change quota
                \<and> (storageClass = [] \<or> ac_ExistingStorageClass change = storageClass)
             then projected - ac_ExistingStorage change else projected)
      in if requestedPVCMatchesQuota change quota
            \<and> (storageClass = [] \<or> ac_RequestedStorageClass change = storageClass)
         then projected + ac_RequestedStorage change else projected)"

definition projectedPVCStorage ::
    "quantity \<Rightarrow> ResourceQuota \<Rightarrow> PVCAdmissionChange list \<Rightarrow> string \<Rightarrow> quantity" where
  "projectedPVCStorage used quota changes storageClass =
     clampNonNegative (foldl (storage_step quota storageClass) used changes)"

definition count_step :: "ResourceQuota \<Rightarrow> string \<Rightarrow> quantity \<Rightarrow> PVCAdmissionChange \<Rightarrow> quantity" where
  "count_step quota storageClass projected change =
     (let requestedMatches = (requestedPVCMatchesQuota change quota
            \<and> (storageClass = [] \<or> ac_RequestedStorageClass change = storageClass));
          existingMatches = (existingPVCMatchesQuota change quota
            \<and> (storageClass = [] \<or> ac_ExistingStorageClass change = storageClass))
      in if requestedMatches \<and> \<not> existingMatches then projected + quantity_one
         else if \<not> requestedMatches \<and> existingMatches then projected - quantity_one
         else projected)"

definition projectedPVCCount ::
    "quantity \<Rightarrow> ResourceQuota \<Rightarrow> PVCAdmissionChange list \<Rightarrow> string \<Rightarrow> quantity" where
  "projectedPVCCount used quota changes storageClass =
     clampNonNegative (foldl (count_step quota storageClass) used changes)"

definition projectedQuotaResource ::
    "string \<Rightarrow> quantity \<Rightarrow> ResourceQuota \<Rightarrow> PVCAdmissionChange list \<Rightarrow> quantity option" where
  "projectedQuotaResource resourceName used quota changes =
     (if resourceName = ResourceRequestsStorage then Some (projectedPVCStorage used quota changes [])
      else if resourceName = ResourcePersistentVolumeClaims \<or> resourceName = countPersistentVolumeClaimsResource
      then Some (projectedPVCCount used quota changes [])
      else case splitStorageClassQuotaResourceName resourceName of (cls, sfx, ok) \<Rightarrow>
        if \<not> ok then None
        else if sfx = ResourceRequestsStorage then Some (projectedPVCStorage used quota changes cls)
        else if sfx = ResourcePersistentVolumeClaims then Some (projectedPVCCount used quota changes cls)
        else None)"

definition quotaCanMatchRequestedPVC :: "ResourceQuota \<Rightarrow> PVCAdmissionChange list \<Rightarrow> bool" where
  "quotaCanMatchRequestedPVC quota changes =
     list_ex (\<lambda>change. pvcMatchesQuotaScopes quota (ac_RequestedVolumeAttributesClassNames change)) changes"

text \<open>The violations of one hard limit, of one quota, and of one limit range.\<close>

definition limit_violation ::
    "ResourceQuota \<Rightarrow> PVCAdmissionChange list \<Rightarrow> string \<times> quantity \<Rightarrow> (string \<times> string) list" where
  "limit_violation quota changes = (\<lambda>(resourceName, hard).
     if \<not> isPVCQuotaResource resourceName then []
     else case q_Used quota resourceName of
       None \<Rightarrow> [(q_Name quota, resourceName)]
     | Some used \<Rightarrow> (case projectedQuotaResource resourceName used quota changes of
           None \<Rightarrow> []
         | Some projected \<Rightarrow> if projected > hard then [(q_Name quota, resourceName)] else []))"

definition quota_violations :: "PVCAdmissionChange list \<Rightarrow> ResourceQuota \<Rightarrow> (string \<times> string) list" where
  "quota_violations changes quota =
     (if \<not> quotaCanMatchRequestedPVC quota changes then []
      else concat (map (limit_violation quota changes) (q_Hard quota)))"

definition claim_range_violations ::
    "LimitRange \<Rightarrow> LimitRangeItem \<Rightarrow> PVCAdmissionChange \<Rightarrow> (string \<times> string) list" where
  "claim_range_violations limitRange item change =
     (case li_MinStorage item of
        Some minimum \<Rightarrow> if ac_RequestedStorage change < minimum then [(lr_Name limitRange, ac_Name change)] else []
      | None \<Rightarrow> [])
     @ (case li_MaxStorage item of
          Some maximum \<Rightarrow> if ac_RequestedStorage change > maximum then [(lr_Name limitRange, ac_Name change)] else []
        | None \<Rightarrow> [])"

definition limit_range_violations :: "PVCAdmissionChange list \<Rightarrow> LimitRange \<Rightarrow> (string \<times> string) list" where
  "limit_range_violations changes limitRange =
     concat (map (\<lambda>item. if li_Type item \<noteq> LimitTypePersistentVolumeClaim then []
         else concat (map (claim_range_violations limitRange item) changes)) (lr_Limits limitRange))"

section \<open>The state of the existing claims\<close>

definition hasPVCStorageQuota :: "ResourceQuota list \<Rightarrow> bool" where
  "hasPVCStorageQuota quotas =
     list_ex (\<lambda>quota. list_ex (\<lambda>(resourceName, _).
       case splitStorageClassQuotaResourceName resourceName of (_, scopedResource, storageClassScoped) \<Rightarrow>
         resourceName = ResourceRequestsStorage
         \<or> (storageClassScoped \<and> scopedResource = ResourceRequestsStorage)) (q_Hard quota)) quotas"

definition hasVolumeAttributesClassQuota :: "ResourceQuota list \<Rightarrow> bool" where
  "hasVolumeAttributesClassQuota quotas =
     list_ex (\<lambda>quota. ResourceQuotaScopeVolumeAttributesClass \<in> set (q_Scopes quota)
       \<or> list_ex (\<lambda>selector. sr_ScopeName selector = ResourceQuotaScopeVolumeAttributesClass)
           (q_MatchExpressions quota)) quotas"

text \<open>A missing entry of a resource list is the zero quantity.\<close>

definition effectivePVCQuotaStorage :: "pvc \<Rightarrow> quantity" where
  "effectivePVCQuotaStorage c =
     (let requested = (case s_StorageRequest (c_Spec c) of None \<Rightarrow> 0 | Some q \<Rightarrow> q);
          allocated = (case c_AllocatedStorage c of None \<Rightarrow> 0 | Some q \<Rightarrow> q)
      in if allocated > requested then allocated else requested)"

definition resolve_change ::
    "'s world \<Rightarrow> bool \<Rightarrow> bool \<Rightarrow> PVCAdmissionChange \<Rightarrow> (PVCAdmissionChange res, 's) io" where
  "resolve_change w resolveVAC resolveStorage change =
     (let change = change\<lparr>
            ac_RequestedVolumeAttributesClassNames :=
              uniqueNonEmptyStrings (ac_RequestedVolumeAttributesClassNames change),
            ac_ExistingVolumeAttributesClassNames :=
              uniqueNonEmptyStrings (ac_ExistingVolumeAttributesClassNames change)\<rparr>
      in if \<not> ac_Existing change \<or> (ac_ExistingUID change = [] \<and> \<not> resolveVAC) then io_ret (Inr change)
         else io_bind (get_pvc w (ac_Namespace change) (ac_Name change)) (\<lambda>r. case r of
             Inl err \<Rightarrow> io_ret (Inl (WrapfError err))
           | Inr c \<Rightarrow>
               if ac_ExistingUID change \<noteq> [] \<and> c_UID c \<noteq> ac_ExistingUID change then io_ret (Inl PlainError)
               else let change = (if resolveStorage \<and> effectivePVCQuotaStorage c > ac_ExistingStorage change
                                  then change\<lparr>ac_ExistingStorage := effectivePVCQuotaStorage c\<rparr> else change);
                        change = (if resolveVAC
                                  then change\<lparr>ac_ExistingVolumeAttributesClassNames :=
                                    referencedVolumeAttributesClassNames c\<rparr> else change)
                    in io_ret (Inr change)))"

fun first_err :: "'a res list \<Rightarrow> 'a list res" where
  "first_err [] = Inr []"
| "first_err (Inl e # rs) = Inl e"
| "first_err (Inr x # rs) = (case first_err rs of Inl e \<Rightarrow> Inl e | Inr xs \<Rightarrow> Inr (x # xs))"

definition resolveExistingPVCAdmissionState ::
    "'s world \<Rightarrow> ResourceQuota list \<Rightarrow> PVCAdmissionChange list \<Rightarrow> (PVCAdmissionChange list res, 's) io" where
  "resolveExistingPVCAdmissionState w quotas changes =
     (let resolveVAC = hasVolumeAttributesClassQuota quotas; resolveStorage = hasPVCStorageQuota quotas
      in if \<not> resolveVAC \<and> \<not> resolveStorage then io_ret (Inr changes)
         else io_bind (io_map (resolve_change w resolveVAC resolveStorage) changes) (\<lambda>rs. io_ret (first_err rs)))"

section \<open>The check\<close>

record PVCAdmissionReport =
  pr_QuotaViolations :: "(string \<times> string) list"
  pr_LimitRangeViolations :: "(string \<times> string) list"

definition bad_change :: "string \<Rightarrow> PVCAdmissionChange \<Rightarrow> bool" where
  "bad_change ns change \<longleftrightarrow>
     TrimSpace (ac_Namespace change) \<noteq> ns \<or> TrimSpace (ac_Name change) = [] \<or> ac_RequestedStorage change \<le> 0"

definition ReadNamespaceResourcePolicies ::
    "'s world \<Rightarrow> string \<Rightarrow> (ResourceQuota list option res \<times> LimitRange list option res, 's) io" where
  "ReadNamespaceResourcePolicies w ns =
     io_bind (list_quotas w ns) (\<lambda>quotas. io_bind (list_limit_ranges w ns) (\<lambda>ranges. io_ret (quotas, ranges)))"

definition present_items :: "'a list option res \<Rightarrow> 'a list" where
  "present_items r = (case r of Inr (Some xs) \<Rightarrow> xs | _ \<Rightarrow> [])"

text \<open>An error other than a missing resource ends the check.\<close>

definition policy_error :: "'a res \<Rightarrow> unit res" where
  "policy_error r = (case r of Inl err \<Rightarrow> if IsNotFound err then Inr () else Inl err | Inr _ \<Rightarrow> Inr ())"

definition CheckPVCAdmissionPolicies ::
    "'s world \<Rightarrow> bool \<Rightarrow> PVCAdmissionChange list \<Rightarrow> (PVCAdmissionReport res, 's) io" where
  "CheckPVCAdmissionPolicies w configured changes =
     (if \<not> configured then io_ret (Inl PlainError)
      else case changes of [] \<Rightarrow> io_ret (Inr \<lparr>pr_QuotaViolations = [], pr_LimitRangeViolations = []\<rparr>)
      | first # _ \<Rightarrow>
        let ns = TrimSpace (ac_Namespace first) in
        if ns = [] \<or> list_ex (bad_change ns) changes then io_ret (Inl PlainError)
        else io_bind (ReadNamespaceResourcePolicies w ns) (\<lambda>(quotas, ranges).
             io_try (io_ret (policy_error quotas)) (\<lambda>_.
             io_try (io_ret (policy_error ranges)) (\<lambda>_.
             io_try (resolveExistingPVCAdmissionState w (present_items quotas) changes) (\<lambda>resolved.
             io_ret (Inr \<lparr>pr_QuotaViolations = concat (map (quota_violations resolved) (present_items quotas)),
               pr_LimitRangeViolations = concat (map (limit_range_violations resolved) (present_items ranges))\<rparr>))))))"

definition activationPreflightPhase :: string where
  "activationPreflightPhase = ''activation preflight''"

text \<open>The changes of each namespace; a Go map, of which the sorted keys are used.\<close>

definition admission_result :: "PVCAdmissionReport res \<Rightarrow> unit res" where
  "admission_result r =
     (case r of Inl err \<Rightarrow> Inl (WrapError ErrorKubernetes activationPreflightPhase err)
      | Inr report \<Rightarrow>
          if pr_QuotaViolations report \<noteq> [] then Inl (NewError ErrorPrecondition activationPreflightPhase)
          else if pr_LimitRangeViolations report \<noteq> [] then Inl (NewError ErrorPrecondition activationPreflightPhase)
          else Inr ())"

definition validateMigrationPVCAdmission ::
    "'s world \<Rightarrow> (string \<times> PVCAdmissionChange list) list \<Rightarrow> (unit res, 's) io" where
  "validateMigrationPVCAdmission w groups =
     io_bind (io_map (\<lambda>ns. CheckPVCAdmissionPolicies w True (case map_of groups ns of None \<Rightarrow> [] | Some cs \<Rightarrow> cs))
       (sort (map fst groups))) (\<lambda>rs.
     io_ret (map_sum id (\<lambda>_. ()) (first_err (map admission_result rs))))"

section \<open>What the projection computes\<close>

definition class_matches :: "string \<Rightarrow> string \<Rightarrow> bool" where
  "class_matches storageClass cls \<longleftrightarrow> storageClass = [] \<or> cls = storageClass"

definition storage_delta :: "ResourceQuota \<Rightarrow> string \<Rightarrow> PVCAdmissionChange \<Rightarrow> quantity" where
  "storage_delta quota cls c =
     (if requestedPVCMatchesQuota c quota \<and> class_matches cls (ac_RequestedStorageClass c)
      then ac_RequestedStorage c else 0)
     - (if existingPVCMatchesQuota c quota \<and> class_matches cls (ac_ExistingStorageClass c)
        then ac_ExistingStorage c else 0)"

definition count_delta :: "ResourceQuota \<Rightarrow> string \<Rightarrow> PVCAdmissionChange \<Rightarrow> quantity" where
  "count_delta quota cls c =
     quantity_one *
       (of_bool (requestedPVCMatchesQuota c quota \<and> class_matches cls (ac_RequestedStorageClass c))
        - of_bool (existingPVCMatchesQuota c quota \<and> class_matches cls (ac_ExistingStorageClass c)))"

text \<open>
  The specification of a quota resource: the net change one replacement makes to its usage, and
  nothing for a resource that claims do not use.
\<close>

definition resource_delta :: "string \<Rightarrow> (ResourceQuota \<Rightarrow> PVCAdmissionChange \<Rightarrow> quantity) option" where
  "resource_delta r =
     (if r = ResourceRequestsStorage then Some (\<lambda>q. storage_delta q [])
      else if r = ResourcePersistentVolumeClaims \<or> r = countPersistentVolumeClaimsResource
      then Some (\<lambda>q. count_delta q [])
      else case splitStorageClassQuotaResourceName r of (cls, sfx, ok) \<Rightarrow>
        if ok \<and> sfx = ResourceRequestsStorage then Some (\<lambda>q. storage_delta q cls)
        else if ok \<and> sfx = ResourcePersistentVolumeClaims then Some (\<lambda>q. count_delta q cls)
        else None)"

definition quota_admits :: "PVCAdmissionChange list \<Rightarrow> ResourceQuota \<Rightarrow> bool" where
  "quota_admits changes quota \<longleftrightarrow>
     (\<forall>(r, hard)\<in>set (q_Hard quota). case resource_delta r of None \<Rightarrow> True
        | Some delta \<Rightarrow> (\<exists>used. q_Used quota r = Some used
            \<and> max 0 (used + (\<Sum>c\<leftarrow>changes. delta quota c)) \<le> hard))"

definition range_admits :: "PVCAdmissionChange list \<Rightarrow> LimitRange \<Rightarrow> bool" where
  "range_admits changes ranges \<longleftrightarrow>
     (\<forall>item\<in>set (lr_Limits ranges). li_Type item = LimitTypePersistentVolumeClaim \<longrightarrow>
        (\<forall>c\<in>set changes. (\<forall>m. li_MinStorage item = Some m \<longrightarrow> m \<le> ac_RequestedStorage c)
           \<and> (\<forall>m. li_MaxStorage item = Some m \<longrightarrow> ac_RequestedStorage c \<le> m)))"

lemma storage_fold: "foldl (storage_step q cls) u cs = u + (\<Sum>c\<leftarrow>cs. storage_delta q cls c)"
  by (induction cs arbitrary: u)
     (auto simp: storage_step_def storage_delta_def class_matches_def Let_def)

lemma count_fold: "foldl (count_step q cls) u cs = u + (\<Sum>c\<leftarrow>cs. count_delta q cls c)"
  by (induction cs arbitrary: u)
     (auto simp: count_step_def count_delta_def class_matches_def Let_def)

lemma clamp_max: "clampNonNegative x = max 0 x"
  by (simp add: clampNonNegative_def max_def)

lemma projectedQuotaResource_net:
  "projectedQuotaResource r u q cs =
     map_option (\<lambda>delta. max 0 (u + (\<Sum>c\<leftarrow>cs. delta q c))) (resource_delta r)"
  by (auto simp: projectedQuotaResource_def resource_delta_def projectedPVCStorage_def
      projectedPVCCount_def clamp_max storage_fold count_fold split: prod.splits)

lemma isPVCQuotaResource_delta: "isPVCQuotaResource r \<longleftrightarrow> resource_delta r \<noteq> None"
  by (auto simp: isPVCQuotaResource_def resource_delta_def split: prod.splits)

lemma limit_violation_iff:
  "limit_violation q cs (r, hard) = [] \<longleftrightarrow>
     (case resource_delta r of None \<Rightarrow> True
      | Some delta \<Rightarrow> (\<exists>used. q_Used q r = Some used \<and> max 0 (used + (\<Sum>c\<leftarrow>cs. delta q c)) \<le> hard))"
  by (cases "resource_delta r"; cases "q_Used q r")
     (simp_all add: limit_violation_def isPVCQuotaResource_delta projectedQuotaResource_net not_less
        del: max.bounded_iff)

lemma quota_violations_iff:
  "quota_violations cs q = [] \<longleftrightarrow> (quotaCanMatchRequestedPVC q cs \<longrightarrow> quota_admits cs q)"
proof -
  have "(\<forall>x\<in>set (q_Hard q). limit_violation q cs x = []) \<longleftrightarrow> quota_admits cs q"
    unfolding quota_admits_def by (intro ball_cong) (auto simp only: split_paired_all prod.case limit_violation_iff)
  then show ?thesis by (simp add: quota_violations_def)
qed

lemma claim_range_violations_iff:
  "claim_range_violations l item c = [] \<longleftrightarrow>
     (\<forall>m. li_MinStorage item = Some m \<longrightarrow> m \<le> ac_RequestedStorage c)
     \<and> (\<forall>m. li_MaxStorage item = Some m \<longrightarrow> ac_RequestedStorage c \<le> m)"
  by (auto simp: claim_range_violations_def split: option.splits)

lemma limit_range_violations_iff: "limit_range_violations cs l = [] \<longleftrightarrow> range_admits cs l"
  unfolding limit_range_violations_def range_admits_def concat_eq_Nil_conv set_map ball_simps
  by (intro ball_cong refl) (simp add: claim_range_violations_iff)

lemma sum_list_nonpos: "(\<And>c. c \<in> set cs \<Longrightarrow> f c \<le> 0) \<Longrightarrow> (\<Sum>c\<leftarrow>cs. f c) \<le> (0::int)"
  by (induction cs) (auto simp: add_nonpos_nonpos)

lemma resource_delta_shrinks:
  assumes "resource_delta r = Some delta" "\<not> requestedPVCMatchesQuota c q" "0 \<le> ac_ExistingStorage c"
  shows "delta q c \<le> 0"
  using assms by (auto simp: resource_delta_def storage_delta_def count_delta_def quantity_one_def
      split: prod.splits if_splits)

text \<open>
  C38: The projection of a quota resource is independent of the order of the replacements and equals
  the usage plus the net change of every replacement: what its new claim counts against the quota less
  what its old claim counted, clamped at zero. A resource is projected exactly when it is one that
  claims use.
\<close>

theorem projection_is_net_usage:
  "projectedQuotaResource r used quota changes =
     (if isPVCQuotaResource r
      then Some (max 0 (used + (\<Sum>c\<in>#mset changes. the (resource_delta r) quota c)))
      else None)"
  by (auto simp: projectedQuotaResource_net isPVCQuotaResource_delta sum_mset_sum_list
      simp flip: mset_map)

text \<open>A quota that no new claim can match is skipped, and skipping it is sound: as long as its usage
  is within its limits the projection of every resource stays within them.
\<close>

lemma skipped_quota_stays_within:
  assumes "\<not> quotaCanMatchRequestedPVC quota changes"
    and "\<And>c. c \<in> set changes \<Longrightarrow> 0 \<le> ac_ExistingStorage c"
    and "used \<le> hard" "0 \<le> hard"
    and "projectedQuotaResource r used quota changes = Some projected"
  shows "projected \<le> hard"
proof -
  obtain delta where d: "resource_delta r = Some delta"
    and p: "projected = max 0 (used + (\<Sum>c\<leftarrow>changes. delta quota c))"
    using assms(5) by (auto simp: projectedQuotaResource_net)
  have "(\<Sum>c\<leftarrow>changes. delta quota c) \<le> 0"
    using assms(1,2) by (intro sum_list_nonpos resource_delta_shrinks [OF d])
      (auto simp: quotaCanMatchRequestedPVC_def requestedPVCMatchesQuota_def list_ex_iff)
  then show ?thesis using assms(3,4) p by auto
qed

definition demo_change :: PVCAdmissionChange where
  "demo_change = \<lparr>ac_Namespace = ''n'', ac_Name = ''c'', ac_RequestedStorage = 3, ac_RequestedStorageClass = ''fast'',
     ac_Existing = True, ac_ExistingUID = [], ac_ExistingStorage = 2, ac_ExistingStorageClass = ''slow'',
     ac_RequestedVolumeAttributesClassNames = [], ac_ExistingVolumeAttributesClassNames = [''gold'']\<rparr>"

definition demo_scoped_quota :: ResourceQuota where
  "demo_scoped_quota = \<lparr>q_Name = ''q'', q_Scopes = [ResourceQuotaScopeVolumeAttributesClass], q_MatchExpressions = [],
     q_Hard = [(ResourceRequestsStorage, 5)], q_Used = [ResourceRequestsStorage \<mapsto> 4]\<rparr>"

definition demo_quota :: ResourceQuota where
  "demo_quota = \<lparr>q_Name = ''q'', q_Scopes = [], q_MatchExpressions = [],
     q_Hard = [(ResourceRequestsStorage, 5)], q_Used = [ResourceRequestsStorage \<mapsto> 4]\<rparr>"

lemmas admission_demo_defs = demo_change_def demo_scoped_quota_def demo_quota_def
  quotaCanMatchRequestedPVC_def pvcMatchesQuotaScopes_def pvcMatchesScope_def
  projectedQuotaResource_def projectedPVCStorage_def clampNonNegative_def storage_step_def
  existingPVCMatchesQuota_def requestedPVCMatchesQuota_def

section \<open>The check admits only what the policies admit\<close>

lemma first_err_Inr:
  "first_err rs = Inr xs \<longleftrightarrow> rs = map Inr xs"
proof (induction rs arbitrary: xs)
  case (Cons r rs)
  show ?case
    using Cons.IH [of "tl xs"] by (cases r; cases "first_err rs"; cases xs) fastforce+
qed auto

text \<open>
  What the resolution of an existing claim may change: its storage grows to what the claim with the
  recorded UID was read to hold, and the class names that scope a quota are read again.
\<close>

definition resolves :: "'s hist \<Rightarrow> PVCAdmissionChange \<Rightarrow> PVCAdmissionChange \<Rightarrow> bool" where
  "resolves h c c' \<longleftrightarrow>
     ac_Name c' = ac_Name c \<and> ac_RequestedStorage c' = ac_RequestedStorage c
     \<and> ac_RequestedStorageClass c' = ac_RequestedStorageClass c
     \<and> ac_Existing c' = ac_Existing c \<and> ac_ExistingStorageClass c' = ac_ExistingStorageClass c
     \<and> set (ac_RequestedVolumeAttributesClassNames c') - {[]} = set (ac_RequestedVolumeAttributesClassNames c) - {[]}
     \<and> (ac_ExistingStorage c' = ac_ExistingStorage c
        \<or> ac_ExistingStorage c < ac_ExistingStorage c'
          \<and> (\<exists>p. EvGetPVC (ac_Namespace c) (ac_Name c) (Inr p) \<in> set h
               \<and> (ac_ExistingUID c = [] \<or> c_UID p = ac_ExistingUID c)
               \<and> ac_ExistingStorage c' = effectivePVCQuotaStorage p))"

lemma resolves_mono: "resolves h c c' \<Longrightarrow> suffix h h' \<Longrightarrow> resolves h' c c'"
  by (drule set_mono_suffix) (auto simp: resolves_def)

lemma resolves_refl: "resolves h c c"
  by (simp add: resolves_def)

lemma set_unique_from: "set (unique_from seen vs) = set vs - {[]} - set seen"
  by (induction seen vs rule: unique_from.induct) auto

lemma distinct_unique_from: "distinct (unique_from seen vs)"
  by (induction seen vs rule: unique_from.induct) (auto simp: set_unique_from)

lemma set_uniqueNonEmptyStrings [simp]: "set (uniqueNonEmptyStrings vs) = set vs - {[]}"
  by (simp add: uniqueNonEmptyStrings_def set_unique_from)

lemma resolve_change_wp:
  "wp only_reads (resolve_change w vac sto c) (\<lambda>r h'. \<forall>c'. r = Inr c' \<longrightarrow> resolves h' c c') h"
  unfolding resolve_change_def
  by (auto simp: io_rules guard_simps Let_def resolves_def split: sum.splits intro!: io_intros)

lemma resolve_wp:
  "wp only_reads (resolveExistingPVCAdmissionState w qs cs)
     (\<lambda>r h'. \<forall>cs'. r = Inr cs' \<longrightarrow> list_all2 (resolves h') cs cs') h"
proof -
  have "wp only_reads (io_map (resolve_change w v s) cs)
      (\<lambda>rs h'. list_all2 (\<lambda>c r. \<forall>c'. r = Inr c' \<longrightarrow> resolves h' c c') cs rs) h" for v s
    by (rule wp_io_map) (auto intro: resolve_change_wp resolves_mono)
  note calls = wp_conseq [OF this]
  show ?thesis
    unfolding resolveExistingPVCAdmissionState_def
    by (auto simp: io_rules guard_simps Let_def first_err_Inr list_all2_conv_all_nth resolves_refl intro!: calls)
qed

text \<open>
  What a passed check has seen: the policies of the namespace were read, and every one of them that
  applies admits the replacements.
\<close>

definition admitted_in :: "string \<Rightarrow> PVCAdmissionChange list \<Rightarrow> 's hist \<Rightarrow> bool" where
  "admitted_in ns cs h \<longleftrightarrow>
     (\<exists>qs ls cs'. EvListQuotas ns qs \<in> set h \<and> EvListLimitRanges ns ls \<in> set h
        \<and> list_all2 (resolves h) cs cs'
        \<and> (\<forall>q\<in>set (present_items qs). quotaCanMatchRequestedPVC q cs' \<longrightarrow> quota_admits cs' q)
        \<and> (\<forall>l\<in>set (present_items ls). range_admits cs' l))"

lemma admitted_in_mono:
  assumes "admitted_in ns cs h" "suffix h h'"
  shows "admitted_in ns cs h'"
proof -
  have "list_all2 (resolves h') cs cs'" if "list_all2 (resolves h) cs cs'" for cs'
    using that by (rule list_all2_mono) (rule resolves_mono [OF _ assms(2)])
  then show ?thesis using assms(1) set_mono_suffix [OF assms(2)] unfolding admitted_in_def by blast
qed

definition admission_passed :: "PVCAdmissionChange list \<Rightarrow> 's hist \<Rightarrow> bool" where
  "admission_passed cs h \<longleftrightarrow> (case cs of [] \<Rightarrow> True | c # _ \<Rightarrow>
     (let ns = TrimSpace (ac_Namespace c) in
       ns \<noteq> [] \<and> list_all (\<lambda>c. \<not> bad_change ns c) cs \<and> admitted_in ns cs h))"

lemma admission_passed_mono: "admission_passed cs h \<Longrightarrow> suffix h h' \<Longrightarrow> admission_passed cs h'"
  by (auto simp: admission_passed_def Let_def intro: admitted_in_mono split: list.splits)

lemma admitted_inI:
  assumes "suffix (EvListLimitRanges ns ls # EvListQuotas ns qs # h0) h" "list_all2 (resolves h) cs cs'"
    and "\<forall>q\<in>set (present_items qs). quota_violations cs' q = []"
    and "\<forall>l\<in>set (present_items ls). limit_range_violations cs' l = []"
  shows "admitted_in ns cs h"
  using assms set_mono_suffix [OF assms(1)] unfolding admitted_in_def
  by (auto simp: quota_violations_iff limit_range_violations_iff)

lemma CheckPVCAdmissionPolicies_wp:
  "wp only_reads (CheckPVCAdmissionPolicies w True cs)
     (\<lambda>r h'. \<forall>rep. r = Inr rep \<longrightarrow> pr_QuotaViolations rep = [] \<longrightarrow> pr_LimitRangeViolations rep = []
        \<longrightarrow> admission_passed cs h') h"
proof (cases cs)
  case Nil
  then show ?thesis by (simp add: CheckPVCAdmissionPolicies_def io_rules admission_passed_def)
next
  case (Cons c cs1)
  note calls = wp_conseq [OF resolve_wp]
  show ?thesis
    unfolding CheckPVCAdmissionPolicies_def ReadNamespaceResourcePolicies_def Cons admission_passed_def
    by (auto simp: io_rules guard_simps Let_def list_ex_iff list_all_iff split: sum.splits intro!: io_intros calls)
       (rule admitted_inI; assumption)
qed

lemma CheckPVCAdmissionPolicies_result_wp:
  "wp only_reads (CheckPVCAdmissionPolicies w True cs)
     (\<lambda>r h'. admission_result r = Inr () \<longrightarrow> admission_passed cs h') h"
  by (rule wp_conseq [OF CheckPVCAdmissionPolicies_wp])
     (simp_all add: admission_result_def split: sum.splits if_splits)

lemma list_all2_member: "list_all2 P xs ys \<Longrightarrow> x \<in> set xs \<Longrightarrow> \<exists>y\<in>set ys. P x y"
  by (induction rule: list_all2_induct) auto

lemma map_Inr_all: "map f rs = map Inr us \<Longrightarrow> r \<in> set rs \<Longrightarrow> \<exists>u. f r = Inr u"
  by (induction rs us rule: list_induct2') auto

lemma validateMigrationPVCAdmission_wp:
  assumes "distinct (map fst groups)"
  shows "wp only_reads (validateMigrationPVCAdmission w groups)
     (\<lambda>r h'. r = Inr () \<longrightarrow> (\<forall>(ns, cs)\<in>set groups. admission_passed cs h')) h"
proof -
  define cs where "cs = (\<lambda>ns. case map_of groups ns of None \<Rightarrow> [] | Some cs \<Rightarrow> cs)"
  have "wp only_reads (io_map (\<lambda>ns. CheckPVCAdmissionPolicies w True (cs ns)) nss)
      (\<lambda>rs h'. list_all2 (\<lambda>ns r. admission_result r = Inr () \<longrightarrow> admission_passed (cs ns) h') nss rs) h" for nss
    by (rule wp_io_map, rule CheckPVCAdmissionPolicies_result_wp) (blast intro: admission_passed_mono)
  note calls = wp_conseq [OF this]
  have passed: "admission_passed c h'"
    if all: "list_all2 (\<lambda>ns r. admission_result r = Inr () \<longrightarrow> admission_passed (cs ns) h') (sort (map fst groups)) rs"
      and ok: "map admission_result rs = map Inr us" and ns: "(ns, c) \<in> set groups" for rs us ns c h'
  proof -
    have "ns \<in> set (sort (map fst groups))" using ns by force
    then obtain r where "r \<in> set rs" "admission_result r = Inr () \<longrightarrow> admission_passed (cs ns) h'"
      using list_all2_member [OF all] by blast
    moreover have "cs ns = c" using ns assms by (simp add: cs_def)
    ultimately show ?thesis using map_Inr_all [OF ok] by auto
  qed
  have "validateMigrationPVCAdmission w groups =
      io_bind (io_map (\<lambda>ns. CheckPVCAdmissionPolicies w True (cs ns)) (sort (map fst groups))) (\<lambda>rs.
        io_ret (map_sum id (\<lambda>_. ()) (first_err (map admission_result rs))))"
    by (simp add: validateMigrationPVCAdmission_def cs_def)
  then show ?thesis
    by (simp add: io_rules)
       (rule calls; auto simp: io_rules first_err_Inr map_sum_def split: sum.splits intro: passed)
qed


definition quota_world :: "unit world" where
  "quota_world = (static_world (\<lambda>ns n. Inl (ApiError NotFound)) (\<lambda>n. Inl (ApiError NotFound)))
     \<lparr>w_list_quotas := (\<lambda>h ns. Inr (Some [demo_quota]))\<rparr>"


section \<open>Class-scoped resource names\<close>

text \<open>A separator that ends in its only occurrence of a letter is found where it was joined, if the
  part before it lacks the letter: the infix ends in its only slash, and class names have none.\<close>

lemma strings_Cut_append:
  assumes "x \<notin> set cls" "x \<notin> set b"
  shows "strings_Cut (cls @ (b @ [x]) @ r) (b @ [x]) = Some (cls, r)"
  using assms(1)
proof (induction cls)
  case Nil
  have "prefix (b @ [x]) (b @ x # r)" by (simp add: prefix_def)
  then show ?case by (cases b) simp_all
next
  case (Cons c cls)
  have "\<not> prefix (b @ [x]) (c # cls @ b @ x # r)"
  proof
    assume "prefix (b @ [x]) (c # cls @ b @ x # r)"
    then obtain z where "c # cls @ b @ x # r = b @ x # z" by (auto simp: prefix_def)
    then have "takeWhile (\<lambda>y. y \<noteq> x) ((c # cls @ b) @ x # r) = takeWhile (\<lambda>y. y \<noteq> x) (b @ x # z)"
      by (intro arg_cong [of _ _ "takeWhile _"]) simp
    moreover have "takeWhile (\<lambda>y. y \<noteq> x) (b @ x # z) = b"
      using assms(2) by (subst takeWhile_append2) auto
    moreover have "takeWhile (\<lambda>y. y \<noteq> x) ((c # cls @ b) @ x # r) = c # cls @ b"
      using Cons.prems assms(2) by (subst takeWhile_append2) auto
    ultimately have "length (c # cls @ b) = length b" by (simp only:)
    then show False by simp
  qed
  with Cons show ?case by simp
qed

lemma split_join_StorageClassQuotaResourceName:
  "CHR ''/'' \<notin> set cls \<Longrightarrow>
   splitStorageClassQuotaResourceName (storageClassQuotaResourceName cls r) = (cls, r, True)"
  using strings_Cut_append [of "CHR ''/''" cls "''.storageclass.storage.k8s.io''" r]
  by (simp add: splitStorageClassQuotaResourceName_def storageClassQuotaResourceName_def
      storageClassQuotaResourceInfix_def)

end
