(* ===== verification/ToolScheduling.thy ===== *)
theory ToolScheduling
  imports Effects Paths
begin

text \<open>
  Where tool Pods may run and what they are started with: node and topology predicates
  (\<^verbatim>\<open>internal/kube/resource_state.go\<close>, the node part of \<^verbatim>\<open>reserver.go\<close>), the tool image
  (\<^verbatim>\<open>tool_image.go\<close>), the chart values of a transfer and its service account
  (\<^verbatim>\<open>tool_scheduling.go\<close>, \<^verbatim>\<open>resources.go\<close>, \<^verbatim>\<open>ToolImagePullSecretHelmValues\<close> of \<^verbatim>\<open>tool_probe.go\<close>,
  \<^verbatim>\<open>helmSchedulingValues\<close> of \<^verbatim>\<open>app/volume_copy_runner.go\<close>). The parser of image references and the
  check of DNS labels are functions of other modules, the fields of a \<open>tool_lib\<close>.
\<close>

section \<open>Nodes\<close>

definition condition_true :: "string \<Rightarrow> (string \<times> string) list \<Rightarrow> bool" where
  "condition_true ty conditions =
     (case find (\<lambda>c. fst c = ty) conditions of None \<Rightarrow> False | Some c \<Rightarrow> snd c = ''True'')"

definition NodeReady :: "node \<Rightarrow> bool" where
  "NodeReady n = condition_true ''Ready'' (n_Conditions n)"

definition NodeReadyAndSchedulable :: "node \<Rightarrow> bool" where
  "NodeReadyAndSchedulable n = (NodeReady n \<and> \<not> n_Unschedulable n)"

definition PodReady :: "pod \<Rightarrow> bool" where
  "PodReady p = condition_true ''Ready'' (p_Conditions p)"

definition StorageClassAllowsNode :: "StorageClass \<Rightarrow> node \<Rightarrow> bool" where
  "StorageClassAllowsNode sc n =
     (sc_AllowedTopologies sc = [] \<or>
      list_ex (\<lambda>expressions. expressions \<noteq> [] \<and>
        list_all (\<lambda>(key, values). case n_Labels n key of None \<Rightarrow> False | Some actual \<Rightarrow> actual \<in> set values) expressions)
        (sc_AllowedTopologies sc))"

definition hard_taint :: "Taint \<Rightarrow> bool" where
  "hard_taint t = (ta_Effect t = ''NoSchedule'' \<or> ta_Effect t = ''NoExecute'')"

definition nodeHasHardSchedulingTaint :: "node \<Rightarrow> bool" where
  "nodeHasHardSchedulingTaint n = list_ex hard_taint (n_Taints n)"

definition OpStorageTopology :: string where "OpStorageTopology = ''storage topology''"

definition ValidateStorageClassPlacement :: "'s world \<Rightarrow> string \<Rightarrow> string \<Rightarrow> (unit res, 's) io" where
  "ValidateStorageClassPlacement w storageClassName targetNode =
     (if storageClassName = [] then io_ret (Inl (NewError ErrorValidation OpStorageTopology))
      else io_bind (get_storage_class w storageClassName) (\<lambda>g. case g of
        Inl err \<Rightarrow> io_ret (Inl (WrapError ErrorPrecondition OpStorageTopology err))
      | Inr sc \<Rightarrow>
          if targetNode \<noteq> []
          then io_bind (get_node w targetNode) (\<lambda>g. io_ret (case g of
                Inl err \<Rightarrow> Inl (WrapError ErrorPrecondition OpStorageTopology err)
              | Inr n \<Rightarrow>
                  if \<not> NodeReadyAndSchedulable n then Inl (NewError ErrorPrecondition OpStorageTopology)
                  else if \<not> StorageClassAllowsNode sc n then Inl (NewError ErrorPrecondition OpStorageTopology)
                  else Inr ()))
          else io_bind (list_nodes w) (\<lambda>l. io_ret (case l of
                Inl err \<Rightarrow> Inl (WrapError ErrorPrecondition OpStorageTopology err)
              | Inr nodes \<Rightarrow>
                  if list_ex (\<lambda>n. NodeReadyAndSchedulable n \<and> \<not> nodeHasHardSchedulingTaint n
                       \<and> StorageClassAllowsNode sc n) nodes
                  then Inr () else Inl (NewError ErrorPrecondition OpStorageTopology)))))"

definition nodeTolerations :: "node \<Rightarrow> Toleration list" where
  "nodeTolerations n =
     map (\<lambda>t. \<lparr>to_Key = ta_Key t, to_Operator = (if ta_Value t = [] then ''Exists'' else ''Equal''),
           to_Value = ta_Value t, to_Effect = ta_Effect t\<rparr>) (filter hard_taint (n_Taints n))"

text \<open>\<^verbatim>\<open>strconv.ParseInt(s, 10, 64)\<close>: an optional sign and decimal digits, in the range of an int64.\<close>

definition digit_value :: "char \<Rightarrow> int option" where
  "digit_value c = (if CHR ''0'' \<le> c \<and> c \<le> CHR ''9'' then Some (int (of_char c) - 48) else None)"

fun parse_digits :: "int \<Rightarrow> string \<Rightarrow> int option" where
  "parse_digits acc [] = Some acc"
| "parse_digits acc (c # cs) = (case digit_value c of None \<Rightarrow> None | Some d \<Rightarrow> parse_digits (10 * acc + d) cs)"

definition unsigned_digits :: "string \<Rightarrow> int option" where
  "unsigned_digits s = (if s = [] then None else parse_digits 0 s)"

definition ParseInt64 :: "string \<Rightarrow> int option" where
  "ParseInt64 s =
     (let value = (case s of
          [] \<Rightarrow> None
        | c # cs \<Rightarrow> if c = CHR ''+'' then unsigned_digits cs
            else if c = CHR ''-'' then map_option uminus (unsigned_digits cs)
            else unsigned_digits s)
      in case value of None \<Rightarrow> None | Some v \<Rightarrow> if - (2 ^ 63) \<le> v \<and> v < 2 ^ 63 then Some v else None)"

definition nodeRequirementMatches :: "NodeSelectorRequirement \<Rightarrow> string option \<Rightarrow> bool" where
  "nodeRequirementMatches q actual =
     (case nr_Operator q of
        NodeSelectorOpIn \<Rightarrow> (case actual of None \<Rightarrow> False | Some v \<Rightarrow> v \<in> set (nr_Values q))
      | NodeSelectorOpNotIn \<Rightarrow> (case actual of None \<Rightarrow> True | Some v \<Rightarrow> v \<notin> set (nr_Values q))
      | NodeSelectorOpExists \<Rightarrow> actual \<noteq> None
      | NodeSelectorOpDoesNotExist \<Rightarrow> actual = None
      | NodeSelectorOpOther _ \<Rightarrow> False
      | _ \<Rightarrow> (case (actual, nr_Values q) of
            (Some v, [bound]) \<Rightarrow>
              (case (ParseInt64 v, ParseInt64 bound) of
                 (Some left, Some right) \<Rightarrow>
                   if nr_Operator q = NodeSelectorOpGt then left > right else left < right
               | _ \<Rightarrow> False)
          | _ \<Rightarrow> False))"

definition nodeFieldValue :: "node \<Rightarrow> string \<Rightarrow> string option" where
  "nodeFieldValue n key =
     (if key = ''metadata.name'' then (if n_Name n \<noteq> [] then Some (n_Name n) else None)
      else if key = ''metadata.uid'' then (if n_UID n \<noteq> [] then Some (n_UID n) else None)
      else None)"

definition LabelHostname :: string where "LabelHostname = ''kubernetes.io/hostname''"

text \<open>The value a match expression sees: the label, or the name of the node for a missing hostname.\<close>

definition node_label :: "node \<Rightarrow> string \<Rightarrow> string option" where
  "node_label n key =
     (case n_Labels n key of
        Some v \<Rightarrow> Some v
      | None \<Rightarrow> if key = LabelHostname \<and> n_Name n \<noteq> [] then Some (n_Name n) else None)"

definition term_matches :: "node \<Rightarrow> NodeSelectorTerm \<Rightarrow> bool" where
  "term_matches n t =
     (list_all (\<lambda>q. nodeRequirementMatches q (node_label n (nr_Key q))) (nt_MatchExpressions t) \<and>
      list_all (\<lambda>q. nodeRequirementMatches q (nodeFieldValue n (nr_Key q))) (nt_MatchFields t))"

definition PVSupportsNode :: "pv \<Rightarrow> node \<Rightarrow> bool" where
  "PVSupportsNode v n = (v_RequiredNodeTerms v = [] \<or> list_ex (term_matches n) (v_RequiredNodeTerms v))"

fun unique_node :: "pv \<Rightarrow> string \<Rightarrow> node list \<Rightarrow> string" where
  "unique_node v candidate [] = candidate"
| "unique_node v candidate (n # ns) =
     (if \<not> PVSupportsNode v n then unique_node v candidate ns
      else if candidate \<noteq> [] then []
      else unique_node v (n_Name n) ns)"

definition PVUniqueNodeName :: "pv option \<Rightarrow> node list \<Rightarrow> string" where
  "PVUniqueNodeName pv nodes =
     (case pv of None \<Rightarrow> []
      | Some v \<Rightarrow> if v_RequiredNodeTerms v = [] then [] else unique_node v [] nodes)"

section \<open>Tool images and chart values\<close>

record tool_lib =
  tl_ParseNormalizedNamed :: "string \<Rightarrow> (string \<times> string option) option"
  tl_IsDNS1123Label :: "string \<Rightarrow> bool"

definition DefaultToolImageRepository :: string where
  "DefaultToolImageRepository = ''ghcr.io/labring-sigs/pvc-migrate''"

definition OpToolImage :: string where "OpToolImage = ''tool image''"

definition NormalizeToolImage :: "tool_lib \<Rightarrow> string \<Rightarrow> string res" where
  "NormalizeToolImage lib requested =
     (let trimmed = TrimSpace requested;
          image_ref = (if trimmed = [] then DefaultToolImageRepository @ '':main'' else trimmed) in
      if CHR ''@'' \<in> set image_ref then Inl (NewError ErrorValidation OpToolImage)
      else case tl_ParseNormalizedNamed lib image_ref of
        None \<Rightarrow> Inl (WrapError ErrorValidation OpToolImage PlainError)
      | Some (name, tag) \<Rightarrow>
          (case tag of
             None \<Rightarrow> Inl (NewError ErrorValidation OpToolImage)
           | Some t \<Rightarrow> if t = [] then Inl (NewError ErrorValidation OpToolImage) else Inr (name @ '':'' @ t)))"

text \<open>\<^verbatim>\<open>%d\<close> of a natural number.\<close>

fun decimal :: "nat \<Rightarrow> string" where
  "decimal n = (if n < 10 then [char_of (48 + n)] else decimal (n div 10) @ [char_of (48 + n mod 10)])"

declare decimal.simps [simp del]

definition ZeroResourceHelmValues :: "string list" where
  "ZeroResourceHelmValues =
     concat (map (\<lambda>component. map (\<lambda>resourceName. component @ ''.resources.'' @ resourceName @ ''=0'')
         [''requests.cpu'', ''requests.memory'', ''requests.ephemeral-storage'', ''limits.cpu'', ''limits.memory''])
       [''rsync'', ''sshd'', ''rclone''])"

definition taint_values :: "string \<Rightarrow> nat \<times> Taint \<Rightarrow> string list" where
  "taint_values component it =
     (let t = snd it; prefix = component @ ''.tolerations['' @ decimal (fst it) @ '']'' in
      [prefix @ ''.key='' @ ta_Key t, prefix @ ''.effect='' @ ta_Effect t] @
      (if ta_Value t = [] then [prefix @ ''.operator=Exists'']
       else [prefix @ ''.operator=Equal'', prefix @ ''.value='' @ ta_Value t]))"

text \<open>The hard taints of the nodes, each signature once, in the order of their first occurrence.\<close>

definition taint_signature :: "Taint \<Rightarrow> string" where
  "taint_signature t = ta_Key t @ [CHR 0x00] @ ta_Value t @ [CHR 0x00] @ ta_Effect t"

fun distinct_taints :: "string list \<Rightarrow> Taint list \<Rightarrow> Taint list" where
  "distinct_taints seen [] = []"
| "distinct_taints seen (t # ts) =
     (if \<not> hard_taint t \<or> taint_signature t \<in> set seen then distinct_taints seen ts
      else t # distinct_taints (taint_signature t # seen) ts)"

definition ToolComponentTolerationHelmValues :: "string \<Rightarrow> node list \<Rightarrow> string list" where
  "ToolComponentTolerationHelmValues component nodes =
     concat (map (taint_values component) (enumerate 0 (distinct_taints [] (concat (map n_Taints nodes)))))"

definition TransferServiceAccountName :: string where "TransferServiceAccountName = ''pvc-migrate-transfer''"
definition transferServiceAccountLabel :: string where
  "transferServiceAccountLabel = ''migrate.sealos.io/transfer-service-account''"
definition transferServiceAccountValue :: string where "transferServiceAccountValue = ''no-token''"

record HelmOverrides =
  ho_Values :: "string list"
  ho_StringValues :: "string list"

definition TransferServiceAccountHelmValues :: HelmOverrides where
  "TransferServiceAccountHelmValues =
     \<lparr>ho_Values = [''sshd.serviceAccount.create=false'', ''rsync.serviceAccount.create=false''],
      ho_StringValues = [''sshd.serviceAccount.name='' @ TransferServiceAccountName,
        ''rsync.serviceAccount.name='' @ TransferServiceAccountName]\<rparr>"

section \<open>The service account of a transfer\<close>

definition OpTransferIdentity :: string where "OpTransferIdentity = ''transfer identity''"

definition transfer_account :: "string \<Rightarrow> ServiceAccount" where
  "transfer_account ns =
     \<lparr>sa_Namespace = ns, sa_Name = TransferServiceAccountName,
      sa_Labels = [ManagedByLabel \<mapsto> ManagedByValue, transferServiceAccountLabel \<mapsto> transferServiceAccountValue],
      sa_AutomountServiceAccountToken = Some False\<rparr>"

definition load_or_create_account :: "'s world \<Rightarrow> string \<Rightarrow> (ServiceAccount option res, 's) io" where
  "load_or_create_account w ns =
     io_bind (get_service_account w ns TransferServiceAccountName) (\<lambda>g. case g of
       Inr a \<Rightarrow> io_ret (Inr a)
     | Inl err \<Rightarrow>
         if \<not> IsNotFound err then io_ret (Inl err)
         else io_bind (create_service_account w (transfer_account ns)) (\<lambda>r. case r of
             Inr a \<Rightarrow> io_ret (Inr a)
           | Inl err \<Rightarrow>
               if IsAlreadyExists err then get_service_account w ns TransferServiceAccountName
               else io_ret (Inl err)))"

definition account_attempt :: "'s world \<Rightarrow> string \<Rightarrow> (unit res, 's) io" where
  "account_attempt w ns =
     io_try (fence_check w) (\<lambda>_.
     io_try (load_or_create_account w ns) (\<lambda>account. case account of
       None \<Rightarrow> io_ret (Inl PlainError)
     | Some a \<Rightarrow>
         if mget (sa_Labels a) ManagedByLabel \<noteq> ManagedByValue
            \<or> mget (sa_Labels a) transferServiceAccountLabel \<noteq> transferServiceAccountValue
         then io_ret (Inl (NewError ErrorConflict OpTransferIdentity))
         else if sa_AutomountServiceAccountToken a \<noteq> Some False
         then io_try (fence_check w) (\<lambda>_.
              io_bind (update_service_account w (a\<lparr>sa_AutomountServiceAccountToken := Some False\<rparr>)) (\<lambda>r.
              fence_check_after w (err_of r)))
         else fence_check_after w None))"

definition EnsureTransferServiceAccount :: "tool_lib \<Rightarrow> 's world \<Rightarrow> string \<Rightarrow> (unit res, 's) io" where
  "EnsureTransferServiceAccount lib w requested =
     (let ns = TrimSpace requested in
      if ns = [] then io_ret (Inl (NewError ErrorValidation OpTransferIdentity))
      else if \<not> tl_IsDNS1123Label lib ns then io_ret (Inl (NewError ErrorValidation OpTransferIdentity))
      else io_bind (w_retry w (account_attempt w ns)) (\<lambda>r. io_ret (case r of
          Inr u \<Rightarrow> Inr u
        | Inl err \<Rightarrow> if CategoryOf err = ErrorConflict then Inl err else Inl (WrapError ErrorKubernetes OpTransferIdentity err))))"

section \<open>Probe results and the values of a transfer\<close>

text \<open>What is asked of the image prober (\<^verbatim>\<open>kube/tool_probe.go\<close>) and what it returns; time limits and
  writers are left out.\<close>

record ToolProbeTarget =
  pt_Namespace :: string
  pt_NodeName :: string
  pt_PVCName :: string
  pt_WritablePVCMount :: bool
  pt_RequiredPath :: string
  pt_CreatePath :: bool
  pt_Components :: "string list"

record ToolImageProbeOptions =
  po_OperationID :: string
  po_Image :: string
  po_Targets :: "ToolProbeTarget list"

record ToolImageProbeResult =
  pr_Target :: ToolProbeTarget
  pr_NodeName :: string
  pr_ImagePullSecrets :: "string list"

definition ToolComponentRsync :: string where "ToolComponentRsync = ''rsync''"
definition ToolComponentSSHD :: string where "ToolComponentSSHD = ''sshd''"
definition ToolComponentRclone :: string where "ToolComponentRclone = ''rclone''"
definition StrategyMount :: string where "StrategyMount = ''mount''"
definition StrategyLocal :: string where "StrategyLocal = ''local''"
definition OpToolImageProbe :: string where "OpToolImageProbe = ''tool image probe''"

definition probedSourceNode :: "string \<Rightarrow> ObjectReference \<Rightarrow> ToolImageProbeResult list \<Rightarrow> string" where
  "probedSourceNode sourceNode source results =
     (if sourceNode \<noteq> [] then sourceNode
      else case find (\<lambda>r. pt_Namespace (pr_Target r) = r_Namespace source \<and> pt_PVCName (pr_Target r) = r_Name source
             \<and> ToolComponentSSHD \<in> set (pt_Components (pr_Target r))) results of
        None \<Rightarrow> [] | Some r \<Rightarrow> pr_NodeName r)"

text \<open>The pull secrets per component and namespace, as the loop collects them.\<close>

definition sorted_secrets :: "string list \<Rightarrow> string list" where
  "sorted_secrets names = sort (remdups (filter (\<lambda>n. n \<noteq> []) names))"

fun collect_secrets ::
    "(string \<times> string \<rightharpoonup> string list) \<Rightarrow> (string \<times> ToolImageProbeResult) list \<Rightarrow>
     (string \<times> string \<rightharpoonup> string list) res" where
  "collect_secrets m [] = Inr m"
| "collect_secrets m ((component, r) # rest) =
     (if component \<notin> {ToolComponentRsync, ToolComponentSSHD, ToolComponentRclone} then collect_secrets m rest
      else let key = (component, pt_Namespace (pr_Target r)); secrets = sorted_secrets (pr_ImagePullSecrets r) in
        case m key of
          Some previous \<Rightarrow>
            if previous \<noteq> secrets then Inl (NewError ErrorPrecondition OpToolImageProbe)
            else collect_secrets (m(key \<mapsto> secrets)) rest
        | None \<Rightarrow> collect_secrets (m(key \<mapsto> secrets)) rest)"

text \<open>The namespaces of a component must agree. Go visits them in some order; all equal, or an error.\<close>

definition component_secrets ::
    "(string \<times> string \<rightharpoonup> string list) \<Rightarrow> string list \<Rightarrow> string \<Rightarrow> string list res" where
  "component_secrets m namespaces component =
     (case List.map_filter (\<lambda>ns. m (component, ns)) namespaces of
        [] \<Rightarrow> Inr []
      | first # rest \<Rightarrow>
          if list_all (\<lambda>names. names = first) rest
          then Inr (map (\<lambda>(i, n). component @ ''.imagePullSecrets['' @ decimal i @ ''].name='' @ n) (enumerate 0 first))
          else Inl (NewError ErrorPrecondition OpToolImageProbe))"

definition ToolImagePullSecretHelmValues :: "ToolImageProbeResult list \<Rightarrow> string list res" where
  "ToolImagePullSecretHelmValues results =
     (case collect_secrets Map.empty (concat (map (\<lambda>r. map (\<lambda>c. (c, r)) (pt_Components (pr_Target r))) results)) of
        Inl err \<Rightarrow> Inl err
      | Inr m \<Rightarrow>
          (let namespaces = remdups (map (\<lambda>r. pt_Namespace (pr_Target r)) results) in
           case (component_secrets m namespaces ToolComponentRsync, component_secrets m namespaces ToolComponentSSHD,
             component_secrets m namespaces ToolComponentRclone) of
             (Inl err, _, _) \<Rightarrow> Inl err
           | (_, Inl err, _) \<Rightarrow> Inl err
           | (_, _, Inl err) \<Rightarrow> Inl err
           | (Inr a, Inr b, Inr c) \<Rightarrow> Inr (a @ b @ c)))"

definition OpCopyScheduling :: string where "OpCopyScheduling = ''copy scheduling''"

record schedulingTarget =
  st_component :: string
  st_nodes :: "string list"
  st_pinNode :: bool

definition scheduling_targets :: "string \<Rightarrow> string \<Rightarrow> string list \<Rightarrow> schedulingTarget list" where
  "scheduling_targets sourceNode targetNode strategies =
     [\<lparr>st_component = ''rsync'', st_nodes = [targetNode], st_pinNode = True\<rparr>,
      if StrategyLocal \<in> set strategies
      then \<lparr>st_component = ''sshd'', st_nodes = [sourceNode, targetNode], st_pinNode = False\<rparr>
      else \<lparr>st_component = ''sshd'', st_nodes = [sourceNode], st_pinNode = True\<rparr>]"

text \<open>Each non-empty name once, in the order of its first occurrence.\<close>

definition node_names :: "string list \<Rightarrow> string list" where
  "node_names names = rev (remdups (rev (filter (\<lambda>n. n \<noteq> []) names)))"

fun component_nodes :: "(string \<Rightarrow> node res) \<Rightarrow> schedulingTarget \<Rightarrow> string list \<Rightarrow> (node list \<times> string list) res" where
  "component_nodes read target [] = Inr ([], [])"
| "component_nodes read target (name # names) =
     (case read name of
        Inl err \<Rightarrow> Inl (WrapError ErrorKubernetes OpCopyScheduling err)
      | Inr n \<Rightarrow>
          if n_Name n = [] then Inl (NewError ErrorKubernetes OpCopyScheduling)
          else if st_pinNode target \<and> mget (n_Labels n) LabelHostname = []
          then Inl (NewError ErrorPrecondition OpCopyScheduling)
          else (case component_nodes read target names of
              Inl err \<Rightarrow> Inl err
            | Inr (nodes, values) \<Rightarrow> Inr (n # nodes,
                (if st_pinNode target
                 then [st_component target @ ''.nodeSelector.kubernetes'' @ [CHR 0x5C] @ ''.io/hostname=''
                         @ mget (n_Labels n) LabelHostname]
                 else []) @ values)))"

fun target_values :: "(string \<Rightarrow> node res) \<Rightarrow> schedulingTarget list \<Rightarrow> string list res" where
  "target_values read [] = Inr []"
| "target_values read (target # targets) =
     (case component_nodes read target (node_names (st_nodes target)) of
        Inl err \<Rightarrow> Inl err
      | Inr (nodes, values) \<Rightarrow>
          (case target_values read targets of
             Inl err \<Rightarrow> Inl err
           | Inr rest \<Rightarrow> Inr (values @ ToolComponentTolerationHelmValues (st_component target) nodes @ rest)))"

text \<open>The nodes are read in parallel, each once; the reads do not depend on each other.\<close>

definition helmSchedulingValues :: "'s world \<Rightarrow> string \<Rightarrow> string \<Rightarrow> string list \<Rightarrow> (string list res, 's) io" where
  "helmSchedulingValues w sourceNode targetNode strategies =
     (let targets = scheduling_targets sourceNode targetNode strategies;
          names = node_names (concat (map st_nodes targets)) in
      io_bind (io_map (get_node w) names) (\<lambda>results. io_ret (
        case target_values (\<lambda>n. case map_of (zip names results) n of None \<Rightarrow> Inl PlainError | Some r \<Rightarrow> r) targets of
          Inl err \<Rightarrow> Inl err
        | Inr values \<Rightarrow> Inr (ZeroResourceHelmValues @ values))))"

section \<open>What these do\<close>

text \<open>A placement is read, a service account may be created or repaired; nothing else changes.\<close>

definition account_guard :: "'s event \<Rightarrow> 's hist \<Rightarrow> bool" where
  "account_guard e h \<longleftrightarrow> is_read e \<or> (\<exists>a r. e = EvCreateServiceAccount a r \<and> sa_AutomountServiceAccountToken a = Some False)
     \<or> (\<exists>a r. e = EvUpdateServiceAccount a r \<and> fenced h \<and> sa_AutomountServiceAccountToken a = Some False)"

lemma account_guard_read [simp]: "is_read e \<Longrightarrow> account_guard e h"
  by (simp add: account_guard_def)

lemma account_guard_quiet: "account_guard e h \<Longrightarrow> \<not> writes_storage e"
  by (auto simp: account_guard_def is_read_no_write)

lemma ValidateStorageClassPlacement_wp: "wp only_reads (ValidateStorageClassPlacement w sc n) (\<lambda>_ _. True) h"
  unfolding ValidateStorageClassPlacement_def
  by (auto simp: io_rules guard_simps split: sum.splits intro!: io_intros)

lemma account_guard_writes:
  "account_guard (EvCreateServiceAccount (transfer_account ns) r) h"
  "account_guard (EvUpdateServiceAccount (a\<lparr>sa_AutomountServiceAccountToken := Some False\<rparr>) r) (EvCheck None None # h)"
  by (simp_all add: account_guard_def transfer_account_def)

lemma load_or_create_account_wp: "wp account_guard (load_or_create_account w ns) (\<lambda>_ _. True) h"
  unfolding load_or_create_account_def
  by (auto simp: io_rules account_guard_writes split: sum.splits intro!: io_intros)

lemma account_attempt_wp: "wp account_guard (account_attempt w ns) (\<lambda>_ _. True) h"
  unfolding account_attempt_def
  by (auto simp: io_rules account_guard_writes split: sum.splits option.splits
      intro!: io_intros wp_conseq [OF load_or_create_account_wp])

lemma EnsureTransferServiceAccount_wp:
  assumes "retry_contract w"
  shows "wp account_guard (EnsureTransferServiceAccount lib w ns) (\<lambda>_ _. True) h"
  unfolding EnsureTransferServiceAccount_def Let_def
  by (auto simp: io_rules intro!: wp_conseq [OF wp_retry [OF assms account_attempt_wp]])

lemma helmSchedulingValues_wp: "wp only_reads (helmSchedulingValues w a b c) (\<lambda>_ _. True) h"
proof -
  have reads: "wp only_reads (io_map (get_node w) names) (\<lambda>_ _. True) h" for names h
    by (rule wp_conseq [OF wp_io_map [where R = "\<lambda>_ _ _. True"]]) (auto simp: guard_simps intro!: io_intros)
  show ?thesis unfolding helmSchedulingValues_def Let_def by (auto simp: io_rules intro!: wp_conseq [OF reads])
qed

text \<open>\<^verbatim>\<open>PVUniqueNodeName\<close> names a node only when it is the only one that the volume supports.\<close>

lemma unique_node_spec:
  assumes "\<forall>n\<in>set nodes. n_Name n \<noteq> []"
  shows "unique_node v candidate nodes = (case filter (PVSupportsNode v) nodes of
      [] \<Rightarrow> candidate
    | [n] \<Rightarrow> if candidate = [] then n_Name n else []
    | _ \<Rightarrow> [])"
  using assms by (induction v candidate nodes rule: unique_node.induct) (auto split: list.splits)

end
