(* ===== verification/VolumeCopy.thy ===== *)
theory VolumeCopy
  imports Activation StaticWorld Names ToolScheduling
begin

text \<open>
  Copying the data of one volume: checkpoints under the lease fence
  (\<^verbatim>\<open>internal/app/lifecycle.go\<close>, \<^verbatim>\<open>copy_checkpoint.go\<close>), the transfer attempts with their retries and
  back-off (\<^verbatim>\<open>internal/app/volume_copy.go\<close>), and the removal of the transfer tools of an attempt
  (\<^verbatim>\<open>internal/app/volume_copy_runner.go\<close>, \<^verbatim>\<open>OperationID\<close> of \<^verbatim>\<open>copyengine/pvmigrate.go\<close>). The copy engine
  itself is a field of the world.

  What the tool logs showed, the text of an error and the test for a full destination, which reads that
  text, are arguments.
\<close>

section \<open>Checkpoints\<close>

definition checkpointFenceError :: "'s world \<Rightarrow> (unit res, 's) io" where
  "checkpointFenceError w =
     io_bind (ctx_state w) (\<lambda>(c, f). io_ret (case c of Some e \<Rightarrow> Inl e | None \<Rightarrow> to_res f))"

definition persistCheckpoint :: "'s world \<Rightarrow> (unit res, 's) io option \<Rightarrow> (unit res, 's) io" where
  "persistCheckpoint w save =
     (case save of
        None \<Rightarrow> io_ret (Inl (NewError ErrorInternal OpCheckpoint))
      | Some m \<Rightarrow> io_try (checkpointFenceError w) (\<lambda>_. io_try m (\<lambda>_. checkpointFenceError w)))"

section \<open>Back-off\<close>

text \<open>\<^verbatim>\<open>time.Duration\<close> is an \<^verbatim>\<open>int64\<close>: products wrap, and a conversion to \<^verbatim>\<open>uint64\<close> keeps the bits. The
  index of a retry is never negative.\<close>

definition MaxInt64 :: "64 word" where
  "MaxInt64 = 9223372036854775807"

definition retryBackoffDelay :: "64 word \<Rightarrow> 64 word \<Rightarrow> 64 word" where
  "retryBackoffDelay base retryIndex =
     (if sint base \<le> 0 then 0
      else let multiple = push_bit (unat (if sint retryIndex \<le> 62 then retryIndex else 62)) 1 :: 64 word in
        if base > MaxInt64 div multiple then MaxInt64 else base * multiple)"

section \<open>The tools of an attempt\<close>

definition OpCopyCleanup :: string where "OpCopyCleanup = ''copy cleanup''"
definition OpCopyAttempt :: string where "OpCopyAttempt = ''copy attempt''"
definition OpCopyCapacity :: string where "OpCopyCapacity = ''copy capacity''"
definition OpCopyRetry :: string where "OpCopyRetry = ''copy retry''"

definition AppInstanceLabel :: string where "AppInstanceLabel = ''app.kubernetes.io/instance''"
definition AppComponentLabel :: string where "AppComponentLabel = ''app.kubernetes.io/component''"

definition tool_components :: "string list" where
  "tool_components = [''sshd'', ''rsync'', ''rclone'']"

text \<open>\<^verbatim>\<open>fmt.Sprintf("%d", n)\<close>.\<close>

definition signed_decimal :: "int \<Rightarrow> string" where
  "signed_decimal i = (if i < 0 then ''-'' else []) @ decimal (nat \<bar>i\<bar>)"

definition mode_text :: "CopyMode \<Rightarrow> string" where
  "mode_text m = (case m of ModeWarm \<Rightarrow> ''warm'' | ModeFinal \<Rightarrow> ''final'')"

definition OperationID :: "AttemptIdentity \<Rightarrow> string" where
  "OperationID request =
     ''pm-'' @ hex_encode (take 8 (sha256
       (ai_SessionID request @ ''/'' @ r_Namespace (ai_Source request) @ ''/'' @ r_Name (ai_Source request) @
        ''/'' @ mode_text (ai_Mode request) @ ''/'' @ signed_decimal (ai_Attempt request))))"

definition pvmigrateToolInstance :: "pod \<Rightarrow> string option" where
  "pvmigrateToolInstance p =
     (let instance_label = mget (p_Labels p) AppInstanceLabel in
      if prefix ''pv-migrate-'' instance_label \<and> mget (p_Labels p) AppComponentLabel \<in> set tool_components
      then Some instance_label else None)"

definition isPVMigrateToolForClaims :: "pod \<Rightarrow> string list \<Rightarrow> bool" where
  "isPVMigrateToolForClaims p claims =
     (pvmigrateToolInstance p \<noteq> None \<and> list_ex (\<lambda>v. case v of None \<Rightarrow> False | Some c \<Rightarrow> c \<in> set claims) (p_ClaimVolumes p))"

definition isPVMigrateToolForOperation :: "pod \<Rightarrow> string \<Rightarrow> bool" where
  "isPVMigrateToolForOperation p operationID =
     (case pvmigrateToolInstance p of None \<Rightarrow> False
      | Some i \<Rightarrow> operationID \<noteq> [] \<and> prefix (''pv-migrate-'' @ operationID @ ''-'') i)"

text \<open>The claims of a transfer by namespace. A Go map is visited in any order: \<open>flipped\<close> says which of
  two namespaces comes first.\<close>

definition tool_claims :: "bool \<Rightarrow> ObjectReference \<Rightarrow> ObjectReference \<Rightarrow> (string \<times> string list) list" where
  "tool_claims flipped src dst =
     (if r_Namespace src = r_Namespace dst then [(r_Namespace src, [r_Name src, r_Name dst])]
      else (if flipped then rev else id) [(r_Namespace src, [r_Name src]), (r_Namespace dst, [r_Name dst])])"

text \<open>client-go returns a list whenever it returns no error; without one the code would panic.\<close>

definition list_tool_pods :: "'s world \<Rightarrow> string \<Rightarrow> (pod list res, 's) io" where
  "list_tool_pods w ns =
     io_bind (list_pods w ns) (\<lambda>r. io_ret (case r of
         Inl e \<Rightarrow> Inl (WrapError ErrorKubernetes OpCopyCleanup e)
       | Inr None \<Rightarrow> Inl (NewError ErrorInternal OpCopyCleanup)
       | Inr (Some pods) \<Rightarrow> Inr pods))"

fun release_condition :: "'s world \<Rightarrow> (string \<times> string list) list \<Rightarrow> (unit option res, 's) io" where
  "release_condition w [] = io_ret (Inr (Some ()))"
| "release_condition w ((ns, names) # claims) =
     io_try (list_tool_pods w ns) (\<lambda>pods.
       if list_ex (\<lambda>p. isPVMigrateToolForClaims p names) pods then io_ret (Inr None)
       else release_condition w claims)"

definition waitForCopyToolRelease ::
    "('s hist \<Rightarrow> bool) \<Rightarrow> 's world \<Rightarrow> ObjectReference \<Rightarrow> ObjectReference \<Rightarrow> (unit res, 's) io" where
  "waitForCopyToolRelease order w src dst =
     WaitFor w second (io_bind (io_read order) (\<lambda>flipped. release_condition w (tool_claims flipped src dst)))"

fun tool_candidates :: "'s world \<Rightarrow> string \<Rightarrow> (string \<times> string list) list \<Rightarrow> (pod list res, 's) io" where
  "tool_candidates w operationID [] = io_ret (Inr [])"
| "tool_candidates w operationID ((ns, names) # claims) =
     io_try (list_tool_pods w ns) (\<lambda>pods.
       let mine = filter (\<lambda>p. isPVMigrateToolForClaims p names \<and> isPVMigrateToolForOperation p operationID) pods in
       if list_ex (\<lambda>p. p_UID p = []) mine then io_ret (Inl (NewError ErrorKubernetes OpCopyCleanup))
       else io_try (tool_candidates w operationID claims) (\<lambda>rest. io_ret (Inr (mine @ rest))))"

fun delete_tool_pods :: "'s world \<Rightarrow> pod list \<Rightarrow> go_error option list \<Rightarrow> (unit res, 's) io" where
  "delete_tool_pods w [] failures = io_ret (to_res (errors_join failures))"
| "delete_tool_pods w (p # ps) failures =
     (let fence = io_bind (checkpointFenceError w) (\<lambda>r. io_ret (case r of
             Inl e \<Rightarrow> to_res (errors_join [Some e, errors_join failures]) | Inr u \<Rightarrow> Inr u)) in
      io_try fence (\<lambda>_.
      io_bind (delete_pod w (p_Namespace p) (p_Name p) (p_UID p) None) (\<lambda>r.
        case r of
          Inl e \<Rightarrow>
            if \<not> IsNotFound e \<and> \<not> IsConflict e
            then delete_tool_pods w ps (failures @ [Some (WrapError ErrorKubernetes OpCopyCleanup e)])
            else io_try fence (\<lambda>_. delete_tool_pods w ps failures)
        | Inr _ \<Rightarrow> io_try fence (\<lambda>_. delete_tool_pods w ps failures))))"

definition deleteCopyToolPods ::
    "('s hist \<Rightarrow> bool) \<Rightarrow> 's world \<Rightarrow> ObjectReference \<Rightarrow> ObjectReference \<Rightarrow> string \<Rightarrow> (unit res, 's) io" where
  "deleteCopyToolPods order w src dst operationID =
     io_bind (io_read order) (\<lambda>flipped.
     io_try (tool_candidates w operationID (tool_claims flipped src dst)) (\<lambda>candidates.
       delete_tool_pods w candidates []))"

text \<open>\<^verbatim>\<open>context.WithTimeout(context.WithoutCancel(ctx), ...)\<close>: the fences stay.\<close>

definition detach :: "'s world \<Rightarrow> 's world" where
  "detach w = w\<lparr>w_ctx_err := w_timeout_err w\<rparr>"

definition cleanupCopyToolPods ::
    "('s hist \<Rightarrow> bool) \<Rightarrow> 's world \<Rightarrow> ObjectReference \<Rightarrow> ObjectReference \<Rightarrow> string \<Rightarrow> (unit res, 's) io" where
  "cleanupCopyToolPods order w src dst operationID =
     io_bind (deleteCopyToolPods order (detach w) src dst operationID) (\<lambda>deleted.
     io_bind (waitForCopyToolRelease order (detach w) src dst) (\<lambda>released.
       io_ret (to_res (errors_join [err_of deleted, err_of released]))))"

section \<open>Attempts\<close>

record VolumeCopyConfig =
  cc_Retries :: int
  cc_RetryBackoff :: duration
  cc_CopyTimeout :: duration
  cc_TrustedToolImage :: string

definition newVolumeCopyRunner :: "VolumeCopyConfig \<Rightarrow> VolumeCopyConfig" where
  "newVolumeCopyRunner config =
     config\<lparr>cc_Retries := if cc_Retries config \<le> 0 then 3 else cc_Retries config,
            cc_RetryBackoff := if cc_RetryBackoff config \<le> 0 then 2 * second else cc_RetryBackoff config\<rparr>"

definition toolImage :: "VolumeCopyConfig \<Rightarrow> string \<Rightarrow> string" where
  "toolImage config requested =
     (let trusted = TrimSpace (cc_TrustedToolImage config) in if trusted \<noteq> [] then trusted else requested)"

text \<open>The runner: its configuration, and what it learns from outside.\<close>

record 's copy_runner =
  vr_config :: VolumeCopyConfig
  vr_observed :: "'s hist \<Rightarrow> go_error option"
  vr_no_space :: "go_error \<Rightarrow> bool"
  vr_text :: "go_error \<Rightarrow> string"
  vr_order :: "'s hist \<Rightarrow> bool"
  vr_lib :: tool_lib

text \<open>The attempt counter and the last error of a volume inside the record that is saved.\<close>

record 's copy_slot =
  sl_attempts :: "'s \<Rightarrow> int"
  sl_error :: "'s \<Rightarrow> string"
  sl_put :: "int \<Rightarrow> string \<Rightarrow> 's \<Rightarrow> 's"

definition mergeToolLogError :: "go_error option \<Rightarrow> go_error option \<Rightarrow> go_error option" where
  "mergeToolLogError copyErr observedErr = (if copyErr = None then None else errors_join [copyErr, observedErr])"

text \<open>With a timeout the context of the attempt has been cancelled when its error is read; without one
  it is the context of the operation.\<close>

definition attempt_ended :: "'s world \<Rightarrow> VolumeCopyConfig \<Rightarrow> (bool, 's) io" where
  "attempt_ended w config =
     (if cc_CopyTimeout config > 0 then io_ret True else io_bind (ctx_err w) (\<lambda>c. io_ret (c \<noteq> None)))"

definition copy_error ::
    "'s world \<Rightarrow> VolumeCopyConfig \<Rightarrow> go_error option \<Rightarrow> (go_error option, 's) io" where
  "copy_error w config copyErr =
     (case copyErr of
        None \<Rightarrow> io_ret None
      | Some e \<Rightarrow> io_bind (attempt_ended w config) (\<lambda>ended.
          if ended then io_bind (ctx_err w) (\<lambda>c.
            io_ret (Some (if c = None then WrapError ErrorTimeout OpCopyAttempt e else e)))
          else io_ret (Some e)))"

definition copy_attempt ::
    "'s world \<Rightarrow> 's copy_runner \<Rightarrow> CopyRequest \<Rightarrow> (go_error option \<times> go_error option, 's) io" where
  "copy_attempt w s q =
     io_bind (engine_copy w q) (\<lambda>r.
     io_bind (io_read (vr_observed s)) (\<lambda>observed.
     io_bind (copy_error w (vr_config s) (mergeToolLogError (err_of r) observed)) (\<lambda>copyErr.
     io_bind (cleanupCopyToolPods (vr_order s) w (ai_Source (cq_Identity q)) (cq_Destination q)
         (OperationID (cq_Identity q))) (\<lambda>cleaned.
       io_ret (copyErr, err_of cleaned)))))"

definition attempt_request :: "int \<Rightarrow> bool \<Rightarrow> CopyRequest \<Rightarrow> CopyRequest" where
  "attempt_request n mountReadWrite q =
     q\<lparr>cq_Identity := (cq_Identity q)\<lparr>ai_Attempt := n\<rparr>, cq_MountReadWrite := mountReadWrite\<rparr>"

definition backoff_sleep :: "'s world \<Rightarrow> VolumeCopyConfig \<Rightarrow> nat \<Rightarrow> (unit res, 's) io" where
  "backoff_sleep w config retryIndex =
     io_bind (sleep_ctx w (sint (retryBackoffDelay (word_of_int (cc_RetryBackoff config)) (of_nat retryIndex)))) (\<lambda>r.
       io_ret (case r of Inl e \<Rightarrow> Inl (WrapError ErrorTimeout OpCopyRetry e) | Inr u \<Rightarrow> Inr u))"

text \<open>What follows a failed attempt, \<open>again\<close> being the next round of the loop.\<close>

definition attempt_failed ::
    "'s world \<Rightarrow> 's copy_runner \<Rightarrow> 's copy_slot \<Rightarrow> bool \<Rightarrow> nat \<Rightarrow> string \<Rightarrow> 's \<Rightarrow> go_error option \<Rightarrow> go_error \<Rightarrow>
     ('s \<Rightarrow> ('s \<times> unit res, 's) io) \<Rightarrow> ('s \<times> unit res, 's) io" where
  "attempt_failed w s slot was_last retryIndex previousError started cleanupErr failure again =
     (let attempts = sl_attempts slot started; failed = sl_put slot attempts (vr_text s failure) started in
      io_bind (persistCheckpoint w (Some (save_state w failed))) (\<lambda>r. case r of
        Inl e \<Rightarrow> io_bind (ctx_err w) (\<lambda>c.
          io_ret (if c \<noteq> None then (failed, Inl failure) else (sl_put slot attempts previousError failed, Inl e)))
      | Inr _ \<Rightarrow>
        if vr_no_space s failure then io_ret (failed, Inl (WrapError ErrorConflict OpCopyCapacity failure))
        else if cleanupErr \<noteq> None then io_ret (failed, Inl failure)
        else if was_last then io_ret (failed, Inl failure)
        else io_try_st failed (backoff_sleep w (vr_config s) retryIndex) (\<lambda>_. again failed)))"

text \<open>The loop, with \<open>n\<close> attempts left and \<open>i\<close> made. It returns the record as the code leaves it.\<close>

fun copy_loop ::
    "nat \<Rightarrow> nat \<Rightarrow> 's world \<Rightarrow> 's copy_runner \<Rightarrow> 's copy_slot \<Rightarrow> CopyRequest \<Rightarrow> (unit res, 's) io \<Rightarrow>
     (bool res, 's) io \<Rightarrow> go_error option \<Rightarrow> 's \<Rightarrow> ('s \<times> unit res, 's) io" where
  "copy_loop 0 i w s slot request validate sourceMountReadWrite last_err obj = io_ret (obj, to_res last_err)"
| "copy_loop (Suc n) i w s slot request validate sourceMountReadWrite last_err obj =
     io_try_st obj validate (\<lambda>_. io_try_st obj sourceMountReadWrite (\<lambda>mountReadWrite.
     let previousAttempts = sl_attempts slot obj; previousError = sl_error slot obj;
         attempts = previousAttempts + 1; started = sl_put slot attempts [] obj in
     io_bind (persistCheckpoint w (Some (save_state w started))) (\<lambda>r. case r of
       Inl e \<Rightarrow> io_ret (sl_put slot previousAttempts previousError started, Inl e)
     | Inr _ \<Rightarrow>
       io_bind (copy_attempt w s (attempt_request attempts mountReadWrite request)) (\<lambda>(copyErr, cleanupErr).
       case errors_join [copyErr, cleanupErr] of
         None \<Rightarrow> io_ret (started, Inr ())
       | Some failure \<Rightarrow>
         attempt_failed w s slot (n = 0) i previousError started cleanupErr failure
           (\<lambda>failed. copy_loop n (Suc i) w s slot request validate sourceMountReadWrite (Some failure) failed)))))"

declare copy_loop.simps [simp del]

text \<open>The part before the loop: where the tools run, the secrets their image needs, and the service
  account they run under, in each of the two namespaces.\<close>

fun ensure_accounts :: "tool_lib \<Rightarrow> 's world \<Rightarrow> string list \<Rightarrow> (unit res, 's) io" where
  "ensure_accounts lib w [] = io_ret (Inr ())"
| "ensure_accounts lib w (ns # namespaces) =
     io_try (EnsureTransferServiceAccount lib w ns) (\<lambda>_. ensure_accounts lib w namespaces)"

definition transfer_namespaces :: "CopyRequest \<Rightarrow> string list" where
  "transfer_namespaces request =
     (let src = r_Namespace (ai_Source (cq_Identity request)); dst = r_Namespace (cq_Destination request) in
      if dst = src then [src] else [src, dst])"

definition prepareTransfer ::
    "'s world \<Rightarrow> 's copy_runner \<Rightarrow> string \<Rightarrow> string \<Rightarrow> ToolImageProbeResult list \<Rightarrow> CopyRequest \<Rightarrow> (CopyRequest res, 's) io" where
  "prepareTransfer w s sourceNode targetNode probes request =
     io_try (helmSchedulingValues w (probedSourceNode sourceNode (ai_Source (cq_Identity request)) probes) targetNode
         (cq_Strategies request)) (\<lambda>scheduling.
     io_try (io_ret (ToolImagePullSecretHelmValues probes)) (\<lambda>secrets.
     io_try (ensure_accounts (vr_lib s) w (transfer_namespaces request)) (\<lambda>_.
       io_ret (Inr (request\<lparr>cq_ToolImage := toolImage (vr_config s) (cq_ToolImage request),
         cq_HelmValues := cq_HelmValues request @ ho_Values TransferServiceAccountHelmValues,
         cq_HelmStringValues := cq_HelmStringValues request @ scheduling @ secrets
           @ ho_StringValues TransferServiceAccountHelmValues\<rparr>)))))"

definition copyWithRetry ::
    "'s world \<Rightarrow> 's copy_runner \<Rightarrow> 's copy_slot \<Rightarrow> string \<Rightarrow> string \<Rightarrow> ToolImageProbeResult list \<Rightarrow> CopyRequest \<Rightarrow>
     (unit res, 's) io \<Rightarrow> (bool res, 's) io \<Rightarrow> 's \<Rightarrow> ('s \<times> unit res, 's) io" where
  "copyWithRetry w s slot sourceNode targetNode probes request validate sourceMountReadWrite obj =
     io_try_st obj (prepareTransfer w s sourceNode targetNode probes request) (\<lambda>request.
       copy_loop (nat (cc_Retries (vr_config s))) 0 w s slot request validate sourceMountReadWrite None obj)"

section \<open>Saving a checkpoint\<close>

lemma to_res_Inr: "to_res e = Inr u \<longleftrightarrow> e = None"
  by (cases e) auto

lemma wp_checkpointFenceError [io_intros]:
  "(\<And>c f. G (EvCheck c f) h) \<Longrightarrow> Q (Inr ()) (EvCheck None None # h) \<Longrightarrow>
   (\<And>e c f. Q (Inl e) (EvCheck c f # h)) \<Longrightarrow> wp G (checkpointFenceError w) Q h"
  unfolding checkpointFenceError_def
  apply (auto simp: io_rules split: option.splits intro!: io_intros)
  subgoal for f by (cases f) auto
  done

lemma wp_persistCheckpoint:
  assumes "\<And>c f h'. G (EvCheck c f) h'" and "\<And>r. G (EvSave obj r) (EvCheck None None # h)"
    and "Q (Inr ()) (EvCheck None None # EvSave obj (Inr ()) # EvCheck None None # h)"
    and "\<And>e c f. Q (Inl e) (EvCheck c f # h)"
    and "\<And>e. Q (Inl e) (EvSave obj (Inl e) # EvCheck None None # h)"
    and "\<And>e c f. Q (Inl e) (EvCheck c f # EvSave obj (Inr ()) # EvCheck None None # h)"
  shows "wp G (persistCheckpoint w (Some (save_state w' obj))) Q h"
  unfolding persistCheckpoint_def
  by (auto simp: io_rules assms split: sum.splits intro!: io_intros)

section \<open>The back-off saturates\<close>

lemma shifted_one: "k \<le> 62 \<Longrightarrow> uint (push_bit k (1 :: 64 word)) = 2 ^ k"
proof -
  assume k: "k \<le> 62"
  then have "(2 :: int) ^ k < 2 ^ 64" by (intro power_strict_increasing) auto
  moreover have "push_bit k (1 :: 64 word) = word_of_int (2 ^ k)" by (simp add: push_bit_eq_mult)
  ultimately show ?thesis using k by (simp only: unsigned_of_int take_bit_int_eq_self_iff) simp
qed

lemma sint_64: "sint (x :: 64 word) = (if uint x < 2 ^ 63 then uint x else uint x - 2 ^ 64)"
proof -
  have "take_bit 64 (uint x) = uint x" using take_bit_int_eq_self [of "uint x" 64] uint_lt2p [of x] by simp
  moreover have "bit (uint x) 63 \<longleftrightarrow> 2 ^ 63 \<le> uint x"
  proof (cases "uint x < 2 ^ 63")
    case True
    then show ?thesis by (simp add: bit_iff_odd div_pos_pos_trivial)
  next
    case False
    then have "uint x div 2 ^ 63 = 1" using uint_lt2p [of x] by (intro int_div_pos_eq [where r = "uint x - 2 ^ 63"]) simp_all
    then show ?thesis using False by (simp add: bit_iff_odd)
  qed
  ultimately show ?thesis by (simp add: sint_uint signed_take_bit_eq_take_bit_minus)
qed

lemma sint_positive:
  fixes x :: "64 word"
  assumes "0 \<le> sint x"
  shows "sint x = uint x"
proof (cases "uint x < 2 ^ 63")
  case False
  then show ?thesis using assms uint_lt2p [of x] unfolding sint_64 by simp
qed (simp only: sint_64 if_True)

lemma int_div_less_iff:
  fixes a b c :: int
  assumes "0 < b"
  shows "a div b < c \<longleftrightarrow> a < c * b"
proof
  assume "a div b < c"
  then have "b * (a div b + 1) \<le> b * c" using assms by (intro mult_left_mono) simp_all
  then show "a < c * b" using pos_mod_bound [OF assms, of a] mult_div_mod_eq [of b a] unfolding distrib_left mult.commute [of c b] by linarith
next
  assume "a < c * b"
  show "a div b < c"
  proof (rule ccontr)
    assume "\<not> a div b < c"
    then have "b * c \<le> b * (a div b)" using assms by (intro mult_left_mono) simp_all
    then show False
      using \<open>a < c * b\<close> pos_mod_sign [OF assms, of a] mult_div_mod_eq [of b a] unfolding mult.commute [of c b] by linarith
  qed
qed

lemma backoff_limit:
  fixes base m :: "64 word"
  assumes m: "uint m = 2 ^ k"
  shows "base > MaxInt64 div m \<longleftrightarrow> 2 ^ 63 - 1 < uint base * 2 ^ k"
proof -
  have "uint MaxInt64 = 2 ^ 63 - 1" by (simp add: MaxInt64_def)
  then have "base > MaxInt64 div m \<longleftrightarrow> (2 ^ 63 - 1) div 2 ^ k < uint base"
    by (simp only: word_less_def uint_div_distrib m)
  also have "\<dots> \<longleftrightarrow> 2 ^ 63 - 1 < uint base * 2 ^ k" by (rule int_div_less_iff) (rule zero_less_power, simp)
  finally show ?thesis .
qed

lemma backoff_product:
  fixes base m :: "64 word"
  assumes m: "uint m = 2 ^ k" and "\<not> 2 ^ 63 - 1 < uint base * 2 ^ k"
  shows "sint (base * m) = uint base * 2 ^ k"
proof -
  define p where "p = uint base * 2 ^ k"
  have p: "0 \<le> p" "p < 2 ^ 63" using assms(2) by (simp_all add: p_def)
  have "uint (base * m) = p mod 2 ^ 64" by (simp add: uint_word_ariths m p_def)
  also have "\<dots> = p" using p by (intro mod_pos_pos_trivial) simp_all
  finally have "uint (base * m) = p" .
  then show ?thesis using p(2) by (simp only: sint_64 if_True p_def)
qed

text \<open>C32: the back-off never wraps. For a positive base and a retry index from 0 on, the 64-bit
  computation returns the base times two to the index, capped at the index 62 and at the largest
  duration.\<close>

theorem retryBackoffDelay_saturates:
  fixes base retryIndex :: "64 word"
  assumes "0 < sint base" and "0 \<le> sint retryIndex"
  shows "sint (retryBackoffDelay base retryIndex) = min (sint base * 2 ^ nat (min (sint retryIndex) 62)) (2 ^ 63 - 1)"
proof -
  define k where "k = nat (min (sint retryIndex) 62)"
  define m where "m = push_bit k (1 :: 64 word)"
  have base: "sint base = uint base" by (rule sint_positive) (use assms(1) in simp)
  have "k \<le> 62" by (simp add: k_def)
  then have m: "uint m = 2 ^ k" unfolding m_def by (rule shifted_one)
  have index: "unat (if sint retryIndex \<le> 62 then retryIndex else 62) = k"
    unfolding k_def sint_positive [OF assms(2)] by (cases "uint retryIndex \<le> 62") simp_all
  have "\<not> sint base \<le> 0" using assms(1) by simp
  then have delay: "retryBackoffDelay base retryIndex = (if 2 ^ 63 - 1 < uint base * 2 ^ k then MaxInt64 else base * m)"
    unfolding retryBackoffDelay_def index Let_def m_def [symmetric] backoff_limit [OF m] by (simp only: if_False)
  have "sint MaxInt64 = 2 ^ 63 - 1" by (simp add: MaxInt64_def sint_64)
  then show ?thesis
    using backoff_product [OF m, of base] unfolding delay base k_def [symmetric]
    by (cases "2 ^ 63 - 1 < uint base * 2 ^ k") simp_all
qed

theorem retryBackoffDelay_saturates_witness:
  "sint (retryBackoffDelay 3 70) = 2 ^ 63 - 1 \<and> sint (retryBackoffDelay 2000000000 3) = 16000000000"
  using retryBackoffDelay_saturates [of 3 70] retryBackoffDelay_saturates [of 2000000000 3] by simp

section \<open>Tools are gone before the next attempt\<close>

text \<open>\<open>released_since\<close>: after the last transfer between these claims the Pods of the namespace were
  listed without a tool that mounts one of them.\<close>

fun copy_of :: "ObjectReference \<Rightarrow> ObjectReference \<Rightarrow> 's event \<Rightarrow> bool" where
  "copy_of src dst (EvCopy q r) = (ai_Source (cq_Identity q) = src \<and> cq_Destination q = dst)"
| "copy_of src dst e = False"

fun released_since :: "ObjectReference \<Rightarrow> ObjectReference \<Rightarrow> string \<Rightarrow> string list \<Rightarrow> 's hist \<Rightarrow> bool" where
  "released_since src dst ns names [] = True"
| "released_since src dst ns names (EvCopy q r # h) =
     (\<not> (ai_Source (cq_Identity q) = src \<and> cq_Destination q = dst) \<and> released_since src dst ns names h)"
| "released_since src dst ns names (EvListPods ns' (Inr (Some pods)) # h) =
     ((ns' = ns \<and> \<not> list_ex (\<lambda>p. isPVMigrateToolForClaims p names) pods) \<or> released_since src dst ns names h)"
| "released_since src dst ns names (e # h) = released_since src dst ns names h"

lemma is_read_no_copy: "is_read e \<Longrightarrow> \<not> copy_of src dst e"
  by (cases e) auto

lemma released_since_Cons:
  "released_since src dst ns names h \<Longrightarrow> \<not> copy_of src dst e \<Longrightarrow> released_since src dst ns names (e # h)"
  by (cases "(src, dst, ns, names, e # h)" rule: released_since.cases) auto

definition tools_released :: "ObjectReference \<Rightarrow> ObjectReference \<Rightarrow> 's hist \<Rightarrow> bool" where
  "tools_released src dst h \<longleftrightarrow>
     (\<forall>(ns, names) \<in> set (tool_claims False src dst). released_since src dst ns names h)"

lemma set_tool_claims: "set (tool_claims b src dst) = set (tool_claims False src dst)"
  by (auto simp: tool_claims_def)

lemma tools_released_Cons: "tools_released src dst h \<Longrightarrow> \<not> copy_of src dst e \<Longrightarrow> tools_released src dst (e # h)"
  by (auto simp: tools_released_def intro: released_since_Cons)

lemma wp_list_tool_pods:
  "(\<And>r. G (EvListPods ns r) h) \<Longrightarrow> (\<And>pods. Q (Inr pods) (EvListPods ns (Inr (Some pods)) # h)) \<Longrightarrow>
   (\<And>e r. Q (Inl e) (EvListPods ns r # h)) \<Longrightarrow> wp G (list_tool_pods w ns) Q h"
  unfolding list_tool_pods_def by (auto simp: io_rules split: sum.splits option.splits intro!: io_intros)

lemma release_condition_wp:
  "(\<forall>(ns, names) \<in> C. released_since src dst ns names h) \<Longrightarrow>
   wp only_reads (release_condition w claims)
     (\<lambda>r h'. r = Inr (Some ()) \<longrightarrow> (\<forall>(ns, names) \<in> C \<union> set claims. released_since src dst ns names h')) h"
proof (induction w claims arbitrary: C h rule: release_condition.induct)
  case (1 w)
  then show ?case by (simp add: io_rules)
next
  case (2 w ns names claims)
  have listed: "\<forall>(ns', names') \<in> insert (ns, names) C. released_since src dst ns' names' (EvListPods ns (Inr (Some pods)) # h)"
    if "\<not> list_ex (\<lambda>p. isPVMigrateToolForClaims p names) pods" for pods
    using 2(2) that by auto
  show ?case
    using 2(1) [OF _ listed] by (auto simp: io_rules guard_simps intro!: wp_list_tool_pods)
qed

lemma waitForCopyToolRelease_wp:
  "wp only_reads (waitForCopyToolRelease order w src dst) (\<lambda>r h'. r = Inr () \<longrightarrow> tools_released src dst h') h"
  unfolding waitForCopyToolRelease_def
proof (rule wp_WaitFor, goal_cases)
  case (1 h')
  show ?case
    using release_condition_wp [of "{}" src dst h' w "tool_claims (order h') src dst"]
    by (simp add: io_rules tools_released_def set_tool_claims [of "order h'"])
qed (auto simp: guard_simps)

section \<open>Only the tools of the attempt are deleted\<close>

definition own_tool :: "(string \<times> string list) set \<Rightarrow> string \<Rightarrow> pod \<Rightarrow> 's hist \<Rightarrow> bool" where
  "own_tool claims operationID p h \<longleftrightarrow>
     (\<exists>ns names pods. (ns, names) \<in> claims \<and> EvListPods ns (Inr (Some pods)) \<in> set h \<and> p \<in> set pods \<and>
        isPVMigrateToolForClaims p names \<and> isPVMigrateToolForOperation p operationID \<and> p_UID p \<noteq> [])"

lemma own_tool_mono: "own_tool claims operationID p h \<Longrightarrow> suffix h h' \<Longrightarrow> own_tool claims operationID p h'"
  unfolding own_tool_def by (blast dest: set_mono_suffix)

lemma own_tool_Cons: "own_tool claims operationID p h \<Longrightarrow> own_tool claims operationID p (e # h)"
  by (erule own_tool_mono) (simp add: suffix_ConsI)

definition tool_guard :: "ObjectReference \<Rightarrow> ObjectReference \<Rightarrow> string \<Rightarrow> 's event \<Rightarrow> 's hist \<Rightarrow> bool" where
  "tool_guard src dst operationID e h \<longleftrightarrow>
     is_read e \<or>
     (\<exists>p r. e = EvDeletePod (p_Namespace p) (p_Name p) (p_UID p) None r \<and> fenced h \<and>
        own_tool (set (tool_claims False src dst)) operationID p h)"

lemma tool_guard_read: "is_read e \<Longrightarrow> tool_guard src dst operationID e h"
  by (simp add: tool_guard_def)

lemma tool_guard_quiet: "tool_guard src dst operationID e h \<Longrightarrow> \<not> copy_of src dst e \<and> \<not> is_save e \<and> \<not> writes_storage e"
  by (auto simp: tool_guard_def is_read_no_copy is_read_no_save is_read_no_write)

lemma tool_candidates_wp:
  assumes "set claims \<subseteq> C"
  shows "wp only_reads (tool_candidates w operationID claims)
    (\<lambda>r h'. \<forall>ps. r = Inr ps \<longrightarrow> (\<forall>p \<in> set ps. own_tool C operationID p h')) h"
  using assms
proof (induction claims arbitrary: h)
  case (Cons claim claims)
  obtain ns names where claim: "claim = (ns, names)" by fastforce
  have own: "own_tool C operationID p h'"
    if "suffix (EvListPods ns (Inr (Some pods)) # h0) h'" "p \<in> set pods" "isPVMigrateToolForClaims p names"
      "isPVMigrateToolForOperation p operationID" "p_UID p \<noteq> []" for p pods h0 h'
    using that Cons.prems set_mono_suffix [OF that(1)] unfolding own_tool_def claim by auto
  have rest: "wp G (tool_candidates w operationID claims) Q h'"
    if "\<And>e h. is_read e \<Longrightarrow> G e h" and "\<And>r h''. suffix h' h'' \<Longrightarrow> (\<forall>ps. r = Inr ps \<longrightarrow> (\<forall>p \<in> set ps. own_tool C operationID p h'')) \<Longrightarrow> Q r h''" for G Q h'
    by (rule wp_conseq [OF Cons.IH]) (use Cons.prems that in \<open>auto simp: guard_simps\<close>)
  show ?case
    unfolding claim by (auto simp: io_rules only_reads_simp Let_def list_ex_iff own split: sum.splits intro!: wp_list_tool_pods rest)
qed (simp add: io_rules)

lemma delete_tool_pods_wp:
  "\<forall>p \<in> set ps. own_tool (set (tool_claims False src dst)) operationID p h \<Longrightarrow>
   wp (tool_guard src dst operationID) (delete_tool_pods w ps failures) (\<lambda>_ _. True) h"
proof (induction ps arbitrary: failures h)
  case (Cons p ps)
  have guard: "tool_guard src dst operationID (EvDeletePod (p_Namespace p) (p_Name p) (p_UID p) None r) (EvCheck None None # h)" for r
    using Cons.prems by (auto simp: tool_guard_def intro: own_tool_Cons)
  have tail: "\<forall>p \<in> set ps. own_tool (set (tool_claims False src dst)) operationID p (e # e' # h)"
    "\<forall>p \<in> set ps. own_tool (set (tool_claims False src dst)) operationID p (e # e' # e'' # h)" for e e' e''
    using Cons.prems by (auto intro: own_tool_Cons)
  show ?case
    unfolding delete_tool_pods.simps Let_def
    by (auto simp: io_rules guard tool_guard_read Cons.IH tail to_res_Inr errors_join_eq_None split: sum.splits intro!: io_intros)
qed (simp add: io_rules)

lemma cleanupCopyToolPods_wp:
  "wp (tool_guard src dst operationID) (cleanupCopyToolPods order w src dst operationID)
     (\<lambda>r h'. r = Inr () \<longrightarrow> tools_released src dst h') h"
proof -
  have candidates: "wp (tool_guard src dst operationID) (tool_candidates w' operationID (tool_claims b src dst)) Q h'"
    if "\<And>r h'. \<forall>ps. r = Inr ps \<longrightarrow> (\<forall>p \<in> set ps. own_tool (set (tool_claims False src dst)) operationID p h') \<Longrightarrow> Q r h'"
    for w' :: "'a world" and b h' Q
    by (rule wp_conseq [OF tool_candidates_wp [where C = "set (tool_claims False src dst)"]])
       (simp_all add: set_tool_claims [of b] tool_guard_read guard_simps that)
  note calls = wp_conseq [OF delete_tool_pods_wp] wp_conseq [OF waitForCopyToolRelease_wp]
  show ?thesis
    unfolding cleanupCopyToolPods_def deleteCopyToolPods_def
    by (auto simp: io_rules tool_guard_read guard_simps to_res_Inr errors_join_eq_None
        split: sum.splits intro!: candidates calls)
qed

section \<open>The attempts of a transfer\<close>

fun last_copy :: "ObjectReference \<Rightarrow> ObjectReference \<Rightarrow> 's hist \<Rightarrow> (CopyRequest \<times> unit res) option" where
  "last_copy src dst [] = None"
| "last_copy src dst (EvCopy q r # h) =
     (if ai_Source (cq_Identity q) = src \<and> cq_Destination q = dst then Some (q, r) else last_copy src dst h)"
| "last_copy src dst (e # h) = last_copy src dst h"

definition copies :: "ObjectReference \<Rightarrow> ObjectReference \<Rightarrow> 's hist \<Rightarrow> nat" where
  "copies src dst h = length (filter (copy_of src dst) h)"

lemma last_copy_skip: "\<not> copy_of src dst e \<Longrightarrow> last_copy src dst (e # h) = last_copy src dst h"
  by (cases e) auto

lemma copies_skip: "\<not> copy_of src dst e \<Longrightarrow> copies src dst (e # h) = copies src dst h"
  by (simp add: copies_def)

text \<open>What may happen while the claims of \<open>request\<close> are copied: reads, saves of an acceptable record,
  deletes of tools of the attempt that was made last, and attempts. An attempt starts under the lease,
  under the number that is saved, after a check \<open>V\<close>, when no tool of an earlier attempt is left.\<close>

definition attempt_allowed ::
    "'s copy_slot \<Rightarrow> 's \<Rightarrow> CopyRequest \<Rightarrow> ('s hist \<Rightarrow> bool) \<Rightarrow> nat \<Rightarrow> CopyRequest \<Rightarrow> 's hist \<Rightarrow> bool" where
  "attempt_allowed slot d request V limit q h \<longleftrightarrow>
     fenced h \<and> V h \<and> copies (ai_Source (cq_Identity request)) (cq_Destination request) h < limit \<and>
     tools_released (ai_Source (cq_Identity request)) (cq_Destination request) h \<and>
     (\<exists>rw. q = attempt_request (sl_attempts slot (last_saved d h)) rw request)"

definition copy_guard ::
    "'s copy_slot \<Rightarrow> 's \<Rightarrow> CopyRequest \<Rightarrow> ('s hist \<Rightarrow> bool) \<Rightarrow> ('s \<Rightarrow> bool) \<Rightarrow> nat \<Rightarrow> 's event \<Rightarrow> 's hist \<Rightarrow> bool" where
  "copy_guard slot d request V P limit e h \<longleftrightarrow>
     is_read e \<or> (\<exists>obj r. e = EvSave obj r \<and> P obj) \<or>
     (\<exists>q r. e = EvCopy q r \<and> attempt_allowed slot d request V limit q h) \<or>
     (\<exists>q r. last_copy (ai_Source (cq_Identity request)) (cq_Destination request) h = Some (q, r) \<and>
        tool_guard (ai_Source (cq_Identity request)) (cq_Destination request) (OperationID (cq_Identity q)) e h)"

lemma copy_guard_read: "is_read e \<Longrightarrow> copy_guard slot d request V P limit e h"
  by (simp add: copy_guard_def)

lemma attempt_request_simps [simp]:
  "ai_Source (cq_Identity (attempt_request n rw request)) = ai_Source (cq_Identity request)"
  "cq_Destination (attempt_request n rw request) = cq_Destination request"
  "ai_Attempt (cq_Identity (attempt_request n rw request)) = n"
  by (simp_all add: attempt_request_def)

lemma copy_error_wp:
  "wp only_reads (copy_error w config e) (\<lambda>e' h'. (e' = None) = (e = None)) h"
  unfolding copy_error_def attempt_ended_def
  by (auto simp: io_rules guard_simps split: option.splits intro!: io_intros)

lemma cleanup_after_copy:
  assumes "last_copy (ai_Source (cq_Identity request)) (cq_Destination request) h = Some (q, r)"
    and "\<And>e h'. \<not> copy_of (ai_Source (cq_Identity request)) (cq_Destination request) e \<Longrightarrow> \<not> is_save e \<Longrightarrow> I h' \<Longrightarrow> I (e # h')"
    and "I h"
  shows "wp (copy_guard slot d request V P limit)
    (cleanupCopyToolPods order w (ai_Source (cq_Identity request)) (cq_Destination request) (OperationID (cq_Identity q)))
    (\<lambda>c h'. (c = Inr () \<longrightarrow> tools_released (ai_Source (cq_Identity request)) (cq_Destination request) h') \<and> I h') h"
proof -
  let ?J = "\<lambda>h'. last_copy (ai_Source (cq_Identity request)) (cq_Destination request) h' = Some (q, r) \<and> I h'"
  show ?thesis
    by (rule wp_conseq [OF wp_stable [OF cleanupCopyToolPods_wp, where I = ?J]])
       (use assms in \<open>auto simp: copy_guard_def last_copy_skip dest: tool_guard_quiet\<close>)
qed

text \<open>When an attempt may start: the number of attempts is within the limit and no tool of an earlier
  attempt is left. When the transfer is done: the last attempt succeeded, its number is saved.\<close>

definition attempts_left :: "CopyRequest \<Rightarrow> nat \<Rightarrow> nat \<Rightarrow> 's hist \<Rightarrow> bool" where
  "attempts_left request n limit h \<longleftrightarrow>
     copies (ai_Source (cq_Identity request)) (cq_Destination request) h + n \<le> limit \<and>
     tools_released (ai_Source (cq_Identity request)) (cq_Destination request) h"

lemma attempts_left_Cons:
  "attempts_left request n limit h \<Longrightarrow> \<not> copy_of (ai_Source (cq_Identity request)) (cq_Destination request) e \<Longrightarrow>
   attempts_left request n limit (e # h)"
  by (simp add: attempts_left_def copies_skip tools_released_Cons)

definition copied :: "'s copy_slot \<Rightarrow> 's \<Rightarrow> CopyRequest \<Rightarrow> ('s \<Rightarrow> bool) \<Rightarrow> 's \<times> unit res \<Rightarrow> 's hist \<Rightarrow> bool" where
  "copied slot d request P = (\<lambda>(obj, r) h.
     P obj \<and>
     (r = Inr () \<longrightarrow>
        obj = last_saved d h \<and> tools_released (ai_Source (cq_Identity request)) (cq_Destination request) h \<and>
        (\<exists>rw. last_copy (ai_Source (cq_Identity request)) (cq_Destination request) h =
           Some (attempt_request (sl_attempts slot obj) rw request, Inr ()))))"

definition slot_ok :: "'s copy_slot \<Rightarrow> ('s \<Rightarrow> bool) \<Rightarrow> bool" where
  "slot_ok slot P \<longleftrightarrow>
     (\<forall>s a t. sl_attempts slot (sl_put slot a t s) = a \<and>
        (P s \<longrightarrow> 0 \<le> sl_attempts slot s \<and> (0 \<le> a \<longrightarrow> P (sl_put slot a t s))))"

definition checks :: "(unit res, 's) io \<Rightarrow> CopyRequest \<Rightarrow> ('s hist \<Rightarrow> bool) \<Rightarrow> bool" where
  "checks validate request V \<longleftrightarrow>
     (\<forall>h. wp only_reads validate (\<lambda>r h'. r = Inr () \<longrightarrow> V h') h) \<and>
     (\<forall>e h. V h \<longrightarrow> \<not> copy_of (ai_Source (cq_Identity request)) (cq_Destination request) e \<longrightarrow> V (e # h))"

lemma copy_attempt_wp:
  assumes "attempt_allowed slot d request V limit q h"
    and "ai_Source (cq_Identity q) = ai_Source (cq_Identity request)" "cq_Destination q = cq_Destination request"
  shows "wp (copy_guard slot d request V P limit) (copy_attempt w s q)
    (\<lambda>(copyErr, cleanupErr) h'.
       copies (ai_Source (cq_Identity request)) (cq_Destination request) h' =
         Suc (copies (ai_Source (cq_Identity request)) (cq_Destination request) h) \<and>
       last_saved d h' = last_saved d h \<and>
       (cleanupErr = None \<longrightarrow> tools_released (ai_Source (cq_Identity request)) (cq_Destination request) h') \<and>
       (copyErr = None \<longrightarrow>
          last_copy (ai_Source (cq_Identity request)) (cq_Destination request) h' = Some (q, Inr ()))) h"
proof -
  let ?src = "ai_Source (cq_Identity request)" and ?dst = "cq_Destination request"
  let ?Q = "\<lambda>(copyErr, cleanupErr) h'. copies ?src ?dst h' = Suc (copies ?src ?dst h) \<and>
    last_saved d h' = last_saved d h \<and> (cleanupErr = None \<longrightarrow> tools_released ?src ?dst h') \<and>
    (copyErr = None \<longrightarrow> last_copy ?src ?dst h' = Some (q, Inr ()))"
  let ?I = "\<lambda>r h'. copies ?src ?dst h' = Suc (copies ?src ?dst h) \<and> last_saved d h' = last_saved d h \<and>
    last_copy ?src ?dst h' = Some (q, r)"
  have step: "?I r (e # h')" if "\<not> copy_of ?src ?dst e" "\<not> is_save e" "?I r h'" for r e h'
    using that by (simp add: copies_skip last_saved_skip last_copy_skip)
  have start: "?I r (EvCopy q r # h)" for r
    using assms(2,3) by (simp add: copies_def)
  have error: "wp (copy_guard slot d request V P limit) (copy_error w (vr_config s) e)
      (\<lambda>e' h'. (e' = None) = (e = None) \<and> ?I r h') h'" if "?I r h'" for e r h'
    by (rule wp_conseq [OF wp_stable [OF copy_error_wp, where I = "?I r"]])
       (use that step in \<open>auto simp: guard_simps copy_guard_read is_read_no_copy is_read_no_save\<close>)
  have cleanup: "wp (copy_guard slot d request V P limit)
      (cleanupCopyToolPods (vr_order s) w ?src ?dst (OperationID (cq_Identity q)))
      (\<lambda>c h'. (c = Inr () \<longrightarrow> tools_released ?src ?dst h') \<and> ?I r h') h'" if "?I r h'" for r h'
    by (rule cleanup_after_copy) (use that step in auto)
  have attempt: "copy_guard slot d request V P limit (EvCopy q r) h" for r
    using assms(1) by (auto simp: copy_guard_def)
  have merged: "(mergeToolLogError (err_of r) obs = None) = (r = Inr ())" for r :: "unit res" and obs
    by (cases r) (simp_all add: mergeToolLogError_def errors_join_eq_None)
  have tail: "wp (copy_guard slot d request V P limit)
      (io_bind (copy_error w (vr_config s) (mergeToolLogError (err_of r) obs)) (\<lambda>copyErr.
       io_bind (cleanupCopyToolPods (vr_order s) w ?src ?dst (OperationID (cq_Identity q))) (\<lambda>cleaned.
         io_ret (copyErr, err_of cleaned)))) ?Q (EvCopy q r # h)" for r obs
    unfolding wp_bind wp_ret
    by (rule wp_conseq [OF error [OF start [of r]]])
       (auto simp: merged err_of_None intro!: wp_conseq [OF cleanup [of _ r]])
  show ?thesis
    unfolding copy_attempt_def assms(2,3) wp_bind [of _ "engine_copy w q"] wp_bind [of _ "io_read (vr_observed s)"] wp_io_read
    by (rule wp_engine_copy) (rule attempt, rule tail)
qed

lemma quiet_call:
  assumes "wp only_reads m Q h" and "I h"
    and "\<And>e h'. \<not> copy_of src dst e \<Longrightarrow> I h' \<Longrightarrow> I (e # h')"
  shows "wp (copy_guard slot d request V P limit) m (\<lambda>x h'. Q x h' \<and> I h') h"
  by (rule wp_conseq [OF wp_stable [OF assms(1), where I = I]])
     (use assms(2,3) in \<open>auto simp: guard_simps copy_guard_read is_read_no_copy\<close>)

lemma backoff_sleep_wp: "wp only_reads (backoff_sleep w config i) (\<lambda>_ _. True) h"
  unfolding backoff_sleep_def by (auto simp: io_rules guard_simps intro!: io_intros)

lemma attempt_failed_wp:
  fixes request :: CopyRequest
  defines "src \<equiv> ai_Source (cq_Identity request)" and "dst \<equiv> cq_Destination request"
  assumes slot: "slot_ok slot P" and "P started"
    and "copies src dst h + n \<le> limit" and "cleanupErr = None \<longrightarrow> tools_released src dst h"
    and again: "\<And>obj h'. 0 < n \<Longrightarrow> P obj \<Longrightarrow> attempts_left request n limit h' \<Longrightarrow>
      wp (copy_guard slot d request V P limit) (again obj) (copied slot d request P) h'"
  shows "wp (copy_guard slot d request V P limit) (attempt_failed w s slot (n = 0) i e started cleanupErr failure again)
    (copied slot d request P) h"
proof -
  define G where "G = copy_guard slot d request V P limit"
  have P: "P (sl_put slot (sl_attempts slot started) t obj)" if "P obj" for t obj
    using slot \<open>P started\<close> that by (simp add: slot_ok_def)
  have saved: "G (EvSave obj' r) h'" if "P obj'" for obj' r h'
    using that by (auto simp: G_def copy_guard_def)
  have read: "G e h'" if "is_read e" for e h'
    using that by (simp add: G_def copy_guard_read)
  have sleep: "wp G (backoff_sleep w (vr_config s) i) Q h'"
    if "attempts_left request n limit h'" "\<And>r h''. attempts_left request n limit h'' \<Longrightarrow> Q r h''" for Q h'
    unfolding G_def
    by (rule wp_conseq [OF quiet_call [OF backoff_sleep_wp, where I = "attempts_left request n limit" and src = src and dst = dst]])
       (use that in \<open>auto simp: attempts_left_Cons src_def dst_def\<close>)
  have left: "attempts_left request n limit (EvCheck None None # EvSave obj (Inr ()) # EvCheck None None # h)"
    if "cleanupErr = None" for obj
    using assms(5,6) that by (auto simp: attempts_left_def copies_skip src_def dst_def intro!: tools_released_Cons)
  have failed: "copied slot d request P (obj, Inl e) h'" if "P obj" for obj e h'
    using that by (simp add: copied_def)
  show ?thesis
    unfolding attempt_failed_def Let_def G_def [symmetric]
    by (auto simp: io_rules P saved read failed \<open>P started\<close>
        split: sum.splits intro!: wp_persistCheckpoint sleep again [folded G_def] left io_intros)
qed

lemma copy_loop_wp:
  assumes slot: "slot_ok slot P" and validate: "checks validate request V"
    and mount: "\<And>h. wp only_reads mount (\<lambda>_ _. True) h"
  shows "0 < n \<Longrightarrow> P obj \<Longrightarrow> attempts_left request n limit h \<Longrightarrow>
    wp (copy_guard slot d request V P limit) (copy_loop n i w s slot request validate mount last_err obj)
      (copied slot d request P) h"
proof (induction n arbitrary: i last_err obj h)
  case (Suc n)
  let ?src = "ai_Source (cq_Identity request)" and ?dst = "cq_Destination request"
  define G where "G = copy_guard slot d request V P limit"
  define started where "started = sl_put slot (sl_attempts slot obj + 1) [] obj"
  have P: "P started" "0 \<le> sl_attempts slot obj" "\<And>s a t. P s \<Longrightarrow> 0 \<le> a \<Longrightarrow> P (sl_put slot a t s)"
    "\<And>s a t. sl_attempts slot (sl_put slot a t s) = a" "sl_attempts slot started = sl_attempts slot obj + 1"
    using slot Suc.prems(2) by (auto simp: slot_ok_def started_def)
  let ?I = "\<lambda>h'. attempts_left request (Suc n) limit h'"
  have V: "V (e # h')" if "V h'" "\<not> copy_of ?src ?dst e" for e h'
    using validate that by (auto simp: checks_def)
  have validated: "wp G validate Q h" if "\<And>r h'. (r = Inr () \<longrightarrow> V h') \<Longrightarrow> ?I h' \<Longrightarrow> Q r h'" for Q
    unfolding G_def
    by (rule wp_conseq [OF quiet_call [where I = ?I and src = ?src and dst = ?dst]])
       (use validate that Suc.prems(3) in \<open>auto simp: checks_def attempts_left_Cons\<close>)
  have mounted: "wp G mount Q h'" if "V h'" "?I h'" "\<And>r h''. V h'' \<Longrightarrow> ?I h'' \<Longrightarrow> Q r h''" for Q h'
    unfolding G_def
    by (rule wp_conseq [OF quiet_call [OF mount, where I = "\<lambda>h. V h \<and> ?I h" and src = ?src and dst = ?dst]])
       (use that in \<open>auto simp: attempts_left_Cons V\<close>)
  have saved: "G (EvSave obj' r) h'" if "P obj'" for obj' r h'
    using that by (auto simp: G_def copy_guard_def)
  have read: "G e h'" if "is_read e" for e h'
    using that by (simp add: G_def copy_guard_read)
  have attempted: "wp G (copy_attempt w s (attempt_request (sl_attempts slot obj + 1) rw request)) Q
      (EvCheck None None # EvSave started (Inr ()) # EvCheck None None # h')"
    if "V h'" "?I h'"
      "\<And>copyErr cleanupErr h''. copies ?src ?dst h'' + n \<le> limit \<Longrightarrow>
         (cleanupErr = None \<longrightarrow> tools_released ?src ?dst h'') \<Longrightarrow>
         (copyErr = None \<longrightarrow> cleanupErr = None \<longrightarrow> copied slot d request P (started, Inr ()) h'') \<Longrightarrow>
         Q (copyErr, cleanupErr) h''" for Q h' rw
  proof -
    have "attempt_allowed slot d request V limit (attempt_request (sl_attempts slot obj + 1) rw request)
        (EvCheck None None # EvSave started (Inr ()) # EvCheck None None # h')"
      using that(1,2) by (auto simp: attempt_allowed_def attempts_left_def copies_skip P(5) intro!: V tools_released_Cons)
    note attempt = copy_attempt_wp [OF this, where P = P]
    have success: "copied slot d request P (last_saved d h'', Inr ()) h''"
      if "started = last_saved d h''" "tools_released ?src ?dst h''"
        "last_copy ?src ?dst h'' = Some (attempt_request (sl_attempts slot obj + 1) rw request, Inr ())" for h''
      using that P(1,5) by (auto simp: copied_def)
    show ?thesis
      unfolding G_def
      by (rule wp_conseq [OF attempt])
         (use that(2) in \<open>auto simp: attempts_left_def copies_skip intro!: that(3) success\<close>)
  qed
  have failure: "wp G (attempt_failed w s slot (n = 0) i e started cleanupErr e' again) (copied slot d request P) h'"
    if "copies ?src ?dst h' + n \<le> limit" "cleanupErr = None \<longrightarrow> tools_released ?src ?dst h'"
      "\<And>obj' h'. 0 < n \<Longrightarrow> P obj' \<Longrightarrow> attempts_left request n limit h' \<Longrightarrow> wp G (again obj') (copied slot d request P) h'"
    for e cleanupErr e' again h'
    unfolding G_def by (rule attempt_failed_wp) (use slot P that in \<open>auto simp: G_def\<close>)
  have failed: "copied slot d request P (obj', Inl e) h'" if "P obj'" for obj' e h'
    using that by (simp add: copied_def)
  show ?case
    unfolding copy_loop.simps Let_def G_def [symmetric] started_def [symmetric]
    by (auto simp: io_rules Suc.prems(2) P saved read failed errors_join_eq_None
        split: sum.splits option.splits
        intro!: validated mounted wp_persistCheckpoint attempted failure Suc.IH [folded G_def])
qed simp

text \<open>The contract of what a caller hands to \<^verbatim>\<open>copyWithRetry\<close>: an attempt counter that keeps the record
  acceptable, a check that only reads, a decision about the source mount that does too, and at least
  one attempt, which \<^verbatim>\<open>newVolumeCopyRunner\<close> ensures.\<close>

definition transfer_ready ::
    "'s copy_runner \<Rightarrow> 's copy_slot \<Rightarrow> CopyRequest \<Rightarrow> (unit res, 's) io \<Rightarrow> (bool res, 's) io \<Rightarrow>
     ('s hist \<Rightarrow> bool) \<Rightarrow> ('s \<Rightarrow> bool) \<Rightarrow> bool" where
  "transfer_ready s slot request validate mount V P \<longleftrightarrow>
     slot_ok slot P \<and> checks validate request V \<and> 0 < cc_Retries (vr_config s) \<and>
     (\<forall>h. wp only_reads mount (\<lambda>_ _. True) h)"

text \<open>A request as \<^verbatim>\<open>prepareTransfer\<close> completes it: the configured image and the account without a token.\<close>

definition prepared_from :: "'s copy_runner \<Rightarrow> CopyRequest \<Rightarrow> CopyRequest \<Rightarrow> bool" where
  "prepared_from s request q \<longleftrightarrow> (\<exists>values. q = request\<lparr>cq_ToolImage := toolImage (vr_config s) (cq_ToolImage request),
     cq_HelmValues := cq_HelmValues request @ ho_Values TransferServiceAccountHelmValues,
     cq_HelmStringValues := cq_HelmStringValues request @ values @ ho_StringValues TransferServiceAccountHelmValues\<rparr>)"

lemma prepared_from_simps:
  assumes "prepared_from s request q"
  shows "cq_Identity q = cq_Identity request" "cq_Destination q = cq_Destination request"
  using assms by (auto simp: prepared_from_def)

definition transfer_guard ::
    "'s copy_runner \<Rightarrow> 's copy_slot \<Rightarrow> 's \<Rightarrow> CopyRequest \<Rightarrow> ('s hist \<Rightarrow> bool) \<Rightarrow> ('s \<Rightarrow> bool) \<Rightarrow> nat \<Rightarrow> 's event \<Rightarrow> 's hist \<Rightarrow> bool" where
  "transfer_guard s slot d request V P limit e h \<longleftrightarrow>
     account_guard e h \<or> (\<exists>q. prepared_from s request q \<and> copy_guard slot d q V P limit e h)"

definition transferred :: "'s copy_runner \<Rightarrow> 's copy_slot \<Rightarrow> 's \<Rightarrow> CopyRequest \<Rightarrow> ('s \<Rightarrow> bool) \<Rightarrow> 's \<times> unit res \<Rightarrow> 's hist \<Rightarrow> bool" where
  "transferred s slot d request P x h \<longleftrightarrow> (\<exists>q. prepared_from s request q \<and> copied slot d q P x h)"

lemma newVolumeCopyRunner_Retries: "0 < cc_Retries (newVolumeCopyRunner config)"
  by (simp add: newVolumeCopyRunner_def)

lemma ensure_accounts_wp: "retry_contract w \<Longrightarrow> wp account_guard (ensure_accounts lib w namespaces) (\<lambda>_ _. True) h"
  by (induction namespaces arbitrary: h) (auto simp: io_rules split: sum.splits intro!: wp_conseq [OF EnsureTransferServiceAccount_wp])

lemma prepareTransfer_wp:
  assumes "retry_contract w"
  shows "wp account_guard (prepareTransfer w s sourceNode targetNode probes request)
    (\<lambda>r h'. \<forall>q. r = Inr q \<longrightarrow> prepared_from s request q) h"
proof -
  have scheduled: "wp account_guard (helmSchedulingValues w a b c) (\<lambda>_ _. True) h" for a b c h
    by (rule wp_conseq [OF helmSchedulingValues_wp]) (simp_all add: guard_simps)
  have completed: "prepared_from s request (request\<lparr>cq_ToolImage := toolImage (vr_config s) (cq_ToolImage request),
      cq_HelmValues := cq_HelmValues request @ ho_Values TransferServiceAccountHelmValues,
      cq_HelmStringValues := cq_HelmStringValues request @ x @ y @ ho_StringValues TransferServiceAccountHelmValues\<rparr>)" for x y
    unfolding prepared_from_def by (rule exI [of _ "x @ y"]) simp
  show ?thesis
    unfolding prepareTransfer_def
    by (auto simp: io_rules completed split: sum.splits
        intro!: wp_conseq [OF scheduled] wp_conseq [OF ensure_accounts_wp [OF assms]])
qed

lemma account_guard_no_copy: "account_guard e h \<Longrightarrow> \<not> copy_of src dst e"
  by (auto simp: account_guard_def is_read_no_copy)

lemma copyWithRetry_wp:
  assumes w: "retry_contract w" and ready: "transfer_ready s slot request validate mount V P" and "P obj"
    and "attempts_left request (nat (cc_Retries (vr_config s))) limit h"
  shows "wp (transfer_guard s slot d request V P limit)
    (copyWithRetry w s slot sourceNode targetNode probes request validate mount obj) (transferred s slot d request P) h"
proof -
  let ?n = "nat (cc_Retries (vr_config s))"
  let ?src = "ai_Source (cq_Identity request)" and ?dst = "cq_Destination request"
  have stays: "attempts_left request ?n limit (e # h')" if "account_guard e h'" "attempts_left request ?n limit h'" for e h'
    using that by (auto intro!: attempts_left_Cons dest: account_guard_no_copy)
  have prepared: "wp (transfer_guard s slot d request V P limit) (prepareTransfer w s sourceNode targetNode probes request)
      (\<lambda>r h'. \<forall>q. r = Inr q \<longrightarrow> prepared_from s request q \<and> attempts_left request ?n limit h') h"
    by (rule wp_conseq [OF wp_stable [OF prepareTransfer_wp [OF w], where I = "attempts_left request ?n limit"]])
       (use assms(4) stays in \<open>auto simp: transfer_guard_def\<close>)
  have loop: "wp (transfer_guard s slot d request V P limit) (copy_loop ?n 0 w s slot q validate mount None obj)
      (transferred s slot d request P) h'"
    if "prepared_from s request q \<and> attempts_left request ?n limit h'" for q h'
  proof -
    have "checks validate q V" "attempts_left q ?n limit h'"
      using ready that by (auto simp: transfer_ready_def checks_def attempts_left_def prepared_from_simps [of s request q])
    then have "wp (copy_guard slot d q V P limit) (copy_loop ?n 0 w s slot q validate mount None obj) (copied slot d q P) h'"
      by (intro copy_loop_wp) (use ready assms(3) in \<open>auto simp: transfer_ready_def\<close>)
    then show ?thesis
      by (rule wp_conseq) (use that in \<open>auto simp: transfer_guard_def transferred_def\<close>)
  qed
  obtain q where "prepared_from s request q" unfolding prepared_from_def by blast
  then have failed: "transferred s slot d request P (obj, Inl e) h'" for e h'
    using assms(3) by (auto simp: transferred_def copied_def)
  show ?thesis
    unfolding copyWithRetry_def by (rule wp_try_st_step [OF prepared failed loop])
qed

section \<open>What a transfer guarantees\<close>

lemma attempts_left_start: "attempts_left request n n []"
  by (simp add: attempts_left_def copies_def tools_released_def tool_claims_def)

text \<open>A run with one failed attempt, over a record that holds just the counter and the last error.\<close>

definition demo_copy_world :: "(int \<times> string) world" where
  "demo_copy_world = (static_world (\<lambda>ns n. Inl (ApiError NotFound)) (\<lambda>n. Inl (ApiError NotFound)))
     \<lparr>w_copy := \<lambda>h q. if ai_Attempt (cq_Identity q) = 1 then Inl (NewError ErrorCopy OpCopyAttempt) else Inr ()\<rparr>"

definition demo_copy_slot :: "(int \<times> string) copy_slot" where
  "demo_copy_slot = \<lparr>sl_attempts = fst, sl_error = snd, sl_put = (\<lambda>a t s. (a, t))\<rparr>"

definition demo_runner :: "duration \<Rightarrow> (int \<times> string) copy_runner" where
  "demo_runner timeout = \<lparr>vr_config = newVolumeCopyRunner \<lparr>cc_Retries = 0, cc_RetryBackoff = 0, cc_CopyTimeout = timeout,
       cc_TrustedToolImage = []\<rparr>,
     vr_observed = (\<lambda>h. None), vr_no_space = (\<lambda>e. False), vr_text = (\<lambda>e. ''failed''), vr_order = (\<lambda>h. False),
     vr_lib = \<lparr>tl_ParseNormalizedNamed = (\<lambda>s. Some (s, None)), tl_IsDNS1123Label = (\<lambda>n. True)\<rparr>\<rparr>"

definition demo_ref :: "string \<Rightarrow> ObjectReference" where
  "demo_ref n = \<lparr>r_APIVersion = CoreAPIVersion, r_Kind = KindPersistentVolumeClaim, r_Namespace = ''n'', r_Name = n,
     r_UID = ''u'', r_ResourceVersion = ''1''\<rparr>"

definition demo_request :: CopyRequest where
  "demo_request = \<lparr>cq_Identity = \<lparr>ai_SessionID = ''s'', ai_Source = demo_ref ''a'', ai_Mode = ModeFinal, ai_Attempt = 0\<rparr>,
     cq_SourcePath = [], cq_MountReadWrite = False, cq_Destination = demo_ref ''b'', cq_DestinationPath = [],
     cq_Strategies = [], cq_DeleteExtraneousFiles = False, cq_VerifyChecksum = False, cq_IgnoreSizes = False,
     cq_ToolImage = [], cq_HelmValues = [], cq_HelmStringValues = []\<rparr>"

abbreviation demo_transfer :: "((int \<times> string) \<times> unit res, int \<times> string) io" where
  "demo_transfer \<equiv> copyWithRetry demo_copy_world (demo_runner 0) demo_copy_slot [] [] [] demo_request
     (io_ret (Inr ())) (io_ret (Inr False)) (0, [])"

lemma demo_copy_retry: "retry_contract demo_copy_world"
  by (simp add: demo_copy_world_def retry_contract_def static_world_def last_attempt)

lemma demo_transfer_ready:
  "transfer_ready (demo_runner t) demo_copy_slot demo_request (io_ret (Inr ())) (io_ret (Inr False))
     (\<lambda>h. True) (\<lambda>s. 0 \<le> fst s)"
  by (simp add: transfer_ready_def slot_ok_def checks_def io_rules demo_copy_slot_def demo_runner_def newVolumeCopyRunner_Retries)

fun retried :: "'s event \<Rightarrow> bool" where
  "retried (EvCopy q r) = (ai_Attempt (cq_Identity q) = 2)"
| "retried e = False"

lemmas copy_run_defs = copyWithRetry_def copy_attempt_def attempt_request_def persistCheckpoint_def checkpointFenceError_def
  copy_error_def attempt_ended_def mergeToolLogError_def attempt_failed_def backoff_sleep_def sleep_ctx_def
  cleanupCopyToolPods_def deleteCopyToolPods_def waitForCopyToolRelease_def tool_claims_def list_tool_pods_def
  engine_copy_def save_state_def ctx_state_def ctx_err_def list_pods_def detach_def WaitFor_def
  io_bind_def io_ret_def io_try_def io_try_st_def io_read_def io_request_def Let_def second_def
  LeaseFenceError_def static_world_def newVolumeCopyRunner_def

lemma demo_trim: "TrimSpace ''n'' = ''n''"
  by code_simp

lemma demo_account:
  "EnsureTransferServiceAccount (vr_lib (demo_runner t)) demo_copy_world ''n'' h =
     (Inr (), [EvCheck None None, EvCreateServiceAccount (transfer_account ''n'') (Inr (Some (transfer_account ''n''))),
       EvGetServiceAccount ''n'' TransferServiceAccountName (Inl (ApiError NotFound)), EvCheck None None])"
  by (simp add: EnsureTransferServiceAccount_def account_attempt_def load_or_create_account_def fence_check_def
      fence_check_after_def get_service_account_def create_service_account_def demo_runner_def demo_copy_world_def
      static_world_def io_bind_def io_ret_def io_try_def io_request_def io_read_def ctx_state_def LeaseFenceError_def
      transfer_account_def demo_trim Let_def IsNotFound_def reason_of_def errors_join_def mget_def
      ManagedByLabel_def
      transferServiceAccountLabel_def)

lemma demo_transfer_retries: "list_ex retried (snd (demo_transfer []))" "fst (demo_transfer []) = ((2, []), Inr ())"
proof -
  have prepared: "prepareTransfer demo_copy_world (demo_runner 0) [] [] [] demo_request h =
      (Inr (demo_request\<lparr>cq_ToolImage := toolImage (vr_config (demo_runner 0)) [],
         cq_HelmValues := ho_Values TransferServiceAccountHelmValues,
         cq_HelmStringValues := ZeroResourceHelmValues @ ho_StringValues TransferServiceAccountHelmValues\<rparr>),
       snd (EnsureTransferServiceAccount (vr_lib (demo_runner 0)) demo_copy_world ''n'' h))" for h
    by (simp add: prepareTransfer_def helmSchedulingValues_def scheduling_targets_def node_names_def demo_request_def
        demo_ref_def transfer_namespaces_def demo_account ToolImagePullSecretHelmValues_def component_secrets_def
        probedSourceNode_def io_bind_def io_ret_def io_try_def Let_def ToolComponentTolerationHelmValues_def map_filter_simps)
  show "list_ex retried (snd (demo_transfer []))" "fst (demo_transfer []) = ((2, []), Inr ())"
    unfolding copyWithRetry_def io_try_st_def io_bind_def prepared demo_account
    by (simp_all add: copy_run_defs demo_copy_world_def demo_copy_slot_def demo_runner_def demo_request_def
        demo_ref_def copy_loop.simps eval_nat_numeral wait_loop.simps errors_join_def)
qed

text \<open>C15: transfer attempts never overlap and never outrun their record. Whenever the copy engine is
  started, the lease was just checked, the check of the caller passed since the last attempt, the
  attempt carries the number that was saved last, fewer attempts than the configured number were made,
  since the last attempt the Pods were listed without a tool that mounts one of the claims, and the tools
  run the configured image under the service account without a token.\<close>

theorem copy_attempts_safe:
  assumes "retry_contract w" and "transfer_ready s slot request validate mount V P" and "P obj"
    and "copyWithRetry w s slot sourceNode targetNode probes request validate mount obj [] = (x, es2 @ EvCopy q r # es1)"
  shows "fenced es1 \<and> V es1 \<and> ai_Attempt (cq_Identity q) = sl_attempts slot (last_saved d es1)
    \<and> copies (ai_Source (cq_Identity request)) (cq_Destination request) es1 < nat (cc_Retries (vr_config s))
    \<and> tools_released (ai_Source (cq_Identity request)) (cq_Destination request) es1
    \<and> ai_Source (cq_Identity q) = ai_Source (cq_Identity request) \<and> cq_Destination q = cq_Destination request
    \<and> cq_ToolImage q = toolImage (vr_config s) (cq_ToolImage request)
    \<and> set (ho_Values TransferServiceAccountHelmValues) \<subseteq> set (cq_HelmValues q)
    \<and> set (ho_StringValues TransferServiceAccountHelmValues) \<subseteq> set (cq_HelmStringValues q)"
  using wp_event [OF copyWithRetry_wp [OF assms(1-3) attempts_left_start] assms(4), of d]
  by (auto simp: transfer_guard_def account_guard_def copy_guard_def attempt_allowed_def tool_guard_def prepared_from_def
      attempt_request_def)

theorem copy_attempts_safe_witness:
  "\<exists>x es2 q r es1. demo_transfer [] = (x, es2 @ EvCopy q r # es1) \<and> ai_Attempt (cq_Identity q) = 2
     \<and> fenced es1 \<and> fst (last_saved (0, []) es1) = 2 \<and> tools_released (demo_ref ''a'') (demo_ref ''b'') es1"
proof (rule run_split [OF demo_transfer_retries(1)])
  fix x es2 e es1
  assume run: "demo_transfer [] = (x, es2 @ e # es1)" and "retried e"
  then obtain q r where e: "e = EvCopy q r" and second: "ai_Attempt (cq_Identity q) = 2" by (cases e) auto
  from copy_attempts_safe [OF demo_copy_retry demo_transfer_ready _ run [unfolded e], of "(0, [])"] second
  have "fenced es1 \<and> fst (last_saved (0, []) es1) = 2 \<and> tools_released (demo_ref ''a'') (demo_ref ''b'') es1"
    by (simp add: demo_copy_slot_def demo_request_def)
  with run e second show ?thesis by blast
qed

text \<open>C16: a transfer that reports success succeeded. The last attempt between the two claims ended without
  an error, its number and no error are what was saved last, and its tools are gone.\<close>

theorem copy_success:
  assumes "retry_contract w" and "transfer_ready s slot request validate mount V P" and "P obj"
    and "copyWithRetry w s slot sourceNode targetNode probes request validate mount obj [] = ((obj', Inr ()), es)"
  shows "\<exists>q. last_copy (ai_Source (cq_Identity request)) (cq_Destination request) es = Some (q, Inr ())
     \<and> ai_Attempt (cq_Identity q) = sl_attempts slot obj' \<and> obj' = last_saved d es \<and> P obj'
     \<and> tools_released (ai_Source (cq_Identity request)) (cq_Destination request) es"
  using wp_run [OF copyWithRetry_wp [OF assms(1-3) attempts_left_start] assms(4), of d]
  by (auto simp: transferred_def copied_def prepared_from_simps)

theorem copy_success_witness:
  "\<exists>es. demo_transfer [] = (((2, []), Inr ()), es) \<and> last_saved (0, []) es = (2, [])
     \<and> (\<exists>q. last_copy (demo_ref ''a'') (demo_ref ''b'') es = Some (q, Inr ()) \<and> ai_Attempt (cq_Identity q) = 2)"
proof -
  obtain es where run: "demo_transfer [] = (((2, []), Inr ()), es)"
    using demo_transfer_retries(2) by (metis prod.collapse)
  from copy_success [OF demo_copy_retry demo_transfer_ready _ run, of "(0, [])"] run show ?thesis
    by (auto simp: demo_copy_slot_def demo_request_def)
qed

text \<open>With a limit on the duration of an attempt, every failed attempt is reported as one that exceeded
  it, whatever made it fail and however early: the context of the attempt is cancelled before its
  error is read.\<close>

lemma copy_timeout_mislabels:
  assumes "0 < cc_CopyTimeout (vr_config s)" and "\<And>h. w_ctx_err w h = None"
    and "copy_attempt w s q h = ((Some e, c), es)"
  shows "CategoryOf e = ErrorTimeout"
proof -
  have error: "wp (\<lambda>_ _. True) (copy_error w (vr_config s) x) (\<lambda>r _. \<forall>e. r = Some e \<longrightarrow> CategoryOf e = ErrorTimeout) h" for x h
    unfolding copy_error_def attempt_ended_def ctx_err_def
    by (auto simp: io_rules assms(1,2) split: option.splits)
  have "wp (\<lambda>_ _. True) (copy_attempt w s q) (\<lambda>(r, _) _. \<forall>e. r = Some e \<longrightarrow> CategoryOf e = ErrorTimeout) h"
    unfolding copy_attempt_def
    by (auto simp: io_rules intro!: io_intros wp_conseq [OF error] wp_conseq [OF cleanupCopyToolPods_wp])
  then show ?thesis using assms(3) by (simp add: wp_def)
qed
end
