(* ===== verification/MigrationObject.thy ===== *)
theory MigrationObject
  imports Activation Paths
begin

text \<open>
  The record of an offline migration and its validation: the plan, the checkpoints and the status of
  a \<^verbatim>\<open>ClusterMigration\<close> (\<^verbatim>\<open>api/v1alpha1/cluster_workflow_types.go\<close>, \<^verbatim>\<open>workflow_types.go\<close>,
  \<^verbatim>\<open>workflow_intent.go\<close>), the checks that every operation starts with
  (\<^verbatim>\<open>internal/app/migration_executor_validation.go\<close>, \<^verbatim>\<open>validateReservationVolumes\<close> of
  \<^verbatim>\<open>reservation_executor_validation.go\<close>) and the phase graph. \<open>parse\<close> is
  \<^verbatim>\<open>resource.ParseQuantity\<close>. A Go map from source claim names to planned volumes is an association
  list with distinct keys, so its length is the number of its entries.
\<close>

section \<open>Data\<close>

record LocalResourceReference =
  lo_APIVersion :: string
  lo_Kind :: string
  lo_Name :: string
  lo_UID :: string
  lo_ResourceVersion :: string

record VolumeSpec =
  vs_SourcePVC :: LocalResourceReference
  vs_SourcePV :: LocalResourceReference
  vs_DestinationPVC :: LocalResourceReference
  vs_SourceReclaimPolicy :: ReclaimPolicy
  vs_SourcePVCSpec :: PVCSpec
  vs_SourcePVCMetadata :: PVCMetadata
  vs_Capacity :: string
  vs_SourceCapacity :: string
  vs_StorageClass :: string
  vs_AccessModes :: "AccessMode list"
  vs_VolumeMode :: VolumeMode
  vs_TransferScope :: "TransferScope option"

record VolumeRequest =
  vq_SourcePVC :: LocalResourceReference
  vq_SourcePV :: "LocalResourceReference option"
  vq_DestinationPVC :: "LocalResourceReference option"

record ClusterMigrationSpec =
  ms_UnusedStoragePolicy :: UnusedStoragePolicy
  ms_Volumes :: "VolumeRequest list"
  ms_SourceNamespace :: string
  ms_DestinationNamespace :: string
  ms_TemporaryNamespace :: string
  ms_SessionNamespace :: string

record ClusterMigrationPlan =
  mp_UnusedStoragePolicy :: UnusedStoragePolicy
  mp_SourceNamespace :: string
  mp_TemporaryNamespace :: string
  mp_DestinationNamespace :: string
  mp_SessionNamespace :: string
  mp_Volumes :: "VolumeSpec list"
  mp_SourceNode :: string
  mp_TargetNode :: string
  mp_ToolImage :: string
  mp_Strategies :: "string list"
  mp_VerifyChecksum :: bool
  mp_DeleteExtraneous :: bool
  mp_SkipSourceUsageCheck :: bool

record ClusterVolumeReservationStatus =
  rs_SourcePVCName :: string
  rs_DestinationPVC :: "ObjectReference option"
  rs_DestinationPV :: "ObjectReference option"
  rs_DestinationPolicy :: ReclaimPolicy
  rs_Reserved :: bool

record MigrationSyncStatus =
  sy_FinalCompletedAt :: "instant option"
  sy_Attempts :: int
  sy_ChecksumVerified :: bool
  sy_LastError :: string

record ClusterMigrationVolumeStatus =
  mv_Reservation :: ClusterVolumeReservationStatus
  mv_Sync :: MigrationSyncStatus
  mv_Activation :: ClusterVolumeActivationStatus

record ClusterMigrationStatus =
  cs_Plan :: "ClusterMigrationPlan option"
  cs_Workflow :: WorkflowStatus
  cs_Volumes :: "ClusterMigrationVolumeStatus list"

record ClusterMigration =
  cm_Meta :: workflow_meta
  cm_Spec :: ClusterMigrationSpec
  cm_Status :: ClusterMigrationStatus

definition qualifiedResourceReference :: "LocalResourceReference \<Rightarrow> string \<Rightarrow> ObjectReference" where
  "qualifiedResourceReference ref namespace =
     \<lparr>r_APIVersion = lo_APIVersion ref, r_Kind = lo_Kind ref, r_Namespace = namespace,
      r_Name = lo_Name ref, r_UID = lo_UID ref, r_ResourceVersion = lo_ResourceVersion ref\<rparr>"

definition localResourceReference :: "ObjectReference \<Rightarrow> LocalResourceReference" where
  "localResourceReference ref =
     \<lparr>lo_APIVersion = r_APIVersion ref, lo_Kind = r_Kind ref, lo_Name = r_Name ref,
      lo_UID = r_UID ref, lo_ResourceVersion = r_ResourceVersion ref\<rparr>"

definition workflowResumePhase :: "WorkflowStatus \<Rightarrow> Phase" where
  "workflowResumePhase status = (if ws_Phase status = PhaseFailed then ws_ResumeFrom status else ws_Phase status)"

text \<open>The volume entry of a source claim. \<^verbatim>\<open>clusterMigrationVolumeIndexes\<close> keeps the last index of a
  name; validated checkpoints have each name once.\<close>

definition clusterMigrationVolumeIndexes :: "ClusterMigrationVolumeStatus list \<Rightarrow> string \<Rightarrow> nat option" where
  "clusterMigrationVolumeIndexes volumes =
     foldl (\<lambda>m (i, v). m(rs_SourcePVCName (mv_Reservation v) \<mapsto> i)) Map.empty (enumerate 0 volumes)"

section \<open>Lifecycle\<close>

definition migrationPhase :: "Phase \<Rightarrow> bool" where
  "migrationPhase phase =
     (phase \<in> {PhasePlanned, PhaseReserving, PhaseReserved, PhaseFinalSyncing, PhaseFinalSynced,
        PhaseActivating, PhaseActivated, PhaseResuming, PhaseCompleted, PhaseAborting, PhaseAborted,
        PhaseRollingBack, PhaseRolledBack})"

definition FailureDestinationCapacityExhausted :: string where
  "FailureDestinationCapacityExhausted = ''DestinationCapacityExhausted''"

abbreviation invalid_migration :: "unit res" where
  "invalid_migration \<equiv> Inl (NewError ErrorValidation OpMigration)"

definition validateMigrationLifecycle :: "WorkflowStatus \<Rightarrow> unit res" where
  "validateMigrationLifecycle status =
     (if ws_Phase status \<noteq> PhaseNone \<and> ws_Phase status \<noteq> PhaseFailed \<and> \<not> migrationPhase (ws_Phase status)
      then invalid_migration
      else if ws_ResumeFrom status \<noteq> PhaseNone \<and> \<not> migrationPhase (ws_ResumeFrom status) then invalid_migration
      else if ws_Phase status = PhaseFailed \<and> ws_ResumeFrom status = PhaseNone then invalid_migration
      else if ws_FailureReason status \<noteq> []
           \<and> (ws_FailureReason status \<noteq> FailureDestinationCapacityExhausted
              \<or> workflowResumePhase status \<noteq> PhaseFinalSyncing) then invalid_migration
      else Inr ())"

definition migration_edges :: "Phase \<Rightarrow> Phase list" where
  "migration_edges current =
     (case current of
        PhaseNone \<Rightarrow> [PhaseAborted]
      | PhasePlanned \<Rightarrow> [PhaseReserving, PhaseAborting, PhaseAborted]
      | PhaseReserving \<Rightarrow> [PhaseReserved, PhaseAborting]
      | PhaseReserved \<Rightarrow> [PhaseFinalSyncing, PhaseAborting]
      | PhaseFinalSyncing \<Rightarrow> [PhaseFinalSynced, PhaseAborting]
      | PhaseFinalSynced \<Rightarrow> [PhaseFinalSyncing, PhaseActivating, PhaseRollingBack, PhaseAborting]
      | PhaseActivating \<Rightarrow> [PhaseActivated, PhaseRollingBack]
      | PhaseActivated \<Rightarrow> [PhaseResuming, PhaseCompleted, PhaseRollingBack]
      | PhaseResuming \<Rightarrow> [PhaseCompleted, PhaseRollingBack]
      | PhaseCompleted \<Rightarrow> [PhaseRollingBack]
      | PhaseRollingBack \<Rightarrow> [PhaseRolledBack]
      | PhaseAborting \<Rightarrow> [PhaseAborted]
      | _ \<Rightarrow> [])"

definition validateMigrationTransition :: "Phase \<Rightarrow> Phase \<Rightarrow> unit res" where
  "validateMigrationTransition current next =
     (if (current = next \<or> next = PhaseFailed) \<and> migrationPhase current \<or> next \<in> set (migration_edges current)
      then Inr () else Inl (NewError ErrorPrecondition OpMigration))"

section \<open>The plan\<close>

definition validateMigrationPlanNamespaces :: "ClusterMigrationSpec \<Rightarrow> ClusterMigrationPlan \<Rightarrow> unit res" where
  "validateMigrationPlanNamespaces spec plan =
     (let temporary = (if ms_TemporaryNamespace spec = [] then ms_SourceNamespace spec else ms_TemporaryNamespace spec);
          session = (if ms_SessionNamespace spec = [] then ms_SourceNamespace spec else ms_SessionNamespace spec);
          destination = (if ms_DestinationNamespace spec = [] then ms_SourceNamespace spec
                         else ms_DestinationNamespace spec)
      in if mp_SourceNamespace plan = [] \<or> mp_TemporaryNamespace plan = [] \<or> mp_SessionNamespace plan = []
            \<or> mp_SourceNamespace plan \<noteq> ms_SourceNamespace spec \<or> mp_TemporaryNamespace plan \<noteq> temporary
            \<or> mp_SessionNamespace plan \<noteq> session \<or> mp_DestinationNamespace plan \<noteq> destination
         then invalid_migration else Inr ())"

definition OpReservation :: string where "OpReservation = ''reservation''"

definition volume_name :: "VolumeSpec \<Rightarrow> string" where
  "volume_name v = lo_Name (vs_SourcePVC v)"

definition destination_name :: "VolumeSpec \<Rightarrow> string" where
  "destination_name v = lo_Name (vs_DestinationPVC v)"

definition positive_quantity :: "(string \<Rightarrow> quantity option) \<Rightarrow> string \<Rightarrow> bool" where
  "positive_quantity parse s = (case parse s of None \<Rightarrow> False | Some q \<Rightarrow> q > 0)"

fun validate_reservation_volumes ::
    "(string \<Rightarrow> quantity option) \<Rightarrow> bool \<Rightarrow> string set \<Rightarrow> string set \<Rightarrow> VolumeSpec list \<Rightarrow> unit res" where
  "validate_reservation_volumes parse same names destinations [] = Inr ()"
| "validate_reservation_volumes parse same names destinations (v # vs) =
     (if volume_name v = [] \<or> lo_UID (vs_SourcePVC v) = [] \<or> lo_Name (vs_SourcePV v) = []
         \<or> lo_UID (vs_SourcePV v) = [] \<or> destination_name v = []
      then Inl (NewError ErrorValidation OpReservation)
      else if volume_name v \<in> names \<or> destination_name v \<in> destinations
      then Inl (NewError ErrorValidation OpReservation)
      else if same \<and> volume_name v = destination_name v
      then Inl (NewError ErrorValidation OpReservation)
      else if \<not> positive_quantity parse (vs_SourceCapacity v) \<or> \<not> positive_quantity parse (vs_Capacity v)
      then Inl (NewError ErrorValidation OpReservation)
      else validate_reservation_volumes parse same (insert (volume_name v) names)
             (insert (destination_name v) destinations) vs)"

definition validateReservationVolumes ::
    "(string \<Rightarrow> quantity option) \<Rightarrow> VolumeSpec list \<Rightarrow> string \<Rightarrow> string \<Rightarrow> (string \<times> VolumeSpec) list res" where
  "validateReservationVolumes parse planned sourceNamespace destinationNamespace =
     (case validate_reservation_volumes parse (sourceNamespace = destinationNamespace) {} {} planned of
        Inl e \<Rightarrow> Inl e
      | Inr _ \<Rightarrow> Inr (map (\<lambda>v. (volume_name v, v)) planned))"

definition reservationReferenceMatches :: "LocalResourceReference \<Rightarrow> LocalResourceReference \<Rightarrow> bool" where
  "reservationReferenceMatches request resolved =
     (lo_Name request = lo_Name resolved
      \<and> (lo_UID request = [] \<or> lo_UID request = lo_UID resolved)
      \<and> (lo_ResourceVersion request = [] \<or> lo_ResourceVersion request = lo_ResourceVersion resolved)
      \<and> (lo_Kind request = [] \<or> lo_Kind request = lo_Kind resolved)
      \<and> (lo_APIVersion request = [] \<or> lo_APIVersion request = lo_APIVersion resolved))"

definition optional_matches :: "LocalResourceReference option \<Rightarrow> LocalResourceReference \<Rightarrow> bool" where
  "optional_matches request resolved =
     (case request of None \<Rightarrow> True | Some r \<Rightarrow> reservationReferenceMatches r resolved)"

fun requested_volumes :: "(string \<times> VolumeSpec) list \<Rightarrow> string set \<Rightarrow> VolumeRequest list \<Rightarrow> unit res" where
  "requested_volumes volumes requested [] = Inr ()"
| "requested_volumes volumes requested (q # qs) =
     (case map_of volumes (lo_Name (vq_SourcePVC q)) of
        None \<Rightarrow> invalid_migration
      | Some v \<Rightarrow>
          if lo_Name (vq_SourcePVC q) \<in> requested
             \<or> \<not> reservationReferenceMatches (vq_SourcePVC q) (vs_SourcePVC v)
             \<or> \<not> optional_matches (vq_SourcePV q) (vs_SourcePV v)
             \<or> \<not> optional_matches (vq_DestinationPVC q) (vs_DestinationPVC v)
          then invalid_migration
          else requested_volumes volumes (insert (lo_Name (vq_SourcePVC q)) requested) qs)"

definition validateMigrationRequestedVolumes ::
    "VolumeRequest list \<Rightarrow> (string \<times> VolumeSpec) list \<Rightarrow> unit res" where
  "validateMigrationRequestedVolumes requests volumes =
     (if length requests \<noteq> length volumes then invalid_migration else requested_volumes volumes {} requests)"

section \<open>The checkpoints\<close>

definition bad_reference :: "(ObjectReference \<Rightarrow> bool) \<Rightarrow> ObjectReference option \<Rightarrow> bool" where
  "bad_reference P ref = (case ref of None \<Rightarrow> False | Some r \<Rightarrow> P r)"

definition validateMigrationVolumeCheckpoint ::
    "VolumeSpec \<Rightarrow> ClusterVolumeReservationStatus \<Rightarrow> ClusterVolumeActivationStatus \<Rightarrow> int \<Rightarrow> string \<Rightarrow> string
      \<Rightarrow> unit res" where
  "validateMigrationVolumeCheckpoint volume checkpoint activation copyAttempts destinationNamespace temporaryNamespace =
     (if bad_reference (\<lambda>r. r_Name r \<noteq> destination_name volume \<or> r_Namespace r \<noteq> temporaryNamespace
           \<or> r_UID r = []) (rs_DestinationPVC checkpoint) then invalid_migration
      else if bad_reference (\<lambda>r. r_Name r = [] \<or> r_UID r = [] \<or> r_Namespace r \<noteq> []) (rs_DestinationPV checkpoint)
      then invalid_migration
      else if rs_Reserved checkpoint \<and> (rs_DestinationPVC checkpoint = None \<or> rs_DestinationPV checkpoint = None)
      then invalid_migration
      else if bad_reference (\<lambda>r. r_Name r \<noteq> volume_name volume \<or> r_Namespace r \<noteq> destinationNamespace
           \<or> r_UID r = []) (a_ActivePVC activation) then invalid_migration
      else if copyAttempts < 0 then invalid_migration
      else if copyAttempts > 0 \<and> \<not> rs_Reserved checkpoint then invalid_migration
      else if (a_ActivatedAt activation \<noteq> None \<or> a_RolledBackAt activation \<noteq> None) \<and> a_ActivePVC activation = None
      then invalid_migration
      else Inr ())"

definition validateMigrationVolumePhase ::
    "bool \<Rightarrow> instant option \<Rightarrow> instant option \<Rightarrow> instant option \<Rightarrow> Phase \<Rightarrow> unit res" where
  "validateMigrationVolumePhase reserved finalCompletedAt activatedAt rolledBackAt phase =
     (if phase \<noteq> PhasePlanned \<and> phase \<noteq> PhaseReserving \<and> phase \<noteq> PhaseAborting \<and> phase \<noteq> PhaseAborted
         \<and> \<not> reserved then invalid_migration
      else if phase \<in> {PhaseFinalSynced, PhaseActivating, PhaseActivated, PhaseResuming, PhaseCompleted}
              \<and> finalCompletedAt = None then invalid_migration
      else if phase \<in> {PhaseActivated, PhaseResuming, PhaseCompleted} \<and> activatedAt = None then invalid_migration
      else if phase = PhaseRolledBack \<and> rolledBackAt = None then invalid_migration
      else Inr ())"

definition checkpoint_name :: "ClusterMigrationVolumeStatus \<Rightarrow> string" where
  "checkpoint_name c = rs_SourcePVCName (mv_Reservation c)"

definition validate_checkpoint ::
    "VolumeSpec \<Rightarrow> ClusterMigrationVolumeStatus \<Rightarrow> string \<Rightarrow> string \<Rightarrow> Phase \<Rightarrow> unit res" where
  "validate_checkpoint volume c destinationNamespace temporaryNamespace phase =
     (case validateMigrationVolumeCheckpoint volume (mv_Reservation c) (mv_Activation c)
             (sy_Attempts (mv_Sync c)) destinationNamespace temporaryNamespace of
        Inl e \<Rightarrow> Inl e
      | Inr _ \<Rightarrow> validateMigrationVolumePhase (rs_Reserved (mv_Reservation c)) (sy_FinalCompletedAt (mv_Sync c))
                   (a_ActivatedAt (mv_Activation c)) (a_RolledBackAt (mv_Activation c)) phase)"

fun validate_checkpoints ::
    "(string \<times> VolumeSpec) list \<Rightarrow> string \<Rightarrow> string \<Rightarrow> Phase \<Rightarrow> string set
      \<Rightarrow> ClusterMigrationVolumeStatus list \<Rightarrow> unit res" where
  "validate_checkpoints volumes dns tns phase seen [] = Inr ()"
| "validate_checkpoints volumes dns tns phase seen (c # cs) =
     (case map_of volumes (checkpoint_name c) of
        None \<Rightarrow> invalid_migration
      | Some v \<Rightarrow>
          if checkpoint_name c \<in> seen then invalid_migration
          else (case validate_checkpoint v c dns tns phase of
              Inl e \<Rightarrow> Inl e
            | Inr _ \<Rightarrow> validate_checkpoints volumes dns tns phase (insert (checkpoint_name c) seen) cs))"

definition validateMigrationCheckpoints ::
    "(string \<times> VolumeSpec) list \<Rightarrow> ClusterMigrationVolumeStatus list \<Rightarrow> string \<Rightarrow> string \<Rightarrow> Phase \<Rightarrow> unit res" where
  "validateMigrationCheckpoints volumes checkpoints destinationNamespace temporaryNamespace phase =
     (if length checkpoints = 0
         \<and> (phase = PhasePlanned \<or> phase = PhaseReserving \<or> phase = PhaseAborting \<or> phase = PhaseAborted)
      then Inr ()
      else if length checkpoints \<noteq> length volumes then invalid_migration
      else validate_checkpoints volumes destinationNamespace temporaryNamespace phase {} checkpoints)"

section \<open>The whole object\<close>

definition deletingWorkflow :: "ClusterMigration \<Rightarrow> bool" where
  "deletingWorkflow object = wm_Deleting (cm_Meta object)"

definition unless_deleting :: "ClusterMigration \<Rightarrow> unit res \<Rightarrow> unit res" where
  "unless_deleting object r = (if deletingWorkflow object then Inr () else r)"

text \<open>\<^verbatim>\<open>if err != nil { return err }\<close> on pure results.\<close>

definition then_check :: "'a res \<Rightarrow> ('a \<Rightarrow> 'b res) \<Rightarrow> 'b res" where
  "then_check r k = (case r of Inl e \<Rightarrow> Inl e | Inr x \<Rightarrow> k x)"

definition validateClusterMigrationObject ::
    "(string \<Rightarrow> quantity option) \<Rightarrow> ClusterMigration option \<Rightarrow> unit res" where
  "validateClusterMigrationObject parse object =
     (case object of None \<Rightarrow> invalid_migration
      | Some obj \<Rightarrow>
        if wm_Name (cm_Meta obj) = [] \<or> wm_Namespace (cm_Meta obj) \<noteq> [] then invalid_migration
        else
          let status = cs_Workflow (cm_Status obj); phase = workflowResumePhase status in
          then_check (validateMigrationLifecycle status) (\<lambda>_.
          then_check (unless_deleting obj (ValidateUnusedStoragePolicy (ms_UnusedStoragePolicy (cm_Spec obj)))) (\<lambda>_.
          case cs_Plan (cm_Status obj) of
            None \<Rightarrow>
              if length (cs_Volumes (cm_Status obj)) \<noteq> 0
                 \<or> (phase \<noteq> PhaseNone \<and> phase \<noteq> PhasePlanned \<and> phase \<noteq> PhaseAborted)
              then invalid_migration else Inr ()
          | Some plan \<Rightarrow>
              if length (mp_Volumes plan) = 0 \<or> ws_Phase status = PhaseNone then invalid_migration
              else
                then_check (unless_deleting obj (validateMigrationPlanNamespaces (cm_Spec obj) plan)) (\<lambda>_.
                then_check (ValidateUnusedStoragePolicy (mp_UnusedStoragePolicy plan)) (\<lambda>_.
                then_check (validateReservationVolumes parse (mp_Volumes plan) (mp_SourceNamespace plan)
                              (mp_TemporaryNamespace plan)) (\<lambda>volumes.
                then_check (unless_deleting obj
                              (validateMigrationRequestedVolumes (ms_Volumes (cm_Spec obj)) volumes)) (\<lambda>_.
                validateMigrationCheckpoints volumes (cs_Volumes (cm_Status obj)) (mp_DestinationNamespace plan)
                  (mp_TemporaryNamespace plan) phase)))))))"

definition validateMigrationCopyRetry :: "string \<Rightarrow> unit res" where
  "validateMigrationCopyRetry reason =
     (if reason = FailureDestinationCapacityExhausted
      then Inl (NewError ErrorConflict ''migration final sync'') else Inr ())"

definition migrationFinalSyncPhase :: "Phase \<Rightarrow> bool" where
  "migrationFinalSyncPhase phase =
     (phase = PhaseReserved \<or> phase = PhaseFinalSyncing \<or> phase = PhaseFinalSynced)"

section \<open>What validation establishes\<close>

lemma then_check_Inr [simp]: "then_check r k = Inr y \<longleftrightarrow> (\<exists>x. r = Inr x \<and> k x = Inr y)"
  by (simp add: then_check_def split: sum.splits)

lemma unless_deleting_Inr: "unless_deleting obj r = Inr () \<longleftrightarrow> deletingWorkflow obj \<or> r = Inr ()"
  by (simp add: unless_deleting_def)

definition volume_ok :: "(string \<Rightarrow> quantity option) \<Rightarrow> bool \<Rightarrow> VolumeSpec \<Rightarrow> bool" where
  "volume_ok parse same v \<longleftrightarrow> volume_name v \<noteq> [] \<and> lo_UID (vs_SourcePVC v) \<noteq> [] \<and> lo_Name (vs_SourcePV v) \<noteq> []
     \<and> lo_UID (vs_SourcePV v) \<noteq> [] \<and> destination_name v \<noteq> []
     \<and> \<not> (same \<and> volume_name v = destination_name v)
     \<and> positive_quantity parse (vs_SourceCapacity v) \<and> positive_quantity parse (vs_Capacity v)"

lemma validate_reservation_volumes_Cons:
  "validate_reservation_volumes parse same names dests (v # vs) = Inr () \<longleftrightarrow>
     volume_ok parse same v \<and> volume_name v \<notin> names \<and> destination_name v \<notin> dests
     \<and> validate_reservation_volumes parse same (insert (volume_name v) names)
          (insert (destination_name v) dests) vs = Inr ()"
  by (simp add: volume_ok_def) blast

lemma validate_reservation_volumes_Inr:
  "validate_reservation_volumes parse same names dests vs = Inr () \<longleftrightarrow>
     distinct (map volume_name vs) \<and> distinct (map destination_name vs)
     \<and> (\<forall>v\<in>set vs. volume_name v \<notin> names \<and> destination_name v \<notin> dests \<and> volume_ok parse same v)"
proof (induction vs arbitrary: names dests)
  case (Cons v vs)
  show ?case unfolding validate_reservation_volumes_Cons Cons.IH by (auto simp: image_iff)
qed simp

lemma validate_checkpoints_Inr:
  "validate_checkpoints volumes dns tns phase seen cs = Inr () \<longleftrightarrow>
     distinct (map checkpoint_name cs) \<and> set (map checkpoint_name cs) \<inter> seen = {}
     \<and> (\<forall>c\<in>set cs. \<exists>v. map_of volumes (checkpoint_name c) = Some v \<and> validate_checkpoint v c dns tns phase = Inr ())"
  by (induction volumes dns tns phase seen cs rule: validate_checkpoints.induct)
     (auto split: option.splits sum.splits)

lemma map_of_volumes:
  assumes "distinct (map volume_name vs)"
  shows "map_of (map (\<lambda>v. (volume_name v, v)) vs) n = Some v \<longleftrightarrow> v \<in> set vs \<and> volume_name v = n"
  using assms by (subst map_of_eq_Some_iff) (auto simp: comp_def)

text \<open>The well-formedness of a planned object, as a statement about its volumes.\<close>

definition planned_ok :: "(string \<Rightarrow> quantity option) \<Rightarrow> ClusterMigrationPlan \<Rightarrow> bool" where
  "planned_ok parse plan \<longleftrightarrow> mp_Volumes plan \<noteq> [] \<and> distinct (map volume_name (mp_Volumes plan))
     \<and> distinct (map destination_name (mp_Volumes plan))
     \<and> (\<forall>v\<in>set (mp_Volumes plan). volume_ok parse (mp_SourceNamespace plan = mp_TemporaryNamespace plan) v)"

definition checkpoints_ok :: "ClusterMigrationPlan \<Rightarrow> Phase \<Rightarrow> ClusterMigrationVolumeStatus list \<Rightarrow> bool" where
  "checkpoints_ok plan phase cs \<longleftrightarrow>
     cs = [] \<and> phase \<in> {PhasePlanned, PhaseReserving, PhaseAborting, PhaseAborted}
   \<or> distinct (map checkpoint_name cs) \<and> set (map checkpoint_name cs) = volume_name ` set (mp_Volumes plan)
     \<and> (\<forall>c\<in>set cs. \<forall>v\<in>set (mp_Volumes plan). volume_name v = checkpoint_name c \<longrightarrow>
          validate_checkpoint v c (mp_DestinationNamespace plan) (mp_TemporaryNamespace plan) phase = Inr ())"

lemma matching_volumes:
  assumes inj: "\<And>x y. x \<in> set vs \<Longrightarrow> y \<in> set vs \<Longrightarrow> volume_name x = volume_name y \<Longrightarrow> x = y"
  shows "(\<forall>c\<in>set cs. \<exists>v. v \<in> set vs \<and> volume_name v = checkpoint_name c \<and> R v c) \<longleftrightarrow>
     checkpoint_name ` set cs \<subseteq> volume_name ` set vs
     \<and> (\<forall>c\<in>set cs. \<forall>v\<in>set vs. volume_name v = checkpoint_name c \<longrightarrow> R v c)"
proof (intro iffI conjI ballI impI)
  assume L: "\<forall>c\<in>set cs. \<exists>v. v \<in> set vs \<and> volume_name v = checkpoint_name c \<and> R v c"
  then show "checkpoint_name ` set cs \<subseteq> volume_name ` set vs" by force
  show "R v c" if "c \<in> set cs" "v \<in> set vs" "volume_name v = checkpoint_name c" for c v
    using L that inj by fastforce
next
  fix c
  assume "checkpoint_name ` set cs \<subseteq> volume_name ` set vs
     \<and> (\<forall>c\<in>set cs. \<forall>v\<in>set vs. volume_name v = checkpoint_name c \<longrightarrow> R v c)" "c \<in> set cs"
  then show "\<exists>v. v \<in> set vs \<and> volume_name v = checkpoint_name c \<and> R v c" by force
qed

lemma same_names:
  assumes "distinct (map f xs)" "distinct (map g ys)" "f ` set xs \<subseteq> g ` set ys"
  shows "length xs = length ys \<longleftrightarrow> f ` set xs = g ` set ys"
proof -
  have "card (f ` set xs) = length xs" "card (g ` set ys) = length ys"
    using distinct_card [OF assms(1)] distinct_card [OF assms(2)] by simp_all
  then show ?thesis using card_subset_eq [OF _ assms(3)] by auto
qed

lemma validateMigrationCheckpoints_Inr:
  assumes "distinct (map volume_name (mp_Volumes plan))" "mp_Volumes plan \<noteq> []"
  shows "validateMigrationCheckpoints (map (\<lambda>v. (volume_name v, v)) (mp_Volumes plan)) cs
      (mp_DestinationNamespace plan) (mp_TemporaryNamespace plan) phase = Inr () \<longleftrightarrow> checkpoints_ok plan phase cs"
    (is "?L = Inr () \<longleftrightarrow> ?R")
proof -
  have inj: "x \<in> set (mp_Volumes plan) \<Longrightarrow> y \<in> set (mp_Volumes plan) \<Longrightarrow> volume_name x = volume_name y \<Longrightarrow> x = y"
    for x y using assms(1) by (simp add: distinct_map inj_on_def)
  define ok where "ok v c = (validate_checkpoint v c (mp_DestinationNamespace plan) (mp_TemporaryNamespace plan) phase = Inr ())"
    for v c
  define early where "early \<longleftrightarrow> phase \<in> {PhasePlanned, PhaseReserving, PhaseAborting, PhaseAborted}"
  have L: "?L = Inr () \<longleftrightarrow> (cs = [] \<and> early) \<or> (length cs = length (mp_Volumes plan) \<and>
      distinct (map checkpoint_name cs) \<and> checkpoint_name ` set cs \<subseteq> volume_name ` set (mp_Volumes plan)
      \<and> (\<forall>c\<in>set cs. \<forall>v\<in>set (mp_Volumes plan). volume_name v = checkpoint_name c \<longrightarrow> ok v c))"
    using assms(2) by (auto simp: validateMigrationCheckpoints_def validate_checkpoints_Inr early_def
        map_of_volumes [OF assms(1)] matching_volumes [OF inj] ok_def)
  show ?thesis
    unfolding L checkpoints_ok_def ok_def [symmetric] early_def [symmetric]
    using same_names [OF _ assms(1), of checkpoint_name cs] by (simp only: set_map) blast
qed

text \<open>A valid object, split into what no operation changes and what the operations maintain.\<close>

definition static_ok :: "(string \<Rightarrow> quantity option) \<Rightarrow> workflow_meta \<Rightarrow> ClusterMigrationSpec \<Rightarrow> ClusterMigrationPlan \<Rightarrow> bool" where
  "static_ok parse meta spec plan \<longleftrightarrow>
     wm_Name meta \<noteq> [] \<and> wm_Namespace meta = [] \<and> planned_ok parse plan
   \<and> ValidateUnusedStoragePolicy (mp_UnusedStoragePolicy plan) = Inr ()
   \<and> (wm_Deleting meta \<or> ValidateUnusedStoragePolicy (ms_UnusedStoragePolicy spec) = Inr ()
        \<and> validateMigrationPlanNamespaces spec plan = Inr ()
        \<and> validateMigrationRequestedVolumes (ms_Volumes spec)
             (map (\<lambda>v. (volume_name v, v)) (mp_Volumes plan)) = Inr ())"

definition dynamic_ok :: "ClusterMigrationPlan \<Rightarrow> WorkflowStatus \<Rightarrow> ClusterMigrationVolumeStatus list \<Rightarrow> bool" where
  "dynamic_ok plan status cs \<longleftrightarrow> validateMigrationLifecycle status = Inr () \<and> ws_Phase status \<noteq> PhaseNone
     \<and> checkpoints_ok plan (workflowResumePhase status) cs"

lemma valid_planned_iff:
  assumes "cs_Plan (cm_Status obj) = Some plan"
  shows "validateClusterMigrationObject parse (Some obj) = Inr () \<longleftrightarrow>
     static_ok parse (cm_Meta obj) (cm_Spec obj) plan
     \<and> dynamic_ok plan (cs_Workflow (cm_Status obj)) (cs_Volumes (cm_Status obj))"
proof -
  let ?same = "mp_SourceNamespace plan = mp_TemporaryNamespace plan"
  have vols: "validateReservationVolumes parse (mp_Volumes plan) (mp_SourceNamespace plan) (mp_TemporaryNamespace plan)
      = Inr vs \<longleftrightarrow> validate_reservation_volumes parse ?same {} {} (mp_Volumes plan) = Inr ()
        \<and> vs = map (\<lambda>v. (volume_name v, v)) (mp_Volumes plan)" for vs
    by (auto simp: validateReservationVolumes_def split: sum.splits)
  have planned: "mp_Volumes plan \<noteq> [] \<and> validate_reservation_volumes parse ?same {} {} (mp_Volumes plan) = Inr ()
      \<longleftrightarrow> planned_ok parse plan"
    by (simp add: planned_ok_def validate_reservation_volumes_Inr)
  have checkpoints: "validateMigrationCheckpoints (map (\<lambda>v. (volume_name v, v)) (mp_Volumes plan)) cs
      (mp_DestinationNamespace plan) (mp_TemporaryNamespace plan) phase = Inr () \<longleftrightarrow> checkpoints_ok plan phase cs"
    if "planned_ok parse plan" for cs phase
    using that validateMigrationCheckpoints_Inr by (simp add: planned_ok_def)
  show ?thesis
    unfolding validateClusterMigrationObject_def static_ok_def dynamic_ok_def planned [symmetric]
    using checkpoints [unfolded planned [symmetric]]
    by (auto simp: assms Let_def vols unless_deleting_Inr deletingWorkflow_def)
qed

lemma validate_checkpoint_Inr:
  "validate_checkpoint v c dns tns phase = Inr () \<longleftrightarrow>
     validateMigrationVolumeCheckpoint v (mv_Reservation c) (mv_Activation c) (sy_Attempts (mv_Sync c)) dns tns = Inr ()
     \<and> validateMigrationVolumePhase (rs_Reserved (mv_Reservation c)) (sy_FinalCompletedAt (mv_Sync c))
          (a_ActivatedAt (mv_Activation c)) (a_RolledBackAt (mv_Activation c)) phase = Inr ()"
  by (auto simp: validate_checkpoint_def split: sum.splits)

text \<open>The reservation part of a valid checkpoint.\<close>

definition reservation_ok :: "VolumeSpec \<Rightarrow> string \<Rightarrow> ClusterVolumeReservationStatus \<Rightarrow> bool" where
  "reservation_ok v tns c \<longleftrightarrow>
     \<not> bad_reference (\<lambda>r. r_Name r \<noteq> destination_name v \<or> r_Namespace r \<noteq> tns \<or> r_UID r = []) (rs_DestinationPVC c)
   \<and> \<not> bad_reference (\<lambda>r. r_Name r = [] \<or> r_UID r = [] \<or> r_Namespace r \<noteq> []) (rs_DestinationPV c)
   \<and> (rs_Reserved c \<longrightarrow> rs_DestinationPVC c \<noteq> None \<and> rs_DestinationPV c \<noteq> None)"

definition activation_ok :: "VolumeSpec \<Rightarrow> string \<Rightarrow> ClusterVolumeActivationStatus \<Rightarrow> bool" where
  "activation_ok v dns a \<longleftrightarrow>
     \<not> bad_reference (\<lambda>r. r_Name r \<noteq> volume_name v \<or> r_Namespace r \<noteq> dns \<or> r_UID r = []) (a_ActivePVC a)
   \<and> (a_ActivatedAt a \<noteq> None \<or> a_RolledBackAt a \<noteq> None \<longrightarrow> a_ActivePVC a \<noteq> None)"

lemma validateMigrationVolumeCheckpoint_Inr:
  "validateMigrationVolumeCheckpoint v c a n dns tns = Inr () \<longleftrightarrow>
     reservation_ok v tns c \<and> activation_ok v dns a \<and> 0 \<le> n \<and> (0 < n \<longrightarrow> rs_Reserved c)"
  by (auto simp: validateMigrationVolumeCheckpoint_def reservation_ok_def activation_ok_def)

end
