(* ===== verification/Reserver.thy ===== *)
theory Reserver
  imports MigrationObject ToolScheduling Names
begin

text \<open>
  The reservation of destination storage (\<^verbatim>\<open>internal/kube/reserver.go\<close>): the source is checked
  and taken by the session, the destination claim is found or created under its planned name, a short-lived
  Pod on the target node makes the provisioner act, and the volume that results is retained and
  recorded. \<^verbatim>\<open>ReserveVolume\<close> fills in the checkpoint, \<^verbatim>\<open>ValidateVolumeReservation\<close> checks one with a
  server-side dry run. Arguments the code passes by pointer are never nil here; log streams are left out.
\<close>

section \<open>Requests and checks\<close>

record reserver =
  rv_trustedToolImage :: string
  rv_lib :: tool_lib

record ReservationRequest =
  rq_SessionID :: string
  rq_TargetNode :: string
  rq_ToolImage :: string

definition OpReserveVolume :: string where "OpReserveVolume = ''reserve volume''"
definition OpReserveDryRun :: string where "OpReserveDryRun = ''reserve volume dry-run''"
definition OpProvisionTarget :: string where "OpProvisionTarget = ''provision target PVC''"
definition OpCleanReservationPod :: string where "OpCleanReservationPod = ''clean up reservation Pod''"
definition OpValidateReservationPod :: string where "OpValidateReservationPod = ''validate reservation Pod''"

definition reserver_poll :: duration where "reserver_poll = second"

definition reserver_toolImage :: "reserver \<Rightarrow> string \<Rightarrow> string" where
  "reserver_toolImage rv requested = (if rv_trustedToolImage rv \<noteq> [] then rv_trustedToolImage rv else requested)"

definition HasWritableAccessMode :: "AccessMode list \<Rightarrow> bool" where
  "HasWritableAccessMode modes = list_ex (\<lambda>m. m \<in> {ReadWriteOnce, ReadWriteOncePod, ReadWriteMany}) modes"

fun access_mode_text :: "AccessMode \<Rightarrow> string" where
  "access_mode_text ReadWriteOnce = ''ReadWriteOnce''"
| "access_mode_text ReadOnlyMany = ''ReadOnlyMany''"
| "access_mode_text ReadWriteMany = ''ReadWriteMany''"
| "access_mode_text ReadWriteOncePod = ''ReadWriteOncePod''"

definition accessModesEqual :: "AccessMode list \<Rightarrow> AccessMode list \<Rightarrow> bool" where
  "accessModesEqual left right = (sort (map access_mode_text left) = sort (map access_mode_text right))"

definition effectiveVolumeMode :: "pvc \<Rightarrow> VolumeMode" where
  "effectiveVolumeMode c = (case s_VolumeMode (c_Spec c) of None \<Rightarrow> Filesystem | Some m \<Rightarrow> m)"

definition validateReservationPVOwnership :: "pv \<Rightarrow> string \<Rightarrow> string \<Rightarrow> bool \<Rightarrow> unit res" where
  "validateReservationPVOwnership v sid expectedRole requireOwned =
     (let owner = mget (v_Labels v) SessionKey; role = mget (v_Labels v) ResourceRoleLabel;
          managedBy = mget (v_Labels v) ManagedByLabel in
      if owner = [] \<and> role = [] \<and> managedBy = [] \<and> \<not> requireOwned then Inr ()
      else if owner \<noteq> sid \<or> role \<noteq> expectedRole \<or> managedBy \<noteq> ManagedByValue
      then Inl (NewError ErrorConflict OpReserveVolume)
      else Inr ())"

text \<open>The last checks of \<^verbatim>\<open>verifySourceIdentity\<close>, on the claim and the volume as they were read.\<close>

definition source_volume_ok ::
    "(string \<Rightarrow> quantity option) \<Rightarrow> string \<Rightarrow> string \<Rightarrow> ObjectReference \<Rightarrow> pvc \<Rightarrow> pv \<Rightarrow> unit res" where
  "source_volume_ok parse sid sourceCapacity sourcePV c v =
     (if v_UID v \<noteq> r_UID sourcePV \<or> \<not> claimRef_is v c then Inl (NewError ErrorConflict OpReserveVolume)
      else case ValidateBoundVolumeCapacity (Some c) (Some v) None of
        Inl _ \<Rightarrow> Inl (NewError ErrorConflict OpReserveVolume)
      | Inr _ \<Rightarrow>
          if sourceCapacity \<noteq> [] \<and> (parse sourceCapacity = None \<or> v_Capacity v = None \<or> v_Capacity v \<noteq> parse sourceCapacity)
          then Inl (NewError ErrorConflict OpReserveVolume)
          else validateReservationPVOwnership v sid ResourceRoleSource False)"

definition verifySourceIdentity ::
    "'s world \<Rightarrow> string \<Rightarrow> ObjectReference \<Rightarrow> ObjectReference \<Rightarrow> string \<Rightarrow> (unit res, 's) io" where
  "verifySourceIdentity w sid sourcePVC sourcePV sourceCapacity =
     io_bind (get_pvc w (r_Namespace sourcePVC) (r_Name sourcePVC)) (\<lambda>g. case g of
       Inl err \<Rightarrow> io_ret (Inl (WrapError ErrorKubernetes OpReserveVolume err))
     | Inr c \<Rightarrow>
         if c_UID c \<noteq> r_UID sourcePVC \<or> s_VolumeName (c_Spec c) \<noteq> r_Name sourcePV \<or> c_Phase c \<noteq> ClaimBound
         then io_ret (Inl (NewError ErrorConflict OpReserveVolume))
         else if list_ex (\<lambda>owner. owner \<noteq> [] \<and> owner \<noteq> sid)
                   [mget (c_Annotations c) SessionKey, mget (c_Labels c) SessionKey]
         then io_ret (Inl (NewError ErrorConflict OpReserveVolume))
         else io_bind (get_pv w (r_Name sourcePV)) (\<lambda>g. io_ret (case g of
             Inl err \<Rightarrow> Inl (WrapError ErrorKubernetes OpReserveVolume err)
           | Inr v \<Rightarrow> source_volume_ok (w_parse_quantity w) sid sourceCapacity sourcePV c v)))"

text \<open>The destination claim as it will be created: the manifest with the marks of the session.\<close>

definition reservation_claim :: "string \<Rightarrow> ObjectReference \<Rightarrow> ObjectReference \<Rightarrow> pvc \<Rightarrow> pvc" where
  "reservation_claim sid sourcePVC sourcePV desired =
     desired\<lparr>c_Labels := (c_Labels desired)(ManagedByLabel \<mapsto> ManagedByValue, SessionKey \<mapsto> sid,
               ResourceRoleLabel \<mapsto> ResourceRoleDestination),
             c_Annotations := (c_Annotations desired)(SessionKey \<mapsto> sid, SourcePVCUIDAnnotation \<mapsto> r_UID sourcePVC,
               SourcePVAnnotation \<mapsto> r_Name sourcePV)\<rparr>"

definition prepareReservation ::
    "'s world \<Rightarrow> string \<Rightarrow> ObjectReference \<Rightarrow> ObjectReference \<Rightarrow> string \<Rightarrow> pvc \<Rightarrow> (pvc res, 's) io" where
  "prepareReservation w sid sourcePVC sourcePV sourceCapacity desired =
     (if sid = [] then io_ret (Inl (NewError ErrorValidation OpReserveVolume))
      else if r_Namespace sourcePVC = [] \<or> r_Name sourcePVC = [] \<or> r_UID sourcePVC = [] \<or> r_Name sourcePV = []
        \<or> r_UID sourcePV = [] \<or> c_Namespace desired = [] \<or> c_Name desired = []
      then io_ret (Inl (NewError ErrorValidation OpReserveVolume))
      else io_try (verifySourceIdentity w sid sourcePVC sourcePV sourceCapacity) (\<lambda>_. io_ret (
        if \<not> HasWritableAccessMode (s_AccessModes (c_Spec desired)) then Inl (NewError ErrorPrecondition OpReserveVolume)
        else if storage_request desired \<le> 0 then Inl (NewError ErrorValidation OpReserveVolume)
        else Inr (reservation_claim sid sourcePVC sourcePV desired))))"

definition validateReservationCheckpoint :: "string \<Rightarrow> pvc \<Rightarrow> ClusterVolumeReservationStatus \<Rightarrow> unit res" where
  "validateReservationCheckpoint sourcePVCName c checkpoint =
     (if rs_SourcePVCName checkpoint \<noteq> [] \<and> rs_SourcePVCName checkpoint \<noteq> sourcePVCName
      then Inl (NewError ErrorConflict OpReserveVolume)
      else if (case rs_DestinationPVC checkpoint of None \<Rightarrow> False
           | Some ref \<Rightarrow> r_Name ref \<noteq> c_Name c \<or> r_Namespace ref \<noteq> c_Namespace c)
      then Inl (NewError ErrorConflict OpReserveVolume)
      else Inr ())"

definition validateMissingReservationDestination :: "ObjectReference \<Rightarrow> ObjectReference \<Rightarrow> bool \<Rightarrow> unit res" where
  "validateMissingReservationDestination c v reserved =
     (if reserved \<or> r_UID c \<noteq> [] \<or> r_Name v \<noteq> [] then Inl (NewError ErrorConflict OpReserveVolume) else Inr ())"

definition validateDestinationPVC :: "pvc \<Rightarrow> pvc \<Rightarrow> string \<Rightarrow> unit res" where
  "validateDestinationPVC c expected expectedUID =
     (let sid = mget (c_Labels expected) SessionKey in
      if c_Namespace c \<noteq> c_Namespace expected \<or> c_Name c \<noteq> c_Name expected \<or> c_UID c = []
      then Inl (NewError ErrorConflict OpReserveVolume)
      else if c_DeletionTimestamp c \<noteq> None then Inl (NewError ErrorConflict OpReserveVolume)
      else if mget (c_Labels c) ManagedByLabel \<noteq> ManagedByValue \<or> mget (c_Labels c) SessionKey \<noteq> sid
        \<or> mget (c_Labels c) ResourceRoleLabel \<noteq> ResourceRoleDestination \<or> mget (c_Annotations c) SessionKey \<noteq> sid
        \<or> mget (c_Annotations c) SourcePVCUIDAnnotation \<noteq> mget (c_Annotations expected) SourcePVCUIDAnnotation
        \<or> mget (c_Annotations c) SourcePVAnnotation \<noteq> mget (c_Annotations expected) SourcePVAnnotation
      then Inl (NewError ErrorConflict OpReserveVolume)
      else if expectedUID \<noteq> [] \<and> c_UID c \<noteq> expectedUID then Inl (NewError ErrorConflict OpReserveVolume)
      else if s_StorageClassName (c_Spec c) = None \<or> s_StorageClassName (c_Spec expected) = None
        \<or> s_StorageClassName (c_Spec c) \<noteq> s_StorageClassName (c_Spec expected)
      then Inl (NewError ErrorConflict OpReserveVolume)
      else if effectiveVolumeMode c \<noteq> effectiveVolumeMode expected then Inl (NewError ErrorConflict OpReserveVolume)
      else if \<not> accessModesEqual (s_AccessModes (c_Spec c)) (s_AccessModes (c_Spec expected))
      then Inl (NewError ErrorConflict OpReserveVolume)
      else if storage_request c < storage_request expected then Inl (NewError ErrorConflict OpReserveVolume)
      else Inr ())"

definition validateDestinationPlacement ::
    "'s world \<Rightarrow> ObjectReference \<Rightarrow> string \<Rightarrow> string \<Rightarrow> quantity \<Rightarrow> (unit res, 's) io" where
  "validateDestinationPlacement w destinationPVC storageClass targetNode required =
     io_bind (get_pvc w (r_Namespace destinationPVC) (r_Name destinationPVC)) (\<lambda>g. case g of
       Inl err \<Rightarrow>
         if \<not> IsNotFound err then io_ret (Inl (WrapError ErrorKubernetes OpReserveVolume err))
         else ValidateStorageClassPlacement w storageClass targetNode
     | Inr existing \<Rightarrow>
         if c_Phase existing = ClaimBound \<and> s_VolumeName (c_Spec existing) \<noteq> []
         then io_bind (get_pv w (s_VolumeName (c_Spec existing))) (\<lambda>g. io_ret (case g of
             Inl err \<Rightarrow> Inl (WrapError ErrorKubernetes OpReserveVolume err)
           | Inr v \<Rightarrow> (case ValidateBoundVolumeCapacity (Some existing) (Some v) (Some required) of
               Inl _ \<Rightarrow> Inl (NewError ErrorPrecondition OpReserveVolume)
             | Inr _ \<Rightarrow> Inr ())))
         else ValidateStorageClassPlacement w storageClass targetNode)"

section \<open>The dry run\<close>

definition verifyDestinationIdentity ::
    "'s world \<Rightarrow> pvc \<Rightarrow> string \<Rightarrow> ObjectReference \<Rightarrow> ObjectReference \<Rightarrow> bool \<Rightarrow> (unit res, 's) io" where
  "verifyDestinationIdentity w c sid destinationPVC destinationPV requireOwned =
     (if r_UID destinationPVC \<noteq> [] \<and> c_UID c \<noteq> r_UID destinationPVC
      then io_ret (Inl (NewError ErrorConflict OpReserveVolume))
      else if c_Phase c \<noteq> ClaimBound \<or> s_VolumeName (c_Spec c) = []
      then io_ret (Inl (NewError ErrorConflict OpReserveVolume))
      else if r_Name destinationPV \<noteq> [] \<and> (r_UID destinationPV = [] \<or> s_VolumeName (c_Spec c) \<noteq> r_Name destinationPV)
      then io_ret (Inl (NewError ErrorConflict OpReserveVolume))
      else io_bind (get_pv w (s_VolumeName (c_Spec c))) (\<lambda>g. io_ret (case g of
        Inl err \<Rightarrow> Inl (WrapError ErrorKubernetes OpReserveVolume err)
      | Inr v \<Rightarrow>
          if r_UID destinationPV \<noteq> [] \<and> v_UID v \<noteq> r_UID destinationPV
          then Inl (NewError ErrorConflict OpReserveVolume)
          else if v_DeletionTimestamp v \<noteq> None then Inl (NewError ErrorPrecondition OpReserveVolume)
          else case validateReservationPVOwnership v sid ResourceRoleDestination requireOwned of
            Inl err \<Rightarrow> Inl err
          | Inr _ \<Rightarrow> if \<not> claimRef_is v c then Inl (NewError ErrorConflict OpReserveVolume) else Inr ())))"

definition reserveVolumeDryRun ::
    "'s world \<Rightarrow> string \<Rightarrow> ObjectReference \<Rightarrow> ObjectReference \<Rightarrow> bool \<Rightarrow> pvc \<Rightarrow> (unit res, 's) io" where
  "reserveVolumeDryRun w sid destinationPVC destinationPV reserved c =
     io_bind (create_pvc w True c) (\<lambda>r. case r of
       Inr _ \<Rightarrow> io_ret (validateMissingReservationDestination destinationPVC destinationPV reserved)
     | Inl err \<Rightarrow>
         if \<not> IsAlreadyExists err then io_ret (Inl (WrapError ErrorPrecondition OpReserveDryRun err))
         else io_bind (get_pvc w (c_Namespace c) (c_Name c)) (\<lambda>g. case g of
             Inl err \<Rightarrow> io_ret (Inl (WrapError ErrorKubernetes OpReserveDryRun err))
           | Inr existing \<Rightarrow>
               io_try (io_ret (validateDestinationPVC existing c (r_UID destinationPVC))) (\<lambda>_.
               if reserved \<and> (r_UID destinationPVC = [] \<or> r_Name destinationPV = [] \<or> r_UID destinationPV = [])
               then io_ret (Inl (NewError ErrorPrecondition OpReserveVolume))
               else if reserved \<or> r_Name destinationPV \<noteq> [] \<or> c_Phase existing = ClaimBound
               then verifyDestinationIdentity w existing sid destinationPVC destinationPV reserved
               else io_ret (Inr ()))))"

definition checkpoint_claim :: "pvc \<Rightarrow> ClusterVolumeReservationStatus \<Rightarrow> ObjectReference" where
  "checkpoint_claim c checkpoint = (case rs_DestinationPVC checkpoint of None \<Rightarrow> PVCReference c | Some ref \<Rightarrow> ref)"

definition checkpoint_volume :: "ClusterVolumeReservationStatus \<Rightarrow> ObjectReference" where
  "checkpoint_volume checkpoint = (case rs_DestinationPV checkpoint of None \<Rightarrow> no_reference | Some ref \<Rightarrow> ref)"

definition ValidateVolumeReservation ::
    "'s world \<Rightarrow> ReservationRequest \<Rightarrow> ObjectReference \<Rightarrow> ObjectReference \<Rightarrow> string \<Rightarrow> pvc \<Rightarrow>
     ClusterVolumeReservationStatus \<Rightarrow> (unit res, 's) io" where
  "ValidateVolumeReservation w request sourcePVC sourcePV sourceCapacity desired checkpoint =
     io_try (prepareReservation w (rq_SessionID request) sourcePVC sourcePV sourceCapacity desired) (\<lambda>c.
     io_try (io_ret (validateReservationCheckpoint (r_Name sourcePVC) c checkpoint)) (\<lambda>_.
     reserveVolumeDryRun w (rq_SessionID request) (checkpoint_claim c checkpoint) (checkpoint_volume checkpoint)
       (rs_Reserved checkpoint) c))"

section \<open>The consumer Pod\<close>

definition toolPodName :: "string \<Rightarrow> string \<Rightarrow> string" where
  "toolPodName sid pvcName = the (BoundedName ''pvc-migrate-bind'' [sid, pvcName])"

definition validateReservationPod :: "pod \<Rightarrow> string \<Rightarrow> string \<Rightarrow> unit res" where
  "validateReservationPod p sid destinationPVC =
     (if p_Namespace p = [] \<or> p_Name p = [] \<or> p_UID p = [] then Inl (NewError ErrorKubernetes OpValidateReservationPod)
      else if mget (p_Labels p) ManagedByLabel \<noteq> ManagedByValue \<or> mget (p_Labels p) SessionKey \<noteq> sid
        \<or> mget (p_Labels p) ResourceRoleLabel \<noteq> ResourceRoleReservationConsumer
      then Inl (NewError ErrorConflict OpValidateReservationPod)
      else if \<not> PodUsesPVC p destinationPVC then Inl (NewError ErrorConflict OpValidateReservationPod)
      else Inr ())"

text \<open>The Pod goes away for good when its name is free; under another UID it was replaced.\<close>

definition wait_pod_gone :: "'s world \<Rightarrow> duration \<Rightarrow> string \<Rightarrow> string \<Rightarrow> string \<Rightarrow> string \<Rightarrow> (unit res, 's) io" where
  "wait_pod_gone w poll op ns n uid =
     WaitFor w poll (io_bind (get_pod w ns n) (\<lambda>g. io_ret (case g of
       Inl err \<Rightarrow> if IsNotFound err then Inr (Some ()) else Inl err
     | Inr current \<Rightarrow> if p_UID current \<noteq> uid then Inl (NewError ErrorConflict op) else Inr None)))"

definition cleanupReservationPod ::
    "'s world \<Rightarrow> string \<Rightarrow> string \<Rightarrow> ObjectReference \<Rightarrow> (unit res, 's) io" where
  "cleanupReservationPod w sid sourcePVCName destinationPVC =
     (let ns = r_Namespace destinationPVC; name = toolPodName sid sourcePVCName in
      io_bind (get_pod w ns name) (\<lambda>g. case g of
        Inl err \<Rightarrow> io_ret (if IsNotFound err then Inr () else Inl (WrapError ErrorKubernetes OpCleanReservationPod err))
      | Inr p \<Rightarrow>
          io_try (io_ret (validateReservationPod p sid (r_Name destinationPVC))) (\<lambda>_.
          io_bind (delete_pod w ns name (p_UID p) None) (\<lambda>r.
          io_try (io_ret (case r of
              Inr u \<Rightarrow> Inr u
            | Inl err \<Rightarrow> if IsNotFound err then Inr ()
                else if IsConflict err then Inl (WrapError ErrorConflict OpCleanReservationPod err)
                else Inl (WrapError ErrorKubernetes OpCleanReservationPod err))) (\<lambda>_.
          io_try (fence_check w) (\<lambda>_.
          wait_pod_gone w reserver_poll OpCleanReservationPod ns name (p_UID p)))))))"

definition reservation_pod :: "string \<Rightarrow> string \<Rightarrow> ObjectReference \<Rightarrow> string \<Rightarrow> node \<Rightarrow> pod" where
  "reservation_pod sid podName destinationPVC toolImage n =
     \<lparr>p_Namespace = r_Namespace destinationPVC, p_Name = podName, p_UID = [], p_ResourceVersion = [],
      p_Labels = [ManagedByLabel \<mapsto> ManagedByValue, SessionKey \<mapsto> sid, ResourceRoleLabel \<mapsto> ResourceRoleReservationConsumer],
      p_ClaimVolumes = [Some (r_Name destinationPVC)], p_NodeName = [], p_Phase = PodPending, p_Conditions = [],
      p_OwnerReferences = [], p_NodeSelector = [LabelHostname \<mapsto> mget (n_Labels n) LabelHostname],
      p_Tolerations = nodeTolerations n, p_Images = [toolImage]\<rparr>"

definition load_or_create_pod :: "'s world \<Rightarrow> pod \<Rightarrow> (pod res, 's) io" where
  "load_or_create_pod w p =
     io_bind (get_pod w (p_Namespace p) (p_Name p)) (\<lambda>g. case g of
       Inr existing \<Rightarrow> io_ret (Inr existing)
     | Inl err \<Rightarrow>
         if \<not> IsNotFound err then io_ret (Inl (WrapError ErrorKubernetes OpProvisionTarget err))
         else io_try (fence_check w) (\<lambda>_.
           io_bind (io_bind (create_pod w p) (\<lambda>r. case r of
               Inl err \<Rightarrow> if IsAlreadyExists err then get_pod w (p_Namespace p) (p_Name p) else io_ret (Inl err)
             | Inr created \<Rightarrow> io_ret (Inr created))) (\<lambda>r. io_ret (case r of
             Inl err \<Rightarrow> Inl (WrapError ErrorKubernetes OpProvisionTarget err)
           | Inr existing \<Rightarrow> Inr existing))))"

definition wait_pod_ready :: "'s world \<Rightarrow> string \<Rightarrow> string \<Rightarrow> pod \<Rightarrow> pod \<Rightarrow> (unit res, 's) io" where
  "wait_pod_ready w sid destinationPVC p existing =
     WaitFor w reserver_poll (io_try (get_pod w (p_Namespace p) (p_Name p)) (\<lambda>current. io_ret (
       if p_UID current \<noteq> p_UID existing then Inl (NewError ErrorConflict OpProvisionTarget)
       else case validateReservationPod current sid destinationPVC of
         Inl err \<Rightarrow> Inl err
       | Inr _ \<Rightarrow>
           if p_Phase current = PodFailed then Inl (NewError ErrorPrecondition OpProvisionTarget)
           else Inr (if PodReady current then Some () else None))))"

definition provisionOnTarget ::
    "reserver \<Rightarrow> 's world \<Rightarrow> ReservationRequest \<Rightarrow> string \<Rightarrow> ObjectReference \<Rightarrow> (unit res, 's) io" where
  "provisionOnTarget rv w request sourcePVCName destinationPVC =
     (case NormalizeToolImage (rv_lib rv) (reserver_toolImage rv (rq_ToolImage request)) of
        Inl err \<Rightarrow> io_ret (Inl (WrapError ErrorValidation OpProvisionTarget err))
      | Inr toolImage \<Rightarrow>
          if rq_TargetNode request = [] then io_ret (Inl (NewError ErrorPrecondition OpProvisionTarget))
          else io_bind (get_node w (rq_TargetNode request)) (\<lambda>g. case g of
            Inl err \<Rightarrow> io_ret (Inl (WrapError ErrorKubernetes OpProvisionTarget err))
          | Inr n \<Rightarrow>
              if mget (n_Labels n) LabelHostname = [] then io_ret (Inl (NewError ErrorPrecondition OpProvisionTarget))
              else let p = reservation_pod (rq_SessionID request) (toolPodName (rq_SessionID request) sourcePVCName)
                     destinationPVC toolImage n in
                io_try (load_or_create_pod w p) (\<lambda>existing.
                io_try (fence_check w) (\<lambda>_.
                io_try (io_ret (validateReservationPod existing (rq_SessionID request) (r_Name destinationPVC))) (\<lambda>_.
                io_try (wait_pod_ready w (rq_SessionID request) (r_Name destinationPVC) p existing) (\<lambda>_.
                cleanupReservationPod w (rq_SessionID request) sourcePVCName destinationPVC))))))"

section \<open>The live reservation\<close>

definition retainPV :: "'s world \<Rightarrow> string \<Rightarrow> string \<Rightarrow> string \<Rightarrow> string \<Rightarrow> (unit res, 's) io" where
  "retainPV w name uid sid role =
     (if name = [] \<or> uid = [] \<or> sid = [] \<or> role = [] then io_ret (Inl (NewError ErrorValidation OpRetainPV))
      else io_bind (w_retry w (retain_attempt w (no_reference\<lparr>r_Name := name, r_UID := uid\<rparr>) sid role)) (\<lambda>r.
           io_ret (wrap_unless_conflict OpRetainPV r)))"

definition validateDestinationPVNode :: "'s world \<Rightarrow> pv \<Rightarrow> string \<Rightarrow> (unit res, 's) io" where
  "validateDestinationPVNode w v targetNode =
     (if targetNode = [] then io_ret (Inr ())
      else io_bind (get_node w targetNode) (\<lambda>g. io_ret (case g of
        Inl err \<Rightarrow> Inl (WrapError ErrorKubernetes OpReserveVolume err)
      | Inr n \<Rightarrow> if \<not> PVSupportsNode v n then Inl (NewError ErrorPrecondition OpReserveVolume) else Inr ())))"

definition validateRetainedDestinationPV :: "pv \<Rightarrow> string \<Rightarrow> pvc \<Rightarrow> string \<Rightarrow> unit res" where
  "validateRetainedDestinationPV v expectedUID c sid =
     (if v_UID v \<noteq> expectedUID then Inl (NewError ErrorConflict OpReserveVolume)
      else case validateReservationPVOwnership v sid ResourceRoleDestination True of
        Inl err \<Rightarrow> Inl err
      | Inr _ \<Rightarrow>
          if \<not> claimRef_is v c then Inl (NewError ErrorConflict OpReserveVolume)
          else if v_ReclaimPolicy v \<noteq> ReclaimRetain then Inl (NewError ErrorConflict OpReserveVolume)
          else Inr ())"

text \<open>What \<^verbatim>\<open>reserveVolumeLive\<close> writes through its pointers.\<close>

record live_reservation =
  lv_PVC :: ObjectReference
  lv_PV :: ObjectReference
  lv_Policy :: ReclaimPolicy
  lv_Reserved :: bool

definition volume_reference :: "pv \<Rightarrow> ObjectReference" where
  "volume_reference v = no_reference\<lparr>r_APIVersion := CoreAPIVersion, r_Kind := KindPersistentVolume, r_Name := v_Name v,
     r_UID := v_UID v, r_ResourceVersion := v_ResourceVersion v\<rparr>"

definition recorded_policy :: "pv \<Rightarrow> pv \<Rightarrow> ReclaimPolicy" where
  "recorded_policy current v =
     (if mget (v_Annotations current) OriginalPolicyAnnotation = [] then v_ReclaimPolicy v
      else mget (v_Annotations current) OriginalPolicyAnnotation)"

definition wrong_node :: "pvc \<Rightarrow> string \<Rightarrow> bool" where
  "wrong_node bound targetNode =
     (let selectedNode = mget (c_Annotations bound) pvcSelectedNodeAnnotation in
      selectedNode \<noteq> [] \<and> targetNode \<noteq> [] \<and> selectedNode \<noteq> targetNode)"

text \<open>The second half of \<^verbatim>\<open>finalizeLiveReservation\<close>, once the volume is known to belong to the claim.\<close>

definition retain_destination ::
    "'s world \<Rightarrow> ReservationRequest \<Rightarrow> pvc \<Rightarrow> pvc \<Rightarrow> pv \<Rightarrow> live_reservation \<Rightarrow> (live_reservation \<times> unit res, 's) io" where
  "retain_destination w request c bound v live =
     io_try_st live (validateDestinationPVNode w v (rq_TargetNode request)) (\<lambda>_.
     case ValidateBoundVolumeCapacity (Some bound) (Some v) (Some (storage_request c)) of
       Inl _ \<Rightarrow> io_ret (live, Inl (NewError ErrorPrecondition OpReserveVolume))
     | Inr _ \<Rightarrow>
         io_try_st live (retainPV w (v_Name v) (v_UID v) (rq_SessionID request) ResourceRoleDestination) (\<lambda>_.
         io_bind (get_pv w (v_Name v)) (\<lambda>g. case g of
           Inl err \<Rightarrow> io_ret (live, Inl (WrapError ErrorKubernetes OpReserveVolume err))
         | Inr current \<Rightarrow>
             io_try_st live (io_ret (validateRetainedDestinationPV current (v_UID v) bound (rq_SessionID request))) (\<lambda>_.
             io_ret (live\<lparr>lv_PV := volume_reference current, lv_Policy := recorded_policy current v, lv_Reserved := True\<rparr>,
               Inr ())))))"

definition finalizeLiveReservation ::
    "'s world \<Rightarrow> ReservationRequest \<Rightarrow> pvc \<Rightarrow> pvc \<Rightarrow> live_reservation \<Rightarrow> (live_reservation \<times> unit res, 's) io" where
  "finalizeLiveReservation w request c bound live =
     (let live = live\<lparr>lv_PVC := (lv_PVC live)\<lparr>r_UID := c_UID bound, r_ResourceVersion := c_ResourceVersion bound\<rparr>\<rparr> in
      if wrong_node bound (rq_TargetNode request) then io_ret (live, Inl (NewError ErrorPrecondition OpReserveVolume))
      else io_bind (get_pv w (s_VolumeName (c_Spec bound))) (\<lambda>g. case g of
        Inl err \<Rightarrow> io_ret (live, Inl (WrapError ErrorKubernetes OpReserveVolume err))
      | Inr v \<Rightarrow>
          if r_Name (lv_PV live) \<noteq> [] \<and> (v_Name v \<noteq> r_Name (lv_PV live) \<or> r_UID (lv_PV live) = [] \<or> v_UID v \<noteq> r_UID (lv_PV live))
          then io_ret (live, Inl (NewError ErrorConflict OpReserveVolume))
          else if \<not> claimRef_is v bound then io_ret (live, Inl (NewError ErrorConflict OpReserveVolume))
          else retain_destination w request c bound v live))"

definition loadOrCreateReservationPVC ::
    "'s world \<Rightarrow> pvc \<Rightarrow> ObjectReference \<Rightarrow> ObjectReference \<Rightarrow> bool \<Rightarrow> (pvc res, 's) io" where
  "loadOrCreateReservationPVC w c destinationPVC destinationPV reserved =
     io_bind (get_pvc w (c_Namespace c) (c_Name c)) (\<lambda>g. case g of
       Inr existing \<Rightarrow> io_ret (Inr existing)
     | Inl err \<Rightarrow>
         if \<not> IsNotFound err then io_ret (Inl (WrapError ErrorKubernetes OpReserveVolume err))
         else io_try (io_ret (validateMissingReservationDestination destinationPVC destinationPV reserved)) (\<lambda>_.
           io_try (fence_check w) (\<lambda>_.
           io_bind (create_pvc w False c) (\<lambda>r. io_ret (case r of
             Inl err \<Rightarrow> Inl (WrapError ErrorKubernetes OpReserveVolume err)
           | Inr created \<Rightarrow> Inr created)))))"

definition reserveVolumeLive ::
    "reserver \<Rightarrow> 's world \<Rightarrow> ReservationRequest \<Rightarrow> string \<Rightarrow> pvc \<Rightarrow> live_reservation \<Rightarrow>
     (live_reservation \<times> unit res, 's) io" where
  "reserveVolumeLive rv w request sourcePVCName c live =
     io_try_st live (loadOrCreateReservationPVC w c (lv_PVC live) (lv_PV live) (lv_Reserved live)) (\<lambda>existing.
     io_try_st live (fence_check w) (\<lambda>_.
     io_try_st live (io_ret (validateDestinationPVC existing c (r_UID (lv_PVC live)))) (\<lambda>_.
     let live = live\<lparr>lv_PVC := (lv_PVC live)\<lparr>r_UID := c_UID existing, r_ResourceVersion := c_ResourceVersion existing\<rparr>\<rparr> in
     io_try_st live
       (if c_Phase existing \<noteq> ClaimBound then provisionOnTarget rv w request sourcePVCName (lv_PVC live)
        else cleanupReservationPod w (rq_SessionID request) sourcePVCName (lv_PVC live)) (\<lambda>_.
     io_bind (get_pvc w (c_Namespace c) (c_Name c)) (\<lambda>g. case g of
       Inl err \<Rightarrow> io_ret (live, Inl (WrapError ErrorKubernetes OpReserveVolume err))
     | Inr bound \<Rightarrow>
         io_try_st live (io_ret (validateDestinationPVC bound c (r_UID (lv_PVC live)))) (\<lambda>_.
         if c_Phase bound \<noteq> ClaimBound \<or> s_VolumeName (c_Spec bound) = []
         then io_ret (live, Inl (NewError ErrorPrecondition OpReserveVolume))
         else finalizeLiveReservation w request c bound live))))))"

text \<open>The checkpoint after the live part: an identity is recorded once it has a UID.\<close>

definition record_live :: "ClusterVolumeReservationStatus \<Rightarrow> live_reservation \<Rightarrow> ClusterVolumeReservationStatus" where
  "record_live checkpoint live =
     checkpoint\<lparr>rs_DestinationPVC := (if r_UID (lv_PVC live) \<noteq> [] then Some (lv_PVC live) else rs_DestinationPVC checkpoint),
       rs_DestinationPV := (if r_UID (lv_PV live) \<noteq> [] then Some (lv_PV live) else rs_DestinationPV checkpoint),
       rs_DestinationPolicy := lv_Policy live, rs_Reserved := lv_Reserved live\<rparr>"

definition ReserveVolume ::
    "reserver \<Rightarrow> 's world \<Rightarrow> ReservationRequest \<Rightarrow> ObjectReference \<Rightarrow> ObjectReference \<Rightarrow> string \<Rightarrow> pvc \<Rightarrow>
     ClusterVolumeReservationStatus \<Rightarrow> (ClusterVolumeReservationStatus \<times> unit res, 's) io" where
  "ReserveVolume rv w request sourcePVC sourcePV sourceCapacity desired checkpoint =
     io_try_st checkpoint (prepareReservation w (rq_SessionID request) sourcePVC sourcePV sourceCapacity desired) (\<lambda>c.
     io_try_st checkpoint (io_ret (validateReservationCheckpoint (r_Name sourcePVC) c checkpoint)) (\<lambda>_.
     io_try_st checkpoint (validateDestinationPlacement w (PVCReference c)
         (case s_StorageClassName (c_Spec c) of None \<Rightarrow> [] | Some sc \<Rightarrow> sc) (rq_TargetNode request) (storage_request c)) (\<lambda>_.
     io_try_st checkpoint (AcquirePVC w sourcePVC (rq_SessionID request)) (\<lambda>_.
     io_try_st checkpoint (retainPV w (r_Name sourcePV) (r_UID sourcePV) (rq_SessionID request) ResourceRoleSource) (\<lambda>_.
     let checkpoint = checkpoint\<lparr>rs_SourcePVCName := r_Name sourcePVC\<rparr> in
     io_bind (reserveVolumeLive rv w request (r_Name sourcePVC) c
         \<lparr>lv_PVC = checkpoint_claim c checkpoint, lv_PV = checkpoint_volume checkpoint,
          lv_Policy = rs_DestinationPolicy checkpoint, lv_Reserved = rs_Reserved checkpoint\<rparr>) (\<lambda>(live, r).
     io_ret (record_live checkpoint live, r)))))))"

section \<open>What a reservation may do\<close>

lemma length_cleanNamePart: "length (cleanNamePart v) \<le> length v"
proof -
  have "length (clean_runes s) \<le> length s" for s
    by (induction s rule: clean_runes.induct) (auto simp: Let_def intro: order_trans)
  then show ?thesis unfolding cleanNamePart_def by (rule order_trans [OF length_trim_both])
qed

lemma BoundedName_total: "length pre \<le> 51 \<Longrightarrow> BoundedName pre parts \<noteq> None"
  using length_cleanNamePart [of pre]
  by (simp add: BoundedName_def long_name_def Let_def length_hex_encode length_sha256 maxDNSLabelLength_def)

lemma toolPodName_total: "BoundedName ''pvc-migrate-bind'' [sid, n] = Some (toolPodName sid n)"
  unfolding toolPodName_def by (rule option.collapse [symmetric], rule BoundedName_total) simp

text \<open>Pods: a consumer is created right after a passed fence check, and only a Pod that was read with
  the marks of this session's consumer is deleted, by its UID.\<close>

definition consumer_guard :: "string \<Rightarrow> string \<Rightarrow> 's event \<Rightarrow> 's hist \<Rightarrow> bool" where
  "consumer_guard sid claim e h \<longleftrightarrow> is_read e \<or> (fenced h \<and> (\<exists>p r. e = EvCreatePod p r))
     \<or> (\<exists>ns n p r. e = EvDeletePod ns n (p_UID p) None r \<and> EvGetPod ns n (Inr p) \<in> set h
          \<and> validateReservationPod p sid claim = Inr ())"

lemma consumer_guard_read [simp]: "is_read e \<Longrightarrow> consumer_guard sid claim e h"
  by (simp add: consumer_guard_def)

lemma consumer_guard_create [simp]: "consumer_guard sid claim (EvCreatePod p r) h \<longleftrightarrow> fenced h"
  by (auto simp: consumer_guard_def)

lemma consumer_guard_delete:
  "validateReservationPod p sid claim = Inr () \<Longrightarrow>
   consumer_guard sid claim (EvDeletePod ns n (p_UID p) None r) (EvGetPod ns n (Inr p) # h)"
  by (auto simp: consumer_guard_def)

lemma wait_pod_gone_wp: "wp only_reads (wait_pod_gone w poll op ns n uid) (\<lambda>_ _. True) h"
  unfolding wait_pod_gone_def by (auto simp: io_rules guard_simps split: sum.splits intro!: wp_WaitFor io_intros)

lemma cleanupReservationPod_wp:
  "wp (consumer_guard sid (r_Name dst)) (cleanupReservationPod w sid n dst) (\<lambda>_ _. True) h"
  unfolding cleanupReservationPod_def Let_def
  by (auto simp: io_rules guard_simps split: sum.splits
      intro!: io_intros consumer_guard_delete wp_conseq [OF wait_pod_gone_wp])

lemma load_or_create_pod_wp: "wp (consumer_guard sid claim) (load_or_create_pod w p) (\<lambda>_ _. True) h"
  unfolding load_or_create_pod_def by (auto simp: io_rules split: sum.splits intro!: io_intros)

lemma wait_pod_ready_wp: "wp only_reads (wait_pod_ready w sid claim p existing) (\<lambda>_ _. True) h"
  unfolding wait_pod_ready_def by (auto simp: io_rules guard_simps split: sum.splits intro!: wp_WaitFor io_intros)

lemma provisionOnTarget_wp:
  "wp (consumer_guard (rq_SessionID q) (r_Name dst)) (provisionOnTarget rv w q n dst) (\<lambda>_ _. True) h"
  unfolding provisionOnTarget_def Let_def
  by (auto simp: io_rules guard_simps split: sum.splits
      intro!: io_intros wp_conseq [OF load_or_create_pod_wp] wp_conseq [OF wait_pod_ready_wp]
        wp_conseq [OF cleanupReservationPod_wp])

text \<open>The volume behind the session's claim: the claim was read and carries the session's marks, and the volume
  refers to it.\<close>

definition destination_volume :: "pvc \<Rightarrow> pv \<Rightarrow> 's hist \<Rightarrow> bool" where
  "destination_volume c v h \<longleftrightarrow>
     (\<exists>b. EvGetPVC (c_Namespace c) (c_Name c) (Inr b) \<in> set h \<and> c_Phase b = ClaimBound
        \<and> validateDestinationPVC b c [] = Inr () \<and> claimRef_is v b)"

lemma destination_volume_mono: "destination_volume c v h \<Longrightarrow> suffix h h' \<Longrightarrow> destination_volume c v h'"
  using set_mono_suffix [of h h'] by (auto simp: destination_volume_def)

abbreviation volume_named :: "string \<Rightarrow> string \<Rightarrow> ObjectReference" where
  "volume_named n uid \<equiv> no_reference\<lparr>r_Name := n, r_UID := uid\<rparr>"

definition reserve_guard :: "string \<Rightarrow> ObjectReference \<Rightarrow> ObjectReference \<Rightarrow> pvc \<Rightarrow> 's event \<Rightarrow> 's hist \<Rightarrow> bool" where
  "reserve_guard sid src srcpv c e h \<longleftrightarrow>
     consumer_guard sid (c_Name c) e h
   \<or> pvc_update_guard src (acquire_ok sid) (acquired sid) e h
   \<or> pv_update_guard (volume_named (r_Name srcpv) (r_UID srcpv)) sid (\<lambda>v. fst (retain_pv sid ResourceRoleSource v)) e h
   \<or> (fenced h \<and> pvc_gone (c_Namespace c) (c_Name c) h \<and> (\<exists>r. e = EvCreatePVC False c r))
   \<or> (\<exists>v. destination_volume c v h
        \<and> pv_update_guard (volume_named (v_Name v) (v_UID v)) sid (\<lambda>v. fst (retain_pv sid ResourceRoleDestination v)) e h)"

lemma reserve_guard_consumer: "consumer_guard sid (c_Name c) e h \<Longrightarrow> reserve_guard sid src srcpv c e h"
  by (simp add: reserve_guard_def)

lemma reserve_guard_read [simp]: "is_read e \<Longrightarrow> reserve_guard sid src srcpv c e h"
  by (simp add: reserve_guard_def)

lemma reserve_guard_fenced: "reserve_guard sid src srcpv c e h \<Longrightarrow> writes_storage e \<Longrightarrow> fenced h"
  by (auto simp: reserve_guard_def consumer_guard_def pvc_update_guard_def pv_update_guard_def dest: is_read_no_write)

lemma reserve_guard_quiet:
  "reserve_guard sid src srcpv c e h \<Longrightarrow> \<not> is_save e \<and> (\<forall>q r. e \<noteq> EvCopy q r) \<and> (\<forall>ns n uid rv r. e \<noteq> EvDeletePVC ns n uid rv r)
     \<and> (\<forall>n uid rv r. e \<noteq> EvDeletePV n uid rv r)"
  by (auto simp: reserve_guard_def consumer_guard_def pvc_update_guard_def pv_update_guard_def dest: is_read_no_save)

lemma retainPV_wp:
  assumes "retry_contract w"
  shows "wp (pv_update_guard (volume_named n uid) sid (\<lambda>v. fst (retain_pv sid role v))) (retainPV w n uid sid role)
     (\<lambda>r h'. r = Inr () \<longrightarrow> retained (volume_named n uid) sid h' \<and> n \<noteq> [] \<and> uid \<noteq> []) h"
  unfolding retainPV_def
  by (auto simp: io_rules intro!: wp_conseq [OF wp_retry [OF assms retain_attempt_wp]])

lemma reservation_reads:
  "wp only_reads (prepareReservation w sid src srcpv cap d)
     (\<lambda>r h'. \<forall>c. r = Inr c \<longrightarrow> c = reservation_claim sid src srcpv d) h"
  "wp only_reads (validateDestinationPlacement w dst sc n q) (\<lambda>_ _. True) h"
  "wp only_reads (validateDestinationPVNode w v n) (\<lambda>_ _. True) h"
  unfolding prepareReservation_def verifySourceIdentity_def validateDestinationPlacement_def validateDestinationPVNode_def
  by (auto simp: io_rules guard_simps split: sum.splits if_splits
      intro!: io_intros wp_conseq [OF ValidateStorageClassPlacement_wp])

lemma ValidateVolumeReservation_wp:
  "wp only_reads (ValidateVolumeReservation w q src srcpv cap d st) (\<lambda>_ _. True) h"
proof -
  have "wp only_reads (reserveVolumeDryRun w sid dst dstpv reserved c) (\<lambda>_ _. True) h" for sid dst dstpv reserved c h
    unfolding reserveVolumeDryRun_def verifyDestinationIdentity_def
    by (auto simp: io_rules guard_simps split: sum.splits intro!: io_intros)
  note dry_run = this
  show ?thesis
    unfolding ValidateVolumeReservation_def
    by (auto simp: io_rules split: sum.splits
        intro!: wp_conseq [OF reservation_reads(1)] wp_conseq [OF dry_run])
qed

section \<open>What a reservation leaves in the checkpoint\<close>

text \<open>A finished reservation: the session's claim was read Bound, its volume was read retained for the session
  and bound to that claim, and both identities are the recorded ones.\<close>

definition reservation_evidence :: "string \<Rightarrow> pvc \<Rightarrow> string \<Rightarrow> ObjectReference \<Rightarrow> 's hist \<Rightarrow> bool" where
  "reservation_evidence sid c uid ref h \<longleftrightarrow>
     (\<exists>b v n. EvGetPVC (c_Namespace c) (c_Name c) (Inr b) \<in> set h \<and> c_Phase b = ClaimBound
        \<and> validateDestinationPVC b c [] = Inr () \<and> uid = c_UID b
        \<and> EvGetPV n (Inr v) \<in> set h \<and> n \<noteq> [] \<and> v_UID v \<noteq> []
        \<and> validateRetainedDestinationPV v (v_UID v) b sid = Inr () \<and> ref = volume_reference v)"

text \<open>The live state \<open>live\<close> that started as \<open>live0\<close>: what a failed run leaves alone, and what a finished one
  has established.\<close>

definition live_result :: "string \<Rightarrow> pvc \<Rightarrow> live_reservation \<Rightarrow> live_reservation \<times> unit res \<Rightarrow> 's hist \<Rightarrow> bool" where
  "live_result sid c live0 = (\<lambda>(live, r) h.
     r_Namespace (lv_PVC live) = r_Namespace (lv_PVC live0) \<and> r_Name (lv_PVC live) = r_Name (lv_PVC live0)
   \<and> (if r = Inr () then lv_Reserved live \<and> reservation_evidence sid c (r_UID (lv_PVC live)) (lv_PV live) h
      else lv_PV live = lv_PV live0 \<and> lv_Reserved live = lv_Reserved live0 \<and> lv_Policy live = lv_Policy live0))"

lemma live_result_Inl [simp]:
  "live_result sid c live0 (live, Inl e) h \<longleftrightarrow>
     r_Namespace (lv_PVC live) = r_Namespace (lv_PVC live0) \<and> r_Name (lv_PVC live) = r_Name (lv_PVC live0)
   \<and> lv_PV live = lv_PV live0 \<and> lv_Reserved live = lv_Reserved live0 \<and> lv_Policy live = lv_Policy live0"
  by (simp add: live_result_def)

lemma validateDestinationPVC_uid:
  "validateDestinationPVC b c uid = Inr () \<Longrightarrow> validateDestinationPVC b c [] = Inr () \<and> c_UID b \<noteq> []"
  by (auto simp: validateDestinationPVC_def Let_def split: if_splits)

lemma claimRef_current:
  "validateRetainedDestinationPV v uid b sid = Inr () \<Longrightarrow> v_UID v = uid \<and> validateRetainedDestinationPV v (v_UID v) b sid = Inr ()"
  by (auto simp: validateRetainedDestinationPV_def split: if_splits)

lemma reservation_evidenceI:
  "EvGetPVC (c_Namespace c) (c_Name c) (Inr b) \<in> set h \<Longrightarrow> c_Phase b = ClaimBound \<Longrightarrow> validateDestinationPVC b c [] = Inr () \<Longrightarrow>
   n \<noteq> [] \<Longrightarrow> v_UID v \<noteq> [] \<Longrightarrow> validateRetainedDestinationPV v (v_UID v) b sid = Inr () \<Longrightarrow>
   reservation_evidence sid c (c_UID b) (volume_reference v) (EvGetPV n (Inr v) # h)"
  unfolding reservation_evidence_def by (rule exI [of _ b], rule exI [of _ v], rule exI [of _ n]) simp

lemma retain_destination_wp:
  assumes w: "retry_contract w" and v: "destination_volume c v h" and uid: "r_UID (lv_PVC live) = c_UID b"
    and b: "EvGetPVC (c_Namespace c) (c_Name c) (Inr b) \<in> set h" "c_Phase b = ClaimBound" "validateDestinationPVC b c [] = Inr ()"
  shows "wp (reserve_guard (rq_SessionID q) src srcpv c) (retain_destination w q c b v live) (live_result (rq_SessionID q) c live) h"
proof -
  let ?sid = "rq_SessionID q"
  have guard: "reserve_guard ?sid src srcpv c e h'"
    if "suffix h h'" "pv_update_guard (volume_named (v_Name v) (v_UID v)) ?sid
         (\<lambda>v. fst (retain_pv ?sid ResourceRoleDestination v)) e h'" for e h'
    using that(2) destination_volume_mono [OF v that(1)] by (auto simp: reserve_guard_def)
  have finished: "live_result ?sid c live (live\<lparr>lv_PV := volume_reference u, lv_Policy := y, lv_Reserved := True\<rparr>, Inr ())
      (EvGetPV (v_Name v) (Inr u) # h')"
    if "suffix h h'" "validateRetainedDestinationPV u (v_UID v) b ?sid = Inr ()" "v_Name v \<noteq> []" "v_UID v \<noteq> []" for u y h'
    using that claimRef_current [OF that(2)] set_mono_suffix [OF that(1)] b uid
    by (auto simp: live_result_def intro!: reservation_evidenceI)
  show ?thesis
    unfolding retain_destination_def
    by (auto simp: io_rules guard_simps split: sum.splits
        intro!: io_intros wp_conseq [OF reservation_reads(3)] wp_conseq [OF retainPV_wp [OF w]] finished
        intro: guard suffix_order.trans)
qed

lemma finalizeLiveReservation_wp:
  assumes w: "retry_contract w"
    and b: "EvGetPVC (c_Namespace c) (c_Name c) (Inr b) \<in> set h" "c_Phase b = ClaimBound" "validateDestinationPVC b c [] = Inr ()"
  shows "wp (reserve_guard (rq_SessionID q) src srcpv c) (finalizeLiveReservation w q c b live)
     (live_result (rq_SessionID q) c live) h"
proof -
  have dest: "destination_volume c v (e # h)" if "claimRef_is v b" for v e
    using that b by (auto simp: destination_volume_def)
  have same: "live_result sid c (live\<lparr>lv_PVC := (lv_PVC live)\<lparr>r_UID := x, r_ResourceVersion := y\<rparr>\<rparr>) = live_result sid c live"
    for sid x y by (simp add: live_result_def)
  have tail: "wp (reserve_guard (rq_SessionID q) src srcpv c) (retain_destination w q c b v
      (live\<lparr>lv_PVC := (lv_PVC live)\<lparr>r_UID := c_UID b, r_ResourceVersion := y\<rparr>\<rparr>)) (live_result (rq_SessionID q) c live) (e # h)"
    if "claimRef_is v b" for v e y
    using retain_destination_wp [OF w dest [OF that], of "live\<lparr>lv_PVC := (lv_PVC live)\<lparr>r_UID := c_UID b, r_ResourceVersion := y\<rparr>\<rparr>" b]
    by (simp add: b same)
  show ?thesis
    unfolding finalizeLiveReservation_def Let_def
    by (auto simp: io_rules split: sum.splits intro!: io_intros tail)
qed

lemma loadOrCreateReservationPVC_wp:
  "wp (reserve_guard sid src srcpv c) (loadOrCreateReservationPVC w c dst dstpv reserved) (\<lambda>_ _. True) h"
  unfolding loadOrCreateReservationPVC_def
  by (auto simp: io_rules reserve_guard_def split: sum.splits intro!: io_intros)

lemma live_result_refresh:
  "live_result sid c (live\<lparr>lv_PVC := (lv_PVC live)\<lparr>r_UID := x, r_ResourceVersion := y\<rparr>\<rparr>) = live_result sid c live"
  by (simp add: live_result_def)

lemma reserveVolumeLive_wp:
  assumes w: "retry_contract w" and name: "r_Name (lv_PVC live) = c_Name c"
  shows "wp (reserve_guard (rq_SessionID q) src srcpv c) (reserveVolumeLive rv w q n c live)
     (live_result (rq_SessionID q) c live) h"
proof -
  let ?G = "reserve_guard (rq_SessionID q) src srcpv c"
  let ?fresh = "\<lambda>x. live\<lparr>lv_PVC := (lv_PVC live)\<lparr>r_UID := c_UID x, r_ResourceVersion := c_ResourceVersion x\<rparr>\<rparr>"
  have consumers: "wp ?G (provisionOnTarget rv w q n ref) (\<lambda>_ _. True) h"
      "wp ?G (cleanupReservationPod w (rq_SessionID q) n ref) (\<lambda>_ _. True) h" if "r_Name ref = c_Name c" for ref h
    using that by (auto intro!: wp_conseq [OF provisionOnTarget_wp] wp_conseq [OF cleanupReservationPod_wp] reserve_guard_consumer)
  have finish: "wp ?G (finalizeLiveReservation w q c b (?fresh x)) (live_result (rq_SessionID q) c live)
      (EvGetPVC (c_Namespace c) (c_Name c) (Inr b) # h)"
    if "validateDestinationPVC b c uid = Inr ()" "c_Phase b = ClaimBound" for b x uid h
    using finalizeLiveReservation_wp [OF w, of c b "EvGetPVC (c_Namespace c) (c_Name c) (Inr b) # h" q src srcpv "?fresh x"]
      that(2) validateDestinationPVC_uid [OF that(1)] by (simp add: live_result_refresh)
  show ?thesis
    unfolding reserveVolumeLive_def Let_def
    by (auto simp: io_rules name split: sum.splits
        intro!: io_intros wp_conseq [OF loadOrCreateReservationPVC_wp] wp_conseq [OF consumers(1)]
          wp_conseq [OF consumers(2)] finish)
qed

text \<open>The outcome of \<^verbatim>\<open>ReserveVolume\<close>: a finished reservation has its evidence; a failed one has at most
  recorded the identity of the claim under the planned name.\<close>

definition claim_recorded :: "pvc \<Rightarrow> ObjectReference \<Rightarrow> bool" where
  "claim_recorded d ref \<longleftrightarrow> r_Namespace ref = c_Namespace d \<and> r_Name ref = c_Name d \<and> r_UID ref \<noteq> []"

definition reserve_result ::
    "string \<Rightarrow> ObjectReference \<Rightarrow> ObjectReference \<Rightarrow> pvc \<Rightarrow> ClusterVolumeReservationStatus \<Rightarrow>
     ClusterVolumeReservationStatus \<times> unit res \<Rightarrow> 's hist \<Rightarrow> bool" where
  "reserve_result sid src srcpv d st0 = (\<lambda>(st, r) h.
     (rs_SourcePVCName st = rs_SourcePVCName st0 \<or> rs_SourcePVCName st = r_Name src)
   \<and> (if r = Inr ()
      then rs_Reserved st \<and> rs_SourcePVCName st = r_Name src
         \<and> (\<exists>cr vr. rs_DestinationPVC st = Some cr \<and> claim_recorded d cr \<and> rs_DestinationPV st = Some vr
              \<and> reservation_evidence sid (reservation_claim sid src srcpv d) (r_UID cr) vr h)
      else rs_Reserved st = rs_Reserved st0 \<and> rs_DestinationPV st = rs_DestinationPV st0
         \<and> (rs_DestinationPVC st = rs_DestinationPVC st0
            \<or> (\<exists>cr. rs_DestinationPVC st = Some cr \<and> claim_recorded d cr))))"

lemma reservation_evidence_uids:
  "reservation_evidence sid c uid ref h \<Longrightarrow> uid \<noteq> [] \<and> r_UID ref \<noteq> []"
  by (auto simp: reservation_evidence_def volume_reference_def dest: validateDestinationPVC_uid)

lemma record_live_result:
  assumes "live_result sid c live0 (live, r) h" and "c = reservation_claim sid src srcpv d"
    and "live0 = \<lparr>lv_PVC = checkpoint_claim c st, lv_PV = checkpoint_volume st, lv_Policy = y, lv_Reserved = rs_Reserved st\<rparr>"
    and "validateReservationCheckpoint (r_Name src) c st = Inr ()"
  shows "reserve_result sid src srcpv d st (record_live (st\<lparr>rs_SourcePVCName := r_Name src\<rparr>) live, r) h"
proof -
  have at: "r_Namespace (lv_PVC live) = c_Namespace d" "r_Name (lv_PVC live) = c_Name d"
    using assms by (auto simp: live_result_def checkpoint_claim_def PVCReference_def reservation_claim_def
        validateReservationCheckpoint_def split: option.splits if_splits)
  show ?thesis
  proof (cases "r = Inr ()")
    case True
    then have ev: "lv_Reserved live" "reservation_evidence sid c (r_UID (lv_PVC live)) (lv_PV live) h"
      using assms(1) by (simp_all add: live_result_def)
    with ev reservation_evidence_uids [OF ev(2)] at assms(2) True show ?thesis
      by (auto simp: reserve_result_def record_live_def claim_recorded_def)
  next
    case False
    then have "lv_PV live = checkpoint_volume st" "lv_Reserved live = rs_Reserved st"
      using assms(1,3) by (auto simp: live_result_def)
    with at False show ?thesis
      by (auto simp: reserve_result_def record_live_def claim_recorded_def checkpoint_volume_def no_reference_def
          split: option.splits)
  qed
qed

lemma ReserveVolume_wp:
  assumes w: "retry_contract w"
  shows "wp (reserve_guard (rq_SessionID q) src srcpv (reservation_claim (rq_SessionID q) src srcpv d))
     (ReserveVolume rv w q src srcpv cap d st) (reserve_result (rq_SessionID q) src srcpv d st) h"
proof -
  let ?sid = "rq_SessionID q"
  let ?c = "reservation_claim ?sid src srcpv d"
  let ?G = "reserve_guard ?sid src srcpv ?c"
  let ?R = "reserve_result ?sid src srcpv d st"
  have failed: "?R (st, Inl e) h" for e h by (simp add: reserve_result_def)
  have acquire: "wp ?G (AcquirePVC w src ?sid) (\<lambda>_ _. True) h" for h
    by (rule wp_conseq [OF AcquirePVC_wp [OF w]]) (auto simp: reserve_guard_def)
  have retain: "wp ?G (retainPV w (r_Name srcpv) (r_UID srcpv) ?sid ResourceRoleSource) (\<lambda>_ _. True) h" for h
    by (rule wp_conseq [OF retainPV_wp [OF w]]) (auto simp: reserve_guard_def)
  let ?live = "\<lparr>lv_PVC = checkpoint_claim ?c st, lv_PV = checkpoint_volume st, lv_Policy = rs_DestinationPolicy st,
      lv_Reserved = rs_Reserved st\<rparr>"
  have live: "wp ?G (reserveVolumeLive rv w q (r_Name src) ?c ?live)
      (\<lambda>(live, r). ?R (record_live (st\<lparr>rs_SourcePVCName := r_Name src\<rparr>) live, r)) h"
    if "validateReservationCheckpoint (r_Name src) ?c st = Inr ()" for h
  proof -
    have "r_Name (checkpoint_claim ?c st) = c_Name ?c"
      using that by (auto simp: validateReservationCheckpoint_def checkpoint_claim_def PVCReference_def
          split: option.splits if_splits)
    then show ?thesis
      by (intro wp_conseq [OF reserveVolumeLive_wp [OF w]]) (auto intro: record_live_result [OF _ refl refl that])
  qed
  have same: "checkpoint_claim c (st\<lparr>rs_SourcePVCName := n\<rparr>) = checkpoint_claim c st"
    "checkpoint_volume (st\<lparr>rs_SourcePVCName := n\<rparr>) = checkpoint_volume st" for c n
    by (simp_all add: checkpoint_claim_def checkpoint_volume_def)
  have step: "wp ?G m (\<lambda>_ _. True) h \<Longrightarrow> wp ?G m (\<lambda>r h'. \<forall>x. r = Inr x \<longrightarrow> True) h" for m and h :: "'a hist" by simp
  have placed: "wp ?G (validateDestinationPlacement w dst sc n x) (\<lambda>_ _. True) h" for dst sc n x h
    by (rule wp_conseq [OF reservation_reads(2)]) (simp_all add: guard_simps)
  have prepared: "wp ?G (prepareReservation w ?sid src srcpv cap d) (\<lambda>r h'. \<forall>c. r = Inr c \<longrightarrow> c = ?c) h" for h
    by (rule wp_conseq [OF reservation_reads(1)]) (simp_all add: guard_simps)
  show ?thesis
    unfolding ReserveVolume_def Let_def same
    apply (rule wp_try_st_step, rule prepared, rule failed)
    apply (simp only:)
    apply (rule wp_try_st_step [where P = "\<lambda>_ _. validateReservationCheckpoint (r_Name src) ?c st = Inr ()"])
      apply (simp add: wp_ret)
     apply (rule failed)
    apply (rule wp_try_st_step, rule step, rule placed, rule failed)
    apply (rule wp_try_st_step, rule step, rule acquire, rule failed)
    apply (rule wp_try_st_step, rule step, rule retain, rule failed)
    apply (simp add: wp_bind)
    apply (rule wp_conseq [OF live])
      apply (auto simp: wp_ret)
    done
qed

end
