(* ===== verification/MigrationSteps.thy ===== *)
theory MigrationSteps
  imports Reserver Rollback Offline Admission VolumeCopy
begin

text \<open>
  The steps an offline migration is made of, volume by volume: the identity checks on live storage
  (\<^verbatim>\<open>internal/app/migration_storage_identity.go\<close>, \<^verbatim>\<open>storage_rollback_recovery.go\<close>), what remains of a
  source that is being deleted (\<^verbatim>\<open>workflow_deletion.go\<close>, \<^verbatim>\<open>source_loss_failure.go\<close>), the manifests and the
  admission change of a cutover (\<^verbatim>\<open>migration_pvc.go\<close>, \<^verbatim>\<open>migration_activation_admission.go\<close>,
  \<^verbatim>\<open>reservationManifest\<close> of \<^verbatim>\<open>workflow_support.go\<close>), the checkpointed reservation, activation and rollback
  of one volume (\<^verbatim>\<open>volume_reservation.go\<close>, \<^verbatim>\<open>migration_activation.go\<close>, \<^verbatim>\<open>migration_rollback.go\<close>), and the
  checks before a shrink and a rollback (\<^verbatim>\<open>kube/volume_shrink.go\<close>, \<^verbatim>\<open>migration_rollback_consumers.go\<close>).
\<close>

definition verifyMigrationPhase :: string where "verifyMigrationPhase = ''verify migration''"
definition verifyRollbackPhase :: string where "verifyRollbackPhase = ''verify rollback''"
definition verifySourceStoragePhase :: string where "verifySourceStoragePhase = ''verify source storage''"
definition OpMigrationActivation :: string where "OpMigrationActivation = ''migration activation''"
definition OpMigrationRollback :: string where "OpMigrationRollback = ''migration rollback''"
definition OpMigrationFinalSync :: string where "OpMigrationFinalSync = ''migration final sync''"
definition OpSourceUsageCheck :: string where "OpSourceUsageCheck = ''source usage check''"
definition OpRequireNamespace :: string where "OpRequireNamespace = ''require namespace''"

section \<open>Reading live storage\<close>

text \<open>\<^verbatim>\<open>deletionTolerantRead\<close>: in a deletion pass a vanished object passes. A claim or volume that is read
  without an error but without a name is an empty object.\<close>

definition deletionTolerantRead :: "'s world \<Rightarrow> go_error \<Rightarrow> bool" where
  "deletionTolerantRead w err = (IsNotFound err \<and> w_deletion w)"

definition verified_claim ::
    "'s world \<Rightarrow> string \<Rightarrow> string \<Rightarrow> string \<Rightarrow> (pvc \<Rightarrow> (unit res, 's) io) \<Rightarrow> (unit res, 's) io" where
  "verified_claim w op ns n k =
     io_bind (get_pvc w ns n) (\<lambda>g. case g of
       Inl err \<Rightarrow> io_ret (if deletionTolerantRead w err then Inr () else Inl (WrapError ErrorKubernetes op err))
     | Inr c \<Rightarrow> if c_Name c = [] then io_ret (Inl (NewError ErrorKubernetes op)) else k c)"

text \<open>The volume of a claim: its UID and its reference to the claim.\<close>

definition verified_volume :: "'s world \<Rightarrow> string \<Rightarrow> ObjectReference \<Rightarrow> pvc \<Rightarrow> (unit res, 's) io" where
  "verified_volume w op ref c =
     io_bind (get_pv w (r_Name ref)) (\<lambda>g. io_ret (case g of
       Inl err \<Rightarrow> if deletionTolerantRead w err then Inr () else Inl (WrapError ErrorKubernetes op err)
     | Inr v \<Rightarrow>
         if v_Name v = [] then Inl (NewError ErrorKubernetes op)
         else if v_UID v \<noteq> r_UID ref \<or>
           (case v_ClaimRef v of None \<Rightarrow> True
            | Some r \<Rightarrow> r_Namespace r \<noteq> c_Namespace c \<or> r_Name r \<noteq> c_Name c \<or> r_UID r \<noteq> c_UID c)
         then Inl (NewError ErrorConflict op) else Inr ()))"

definition verifySourceStorage ::
    "'s world \<Rightarrow> ObjectReference \<Rightarrow> ObjectReference \<Rightarrow> (unit res, 's) io" where
  "verifySourceStorage w sourcePVC sourcePV =
     (if r_Namespace sourcePVC = [] \<or> r_Name sourcePVC = [] \<or> r_UID sourcePVC = []
      then io_ret (Inl (NewError ErrorPrecondition verifySourceStoragePhase))
      else if r_Name sourcePV = [] \<or> r_UID sourcePV = []
      then io_ret (Inl (NewError ErrorPrecondition verifySourceStoragePhase))
      else verified_claim w verifySourceStoragePhase (r_Namespace sourcePVC) (r_Name sourcePVC) (\<lambda>c.
        if c_UID c \<noteq> r_UID sourcePVC \<or> c_Phase c \<noteq> ClaimBound \<or> s_VolumeName (c_Spec c) \<noteq> r_Name sourcePV
        then io_ret (Inl (NewError ErrorConflict verifySourceStoragePhase))
        else verified_volume w verifySourceStoragePhase sourcePV c))"

definition incomplete_active :: "ObjectReference option \<Rightarrow> bool" where
  "incomplete_active active =
     (case active of None \<Rightarrow> True | Some a \<Rightarrow> r_Namespace a = [] \<or> r_Name a = [] \<or> r_UID a = [])"

definition verifyRollbackStorageVolume ::
    "'s world \<Rightarrow> string \<Rightarrow> ObjectReference \<Rightarrow> ObjectReference \<Rightarrow> ObjectReference option \<Rightarrow> (unit res, 's) io" where
  "verifyRollbackStorageVolume w sid sourcePVC expectedPV active =
     (if incomplete_active active then io_ret (Inl (NewError ErrorPrecondition verifyRollbackPhase))
      else let a = the active in
        if r_Namespace a \<noteq> r_Namespace sourcePVC \<or> r_Name a \<noteq> r_Name sourcePVC
        then io_ret (Inl (NewError ErrorConflict verifyRollbackPhase))
        else if r_Name expectedPV = [] \<or> r_UID expectedPV = []
        then io_ret (Inl (NewError ErrorPrecondition verifyRollbackPhase))
        else verified_claim w verifyRollbackPhase (r_Namespace a) (r_Name a) (\<lambda>c.
          if c_UID c \<noteq> r_UID a \<or> c_Phase c \<noteq> ClaimBound \<or> s_VolumeName (c_Spec c) \<noteq> r_Name expectedPV
          then io_ret (Inl (NewError ErrorConflict verifyRollbackPhase))
          else if c_UID c \<noteq> r_UID sourcePVC \<and> mget (c_Annotations c) SessionKey \<noteq> sid
          then io_ret (Inl (NewError ErrorConflict verifyRollbackPhase))
          else verified_volume w verifyRollbackPhase expectedPV c))"

definition verifyActiveStorageVolume ::
    "'s world \<Rightarrow> string \<Rightarrow> ObjectReference \<Rightarrow> string \<Rightarrow> ObjectReference \<Rightarrow> ObjectReference option \<Rightarrow> (unit res, 's) io" where
  "verifyActiveStorageVolume w sid sourcePVC destinationNamespace expectedPV active =
     (if incomplete_active active then io_ret (Inl (NewError ErrorPrecondition verifyMigrationPhase))
      else let a = the active in
        if r_Namespace a \<noteq> destinationNamespace \<or> r_Name a \<noteq> r_Name sourcePVC
        then io_ret (Inl (NewError ErrorConflict verifyMigrationPhase))
        else if r_Name expectedPV = [] \<or> r_UID expectedPV = []
        then io_ret (Inl (NewError ErrorPrecondition verifyMigrationPhase))
        else verified_claim w verifyMigrationPhase destinationNamespace (r_Name sourcePVC) (\<lambda>c.
          if c_DeletionTimestamp c \<noteq> None \<and> \<not> w_deletion w
          then io_ret (Inl (NewError ErrorPrecondition verifyMigrationPhase))
          else if c_Phase c \<noteq> ClaimBound \<or> s_VolumeName (c_Spec c) \<noteq> r_Name expectedPV \<or>
            mget (c_Annotations c) SessionKey \<noteq> sid
          then io_ret (Inl (NewError ErrorConflict verifyMigrationPhase))
          else if c_UID c \<noteq> r_UID a then io_ret (Inl (NewError ErrorConflict verifyMigrationPhase))
          else verified_volume w verifyMigrationPhase expectedPV c))"

text \<open>\<^verbatim>\<open>unrecordedActivePVC\<close>: the claim that stands where the activated one would, if it is not the
  source, and whether one stands there.\<close>

definition unrecordedActivePVC ::
    "'s world \<Rightarrow> ObjectReference \<Rightarrow> ObjectReference \<Rightarrow> string \<Rightarrow> ((ObjectReference option \<times> bool) res, 's) io" where
  "unrecordedActivePVC w sourcePVC sourcePV destinationNamespace =
     io_bind (get_pvc w destinationNamespace (r_Name sourcePVC)) (\<lambda>g. io_ret (case g of
       Inl err \<Rightarrow> if IsNotFound err then Inr (None, False) else Inl (WrapError ErrorKubernetes verifyMigrationPhase err)
     | Inr c \<Rightarrow>
         if c_Name c = [] then Inl (NewError ErrorKubernetes verifyMigrationPhase)
         else if c_UID c = r_UID sourcePVC \<and> s_VolumeName (c_Spec c) = r_Name sourcePV then Inr (None, True)
         else Inr (Some (PVCReference c), True)))"

definition validateUnrecordedRollbackStorage ::
    "'s world \<Rightarrow> string \<Rightarrow> ObjectReference \<Rightarrow> ObjectReference \<Rightarrow> ObjectReference \<Rightarrow> ObjectReference option \<Rightarrow>
     (bool res, 's) io" where
  "validateUnrecordedRollbackStorage w sid sourcePVC sourcePV destinationPV active =
     io_bind (get_pvc w (r_Namespace sourcePVC) (r_Name sourcePVC)) (\<lambda>g. case g of
       Inl err \<Rightarrow>
         if IsNotFound err then
           (case active of
              None \<Rightarrow> io_ret (Inr False)
            | Some a \<Rightarrow>
                if r_Name a = [] \<or> r_UID a = [] then io_ret (Inr False)
                else io_try (VerifyActivationRecovery w sid
                    [\<lparr>b_SourcePVC = a, b_SourcePV = destinationPV, b_DestinationPVC = sourcePVC, b_DestinationPV = sourcePV\<rparr>])
                  (\<lambda>_. io_ret (Inr True)))
         else io_ret (Inl (WrapError ErrorKubernetes verifyRollbackPhase err))
     | Inr c \<Rightarrow>
         if s_VolumeName (c_Spec c) \<noteq> r_Name sourcePV then io_ret (Inr False)
         else io_try (verifyRollbackStorageVolume w sid sourcePVC sourcePV (Some (PVCReference c)))
           (\<lambda>_. io_ret (Inr True)))"

section \<open>Sources that are going away\<close>

record plannedSourceScan =
  sc_Deleted :: bool
  sc_Terminating :: "(ObjectReference \<times> instant) option"

definition probeSourcePVC :: "'s world \<Rightarrow> ObjectReference \<Rightarrow> (plannedSourceScan res, 's) io" where
  "probeSourcePVC w sourcePVC =
     io_bind (get_pvc w (r_Namespace sourcePVC) (r_Name sourcePVC)) (\<lambda>g. io_ret (case g of
       Inl err \<Rightarrow>
         if IsNotFound err then Inr \<lparr>sc_Deleted = True, sc_Terminating = None\<rparr>
         else Inl (WrapError ErrorKubernetes verifySourceStoragePhase err)
     | Inr c \<Rightarrow> Inr \<lparr>sc_Deleted = False, sc_Terminating = map_option (Pair sourcePVC) (c_DeletionTimestamp c)\<rparr>))"

fun scan_sources ::
    "'s world \<Rightarrow> string \<Rightarrow> VolumeSpec list \<Rightarrow> plannedSourceScan \<Rightarrow> (plannedSourceScan res, 's) io" where
  "scan_sources w sourceNamespace [] scan = io_ret (Inr scan)"
| "scan_sources w sourceNamespace (volume # volumes) scan =
     (if volume_name volume = [] then scan_sources w sourceNamespace volumes scan
      else io_try (probeSourcePVC w (qualifiedResourceReference (vs_SourcePVC volume) sourceNamespace)) (\<lambda>probe.
        if sc_Deleted probe then io_ret (Inr (scan\<lparr>sc_Deleted := True\<rparr>))
        else scan_sources w sourceNamespace volumes
          (if sc_Terminating probe \<noteq> None \<and> sc_Terminating scan = None
           then scan\<lparr>sc_Terminating := sc_Terminating probe\<rparr> else scan)))"

definition scanPlannedSourcePVCs ::
    "'s world \<Rightarrow> string \<Rightarrow> VolumeSpec list \<Rightarrow> (plannedSourceScan res, 's) io" where
  "scanPlannedSourcePVCs w sourceNamespace volumes =
     scan_sources w sourceNamespace volumes \<lparr>sc_Deleted = False, sc_Terminating = None\<rparr>"

definition sourceLossFailure :: "string \<Rightarrow> go_error" where
  "sourceLossFailure operation = NewError ErrorPrecondition operation"

definition sourceTerminationFailure :: "string \<Rightarrow> ObjectReference \<times> instant \<Rightarrow> go_error" where
  "sourceTerminationFailure operation termination = NewError ErrorPrecondition operation"

definition validateFinalSyncSources ::
    "'s world \<Rightarrow> string \<Rightarrow> VolumeSpec list \<Rightarrow> string \<Rightarrow> (unit res, 's) io" where
  "validateFinalSyncSources w sourceNamespace volumes operation =
     io_try (scanPlannedSourcePVCs w sourceNamespace volumes) (\<lambda>scan. io_ret (
       if sc_Deleted scan then Inl (sourceLossFailure operation)
       else case sc_Terminating scan of
         Some t \<Rightarrow> Inl (sourceTerminationFailure operation t)
       | None \<Rightarrow> Inr ()))"

definition sourceLossRelevant :: "WorkflowStatus \<Rightarrow> bool" where
  "sourceLossRelevant status = (ws_Phase status \<notin> {PhaseFailed, PhaseCompleted, PhaseAborted, PhaseRolledBack})"

definition sourceTerminationRelevant :: "WorkflowStatus \<Rightarrow> bool" where
  "sourceTerminationRelevant status =
     (ws_Phase status \<in> {PhaseNone, PhasePlanned, PhaseReserving, PhaseReserved, PhaseWarmCopying, PhaseWarmCopied,
        PhasePausing, PhasePaused, PhaseFinalSyncing})"

text \<open>\<^verbatim>\<open>failSourceDeleted\<close>; \<open>under_lock\<close> is the lock of the workflow around the failure transition.\<close>

definition failSourceDeleted ::
    "'s world \<Rightarrow> WorkflowStatus \<Rightarrow> VolumeSpec list \<Rightarrow> string \<Rightarrow> (go_error \<Rightarrow> ('t \<times> unit res, 's) io) \<Rightarrow> string \<Rightarrow> 't \<Rightarrow>
     ('t \<times> unit res, 's) io" where
  "failSourceDeleted w status planVolumes sourceNamespace fail_under_lock operation obj =
     (if \<not> sourceLossRelevant status then io_ret (obj, Inr ())
      else io_try_st obj (scanPlannedSourcePVCs w sourceNamespace planVolumes) (\<lambda>scan.
        if sc_Deleted scan then fail_under_lock (sourceLossFailure operation)
        else case sc_Terminating scan of
          Some t \<Rightarrow>
            if sourceTerminationRelevant status then fail_under_lock (sourceTerminationFailure operation t)
            else io_ret (obj, Inr ())
        | None \<Rightarrow> io_ret (obj, Inr ())))"

definition volume_going :: "'s world \<Rightarrow> string \<Rightarrow> (bool res, 's) io" where
  "volume_going w n =
     io_bind (get_pv w n) (\<lambda>g. io_ret (case g of
       Inl err \<Rightarrow> if IsNotFound err then Inr True else Inl (WrapError ErrorKubernetes verifySourceStoragePhase err)
     | Inr v \<Rightarrow> Inr (v_DeletionTimestamp v \<noteq> None)))"

definition deletionSourceMissing :: "'s world \<Rightarrow> string \<Rightarrow> VolumeSpec \<Rightarrow> (bool res, 's) io" where
  "deletionSourceMissing w sourceNamespace volume =
     (if volume_name volume = [] then io_ret (Inr False)
      else io_try (probeSourcePVC w (qualifiedResourceReference (vs_SourcePVC volume) sourceNamespace)) (\<lambda>probe.
        if sc_Deleted probe \<or> sc_Terminating probe \<noteq> None then io_ret (Inr True)
        else volume_going w (lo_Name (vs_SourcePV volume))))"

definition deletionDestinationSettling :: "'s world \<Rightarrow> PVCTransferBindings \<Rightarrow> (bool res, 's) io" where
  "deletionDestinationSettling w binding =
     io_bind (get_pvc w (r_Namespace (b_DestinationPVC binding)) (r_Name (b_DestinationPVC binding))) (\<lambda>g. case g of
       Inl err \<Rightarrow>
         io_ret (if IsNotFound err then Inr True else Inl (WrapError ErrorKubernetes verifySourceStoragePhase err))
     | Inr c \<Rightarrow>
         if c_DeletionTimestamp c \<noteq> None then io_ret (Inr True)
         else volume_going w (r_Name (b_DestinationPV binding)))"

fun deletionSourcePairSettling :: "'s world \<Rightarrow> string \<Rightarrow> VolumeSpec list \<Rightarrow> (bool res, 's) io" where
  "deletionSourcePairSettling w sourceNamespace [] = io_ret (Inr False)"
| "deletionSourcePairSettling w sourceNamespace (volume # volumes) =
     io_try (deletionSourceMissing w sourceNamespace volume) (\<lambda>settling.
       if settling then io_ret (Inr True) else deletionSourcePairSettling w sourceNamespace volumes)"

definition deletionValidationSkip ::
    "'s world \<Rightarrow> string \<Rightarrow> VolumeSpec \<Rightarrow> PVCTransferBindings \<Rightarrow> (bool res, 's) io" where
  "deletionValidationSkip w sourceNamespace volume binding =
     io_try (deletionSourceMissing w sourceNamespace volume) (\<lambda>skip.
       if skip then io_ret (Inr True) else deletionDestinationSettling w binding)"

section \<open>Manifests, bindings and checks\<close>

text \<open>The checkpoint has both references, which the validation of the record ensures; without them the
  code would panic.\<close>

definition plannedMigrationBindings ::
    "string \<Rightarrow> VolumeSpec \<Rightarrow> ClusterVolumeReservationStatus \<Rightarrow> PVCTransferBindings" where
  "plannedMigrationBindings sourceNamespace volume checkpoint =
     \<lparr>b_SourcePVC = qualifiedResourceReference (vs_SourcePVC volume) sourceNamespace,
      b_SourcePV = qualifiedResourceReference (vs_SourcePV volume) [],
      b_DestinationPVC = the (rs_DestinationPVC checkpoint),
      b_DestinationPV = the (rs_DestinationPV checkpoint)\<rparr>"

definition reservationManifest ::
    "(string \<Rightarrow> quantity option) \<Rightarrow> ObjectReference \<Rightarrow> string \<Rightarrow> string \<Rightarrow> VolumeMode \<Rightarrow> AccessMode list \<Rightarrow> pvc res" where
  "reservationManifest parse destination requestedCapacity storageClass mode accessModes =
     (case parse requestedCapacity of
        None \<Rightarrow> Inl (WrapError ErrorValidation OpReserveVolume PlainError)
      | Some capacity \<Rightarrow> Inr
          \<lparr>c_Namespace = r_Namespace destination, c_Name = r_Name destination, c_UID = [], c_ResourceVersion = [],
           c_Labels = Map.empty, c_Annotations = Map.empty, c_Finalizers = [], c_OwnerReferences = [],
           c_DeletionTimestamp = None,
           c_Spec = \<lparr>s_AccessModes = accessModes, s_Selector = None, s_StorageRequest = Some capacity, s_VolumeName = [],
             s_StorageClassName = Some storageClass, s_VolumeMode = Some mode, s_DataSource = None, s_DataSourceRef = None,
             s_VolumeAttributesClassName = None\<rparr>,
           c_Phase = ClaimPending, c_AllocatedStorage = None,
           c_CurrentVolumeAttributesClassName = None, c_TargetVolumeAttributesClassName = None\<rparr>)"

definition migrationPVCManifest ::
    "(string \<Rightarrow> quantity option) \<Rightarrow> string \<Rightarrow> ObjectReference \<Rightarrow> ObjectReference \<Rightarrow> ObjectReference \<Rightarrow> string \<Rightarrow> PVCSpec \<Rightarrow>
     PVCMetadata \<Rightarrow> string \<Rightarrow> string \<Rightarrow> pvc res" where
  "migrationPVCManifest parse workflowID sourcePVC sourcePV destinationPV destinationNamespace sourceSpec metadata
     storageClass capacity =
     (if \<not> positive_quantity parse capacity then Inl (NewError ErrorValidation OpActivePVC)
      else let c = BoundPVCManifest workflowID (sourcePVC\<lparr>r_Namespace := destinationNamespace\<rparr>) (r_Name destinationPV)
                     sourceSpec metadata in
        Inr (c\<lparr>c_Spec := (c_Spec c)\<lparr>s_StorageClassName := Some storageClass, s_StorageRequest := parse capacity\<rparr>,
               c_Annotations := (c_Annotations c)(RollbackPVAnnotation \<mapsto> r_Name sourcePV)\<rparr>))"

definition rollbackPVCManifest :: "string \<Rightarrow> PVCTransferBindings \<Rightarrow> VolumeSpec \<Rightarrow> pvc" where
  "rollbackPVCManifest workflowID binding volume =
     (let c = BoundPVCManifest workflowID (b_SourcePVC binding) (r_Name (b_SourcePV binding)) (vs_SourcePVCSpec volume)
            (vs_SourcePVCMetadata volume) in
      c\<lparr>c_Annotations := (c_Annotations c)(RollbackPVAnnotation \<mapsto> r_Name (b_DestinationPV binding))\<rparr>)"

definition migrationActivationAdmission ::
    "(string \<Rightarrow> quantity option) \<Rightarrow> string \<Rightarrow> VolumeSpec \<Rightarrow> bool \<Rightarrow> PVCAdmissionChange res" where
  "migrationActivationAdmission parse ns volume sourceExists =
     (if \<not> positive_quantity parse (vs_Capacity volume) then Inl (NewError ErrorValidation OpMigrationActivation)
      else let attributes = RequestedVolumeAttributesClassNames (vs_SourcePVCSpec volume) in
        Inr \<lparr>ac_Namespace = ns, ac_Name = volume_name volume,
             ac_RequestedStorage = the (parse (vs_Capacity volume)), ac_RequestedStorageClass = vs_StorageClass volume,
             ac_Existing = sourceExists, ac_ExistingUID = lo_UID (vs_SourcePVC volume),
             ac_ExistingStorage = (case s_StorageRequest (vs_SourcePVCSpec volume) of None \<Rightarrow> 0 | Some q \<Rightarrow> q),
             ac_ExistingStorageClass = (case s_StorageClassName (vs_SourcePVCSpec volume) of None \<Rightarrow> [] | Some c \<Rightarrow> c),
             ac_RequestedVolumeAttributesClassNames = attributes, ac_ExistingVolumeAttributesClassNames = attributes\<rparr>)"

definition RequireNamespace :: "'s world \<Rightarrow> string \<Rightarrow> (unit res, 's) io" where
  "RequireNamespace w n =
     (if n = [] then io_ret (Inl (NewError ErrorValidation OpRequireNamespace))
      else io_bind (get_namespace w n) (\<lambda>r. io_ret (case r of
        Inr u \<Rightarrow> Inr u
      | Inl err \<Rightarrow> Inl (WrapError (if IsNotFound err then ErrorPrecondition else ErrorKubernetes) OpRequireNamespace err))))"

text \<open>\<^verbatim>\<open>VerifyVolumeShrinkUsage\<close>. The reader, which returns the used bytes, is an interface of the storage
  backends; \<^verbatim>\<open>Quantity.Value\<close> rounds up to whole units.\<close>

type_synonym 's usage_reader = "ObjectReference \<Rightarrow> ObjectReference \<Rightarrow> (int res, 's) io"

definition quantity_Value :: "quantity \<Rightarrow> int" where
  "quantity_Value q = - ((- q) div 1000000000)"

definition VerifyVolumeShrinkUsage ::
    "'s world \<Rightarrow> 's usage_reader option \<Rightarrow> ObjectReference \<Rightarrow> ObjectReference \<Rightarrow> string \<Rightarrow> string \<Rightarrow> bool \<Rightarrow> (unit res, 's) io" where
  "VerifyVolumeShrinkUsage w reader sourcePVC sourcePV sourceCapacity destinationCapacity skip =
     (case (w_parse_quantity w sourceCapacity, w_parse_quantity w destinationCapacity) of
        (Some source, Some destination) \<Rightarrow>
          if destination \<ge> source then io_ret (Inr ())
          else if skip then io_ret (Inr ())
          else (case reader of
            None \<Rightarrow> io_ret (Inl (NewError ErrorPrecondition OpSourceUsageCheck))
          | Some read_usage \<Rightarrow> io_bind (read_usage sourcePVC sourcePV) (\<lambda>r. io_ret (case r of
              Inl err \<Rightarrow> Inl (WrapError ErrorPrecondition OpSourceUsageCheck err)
            | Inr usedBytes \<Rightarrow>
                if usedBytes < 0 then Inl (NewError ErrorPrecondition OpSourceUsageCheck)
                else if usedBytes > quantity_Value destination then Inl (NewError ErrorConflict OpSourceUsageCheck)
                else Inr ())))
      | _ \<Rightarrow> io_ret (Inr ()))"

text \<open>\<^verbatim>\<open>rollbackDestinationConsumed\<close>. client-go returns a list whenever it returns no error.\<close>

definition rollback_consumer :: "string \<Rightarrow> string \<Rightarrow> pod \<Rightarrow> bool" where
  "rollback_consumer pvcName sid p =
     ((p_Phase p = PodRunning \<or> p_Phase p = PodPending) \<and>
      \<not> (mget (p_Labels p) ''app.kubernetes.io/managed-by'' = ''pvc-migrate'' \<and>
         mget (p_Labels p) ''migrate.sealos.io/session'' = sid) \<and>
      PodUsesPVC p pvcName)"

definition rollbackDestinationConsumed :: "'s world \<Rightarrow> string \<Rightarrow> string \<Rightarrow> string \<Rightarrow> (unit res, 's) io" where
  "rollbackDestinationConsumed w ns pvcName sid =
     io_bind (list_pods w ns) (\<lambda>r. io_ret (case r of
       Inl err \<Rightarrow> Inl (WrapError ErrorKubernetes OpMigrationRollback err)
     | Inr None \<Rightarrow> Inl (NewError ErrorInternal OpMigrationRollback)
     | Inr (Some pods) \<Rightarrow>
         if list_ex (rollback_consumer pvcName sid) pods then Inl (NewError ErrorConflict OpMigrationRollback) else Inr ()))"

section \<open>Checkpointed steps of one volume\<close>

definition complete_reservation :: "ClusterVolumeReservationStatus \<Rightarrow> bool" where
  "complete_reservation status =
     (rs_Reserved status \<and>
      (case rs_DestinationPVC status of None \<Rightarrow> False | Some r \<Rightarrow> r_UID r \<noteq> []) \<and>
      (case rs_DestinationPV status of None \<Rightarrow> False | Some r \<Rightarrow> r_UID r \<noteq> []))"

text \<open>\<^verbatim>\<open>reserveVolumeCheckpoint\<close> (\<^verbatim>\<open>volumeReserver\<close> is the reserver of \<^verbatim>\<open>kube/reserver.go\<close>); \<open>record_with\<close> puts a checkpoint into the record that is saved.\<close>

definition reserveVolumeCheckpoint ::
    "'s world \<Rightarrow> reserver \<Rightarrow> ReservationRequest \<Rightarrow> ObjectReference \<Rightarrow> ObjectReference \<Rightarrow> string \<Rightarrow> pvc \<Rightarrow>
     ClusterVolumeReservationStatus \<Rightarrow> (ClusterVolumeReservationStatus \<Rightarrow> 's) \<Rightarrow>
     (ClusterVolumeReservationStatus \<times> unit res, 's) io" where
  "reserveVolumeCheckpoint w rv request sourcePVC sourcePV sourceCapacity desired status record_with =
     io_try_st status (checkpointFenceError w) (\<lambda>_.
     io_bind (ReserveVolume rv w request sourcePVC sourcePV sourceCapacity desired status) (\<lambda>(checkpoint, err).
     io_bind (persistCheckpoint w (Some (save_state w (record_with checkpoint)))) (\<lambda>saved. io_ret (
       case saved of
         Inl saveErr \<Rightarrow> (status, to_res (errors_join [err_of err, Some saveErr]))
       | Inr _ \<Rightarrow> (checkpoint,
           case err of Inl e \<Rightarrow> Inl e
           | Inr _ \<Rightarrow> if complete_reservation checkpoint then Inr () else Inl (NewError ErrorInternal OpReserveVolume))))))"

text \<open>The checkpoint of the switcher is published after each save. The switcher takes a checkpoint
  back when its save fails, so what it returns is what was published last.\<close>

definition publish :: "'s world \<Rightarrow> (act \<Rightarrow> 's) \<Rightarrow> (act, 's) progress" where
  "publish w record_with = Some (\<lambda>checkpoint. persistCheckpoint w (Some (save_state w (record_with checkpoint))))"

definition activateMigrationVolume ::
    "'s world \<Rightarrow> string \<Rightarrow> string \<Rightarrow> PVCTransferBindings \<Rightarrow> pvc \<Rightarrow> act \<Rightarrow> (act \<Rightarrow> 's) \<Rightarrow> (act \<times> unit res, 's) io" where
  "activateMigrationVolume w workflowID activateNamespace bindings desired status record_with =
     (if a_ActivatedAt status \<noteq> None
      then io_try_st status (verifyActiveStorageVolume w workflowID (b_SourcePVC bindings) activateNamespace
          (b_DestinationPV bindings) (a_ActivePVC status)) (\<lambda>_. io_ret (status, Inr ()))
      else io_bind (ActivatePVC w workflowID activateNamespace bindings (Some desired) (Some status) (publish w record_with))
        (\<lambda>(st, r). io_ret (the st, r)))"

definition rollbackMigrationVolume ::
    "'s world \<Rightarrow> string \<Rightarrow> string \<Rightarrow> PVCTransferBindings \<Rightarrow> pvc \<Rightarrow> act \<Rightarrow> (act \<Rightarrow> 's) \<Rightarrow> (act \<times> unit res, 's) io" where
  "rollbackMigrationVolume w workflowID activateNamespace bindings desired status record_with =
     io_bind (RollbackPVC w workflowID activateNamespace bindings (Some desired) (Some status) (publish w record_with))
       (\<lambda>(st, r). io_ret (the st, r))"

section \<open>What a cutover and a rollback save\<close>

lemma activePVC_at:
  "wp (\<lambda>_ _. True) (activePVC w sid ns sp sv dv) (\<lambda>r h'. \<forall>c. r = Inr (Some c) \<longrightarrow> claim_at ns (r_Name sp) c h') h"
  unfolding activePVC_def claim_at_def
  by (auto simp: io_rules split: sum.splits if_splits intro!: io_intros wp_conseq [OF verifyBinding_wp])

lemma createBoundPVC_at:
  "wp (\<lambda>_ _. True) (createBoundPVC w sid d) (\<lambda>r h'. \<forall>c. r = Inr c \<longrightarrow> claim_at (c_Namespace d) (c_Name d) c h') h"
  unfolding createBoundPVC_def claim_at_def
  by (auto simp: io_rules split: sum.splits if_splits intro!: wp_WaitFor io_intros dest!: honest_answers)

text \<open>What a checkpoint of the switcher looks like while the server is truthful; \<open>b\<close> switches the
  statement off.\<close>

definition act_ok :: "bool \<Rightarrow> VolumeSpec \<Rightarrow> string \<Rightarrow> act \<Rightarrow> 's hist \<Rightarrow> bool" where
  "act_ok b v ns st h \<longleftrightarrow> (b \<and> honest h \<longrightarrow> activation_ok v ns st)"

lemma act_ok_mono: "act_ok b v ns st h \<Longrightarrow> suffix h h' \<Longrightarrow> act_ok b v ns st h'"
  by (auto simp: act_ok_def dest: honest_suffix)

lemma activation_ok_flags [simp]:
  "activation_ok v ns (st\<lparr>a_TemporaryPVCDeleted := x\<rparr>) = activation_ok v ns st"
  "activation_ok v ns (st\<lparr>a_SourcePVCDeleted := x\<rparr>) = activation_ok v ns st"
  "activation_ok v ns (st\<lparr>a_DestinationReserved := x\<rparr>) = activation_ok v ns st"
  by (simp_all add: activation_ok_def)

lemma act_ok_flags [simp]:
  "act_ok b v ns (st\<lparr>a_TemporaryPVCDeleted := x\<rparr>) h = act_ok b v ns st h"
  "act_ok b v ns (st\<lparr>a_SourcePVCDeleted := x\<rparr>) h = act_ok b v ns st h"
  "act_ok b v ns (st\<lparr>a_DestinationReserved := x\<rparr>) h = act_ok b v ns st h"
  by (simp_all add: act_ok_def)

lemma act_ok_complete:
  assumes "claim_at ns (volume_name v) c h" and "suffix h h'"
  shows "act_ok b v ns (st\<lparr>a_ActivePVC := Some (PVCReference c), a_ActivatedAt := t\<rparr>) h'"
    "act_ok b v ns (st\<lparr>a_ActivePVC := Some (PVCReference c), a_RolledBackAt := t\<rparr>) h'"
  using assms by (auto simp: act_ok_def activation_ok_def claim_at_def bad_reference_def PVCReference_def dest: honest_suffix)

text \<open>A guard on what is saved while nothing is copied, and a callback that keeps it as long as it is given such
  checkpoints.\<close>

fun is_copy :: "'s event \<Rightarrow> bool" where
  "is_copy (EvCopy q r) = True"
| "is_copy e = False"

lemma is_read_no_engine: "is_read e \<Longrightarrow> \<not> is_copy e"
  by (cases e) auto

lemma update_guards_quiet:
  "pv_update_guard ref sid f e h \<Longrightarrow> \<not> is_save e \<and> \<not> is_copy e"
  "pair_guard sid s d e h \<Longrightarrow> \<not> is_save e \<and> \<not> is_copy e"
  "delete_guard ref e h \<Longrightarrow> \<not> is_save e \<and> \<not> is_copy e"
  "create_guard c e h \<Longrightarrow> \<not> is_save e \<and> \<not> is_copy e"
  "only_reads e h \<Longrightarrow> \<not> is_save e \<and> \<not> is_copy e"
  by (auto simp: pv_update_guard_def pair_guard_def delete_guard_def create_guard_def guard_simps
      dest: is_read_no_save is_read_no_engine)

definition save_guard :: "('s \<Rightarrow> 's hist \<Rightarrow> bool) \<Rightarrow> 's event \<Rightarrow> 's hist \<Rightarrow> bool" where
  "save_guard S e h \<longleftrightarrow> (\<forall>s r. e = EvSave s r \<longrightarrow> S s h) \<and> \<not> is_copy e"

lemma save_guard_skip: "\<not> is_save e \<Longrightarrow> \<not> is_copy e \<Longrightarrow> save_guard S e h"
  by (auto simp: save_guard_def)

definition saves_where :: "('t \<Rightarrow> 's hist \<Rightarrow> bool) \<Rightarrow> ('s \<Rightarrow> 's hist \<Rightarrow> bool) \<Rightarrow> ('t, 's) progress \<Rightarrow> bool" where
  "saves_where R S p \<longleftrightarrow> (\<exists>f. p = Some f \<and> (\<forall>st h. R st h \<longrightarrow> wp (save_guard S) (f st) (\<lambda>_ _. True) h))"

lemma wp_unsaved:
  assumes "wp G m Q h" and "\<And>e h'. G e h' \<Longrightarrow> \<not> is_save e \<and> \<not> is_copy e"
  shows "wp (save_guard S) m Q h"
  by (rule wp_conseq [OF assms(1)]) (auto dest: assms(2) save_guard_skip)

lemmas step_unsaved =
  wp_unsaved [OF ensureNoConsumers_wp update_guards_quiet(5)]
  wp_unsaved [OF ensureDetached_wp update_guards_quiet(5)]
  wp_unsaved [OF verifyBinding_wp update_guards_quiet(5)]
  wp_unsaved [OF validateBoundPVC_wp update_guards_quiet(5)]
  wp_unsaved [OF validateTemporaryActivationPVC_wp update_guards_quiet(5)]
  wp_unsaved [OF deletePVC_wp update_guards_quiet(3)]

lemmas step_unsaved_retry =
  wp_unsaved [OF ensureRetain_wp update_guards_quiet(1)]
  wp_unsaved [OF reservePV_wp update_guards_quiet(1)]
  wp_unsaved [OF markPVPair_wp update_guards_quiet(2)]

lemmas found_unsaved =
  wp_conj [OF wp_unsaved [OF activePVC_wp update_guards_quiet(5)] activePVC_at]
  wp_conj [OF wp_unsaved [OF createBoundPVC_wp update_guards_quiet(4)] createBoundPVC_at]

lemma saveActivationCheckpoint_saves:
  assumes "saves_where (act_ok b v ns) S p" and "act_ok b v ns st h" and "act_ok b v ns prev h"
  shows "wp (save_guard S) (saveActivationCheckpoint w st prev p) (\<lambda>(st', r). act_ok b v ns st') h"
proof -
  obtain f where f: "p = Some f" "\<And>st h. act_ok b v ns st h \<Longrightarrow> wp (save_guard S) (f st) (\<lambda>_ _. True) h"
    using assms by (auto simp: saves_where_def)
  have step: "act_ok b v ns x (e # h)" "suffix (e # h) h' \<Longrightarrow> act_ok b v ns x h'" if "x = st \<or> x = prev" for e x h'
    using that assms(2,3) by (auto intro: act_ok_mono suffix_ConsD)
  show ?thesis
    unfolding saveActivationCheckpoint_def callProgress_def f(1)
    by (auto simp: io_rules save_guard_skip step split: sum.splits intro!: io_intros wp_conseq [OF f(2)])
qed

lemma completeActivation_saves:
  assumes "retry_contract w" and "saves_where (act_ok b v ns) S p" and "act_ok b v ns st h"
    and "claim_at ns (volume_name v) c h"
  shows "wp (save_guard S) (completeActivation w sid vol desired st c p) (\<lambda>(st', r). act_ok b v ns st') h"
proof -
  have st: "suffix h h' \<Longrightarrow> act_ok b v ns st h'" for h' using assms(3) by (rule act_ok_mono)
  have c: "suffix h h' \<Longrightarrow> claim_at ns (volume_name v) c h'" for h' using assms(4) by (rule claim_at_mono)
  note calls = step_unsaved [THEN wp_conseq] step_unsaved_retry [OF assms(1), THEN wp_conseq]
  show ?thesis
    unfolding completeActivation_def
    by (auto simp: io_rules st split: sum.splits
        intro!: saveActivationCheckpoint_saves [OF assms(2)] calls act_ok_complete [OF c]
        intro: suffix_order.trans)
qed

lemma activate_cutover_saves:
  assumes "retry_contract w" and "saves_where (act_ok b v ns) S p" and "act_ok b v ns st h"
    and "c_Namespace desired = ns" "c_Name desired = volume_name v"
  shows "wp (save_guard S) (activate_cutover w sid vol desired st p) (\<lambda>(st', r). act_ok b v ns st') h"
proof -
  note calls = step_unsaved [THEN wp_conseq] step_unsaved_retry [OF assms(1), THEN wp_conseq]
  note saves = saveActivationCheckpoint_saves [OF assms(2)]
  have delete_temporary: "wp (save_guard S) (deleteTemporaryActivationPVC w vol st p) (\<lambda>(st', r). act_ok b v ns st') h"
    if "act_ok b v ns st h" for st h
    using that unfolding deleteTemporaryActivationPVC_def
    by (auto simp: io_rules split: sum.splits intro!: calls saves intro: act_ok_mono suffix_order.trans)
  have delete_source: "wp (save_guard S) (deleteSourceActivationPVC w vol st p) (\<lambda>(st', r). act_ok b v ns st') h"
    if "act_ok b v ns st h" for st h
    using that unfolding deleteSourceActivationPVC_def
    by (auto simp: io_rules split: sum.splits intro!: calls saves intro: act_ok_mono suffix_order.trans)
  have reserve: "wp (save_guard S) (reserveActivationDestination w sid vol desired st p) (\<lambda>(st', r). act_ok b v ns st') h"
    if "act_ok b v ns st h" for st h
    using that unfolding reserveActivationDestination_def
    by (auto simp: io_rules split: sum.splits intro!: calls saves intro: act_ok_mono suffix_order.trans)
  note steps = delete_temporary [THEN wp_conseq] delete_source [THEN wp_conseq] reserve [THEN wp_conseq]
  show ?thesis
    unfolding activate_cutover_def
    by (auto simp: io_rules assms(3-5) split: sum.splits
        intro!: steps found_unsaved(2) [THEN wp_conseq] completeActivation_saves [OF assms(1,2)] intro: act_ok_mono)
qed

lemma ActivatePVC_saves:
  assumes "retry_contract w" and "saves_where (act_ok b v ns) S p" and "act_ok b v ns st h"
    and "r_Name (b_SourcePVC vol) = volume_name v"
  shows "wp (save_guard S) (ActivatePVC w sid ns vol (Some c) (Some st) p) (\<lambda>(st', r) h'. act_ok b v ns (the st') h') h"
proof -
  note calls = step_unsaved [THEN wp_conseq] step_unsaved_retry [OF assms(1), THEN wp_conseq]
  have st: "suffix h h' \<Longrightarrow> act_ok b v ns st h'" for h' using assms(3) by (rule act_ok_mono)
  have valid: "c_Namespace c = ns" "c_Name c = volume_name v" if "validateActivatePVC sid ns vol c = Inr x" for x
    using that assms(4) by (auto simp: validateActivatePVC_def split: if_splits)
  have resources: "wp (save_guard S) (activateVolumeResources w sid ns vol c st p) (\<lambda>(st', r). act_ok b v ns st') h'"
    if "validateActivatePVC sid ns vol c = Inr x" "suffix h h'" for x h'
    using that(2) unfolding activateVolumeResources_def
    by (auto simp: io_rules assms(4) valid [OF that(1)] split: sum.splits option.splits
        intro!: calls found_unsaved(1) [THEN wp_conseq] activate_cutover_saves [OF assms(1,2)]
          completeActivation_saves [OF assms(1,2)]
        intro: st suffix_order.trans)
  show ?thesis
    unfolding ActivatePVC_def
    by (auto simp: io_rules save_guard_skip st suffix_Cons split: sum.splits
        intro!: io_intros calls resources [THEN wp_conseq] dest!: suffix_ConsD)
qed

lemma RollbackPVC_saves:
  assumes "retry_contract w" and "saves_where (act_ok b v ns) S p" and "act_ok b v ns st h"
    and "r_Name (b_SourcePVC vol) = volume_name v" and "b \<longrightarrow> r_Namespace (b_SourcePVC vol) = ns"
  shows "wp (save_guard S) (RollbackPVC w sid dns vol (Some c) (Some st) p) (\<lambda>(st', r) h'. act_ok b v ns (the st') h') h"
proof -
  note calls = step_unsaved [THEN wp_conseq] step_unsaved_retry [OF assms(1), THEN wp_conseq]
  have st: "suffix h h' \<Longrightarrow> act_ok b v ns st h'" for h' using assms(3) by (rule act_ok_mono)
  have restored: "act_ok b v ns (st\<lparr>a_ActivePVC := Some (PVCReference d), a_RolledBackAt := t\<rparr>) h2"
    if "claim_at (r_Namespace (b_SourcePVC vol)) (volume_name v) d h1" "suffix h1 h2" for d t h1 h2
    using that act_ok_complete(2) [of ns v d h1 h2 b] assms(5) by (cases b) (simp_all add: act_ok_def)
  have complete: "wp (save_guard S) (completeRollback w sid vol st d p) (\<lambda>(st', r). act_ok b v ns st') h'"
    if "claim_at (r_Namespace (b_SourcePVC vol)) (volume_name v) d h'" "suffix h h'" for sid d h'
    using that(2) unfolding completeRollback_def
    by (auto simp: io_rules split: sum.splits
        intro!: saveActivationCheckpoint_saves [OF assms(2)] calls restored [OF that(1)] intro: st suffix_order.trans)
  have remove: "wp (save_guard S) (removeActiveDestination w sid vol d) (\<lambda>_ _. True) h" for sid d h
    unfolding removeActiveDestination_def by (auto simp: io_rules split: sum.splits intro!: calls)
  have valid: "c_Namespace c = r_Namespace (b_SourcePVC vol)" "c_Name c = volume_name v"
    if "validateRollbackPVC sid vol c = Inr x" for sid x
    using that assms(4) by (auto simp: validateRollbackPVC_def split: if_splits)
  have restore: "wp (save_guard S) (rollback_restore w sid vol c st p) (\<lambda>(st', r). act_ok b v ns st') h'"
    if "validateRollbackPVC sid vol c = Inr x" "suffix h h'" for sid x h'
    using that(2) unfolding rollback_restore_def
    by (auto simp: io_rules valid [OF that(1)] split: sum.splits intro!: calls found_unsaved(2) [THEN wp_conseq] complete
        intro: st suffix_order.trans)
  have source: "wp (save_guard S) (rollback_source w sid vol c st p) (\<lambda>(st', r). act_ok b v ns st') h'"
    if "validateRollbackPVC sid vol c = Inr x" "suffix h h'" for sid x h'
    using that unfolding rollback_source_def
    by (auto simp: io_rules save_guard_skip assms(4) st suffix_Cons claim_at_def split: sum.splits
        intro!: io_intros remove [THEN wp_conseq] complete restore intro: st suffix_order.trans dest!: suffix_ConsD)
  show ?thesis
    unfolding RollbackPVC_def rollback_other_namespace_def
    by (auto simp: io_rules save_guard_skip st suffix_Cons split: sum.splits
        intro!: io_intros calls remove [THEN wp_conseq] source [THEN wp_conseq] intro: st suffix_order.trans dest!: suffix_ConsD)
qed

end
