(* ===== verification/MigrationExecutor.thy ===== *)
theory MigrationExecutor
  imports MigrationSteps WorkflowLease
begin

text \<open>
  The executor of offline migrations (\<^verbatim>\<open>internal/app/migration_executor.go\<close> and its siblings
  \<^verbatim>\<open>_sync\<close>, \<^verbatim>\<open>_activation\<close>, \<^verbatim>\<open>_lifecycle\<close>, with \<^verbatim>\<open>workflow_failure.go\<close>): reservation, final sync,
  activation, rollback and abort of a \<^verbatim>\<open>ClusterMigration\<close>, each as a program that takes the record in
  memory and returns it as the code leaves it. Saving the record is the event \<open>EvSave\<close>.

  What an executor is built with is a \<open>migration_env\<close>: the copy runner, the reader of backend usage, the
  reserver and the image prober. A successful save also refreshes the
  resource version of the record in memory, which nothing here reads after the lock was taken.
\<close>

section \<open>The record in memory\<close>

type_synonym mig = ClusterMigration

abbreviation ws_of :: "mig \<Rightarrow> WorkflowStatus" where "ws_of obj \<equiv> cs_Workflow (cm_Status obj)"
abbreviation vols_of :: "mig \<Rightarrow> ClusterMigrationVolumeStatus list" where "vols_of obj \<equiv> cs_Volumes (cm_Status obj)"
abbreviation plan_of :: "mig \<Rightarrow> ClusterMigrationPlan" where "plan_of obj \<equiv> the (cs_Plan (cm_Status obj))"
abbreviation name_of :: "mig \<Rightarrow> string" where "name_of obj \<equiv> wm_Name (cm_Meta obj)"
abbreviation resume_phase :: "mig \<Rightarrow> Phase" where "resume_phase obj \<equiv> workflowResumePhase (ws_of obj)"

definition with_ws :: "WorkflowStatus \<Rightarrow> mig \<Rightarrow> mig" where
  "with_ws s obj = obj\<lparr>cm_Status := (cm_Status obj)\<lparr>cs_Workflow := s\<rparr>\<rparr>"

definition with_volumes :: "ClusterMigrationVolumeStatus list \<Rightarrow> mig \<Rightarrow> mig" where
  "with_volumes vs obj = obj\<lparr>cm_Status := (cm_Status obj)\<lparr>cs_Volumes := vs\<rparr>\<rparr>"

definition with_volume :: "nat \<Rightarrow> (ClusterMigrationVolumeStatus \<Rightarrow> ClusterMigrationVolumeStatus) \<Rightarrow> mig \<Rightarrow> mig" where
  "with_volume i f obj = with_volumes ((vols_of obj)[i := f (vols_of obj ! i)]) obj"

definition with_reservation :: "nat \<Rightarrow> ClusterVolumeReservationStatus \<Rightarrow> mig \<Rightarrow> mig" where
  "with_reservation i r = with_volume i (\<lambda>v. v\<lparr>mv_Reservation := r\<rparr>)"

definition with_sync :: "nat \<Rightarrow> (MigrationSyncStatus \<Rightarrow> MigrationSyncStatus) \<Rightarrow> mig \<Rightarrow> mig" where
  "with_sync i f = with_volume i (\<lambda>v. v\<lparr>mv_Sync := f (mv_Sync v)\<rparr>)"

definition with_activation :: "nat \<Rightarrow> act \<Rightarrow> mig \<Rightarrow> mig" where
  "with_activation i a = with_volume i (\<lambda>v. v\<lparr>mv_Activation := a\<rparr>)"

text \<open>\<^verbatim>\<open>indexes[name]\<close>: Go yields 0 for a missing key.\<close>

definition volume_index :: "ClusterMigrationVolumeStatus list \<Rightarrow> VolumeSpec \<Rightarrow> nat" where
  "volume_index vs volume =
     (case clusterMigrationVolumeIndexes vs (volume_name volume) of None \<Rightarrow> 0 | Some i \<Rightarrow> i)"

definition volume_bindings :: "mig \<Rightarrow> nat \<Rightarrow> VolumeSpec \<Rightarrow> PVCTransferBindings" where
  "volume_bindings obj i volume =
     plannedMigrationBindings (mp_SourceNamespace (plan_of obj)) volume (mv_Reservation (vols_of obj ! i))"

text \<open>The image prober runs a Pod per target, all at the same time; it is an interface here.\<close>

record migration_env =
  me_runner :: "mig copy_runner"
  me_usage :: "mig usage_reader option"
  me_reserver :: reserver
  me_prober :: "(ToolImageProbeOptions \<Rightarrow> (ToolImageProbeResult list res, mig) io) option"

abbreviation tool_image :: "migration_env \<Rightarrow> string \<Rightarrow> string" where
  "tool_image e \<equiv> toolImage (vr_config (me_runner e))"

section \<open>Probe targets\<close>

definition toolProbeTargetsForNamespaces :: "string list \<Rightarrow> string \<Rightarrow> string list \<Rightarrow> ToolProbeTarget list" where
  "toolProbeTargetsForNamespaces namespaces nodeName components =
     map (\<lambda>ns. \<lparr>pt_Namespace = ns, pt_NodeName = nodeName, pt_PVCName = [], pt_WritablePVCMount = False,
       pt_RequiredPath = [], pt_CreatePath = False, pt_Components = components\<rparr>) namespaces"

definition reservationToolProbeTargets :: "string list \<Rightarrow> string \<Rightarrow> ToolProbeTarget list" where
  "reservationToolProbeTargets namespaces targetNode =
     (if targetNode = [] then [] else toolProbeTargetsForNamespaces namespaces targetNode [])"

definition sessionNeedsSourceSSHD :: "string list \<Rightarrow> bool" where
  "sessionNeedsSourceSSHD strategies = (strategies = [] \<or> list_ex (\<lambda>s. s \<noteq> StrategyMount) strategies)"

definition final_sync_targets :: "string \<Rightarrow> string \<Rightarrow> string \<Rightarrow> string \<Rightarrow> string list \<Rightarrow> VolumeSpec \<Rightarrow> ToolProbeTarget list" where
  "final_sync_targets sourceNamespace destinationNamespace sourceNode targetNode strategies volume =
     (let sourcePath = SourceTransferPath (vs_TransferScope volume);
          destinationPath = DestinationTransferPath (vs_TransferScope volume) in
      \<lparr>pt_Namespace = sourceNamespace, pt_NodeName = sourceNode, pt_PVCName = volume_name volume,
       pt_WritablePVCMount = True, pt_RequiredPath = (if sourcePath \<noteq> VolumeRootPath then sourcePath else []),
       pt_CreatePath = False, pt_Components = (if sessionNeedsSourceSSHD strategies then [''sshd''] else [])\<rparr> #
      (if destinationPath \<noteq> VolumeRootPath
       then [\<lparr>pt_Namespace = destinationNamespace, pt_NodeName = targetNode, pt_PVCName = destination_name volume,
              pt_WritablePVCMount = True, pt_RequiredPath = destinationPath, pt_CreatePath = True,
              pt_Components = [''rsync'']\<rparr>]
       else []))"

definition transferFinalSyncProbes ::
    "migration_env \<Rightarrow> string \<Rightarrow> string \<Rightarrow> string \<Rightarrow> string \<Rightarrow> string \<Rightarrow> string \<Rightarrow> string list \<Rightarrow> VolumeSpec list \<Rightarrow>
     (ToolImageProbeResult list res, mig) io" where
  "transferFinalSyncProbes e sid sourceNamespace destinationNamespace sourceNode targetNode img strategies volumes =
     (case me_prober e of
        None \<Rightarrow> io_ret (Inr [])
      | Some probe \<Rightarrow> probe
          \<lparr>po_OperationID = sid, po_Image = tool_image e img,
           po_Targets = toolProbeTargetsForNamespaces [destinationNamespace] targetNode
               (''rsync'' # (if StrategyLocal \<in> set strategies then [''sshd''] else [])) @
             concat (map (final_sync_targets sourceNamespace destinationNamespace sourceNode targetNode strategies) volumes)\<rparr>)"

definition finalSyncProbes :: "migration_env \<Rightarrow> string \<Rightarrow> ClusterMigrationPlan \<Rightarrow> (ToolImageProbeResult list res, mig) io" where
  "finalSyncProbes e sid plan =
     transferFinalSyncProbes e sid (mp_SourceNamespace plan) (mp_TemporaryNamespace plan) (mp_SourceNode plan)
       (mp_TargetNode plan) (mp_ToolImage plan) (mp_Strategies plan) (mp_Volumes plan)"

section \<open>Transitions and failures\<close>

definition transition :: "mig world \<Rightarrow> mig \<Rightarrow> Phase \<Rightarrow> string \<Rightarrow> (mig \<times> unit res, mig) io" where
  "transition w obj next message =
     (case validateMigrationTransition (resume_phase obj) next of
        Inl err \<Rightarrow> io_ret (obj, Inl err)
      | Inr _ \<Rightarrow> io_bind (io_now w) (\<lambda>now.
          let started = (if ws_StartedAt (ws_of obj) = 0 then (ws_of obj)\<lparr>ws_StartedAt := now\<rparr> else ws_of obj);
              moved = with_ws (RecordWorkflowTransition started next message now) obj in
          io_bind (persistCheckpoint w (Some (save_state w moved))) (\<lambda>r. io_ret (case r of
            Inl err \<Rightarrow> (obj, Inl err)
          | Inr _ \<Rightarrow> (moved, Inr ())))))"

fun category_text :: "ErrorCategory \<Rightarrow> string" where
  "category_text ErrorValidation = ''validation''"
| "category_text ErrorPrecondition = ''precondition''"
| "category_text ErrorConflict = ''conflict''"
| "category_text ErrorKubernetes = ''kubernetes''"
| "category_text ErrorCopy = ''copy''"
| "category_text ErrorTimeout = ''timeout''"
| "category_text ErrorInternal = ''internal''"

definition failureReason :: "'s copy_runner \<Rightarrow> go_error \<Rightarrow> string" where
  "failureReason s err = (if vr_no_space s err then FailureDestinationCapacityExhausted else [])"

text \<open>\<^verbatim>\<open>recordWorkflowFailure\<close>. A cancelled driver leaves the phase for another worker; every other
  failure is a transition to Failed. Both are saved under a context detached from the driver's.\<close>

definition recordWorkflowFailure ::
    "mig world \<Rightarrow> (go_error \<Rightarrow> string) \<Rightarrow> mig \<Rightarrow> go_error \<Rightarrow> string \<Rightarrow> (mig \<times> unit res, mig) io" where
  "recordWorkflowFailure w txt obj cause reason =
     io_bind (io_read (LeaseFenceError (w_fences w))) (\<lambda>fence. case fence of
       Some err \<Rightarrow> io_ret (obj, to_res (errors_join [Some cause, Some err]))
     | None \<Rightarrow>
         (let s = (ws_of obj)\<lparr>ws_ErrorCategory := category_text (CategoryOf cause), ws_FailureReason := reason\<rparr> in
          io_bind (ctx_err w) (\<lambda>c.
          io_bind
            (if (case c of None \<Rightarrow> False | Some ce \<Rightarrow> errors_Is ce ContextCanceled)
             then io_bind (io_now w) (\<lambda>now.
               let kept = with_ws (s\<lparr>ws_FailureReason := [], ws_Message := BoundWorkflowMessage (txt cause),
                     ws_UpdatedAt := now\<rparr>) obj in
               io_bind (persistCheckpoint (detach w) (Some (save_state w kept))) (\<lambda>r. io_ret (kept, r)))
             else transition (detach w) (with_ws s obj) PhaseFailed (txt cause))
            (\<lambda>(obj', r). io_ret (case r of
               Inl err \<Rightarrow> (obj, to_res (errors_join [Some cause, Some err]))
             | Inr _ \<Rightarrow> (obj', Inl cause))))))"

definition migration_fail :: "mig world \<Rightarrow> migration_env \<Rightarrow> mig \<Rightarrow> go_error \<Rightarrow> (mig \<times> unit res, mig) io" where
  "migration_fail w e obj cause =
     recordWorkflowFailure w (vr_text (me_runner e)) obj cause
       (if resume_phase obj = PhaseFinalSyncing then failureReason (me_runner e) cause else [])"

text \<open>A step whose error becomes the failure of the migration.\<close>

definition or_fail ::
    "mig world \<Rightarrow> migration_env \<Rightarrow> (mig \<times> unit res, mig) io \<Rightarrow> (mig \<Rightarrow> (mig \<times> unit res, mig) io) \<Rightarrow>
     (mig \<times> unit res, mig) io" where
  "or_fail w e step k = io_bind step (\<lambda>(obj, r). case r of
     Inl err \<Rightarrow> migration_fail w e obj err
   | Inr _ \<Rightarrow> k obj)"

definition checked :: "mig \<Rightarrow> (unit res, mig) io \<Rightarrow> (mig \<times> unit res, mig) io" where
  "checked obj m = io_bind m (\<lambda>r. io_ret (obj, r))"

section \<open>Reservation\<close>

definition reservation_request :: "migration_env \<Rightarrow> string \<Rightarrow> string \<Rightarrow> string \<Rightarrow> ReservationRequest" where
  "reservation_request e sid targetNode img =
     \<lparr>rq_SessionID = sid, rq_TargetNode = targetNode, rq_ToolImage = tool_image e img\<rparr>"

definition validateReservationVolume ::
    "mig world \<Rightarrow> migration_env \<Rightarrow> ReservationRequest \<Rightarrow> string \<Rightarrow> string \<Rightarrow> VolumeSpec \<Rightarrow> ClusterVolumeReservationStatus \<Rightarrow>
     bool \<Rightarrow> (unit res, mig) io" where
  "validateReservationVolume w e request sourceNamespace destinationNamespace volume checkpoint skipSourceUsageCheck =
     (let source = qualifiedResourceReference (vs_SourcePVC volume) sourceNamespace;
          pv = qualifiedResourceReference (vs_SourcePV volume) [] in
      io_try (VerifyVolumeShrinkUsage w (me_usage e) source pv (vs_SourceCapacity volume) (vs_Capacity volume)
          skipSourceUsageCheck) (\<lambda>_.
      io_try (io_ret (reservationManifest (w_parse_quantity w)
          (qualifiedResourceReference (vs_DestinationPVC volume) destinationNamespace) (vs_Capacity volume)
          (vs_StorageClass volume) (vs_VolumeMode volume) (vs_AccessModes volume))) (\<lambda>desired.
      ValidateVolumeReservation w request source pv (vs_SourceCapacity volume) desired checkpoint)))"

definition fresh_reservation :: "VolumeSpec \<Rightarrow> ClusterVolumeReservationStatus" where
  "fresh_reservation volume =
     \<lparr>rs_SourcePVCName = volume_name volume, rs_DestinationPVC = None, rs_DestinationPV = None,
      rs_DestinationPolicy = [], rs_Reserved = False\<rparr>"

definition fresh_volume :: "VolumeSpec \<Rightarrow> ClusterMigrationVolumeStatus" where
  "fresh_volume volume =
     \<lparr>mv_Reservation = fresh_reservation volume,
      mv_Sync = \<lparr>sy_FinalCompletedAt = None, sy_Attempts = 0, sy_ChecksumVerified = False, sy_LastError = []\<rparr>,
      mv_Activation = \<lparr>a_TemporaryPVCDeleted = False, a_SourcePVCDeleted = False, a_DestinationReserved = False,
        a_ActivePVC = None, a_ActivatedAt = None, a_RolledBackAt = None\<rparr>\<rparr>"

fun validate_reservations :: "mig world \<Rightarrow> migration_env \<Rightarrow> mig \<Rightarrow> VolumeSpec list \<Rightarrow> (unit res, mig) io" where
  "validate_reservations w e obj [] = io_ret (Inr ())"
| "validate_reservations w e obj (volume # volumes) =
     (let plan = plan_of obj;
          checkpoint = (case clusterMigrationVolumeIndexes (vols_of obj) (volume_name volume) of
              None \<Rightarrow> fresh_reservation volume
            | Some i \<Rightarrow> mv_Reservation (vols_of obj ! i)) in
      io_try (validateReservationVolume w e (reservation_request e (name_of obj) (mp_TargetNode plan) (mp_ToolImage plan))
          (mp_SourceNamespace plan) (mp_TemporaryNamespace plan) volume checkpoint (mp_SkipSourceUsageCheck plan)) (\<lambda>_.
      validate_reservations w e obj volumes))"

definition OpReserveMigration :: string where "OpReserveMigration = ''reserve migration''"

definition ValidateReservation :: "mig world \<Rightarrow> migration_env \<Rightarrow> mig \<Rightarrow> (unit res, mig) io" where
  "ValidateReservation w e obj =
     io_try (io_ret (validateClusterMigrationObject (w_parse_quantity w) (Some obj))) (\<lambda>_.
     if resume_phase obj \<notin> {PhasePlanned, PhaseReserving, PhaseReserved}
     then io_ret (Inl (NewError ErrorPrecondition OpReserveMigration))
     else if cs_Plan (cm_Status obj) = None then io_ret (Inl (NewError ErrorPrecondition OpReserveMigration))
     else validate_reservations w e obj (mp_Volumes (plan_of obj)))"

fun reserve_volumes ::
    "mig world \<Rightarrow> migration_env \<Rightarrow> (VolumeSpec \<Rightarrow> nat) \<Rightarrow> VolumeSpec list \<Rightarrow> mig \<Rightarrow> (mig \<times> unit res, mig) io" where
  "reserve_volumes w e idx [] obj = io_ret (obj, Inr ())"
| "reserve_volumes w e idx (volume # volumes) obj =
     (let plan = plan_of obj; status = mv_Reservation (vols_of obj ! idx volume) in
      if rs_Reserved status then reserve_volumes w e idx volumes obj
      else or_fail w e
        (case reservationManifest (w_parse_quantity w)
            (qualifiedResourceReference (vs_DestinationPVC volume) (mp_TemporaryNamespace plan)) (vs_Capacity volume)
            (vs_StorageClass volume) (vs_VolumeMode volume) (vs_AccessModes volume) of
           Inl err \<Rightarrow> io_ret (obj, Inl err)
         | Inr desired \<Rightarrow>
             io_bind (reserveVolumeCheckpoint w (me_reserver e)
                 (reservation_request e (name_of obj) (mp_TargetNode plan) (mp_ToolImage plan))
                 (qualifiedResourceReference (vs_SourcePVC volume) (mp_SourceNamespace plan))
                 (qualifiedResourceReference (vs_SourcePV volume) []) (vs_SourceCapacity volume) desired status
                 (\<lambda>checkpoint. with_reservation (idx volume) checkpoint obj)) (\<lambda>(checkpoint, r).
               io_ret (with_reservation (idx volume) checkpoint obj, r)))
        (reserve_volumes w e idx volumes))"

definition reserve :: "mig world \<Rightarrow> migration_env \<Rightarrow> mig \<Rightarrow> (mig \<times> unit res, mig) io" where
  "reserve w e obj =
     io_try_st obj (ValidateReservation w e obj) (\<lambda>_.
     if ws_Phase (ws_of obj) = PhaseReserved then io_ret (obj, Inr ())
     else if ws_Phase (ws_of obj) = PhaseFailed \<and> ws_ResumeFrom (ws_of obj) = PhaseReserved
     then transition w obj PhaseReserved ''migration reservation revalidated''
     else let plan = plan_of obj in
       io_try_st obj (case me_prober e of None \<Rightarrow> io_ret (Inr []) | Some probe \<Rightarrow> probe
           \<lparr>po_OperationID = name_of obj, po_Image = tool_image e (mp_ToolImage plan),
            po_Targets = reservationToolProbeTargets [mp_TemporaryNamespace plan] (mp_TargetNode plan)\<rparr>) (\<lambda>_.
       io_bind (transition w (if vols_of obj = [] then with_volumes (map fresh_volume (mp_Volumes plan)) obj else obj)
           PhaseReserving ''reserving migration destination storage'') (\<lambda>(obj1, r). case r of
         Inl err \<Rightarrow> io_ret (obj, Inl err)
       | Inr _ \<Rightarrow>
         or_fail w e (checked obj1 (RequireNamespace w (mp_TemporaryNamespace plan))) (\<lambda>obj1.
         io_then_st (reserve_volumes w e (volume_index (vols_of obj1)) (mp_Volumes plan) obj1) (\<lambda>obj2 _.
         transition w obj2 PhaseReserved ''migration destination storage is provisioned and retained'')))))"

section \<open>Final sync\<close>

definition validateReservedVolume ::
    "mig world \<Rightarrow> migration_env \<Rightarrow> string \<Rightarrow> string \<Rightarrow> string \<Rightarrow> PVCTransferBindings \<Rightarrow> VolumeSpec \<Rightarrow>
     ClusterVolumeReservationStatus \<Rightarrow> (unit res, mig) io" where
  "validateReservedVolume w e sid targetNode img bindings volume checkpoint =
     io_try (io_ret (reservationManifest (w_parse_quantity w) (b_DestinationPVC bindings) (vs_Capacity volume)
         (vs_StorageClass volume) (vs_VolumeMode volume) (vs_AccessModes volume))) (\<lambda>desired.
     ValidateVolumeReservation w (reservation_request e sid targetNode img) (b_SourcePVC bindings) (b_SourcePV bindings)
       (vs_SourceCapacity volume) desired checkpoint)"

fun validate_sync_volumes ::
    "mig world \<Rightarrow> migration_env \<Rightarrow> mig \<Rightarrow> VolumeSpec list \<Rightarrow> (PVCTransferBindings list res, mig) io" where
  "validate_sync_volumes w e obj [] = io_ret (Inr [])"
| "validate_sync_volumes w e obj (volume # volumes) =
     (let plan = plan_of obj; i = volume_index (vols_of obj) volume; binding = volume_bindings obj i volume in
      io_try (VerifyVolumeShrinkUsage w (me_usage e) (b_SourcePVC binding) (b_SourcePV binding) (vs_SourceCapacity volume)
          (vs_Capacity volume) (mp_SkipSourceUsageCheck plan)) (\<lambda>_.
      io_try (validateReservedVolume w e (name_of obj) (mp_TargetNode plan) (mp_ToolImage plan) binding volume
          (mv_Reservation (vols_of obj ! i))) (\<lambda>_.
      io_try (validate_sync_volumes w e obj volumes) (\<lambda>bindings. io_ret (Inr (binding # bindings))))))"

definition ValidateFinalSync :: "mig world \<Rightarrow> migration_env \<Rightarrow> mig \<Rightarrow> (unit res, mig) io" where
  "ValidateFinalSync w e obj =
     io_try (io_ret (validateClusterMigrationObject (w_parse_quantity w) (Some obj))) (\<lambda>_.
     io_try (io_ret (validateMigrationCopyRetry (ws_FailureReason (ws_of obj)))) (\<lambda>_.
     if \<not> migrationFinalSyncPhase (resume_phase obj) \<or> cs_Plan (cm_Status obj) = None
     then io_ret (Inl (NewError ErrorPrecondition OpMigrationFinalSync))
     else io_try (validateFinalSyncSources w (mp_SourceNamespace (plan_of obj)) (mp_Volumes (plan_of obj))
         OpMigrationFinalSync) (\<lambda>_.
     io_try (validate_sync_volumes w e obj (mp_Volumes (plan_of obj))) (\<lambda>bindings.
     VerifyVolumesOfflineForSession w (name_of obj) bindings))))"

fun cleanup_interrupted ::
    "mig world \<Rightarrow> migration_env \<Rightarrow> mig \<Rightarrow> VolumeSpec list \<Rightarrow> (unit res, mig) io" where
  "cleanup_interrupted w e obj [] = io_ret (Inr ())"
| "cleanup_interrupted w e obj (volume # volumes) =
     (case clusterMigrationVolumeIndexes (vols_of obj) (volume_name volume) of
        None \<Rightarrow> cleanup_interrupted w e obj volumes
      | Some i \<Rightarrow>
          let plan = plan_of obj; status = vols_of obj ! i; binding = volume_bindings obj i volume;
              identity = \<lparr>ai_SessionID = name_of obj, ai_Source = b_SourcePVC binding, ai_Mode = ModeFinal,
                ai_Attempt = sy_Attempts (mv_Sync status)\<rparr> in
          if sy_Attempts (mv_Sync status) = 0 \<or> sy_FinalCompletedAt (mv_Sync status) \<noteq> None
          then cleanup_interrupted w e obj volumes
          else io_try (deletionValidationSkip w (mp_SourceNamespace plan) volume binding) (\<lambda>skipValidation.
            io_try (if skipValidation then io_ret (Inr ())
                else validateReservedVolume w e (name_of obj) (mp_TargetNode plan) (mp_ToolImage plan) binding volume
                  (mv_Reservation status)) (\<lambda>_.
            io_try (engine_cleanup w \<lparr>cl_Identity = identity, cl_DestinationNamespace = r_Namespace (b_DestinationPVC binding),
                cl_Strategies = mp_Strategies plan\<rparr>) (\<lambda>_.
            io_try (cleanupCopyToolPods (vr_order (me_runner e)) w (b_SourcePVC binding) (b_DestinationPVC binding)
                (OperationID identity)) (\<lambda>_.
            cleanup_interrupted w e obj volumes)))))"

definition cleanupInterruptedFinalSync :: "mig world \<Rightarrow> migration_env \<Rightarrow> mig \<Rightarrow> (unit res, mig) io" where
  "cleanupInterruptedFinalSync w e obj = cleanup_interrupted w e obj (mp_Volumes (plan_of obj))"

definition destinationCapacityIsSmaller :: "(string \<Rightarrow> quantity option) \<Rightarrow> string \<Rightarrow> string \<Rightarrow> bool" where
  "destinationCapacityIsSmaller parse sourceCapacity destinationCapacity =
     (case (parse sourceCapacity, parse destinationCapacity) of
        (Some source, Some destination) \<Rightarrow> destination < source
      | _ \<Rightarrow> False)"

definition sync_request :: "mig world \<Rightarrow> mig \<Rightarrow> PVCTransferBindings \<Rightarrow> VolumeSpec \<Rightarrow> CopyRequest" where
  "sync_request w obj binding volume =
     \<lparr>cq_Identity = \<lparr>ai_SessionID = name_of obj, ai_Source = b_SourcePVC binding, ai_Mode = ModeFinal, ai_Attempt = 0\<rparr>,
      cq_SourcePath = SourceTransferPath (vs_TransferScope volume), cq_MountReadWrite = False,
      cq_Destination = b_DestinationPVC binding, cq_DestinationPath = DestinationTransferPath (vs_TransferScope volume),
      cq_Strategies = mp_Strategies (plan_of obj), cq_DeleteExtraneousFiles = mp_DeleteExtraneous (plan_of obj),
      cq_VerifyChecksum = mp_VerifyChecksum (plan_of obj),
      cq_IgnoreSizes = destinationCapacityIsSmaller (w_parse_quantity w) (vs_SourceCapacity volume) (vs_Capacity volume),
      cq_ToolImage = mp_ToolImage (plan_of obj), cq_HelmValues = [], cq_HelmStringValues = []\<rparr>"

definition sync_slot :: "nat \<Rightarrow> mig copy_slot" where
  "sync_slot i =
     \<lparr>sl_attempts = (\<lambda>obj. sy_Attempts (mv_Sync (vols_of obj ! i))),
      sl_error = (\<lambda>obj. sy_LastError (mv_Sync (vols_of obj ! i))),
      sl_put = (\<lambda>attempts lastError. with_sync i (\<lambda>s. s\<lparr>sy_Attempts := attempts, sy_LastError := lastError\<rparr>))\<rparr>"

definition checkpointFinalCopy :: "mig world \<Rightarrow> nat \<Rightarrow> bool \<Rightarrow> mig \<Rightarrow> (mig \<times> unit res, mig) io" where
  "checkpointFinalCopy w i verifyChecksum obj =
     io_bind (io_now w) (\<lambda>now.
     let completed = with_sync i (\<lambda>s. s\<lparr>sy_FinalCompletedAt := Some now, sy_ChecksumVerified := verifyChecksum,
           sy_LastError := []\<rparr>) obj in
     io_bind (persistCheckpoint w (Some (save_state w completed))) (\<lambda>r. io_ret (case r of
       Inl err \<Rightarrow> (obj, Inl err)
     | Inr _ \<Rightarrow> (completed, Inr ()))))"

definition sync_check :: "mig world \<Rightarrow> migration_env \<Rightarrow> mig \<Rightarrow> nat \<Rightarrow> VolumeSpec \<Rightarrow> (unit res, mig) io" where
  "sync_check w e obj i volume =
     io_try (validateReservedVolume w e (name_of obj) (mp_TargetNode (plan_of obj)) (mp_ToolImage (plan_of obj))
         (volume_bindings obj i volume) volume (mv_Reservation (vols_of obj ! i))) (\<lambda>_.
     VerifyVolumeOffline w (volume_bindings obj i volume))"

fun sync_volumes ::
    "mig world \<Rightarrow> migration_env \<Rightarrow> ToolImageProbeResult list \<Rightarrow> (VolumeSpec \<Rightarrow> nat) \<Rightarrow> VolumeSpec list \<Rightarrow> mig \<Rightarrow>
     (mig \<times> unit res, mig) io" where
  "sync_volumes w e probes idx [] obj = io_ret (obj, Inr ())"
| "sync_volumes w e probes idx (volume # volumes) obj =
     (let plan = plan_of obj; i = idx volume; request = sync_request w obj (volume_bindings obj i volume) volume in
      if sy_FinalCompletedAt (mv_Sync (vols_of obj ! i)) \<noteq> None then sync_volumes w e probes idx volumes obj
      else or_fail w e
        (copyWithRetry w (me_runner e) (sync_slot i) (mp_SourceNode plan) (mp_TargetNode plan) probes request (sync_check w e obj i volume)
          (io_ret (Inr False)) obj) (\<lambda>obj1.
        io_then_st (checkpointFinalCopy w i (mp_VerifyChecksum plan) obj1) (\<lambda>obj2 _.
        sync_volumes w e probes idx volumes obj2)))"

definition reset_sync :: "ClusterMigrationVolumeStatus \<Rightarrow> ClusterMigrationVolumeStatus" where
  "reset_sync v = v\<lparr>mv_Sync := (mv_Sync v)\<lparr>sy_FinalCompletedAt := None, sy_ChecksumVerified := False\<rparr>\<rparr>"

definition finalSync :: "mig world \<Rightarrow> migration_env \<Rightarrow> mig \<Rightarrow> (mig \<times> unit res, mig) io" where
  "finalSync w e obj =
     (if \<not> migrationFinalSyncPhase (resume_phase obj) \<or> cs_Plan (cm_Status obj) = None
      then io_ret (obj, Inl (NewError ErrorPrecondition OpMigrationFinalSync))
      else io_try_st obj (io_ret (validateMigrationCopyRetry (ws_FailureReason (ws_of obj)))) (\<lambda>_.
      io_try_st obj (cleanupInterruptedFinalSync w e obj) (\<lambda>_.
      io_try_st obj (ValidateFinalSync w e obj) (\<lambda>_.
      io_try_st obj (finalSyncProbes e (name_of obj) (plan_of obj)) (\<lambda>probes.
      io_bind (transition w
          (if ws_Phase (ws_of obj) = PhaseFinalSynced then with_volumes (map reset_sync (vols_of obj)) obj else obj)
          PhaseFinalSyncing ''running offline migration final sync'') (\<lambda>(obj1, r). case r of
        Inl err \<Rightarrow> io_ret (obj, Inl err)
      | Inr _ \<Rightarrow>
        io_then_st (sync_volumes w e probes (volume_index (vols_of obj1)) (mp_Volumes (plan_of obj1)) obj1) (\<lambda>obj2 _.
        transition w obj2 PhaseFinalSynced ''offline migration final sync completed'')))))))"

section \<open>Activation\<close>

fun verify_active :: "mig world \<Rightarrow> mig \<Rightarrow> VolumeSpec list \<Rightarrow> (unit res, mig) io" where
  "verify_active w obj [] = io_ret (Inr ())"
| "verify_active w obj (volume # volumes) =
     (let i = volume_index (vols_of obj) volume; binding = volume_bindings obj i volume in
      io_try (verifyActiveStorageVolume w (name_of obj) (b_SourcePVC binding) (mp_DestinationNamespace (plan_of obj))
          (b_DestinationPV binding) (a_ActivePVC (mv_Activation (vols_of obj ! i)))) (\<lambda>_.
      verify_active w obj volumes))"

definition verifyActiveVolumes :: "mig world \<Rightarrow> mig \<Rightarrow> (unit res, mig) io" where
  "verifyActiveVolumes w obj = verify_active w obj (mp_Volumes (plan_of obj))"

text \<open>The loop of \<^verbatim>\<open>ValidateActivation\<close> returns the admission changes and the volumes still to cut over.\<close>

fun validate_activations ::
    "mig world \<Rightarrow> mig \<Rightarrow> VolumeSpec list \<Rightarrow> ((PVCAdmissionChange list \<times> PVCTransferBindings list) res, mig) io" where
  "validate_activations w obj [] = io_ret (Inr ([], []))"
| "validate_activations w obj (volume # volumes) =
     (let plan = plan_of obj; i = volume_index (vols_of obj) volume; binding = volume_bindings obj i volume;
          activation = mv_Activation (vols_of obj ! i) in
      if a_ActivatedAt activation \<noteq> None \<or> a_ActivePVC activation \<noteq> None
      then io_try (verifyActiveStorageVolume w (name_of obj) (b_SourcePVC binding) (mp_DestinationNamespace plan)
          (b_DestinationPV binding) (a_ActivePVC activation)) (\<lambda>_. validate_activations w obj volumes)
      else io_try (unrecordedActivePVC w (b_SourcePVC binding) (b_SourcePV binding) (mp_DestinationNamespace plan))
        (\<lambda>(active, found). case active of
          Some a \<Rightarrow>
            io_try (verifyActiveStorageVolume w (name_of obj) (b_SourcePVC binding) (mp_DestinationNamespace plan)
                (b_DestinationPV binding) active) (\<lambda>_.
            io_try (VerifyVolumesOfflineForSession w (name_of obj)
                [\<lparr>b_SourcePVC = a, b_SourcePV = b_DestinationPV binding, b_DestinationPVC = a,
                  b_DestinationPV = b_DestinationPV binding\<rparr>]) (\<lambda>_.
            validate_activations w obj volumes))
        | None \<Rightarrow>
            io_try (io_ret (migrationActivationAdmission (w_parse_quantity w) (mp_DestinationNamespace plan) volume
                (found \<and> \<not> a_SourcePVCDeleted activation))) (\<lambda>change.
            io_try (validate_activations w obj volumes) (\<lambda>(changes, offline).
            io_ret (Inr (change # changes, binding # offline))))))"

definition ValidateActivation :: "mig world \<Rightarrow> mig \<Rightarrow> (unit res, mig) io" where
  "ValidateActivation w obj =
     io_try (io_ret (validateClusterMigrationObject (w_parse_quantity w) (Some obj))) (\<lambda>_.
     if resume_phase obj \<in> {PhaseActivated, PhaseCompleted, PhaseResuming} then verifyActiveVolumes w obj
     else if resume_phase obj \<notin> {PhaseFinalSynced, PhaseActivating}
     then io_ret (Inl (NewError ErrorPrecondition OpMigrationActivation))
     else io_try (validate_activations w obj (mp_Volumes (plan_of obj))) (\<lambda>(changes, offline).
       io_try (validateMigrationPVCAdmission w
           (if changes = [] then [] else [(mp_DestinationNamespace (plan_of obj), changes)])) (\<lambda>_.
       if resume_phase obj = PhaseActivating \<or> ws_Phase (ws_of obj) = PhaseFailed
       then VerifyActivationRecovery w (name_of obj) offline
       else VerifyVolumesOfflineForSession w (name_of obj) offline)))"

fun activate_volumes ::
    "mig world \<Rightarrow> migration_env \<Rightarrow> (VolumeSpec \<Rightarrow> nat) \<Rightarrow> VolumeSpec list \<Rightarrow> mig \<Rightarrow> (mig \<times> unit res, mig) io" where
  "activate_volumes w e idx [] obj = io_ret (obj, Inr ())"
| "activate_volumes w e idx (volume # volumes) obj =
     (let plan = plan_of obj; i = idx volume; binding = volume_bindings obj i volume in
      or_fail w e
        (case migrationPVCManifest (w_parse_quantity w) (name_of obj) (b_SourcePVC binding) (b_SourcePV binding)
            (b_DestinationPV binding) (mp_DestinationNamespace plan) (vs_SourcePVCSpec volume)
            (vs_SourcePVCMetadata volume) (vs_StorageClass volume) (vs_Capacity volume) of
           Inl err \<Rightarrow> io_ret (obj, Inl err)
         | Inr desired \<Rightarrow>
             io_bind (activateMigrationVolume w (name_of obj) (mp_DestinationNamespace plan) binding desired
                 (mv_Activation (vols_of obj ! i)) (\<lambda>checkpoint. with_activation i checkpoint obj)) (\<lambda>(checkpoint, r).
               io_ret (with_activation i checkpoint obj, r)))
        (activate_volumes w e idx volumes))"

definition activate :: "mig world \<Rightarrow> migration_env \<Rightarrow> mig \<Rightarrow> (mig \<times> unit res, mig) io" where
  "activate w e obj =
     io_try_st obj (ValidateActivation w obj) (\<lambda>_.
     if ws_Phase (ws_of obj) \<in> {PhaseActivated, PhaseCompleted} then io_ret (obj, Inr ())
     else if resume_phase obj = PhaseCompleted
     then transition w obj PhaseCompleted ''migration completion revalidated''
     else if resume_phase obj = PhaseActivated
     then transition w obj PhaseActivated ''migration activation revalidated''
     else io_then_st (transition w obj PhaseActivating ''activating offline migration volumes'') (\<lambda>obj1 _.
       io_then_st (activate_volumes w e (volume_index (vols_of obj1)) (mp_Volumes (plan_of obj1)) obj1) (\<lambda>obj2 _.
       transition w obj2 PhaseActivated ''offline migration volumes are active'')))"

section \<open>Rollback\<close>

fun verify_restored :: "mig world \<Rightarrow> mig \<Rightarrow> VolumeSpec list \<Rightarrow> (unit res, mig) io" where
  "verify_restored w obj [] = io_ret (Inr ())"
| "verify_restored w obj (volume # volumes) =
     io_try (verifyRollbackStorageVolume w (name_of obj)
         (qualifiedResourceReference (vs_SourcePVC volume) (mp_SourceNamespace (plan_of obj)))
         (qualifiedResourceReference (vs_SourcePV volume) [])
         (a_ActivePVC (mv_Activation (vols_of obj ! volume_index (vols_of obj) volume)))) (\<lambda>_.
     verify_restored w obj volumes)"

definition verifyRestoredVolumes :: "mig world \<Rightarrow> mig \<Rightarrow> (unit res, mig) io" where
  "verifyRestoredVolumes w obj = verify_restored w obj (mp_Volumes (plan_of obj))"

definition OpRollbackMigration :: string where "OpRollbackMigration = ''rollback migration''"

text \<open>One round of the loop of \<^verbatim>\<open>ValidateRollback\<close>: whether the volume is still to be found offline.\<close>

definition validate_rollback_volume :: "mig world \<Rightarrow> mig \<Rightarrow> VolumeSpec \<Rightarrow> (bool res, mig) io" where
  "validate_rollback_volume w obj volume =
     (let plan = plan_of obj; i = volume_index (vols_of obj) volume; binding = volume_bindings obj i volume;
          activation = mv_Activation (vols_of obj ! i);
          verify_active_claim = (\<lambda>active. verifyActiveStorageVolume w (name_of obj) (b_SourcePVC binding)
            (mp_DestinationNamespace plan) (b_DestinationPV binding) active) in
      if a_RolledBackAt activation \<noteq> None
      then io_try (verifyRollbackStorageVolume w (name_of obj) (b_SourcePVC binding) (b_SourcePV binding)
          (a_ActivePVC activation)) (\<lambda>_. io_ret (Inr False))
      else io_try (if resume_phase obj = PhaseRollingBack
          then validateUnrecordedRollbackStorage w (name_of obj) (b_SourcePVC binding) (b_SourcePV binding)
            (b_DestinationPV binding) (a_ActivePVC activation)
          else io_ret (Inr False)) (\<lambda>recovered.
      if recovered then io_ret (Inr False)
      else if a_ActivatedAt activation \<noteq> None \<or> a_ActivePVC activation \<noteq> None
      then io_try (verify_active_claim (a_ActivePVC activation)) (\<lambda>_. io_ret (Inr False))
      else if resume_phase obj = PhaseActivating
      then io_try (unrecordedActivePVC w (b_SourcePVC binding) (b_SourcePV binding) (mp_DestinationNamespace plan))
        (\<lambda>(active, found). case active of
          Some a \<Rightarrow> io_try (verify_active_claim active) (\<lambda>_. io_ret (Inr False))
        | None \<Rightarrow> io_ret (Inr True))
      else io_ret (Inr True)))"

fun validate_rollbacks :: "mig world \<Rightarrow> mig \<Rightarrow> VolumeSpec list \<Rightarrow> (PVCTransferBindings list res, mig) io" where
  "validate_rollbacks w obj [] = io_ret (Inr [])"
| "validate_rollbacks w obj (volume # volumes) =
     io_try (validate_rollback_volume w obj volume) (\<lambda>offline.
     io_try (validate_rollbacks w obj volumes) (\<lambda>bindings. io_ret (Inr (
       if offline then volume_bindings obj (volume_index (vols_of obj) volume) volume # bindings else bindings))))"

definition ValidateRollback :: "mig world \<Rightarrow> mig \<Rightarrow> (unit res, mig) io" where
  "ValidateRollback w obj =
     io_try (io_ret (validateClusterMigrationObject (w_parse_quantity w) (Some obj))) (\<lambda>_.
     if resume_phase obj = PhaseRolledBack then verifyRestoredVolumes w obj
     else if resume_phase obj \<notin> {PhaseFinalSynced, PhaseActivating, PhaseActivated, PhaseResuming, PhaseCompleted,
       PhaseRollingBack}
     then io_ret (Inl (NewError ErrorPrecondition OpRollbackMigration))
     else io_try (validate_rollbacks w obj (mp_Volumes (plan_of obj))) (\<lambda>offline.
       if resume_phase obj = PhaseActivating \<or> resume_phase obj = PhaseRollingBack
       then VerifyActivationRecovery w (name_of obj) offline
       else VerifyVolumesOfflineForSession w (name_of obj) offline))"

fun rollback_consumers :: "mig world \<Rightarrow> mig \<Rightarrow> VolumeSpec list \<Rightarrow> (unit res, mig) io" where
  "rollback_consumers w obj [] = io_ret (Inr ())"
| "rollback_consumers w obj (volume # volumes) =
     io_try (rollbackDestinationConsumed w (mp_DestinationNamespace (plan_of obj)) (volume_name volume) (name_of obj))
       (\<lambda>_. rollback_consumers w obj volumes)"

fun rollback_volumes ::
    "mig world \<Rightarrow> migration_env \<Rightarrow> (VolumeSpec \<Rightarrow> nat) \<Rightarrow> VolumeSpec list \<Rightarrow> mig \<Rightarrow> (mig \<times> unit res, mig) io" where
  "rollback_volumes w e idx [] obj = io_ret (obj, Inr ())"
| "rollback_volumes w e idx (volume # volumes) obj =
     (let plan = plan_of obj; i = idx volume; binding = volume_bindings obj i volume;
          activation = mv_Activation (vols_of obj ! i) in
      if a_RolledBackAt activation \<noteq> None then rollback_volumes w e idx volumes obj
      else or_fail w e
        (io_bind (rollbackMigrationVolume w (name_of obj) (mp_DestinationNamespace plan) binding
            (rollbackPVCManifest (name_of obj) binding volume) activation
            (\<lambda>checkpoint. with_activation i checkpoint obj)) (\<lambda>(checkpoint, r).
          io_ret (with_activation i checkpoint obj, r)))
        (rollback_volumes w e idx volumes))"

definition rollback :: "mig world \<Rightarrow> migration_env \<Rightarrow> mig \<Rightarrow> (mig \<times> unit res, mig) io" where
  "rollback w e obj =
     io_try_st obj (ValidateRollback w obj) (\<lambda>_.
     if ws_Phase (ws_of obj) = PhaseRolledBack then io_ret (obj, Inr ())
     else io_try_st obj
       (if ws_Phase (ws_of obj) \<in> {PhaseCompleted, PhaseActivated} \<and> cs_Plan (cm_Status obj) \<noteq> None
        then rollback_consumers w obj (mp_Volumes (plan_of obj)) else io_ret (Inr ())) (\<lambda>_.
     io_then_st (transition w obj PhaseRollingBack ''rolling back offline migration volumes'') (\<lambda>obj1 _.
     io_then_st (rollback_volumes w e (volume_index (vols_of obj1)) (rev (mp_Volumes (plan_of obj1))) obj1) (\<lambda>obj2 _.
     or_fail w e (checked obj2 (verifyRestoredVolumes w obj2)) (\<lambda>obj2.
     transition w obj2 PhaseRolledBack ''source volumes restored; workload remains caller-managed'')))))"

section \<open>Abort\<close>

definition OpAbortMigration :: string where "OpAbortMigration = ''abort migration''"

fun verify_sources :: "mig world \<Rightarrow> string \<Rightarrow> VolumeSpec list \<Rightarrow> (unit res, mig) io" where
  "verify_sources w sourceNamespace [] = io_ret (Inr ())"
| "verify_sources w sourceNamespace (volume # volumes) =
     io_try (verifySourceStorage w (qualifiedResourceReference (vs_SourcePVC volume) sourceNamespace)
         (qualifiedResourceReference (vs_SourcePV volume) [])) (\<lambda>_. verify_sources w sourceNamespace volumes)"

definition ValidateAbort :: "mig world \<Rightarrow> mig \<Rightarrow> (unit res, mig) io" where
  "ValidateAbort w obj =
     io_try (io_ret (validateClusterMigrationObject (w_parse_quantity w) (Some obj))) (\<lambda>_.
     if resume_phase obj = PhaseAborted then io_ret (Inr ())
     else if resume_phase obj \<notin> {PhaseNone, PhasePlanned, PhaseReserving, PhaseReserved, PhaseFinalSyncing, PhaseFinalSynced,
       PhaseAborting}
     then io_ret (Inl (NewError ErrorPrecondition OpAbortMigration))
     else case cs_Plan (cm_Status obj) of
       None \<Rightarrow> io_ret (Inr ())
     | Some plan \<Rightarrow>
         io_try (if w_deletion w then deletionSourcePairSettling w (mp_SourceNamespace plan) (mp_Volumes plan)
             else io_ret (Inr False)) (\<lambda>settling.
         if settling then io_ret (Inr ()) else verify_sources w (mp_SourceNamespace plan) (mp_Volumes plan)))"

definition abort :: "mig world \<Rightarrow> migration_env \<Rightarrow> mig \<Rightarrow> (mig \<times> unit res, mig) io" where
  "abort w e obj =
     io_try_st obj (ValidateAbort w obj) (\<lambda>_.
     if ws_Phase (ws_of obj) = PhaseAborted then io_ret (obj, Inr ())
     else if cs_Plan (cm_Status obj) = None
     then transition w obj PhaseAborted ''migration aborted before execution planning''
     else io_then_st (transition w obj PhaseAborting ''stopping offline migration tools'') (\<lambda>obj1 _.
       or_fail w e (checked obj1 (cleanupInterruptedFinalSync w e obj1)) (\<lambda>obj1.
       transition w obj1 PhaseAborted ''migration aborted; reserved volumes are retained for cleanup'')))"

section \<open>Run\<close>

text \<open>The stages of \<^verbatim>\<open>run\<close>, which fall through from one to the next.\<close>

definition run_completion :: "mig world \<Rightarrow> migration_env \<Rightarrow> mig \<Rightarrow> (mig \<times> unit res, mig) io" where
  "run_completion w e obj =
     or_fail w e (checked obj (verifyActiveVolumes w obj)) (\<lambda>obj.
     transition w obj PhaseCompleted ''offline migration completed'')"

definition run_activation :: "mig world \<Rightarrow> migration_env \<Rightarrow> mig \<Rightarrow> (mig \<times> unit res, mig) io" where
  "run_activation w e obj = io_then_st (activate w e obj) (\<lambda>obj _. run_completion w e obj)"

definition run_sync :: "mig world \<Rightarrow> migration_env \<Rightarrow> mig \<Rightarrow> (mig \<times> unit res, mig) io" where
  "run_sync w e obj = io_then_st (finalSync w e obj) (\<lambda>obj _. run_activation w e obj)"

definition run_reservation :: "mig world \<Rightarrow> migration_env \<Rightarrow> mig \<Rightarrow> (mig \<times> unit res, mig) io" where
  "run_reservation w e obj = io_then_st (reserve w e obj) (\<lambda>obj _. run_sync w e obj)"

definition run :: "mig world \<Rightarrow> migration_env \<Rightarrow> mig \<Rightarrow> (mig \<times> unit res, mig) io" where
  "run w e obj =
     (let phase = resume_phase obj in
      if phase \<in> {PhasePlanned, PhaseReserving} then run_reservation w e obj
      else if phase \<in> {PhaseReserved, PhaseFinalSyncing} then run_sync w e obj
      else if phase \<in> {PhaseFinalSynced, PhaseActivating} then run_activation w e obj
      else if phase \<in> {PhaseActivated, PhaseResuming} then run_completion w e obj
      else if phase = PhaseCompleted then io_try_st obj (verifyActiveVolumes w obj) (\<lambda>_.
        if ws_Phase (ws_of obj) \<noteq> PhaseCompleted
        then transition w obj PhaseCompleted ''offline migration completion revalidated'' else io_ret (obj, Inr ()))
      else if phase = PhaseRollingBack then rollback w e obj
      else if phase = PhaseRolledBack then io_try_st obj (verifyRestoredVolumes w obj) (\<lambda>_.
        if ws_Phase (ws_of obj) \<noteq> PhaseRolledBack
        then transition w obj PhaseRolledBack ''offline migration rollback revalidated'' else io_ret (obj, Inr ()))
      else if phase = PhaseAborting then abort w e obj
      else if phase = PhaseAborted then io_ret (obj, Inr ())
      else io_ret (obj, Inl (NewError ErrorPrecondition OpMigration)))"

definition Validate :: "mig world \<Rightarrow> migration_env \<Rightarrow> mig \<Rightarrow> (unit res, mig) io" where
  "Validate w e obj =
     io_try (io_ret (validateClusterMigrationObject (w_parse_quantity w) (Some obj))) (\<lambda>_.
     let phase = resume_phase obj in
     if cs_Plan (cm_Status obj) = None then io_ret (Inr ())
     else if phase \<in> {PhasePlanned, PhaseReserving} then ValidateReservation w e obj
     else if phase \<in> {PhaseReserved, PhaseFinalSyncing} then ValidateFinalSync w e obj
     else if phase \<in> {PhaseFinalSynced, PhaseActivating} then ValidateActivation w obj
     else if phase \<in> {PhaseActivated, PhaseResuming, PhaseCompleted} then verifyActiveVolumes w obj
     else if phase \<in> {PhaseRollingBack, PhaseRolledBack} then ValidateRollback w obj
     else if phase = PhaseAborting then ValidateAbort w obj
     else if phase = PhaseAborted then io_ret (Inr ())
     else io_ret (Inl (NewError ErrorValidation OpMigration)))"

definition resume_request :: "mig world \<Rightarrow> migration_env \<Rightarrow> mig \<Rightarrow> (mig \<times> unit res, mig) io" where
  "resume_request w e obj =
     io_try_st obj (Validate w e obj) (\<lambda>_.
     if ws_Phase (ws_of obj) \<noteq> PhaseFailed then io_ret (obj, Inr ())
     else io_bind (io_now w) (\<lambda>now.
       case ReactivateWorkflow (ws_of obj) ''migration resume requested'' now of
         Inl err \<Rightarrow> io_ret (obj, Inl err)
       | Inr s \<Rightarrow> io_bind (persistCheckpoint w (Some (save_state w (with_ws s obj)))) (\<lambda>r. io_ret (case r of
           Inl err \<Rightarrow> (obj, Inl err)
         | Inr _ \<Rightarrow> (with_ws s obj, Inr ())))))"

section \<open>Entry points\<close>

text \<open>Every entry point validates the record and runs its stage under the lock of the stored workflow.\<close>

definition under_lock ::
    "mig world \<Rightarrow> mig locker option \<Rightarrow> string \<Rightarrow> (mig world \<Rightarrow> mig \<Rightarrow> (mig \<times> unit res, mig) io) \<Rightarrow> mig \<Rightarrow>
     (mig \<times> unit res, mig) io" where
  "under_lock w locker storageNamespace stage obj =
     withStoredWorkflowLock w locker storageNamespace (cm_Meta obj) obj (\<lambda>bound lk.
       io_bind (stage bound obj) (\<lambda>(obj', r). io_ret (obj', lk, r)))"

definition entry_point ::
    "mig world \<Rightarrow> mig locker option \<Rightarrow> string \<Rightarrow> (mig world \<Rightarrow> mig \<Rightarrow> (mig \<times> unit res, mig) io) \<Rightarrow> mig \<Rightarrow>
     (mig \<times> unit res, mig) io" where
  "entry_point w locker storageNamespace stage obj =
     (case validateClusterMigrationObject (w_parse_quantity w) (Some obj) of
        Inl err \<Rightarrow> io_ret (obj, Inl err)
      | Inr _ \<Rightarrow> under_lock w locker storageNamespace stage obj)"

definition Reserve where "Reserve w locker ns e = entry_point w locker ns (\<lambda>w. reserve w e)"
definition Activate where "Activate w locker ns e = entry_point w locker ns (\<lambda>w. activate w e)"
definition Run where "Run w locker ns e = entry_point w locker ns (\<lambda>w. run w e)"
definition Abort where "Abort w locker ns e = entry_point w locker ns (\<lambda>w. abort w e)"
definition Rollback_workflow where "Rollback_workflow w locker ns e = entry_point w locker ns (\<lambda>w. rollback w e)"
definition FinalSync where "FinalSync w locker ns e = entry_point w locker ns (\<lambda>w. finalSync w e)"
definition RequestResume where "RequestResume w locker ns e = entry_point w locker ns (\<lambda>w. resume_request w e)"

definition FailSourceDeleted ::
    "mig world \<Rightarrow> mig locker option \<Rightarrow> string \<Rightarrow> migration_env \<Rightarrow> mig \<Rightarrow> (mig \<times> unit res, mig) io" where
  "FailSourceDeleted w locker ns e obj =
     (case cs_Plan (cm_Status obj) of
        None \<Rightarrow> io_ret (obj, Inr ())
      | Some plan \<Rightarrow> failSourceDeleted w (ws_of obj) (mp_Volumes plan) (mp_SourceNamespace plan)
          (\<lambda>cause. under_lock w locker ns (\<lambda>w obj. migration_fail w e obj cause) obj) OpMigration obj)"

end
