(* ===== verification/MigrationRecord.thy ===== *)
theory MigrationRecord
  imports MigrationExecutor
begin

text \<open>
  How the record of a migration changes: the fields no stage touches, the checkpoint a volume finds by its
  name, and what keeps a record valid, a checkpoint replaced by another or the step to another phase.
\<close>

section \<open>Fields\<close>

lemma with_simps [simp]:
  "cm_Meta (with_ws s obj) = cm_Meta obj" "cm_Spec (with_ws s obj) = cm_Spec obj"
  "cs_Plan (cm_Status (with_ws s obj)) = cs_Plan (cm_Status obj)" "ws_of (with_ws s obj) = s"
  "vols_of (with_ws s obj) = vols_of obj"
  "cm_Meta (with_volumes vs obj) = cm_Meta obj" "cm_Spec (with_volumes vs obj) = cm_Spec obj"
  "cs_Plan (cm_Status (with_volumes vs obj)) = cs_Plan (cm_Status obj)" "ws_of (with_volumes vs obj) = ws_of obj"
  "vols_of (with_volumes vs obj) = vs"
  by (simp_all add: with_ws_def with_volumes_def)

lemma volume_update_simps [simp]:
  "cm_Meta (with_volume i f obj) = cm_Meta obj" "cm_Spec (with_volume i f obj) = cm_Spec obj"
  "cs_Plan (cm_Status (with_volume i f obj)) = cs_Plan (cm_Status obj)" "ws_of (with_volume i f obj) = ws_of obj"
  "vols_of (with_volume i f obj) = (vols_of obj)[i := f (vols_of obj ! i)]"
  by (simp_all add: with_volume_def)

lemmas with_checkpoint_defs = with_reservation_def with_sync_def with_activation_def

text \<open>What every record of a migration shares with the one it started from.\<close>

definition frame :: "mig \<Rightarrow> mig \<Rightarrow> bool" where
  "frame d s \<longleftrightarrow> cm_Meta s = cm_Meta d \<and> cm_Spec s = cm_Spec d \<and> cs_Plan (cm_Status s) = cs_Plan (cm_Status d)"

lemma frame_refl [simp]: "frame d d"
  by (simp add: frame_def)

lemma frame_with [simp]:
  "frame d (with_ws s obj) = frame d obj" "frame d (with_volumes vs obj) = frame d obj"
  "frame d (with_volume i f obj) = frame d obj"
  by (simp_all add: frame_def)

lemma frame_fields:
  assumes "frame d s"
  shows "plan_of s = plan_of d" "name_of s = name_of d" "cs_Plan (cm_Status s) = cs_Plan (cm_Status d)"
    "cm_Meta s = cm_Meta d" "cm_Spec s = cm_Spec d"
  using assms by (simp_all add: frame_def)

section \<open>The checkpoint of a volume\<close>

lemma indexes_snoc:
  "clusterMigrationVolumeIndexes (cs @ [c]) = (clusterMigrationVolumeIndexes cs)(checkpoint_name c \<mapsto> length cs)"
  by (simp add: clusterMigrationVolumeIndexes_def enumerate_append_eq checkpoint_name_def)

lemma indexes_found:
  "clusterMigrationVolumeIndexes cs n = Some i \<Longrightarrow> i < length cs \<and> checkpoint_name (cs ! i) = n"
proof (induction cs arbitrary: i rule: rev_induct)
  case (snoc c cs)
  then show ?case by (fastforce simp: indexes_snoc nth_append split: if_splits)
qed (simp add: clusterMigrationVolumeIndexes_def)

lemma indexes_missing: "clusterMigrationVolumeIndexes cs n = None \<longleftrightarrow> n \<notin> checkpoint_name ` set cs"
  by (induction cs rule: rev_induct) (auto simp: indexes_snoc, simp add: clusterMigrationVolumeIndexes_def)

text \<open>\<open>tracks plan idx cs\<close>: the checkpoints are those of the planned volumes, and \<open>idx\<close> finds them.\<close>

definition tracks :: "ClusterMigrationPlan \<Rightarrow> (VolumeSpec \<Rightarrow> nat) \<Rightarrow> ClusterMigrationVolumeStatus list \<Rightarrow> bool" where
  "tracks plan idx cs \<longleftrightarrow> distinct (map checkpoint_name cs) \<and> checkpoint_name ` set cs = volume_name ` set (mp_Volumes plan)
     \<and> (\<forall>v\<in>set (mp_Volumes plan). idx v < length cs \<and> checkpoint_name (cs ! idx v) = volume_name v)"

lemma tracks_index:
  assumes "distinct (map checkpoint_name cs)" and "checkpoint_name ` set cs = volume_name ` set (mp_Volumes plan)"
  shows "tracks plan (volume_index cs) cs"
proof -
  have "volume_index cs v < length cs \<and> checkpoint_name (cs ! volume_index cs v) = volume_name v"
    if "v \<in> set (mp_Volumes plan)" for v
  proof -
    have "clusterMigrationVolumeIndexes cs (volume_name v) \<noteq> None" using that assms(2) by (auto simp: indexes_missing)
    then obtain i where "clusterMigrationVolumeIndexes cs (volume_name v) = Some i" by blast
    then show ?thesis using indexes_found by (auto simp: volume_index_def)
  qed
  then show ?thesis using assms by (simp add: tracks_def)
qed

lemma tracks_element:
  assumes "tracks plan idx cs" and "c \<in> set cs"
  obtains v where "v \<in> set (mp_Volumes plan)" "volume_name v = checkpoint_name c" "c = cs ! idx v"
proof -
  from assms obtain v where v: "v \<in> set (mp_Volumes plan)" "volume_name v = checkpoint_name c"
    unfolding tracks_def by (metis image_iff)
  from assms(2) obtain j where j: "j < length cs" "c = cs ! j" by (auto simp: in_set_conv_nth)
  have "idx v < length cs" "checkpoint_name (cs ! idx v) = checkpoint_name (cs ! j)"
    using assms(1) v j by (auto simp: tracks_def)
  then have "idx v = j" using assms(1) j(1) by (simp add: tracks_def distinct_conv_nth) metis
  then show ?thesis using that v j(2) by blast
qed

lemma tracks_inj:
  assumes "tracks plan idx cs" and "distinct (map volume_name (mp_Volumes plan))"
    and "u \<in> set (mp_Volumes plan)" "v \<in> set (mp_Volumes plan)"
  shows "idx u = idx v \<longleftrightarrow> u = v"
proof
  assume "idx u = idx v"
  then have "volume_name u = volume_name v" using assms(1,3,4) by (metis tracks_def)
  then show "u = v" using assms(2-4) by (auto simp: distinct_map inj_on_def)
qed simp

lemma tracks_update:
  assumes "tracks plan idx cs" and "v \<in> set (mp_Volumes plan)" and "checkpoint_name c = volume_name v"
  shows "tracks plan idx (cs[idx v := c])"
proof -
  have i: "idx v < length cs" "checkpoint_name (cs ! idx v) = checkpoint_name c"
    using assms by (auto simp: tracks_def)
  then have names: "map checkpoint_name (cs[idx v := c]) = map checkpoint_name cs"
    by (simp add: map_update) (metis list_update_id nth_map)
  then have "checkpoint_name ` set (cs[idx v := c]) = checkpoint_name ` set cs"
    by (metis set_map)
  moreover have "checkpoint_name (cs[idx v := c] ! idx u) = checkpoint_name (cs ! idx u)" for u
    using i by (cases "idx u = idx v") auto
  ultimately show ?thesis using assms(1) names by (simp add: tracks_def)
qed

section \<open>Valid records\<close>

abbreviation volume_valid :: "ClusterMigrationPlan \<Rightarrow> Phase \<Rightarrow> VolumeSpec \<Rightarrow> ClusterMigrationVolumeStatus \<Rightarrow> bool" where
  "volume_valid plan p v c \<equiv> validate_checkpoint v c (mp_DestinationNamespace plan) (mp_TemporaryNamespace plan) p = Inr ()"

lemma checkpoints_track:
  assumes "checkpoints_ok plan p cs" and "cs \<noteq> []"
  shows "tracks plan (volume_index cs) cs"
  using assms by (auto simp: checkpoints_ok_def intro!: tracks_index)

lemma checkpoints_ok_tracked:
  assumes "tracks plan idx cs" and "cs \<noteq> []"
  shows "checkpoints_ok plan p cs \<longleftrightarrow> (\<forall>c\<in>set cs. \<forall>v\<in>set (mp_Volumes plan). volume_name v = checkpoint_name c \<longrightarrow> volume_valid plan p v c)"
  using assms by (auto simp: checkpoints_ok_def tracks_def)

lemma checkpoints_update:
  assumes "checkpoints_ok plan p cs" and "tracks plan idx cs" and "distinct (map volume_name (mp_Volumes plan))"
    and "v \<in> set (mp_Volumes plan)" and "checkpoint_name c = volume_name v" and "volume_valid plan p v c"
  shows "checkpoints_ok plan p (cs[idx v := c])"
proof -
  have "cs \<noteq> []" using assms(2,4) by (auto simp: tracks_def)
  have same: "u = v" if "u \<in> set (mp_Volumes plan)" "volume_name u = volume_name v" for u
    using that assms(3,4) by (auto simp: distinct_map inj_on_def)
  have "volume_valid plan p u c'"
    if "c' \<in> set (cs[idx v := c])" "u \<in> set (mp_Volumes plan)" "volume_name u = checkpoint_name c'" for u c'
  proof -
    from that(1) set_update_subset_insert consider "c' = c" | "c' \<in> set cs" by fastforce
    then show ?thesis
      using that(2,3) assms(1,5,6) same checkpoints_ok_tracked [OF assms(2) \<open>cs \<noteq> []\<close>] by cases auto
  qed
  then show ?thesis
    using checkpoints_ok_tracked [OF tracks_update [OF assms(2,4,5)], of p] \<open>cs \<noteq> []\<close> by auto
qed

lemma checkpoint_at:
  assumes "checkpoints_ok plan p cs" and "tracks plan idx cs" and "v \<in> set (mp_Volumes plan)"
  shows "volume_valid plan p v (cs ! idx v)" "checkpoint_name (cs ! idx v) = volume_name v" "idx v < length cs"
proof -
  have i: "idx v < length cs" "checkpoint_name (cs ! idx v) = volume_name v" using assms(2,3) by (auto simp: tracks_def)
  then have "cs \<noteq> []" by auto
  then show "volume_valid plan p v (cs ! idx v)"
    using assms(1,3) i checkpoints_ok_tracked [OF assms(2)] by simp
  show "checkpoint_name (cs ! idx v) = volume_name v" "idx v < length cs" using i by simp_all
qed

text \<open>A replaced part of a checkpoint, and what it must keep.\<close>

lemma volume_valid_reservation:
  assumes "volume_valid plan PhaseReserving v c" and "\<not> rs_Reserved (mv_Reservation c)"
    and "reservation_ok v (mp_TemporaryNamespace plan) r"
  shows "volume_valid plan PhaseReserving v (c\<lparr>mv_Reservation := r\<rparr>)"
  using assms by (auto simp: validate_checkpoint_Inr validateMigrationVolumeCheckpoint_Inr validateMigrationVolumePhase_def)

lemma volume_valid_sync:
  assumes "volume_valid plan PhaseFinalSyncing v c" and "0 \<le> sy_Attempts s"
  shows "volume_valid plan PhaseFinalSyncing v (c\<lparr>mv_Sync := s\<rparr>)"
  using assms by (auto simp: validate_checkpoint_Inr validateMigrationVolumeCheckpoint_Inr validateMigrationVolumePhase_def split: if_splits)

lemma volume_valid_activation:
  assumes "volume_valid plan p v c" and "p = PhaseActivating \<or> p = PhaseRollingBack"
    and "activation_ok v (mp_DestinationNamespace plan) a"
  shows "volume_valid plan p v (c\<lparr>mv_Activation := a\<rparr>)"
  using assms by (auto simp: validate_checkpoint_Inr validateMigrationVolumeCheckpoint_Inr validateMigrationVolumePhase_def split: if_splits)

lemma checkpoint_name_parts [simp]:
  "checkpoint_name (c\<lparr>mv_Sync := s\<rparr>) = checkpoint_name c" "checkpoint_name (c\<lparr>mv_Activation := a\<rparr>) = checkpoint_name c"
  "checkpoint_name (c\<lparr>mv_Reservation := r\<rparr>) = rs_SourcePVCName r"
  by (simp_all add: checkpoint_name_def)

section \<open>Steps between phases\<close>

text \<open>The phases a saved record may go through: it stays, or takes an edge.\<close>

inductive mig_step :: "Phase \<Rightarrow> Phase \<Rightarrow> bool" where
  stay: "mig_step p p"
| edge: "q \<in> set (migration_edges p) \<Longrightarrow> mig_step p q"

text \<open>What a volume has when its part of a phase is done.\<close>

definition done_flag :: "Phase \<Rightarrow> ClusterMigrationVolumeStatus \<Rightarrow> bool" where
  "done_flag p c \<longleftrightarrow>
     (p = PhaseReserving \<longrightarrow> rs_Reserved (mv_Reservation c))
   \<and> (p = PhaseFinalSyncing \<longrightarrow> sy_FinalCompletedAt (mv_Sync c) \<noteq> None)
   \<and> (p = PhaseActivating \<longrightarrow> a_ActivatedAt (mv_Activation c) \<noteq> None)
   \<and> (p = PhaseRollingBack \<longrightarrow> a_RolledBackAt (mv_Activation c) \<noteq> None)"

definition settled :: "Phase \<Rightarrow> bool" where
  "settled p \<longleftrightarrow> p \<in> {PhaseReserved, PhaseFinalSynced, PhaseActivated, PhaseRolledBack}"

lemma validateMigrationVolumePhase_Inr:
  "validateMigrationVolumePhase reserved f a b p = Inr () \<longleftrightarrow>
     (p \<notin> {PhasePlanned, PhaseReserving, PhaseAborting, PhaseAborted} \<longrightarrow> reserved)
   \<and> (p \<in> {PhaseFinalSynced, PhaseActivating, PhaseActivated, PhaseResuming, PhaseCompleted} \<longrightarrow> f \<noteq> None)
   \<and> (p \<in> {PhaseActivated, PhaseResuming, PhaseCompleted} \<longrightarrow> a \<noteq> None) \<and> (p = PhaseRolledBack \<longrightarrow> b \<noteq> None)"
  by (cases p) (simp_all add: validateMigrationVolumePhase_def)

lemma phase_step:
  assumes "q \<in> set (migration_edges p)" and "p \<noteq> PhaseNone"
    and "validateMigrationVolumePhase (rs_Reserved (mv_Reservation c)) (sy_FinalCompletedAt (mv_Sync c))
      (a_ActivatedAt (mv_Activation c)) (a_RolledBackAt (mv_Activation c)) p = Inr ()"
    and "settled q \<longrightarrow> done_flag p c"
  shows "validateMigrationVolumePhase (rs_Reserved (mv_Reservation c)) (sy_FinalCompletedAt (mv_Sync c))
      (a_ActivatedAt (mv_Activation c)) (a_RolledBackAt (mv_Activation c)) q = Inr ()"
  using assms unfolding validateMigrationVolumePhase_Inr
  by (cases p; simp add: migration_edges_def done_flag_def settled_def; elim disjE; simp)

lemma volume_valid_step:
  assumes "volume_valid plan p v c" and "mig_step p q" and "p \<noteq> PhaseNone" and "settled q \<and> p \<noteq> q \<longrightarrow> done_flag p c"
  shows "volume_valid plan q v c"
  using assms(2)
proof cases
  case edge
  show ?thesis
  proof (cases "p = q")
    case False
    then show ?thesis using phase_step [OF edge assms(3), of c] assms(1,4) by (simp add: validate_checkpoint_Inr)
  qed (use assms(1) in simp)
qed (use assms(1) in simp)

lemma checkpoints_step:
  assumes "checkpoints_ok plan p cs" and "mig_step p q" and "p \<noteq> PhaseNone"
    and "settled q \<and> p \<noteq> q \<longrightarrow> cs \<noteq> [] \<and> (\<forall>c\<in>set cs. done_flag p c)"
  shows "checkpoints_ok plan q cs"
proof (cases "p = q")
  case False
  show ?thesis
  proof (cases "cs = []")
    case True
    then show ?thesis
      using assms False
      by (elim mig_step.cases; cases p; simp add: checkpoints_ok_def migration_edges_def settled_def; elim disjE; simp)
  next
    case nonempty: False
    have "volume_valid plan q v c" if "c \<in> set cs" "v \<in> set (mp_Volumes plan)" "volume_name v = checkpoint_name c" for v c
      using volume_valid_step [OF _ assms(2,3)] that assms(1,4) nonempty by (auto simp: checkpoints_ok_def)
    then show ?thesis using assms(1) nonempty by (auto simp: checkpoints_ok_def)
  qed
qed (use assms in simp)

lemma transition_target:
  assumes "validateMigrationTransition p q = Inr ()"
  shows "q \<noteq> PhaseFailed \<Longrightarrow> mig_step p q" "q \<noteq> PhaseFailed \<Longrightarrow> migrationPhase q" "q = PhaseFailed \<Longrightarrow> migrationPhase p"
proof -
  have edges: "migrationPhase r" if "r \<in> set (migration_edges p)" for r
    using that by (cases p) (auto simp: migration_edges_def migrationPhase_def)
  show "q \<noteq> PhaseFailed \<Longrightarrow> mig_step p q" "q \<noteq> PhaseFailed \<Longrightarrow> migrationPhase q"
    using assms edges by (auto simp: validateMigrationTransition_def intro: mig_step.intros split: if_splits)
  show "q = PhaseFailed \<Longrightarrow> migrationPhase p"
    using assms edges [of PhaseFailed] by (auto simp: validateMigrationTransition_def migrationPhase_def split: if_splits)
qed

text \<open>The phase to resume from, after a transition.\<close>

definition landing :: "WorkflowStatus \<Rightarrow> Phase \<Rightarrow> Phase" where
  "landing s q = (if q = PhaseFailed then workflowResumePhase s else q)"

lemma resume_after [simp]: "workflowResumePhase (RecordWorkflowTransition s q m t) = landing s q"
  by (simp add: workflowResumePhase_def RecordWorkflowTransition_ResumeFrom landing_def)

lemma lifecycle_after:
  assumes "validateMigrationLifecycle s = Inr ()" and "validateMigrationTransition (workflowResumePhase s) q = Inr ()"
  shows "validateMigrationLifecycle (RecordWorkflowTransition s q m t) = Inr ()"
proof (cases "q = PhaseFailed")
  case True
  then have p: "migrationPhase (workflowResumePhase s)" using transition_target(3) [OF assms(2)] by simp
  have "workflowResumePhase s \<noteq> PhaseNone" using p by (auto simp: migrationPhase_def)
  then show ?thesis
    using assms(1) p True
    by (auto simp: validateMigrationLifecycle_def workflowResumePhase_def RecordWorkflowTransition_ResumeFrom
        RecordWorkflowTransition_FailureReason split: if_splits)
next
  case False
  then have q: "migrationPhase q" using transition_target(2) [OF assms(2)] by simp
  then show ?thesis
    using assms(1) False
    by (auto simp: validateMigrationLifecycle_def workflowResumePhase_def RecordWorkflowTransition_ResumeFrom
        RecordWorkflowTransition_FailureReason split: if_splits)
qed

text \<open>A record may move to a phase when its checkpoints fit the phase it lands in.\<close>

definition may_move :: "ClusterMigrationPlan \<Rightarrow> WorkflowStatus \<Rightarrow> ClusterMigrationVolumeStatus list \<Rightarrow> Phase \<Rightarrow> bool" where
  "may_move plan s cs q \<longleftrightarrow> validateMigrationLifecycle s = Inr () \<and> checkpoints_ok plan (landing s q) cs"

lemma lifecycle_started [simp]:
  "validateMigrationLifecycle (s\<lparr>ws_StartedAt := t\<rparr>) = validateMigrationLifecycle s"
  "workflowResumePhase (s\<lparr>ws_StartedAt := t\<rparr>) = workflowResumePhase s" "landing (s\<lparr>ws_StartedAt := t\<rparr>) q = landing s q"
  by (simp_all add: validateMigrationLifecycle_def workflowResumePhase_def landing_def)

lemma dynamic_after:
  assumes "may_move plan s cs q" and "validateMigrationTransition (workflowResumePhase s) q = Inr ()"
  shows "dynamic_ok plan (RecordWorkflowTransition s q m t) cs"
proof -
  have "q \<noteq> PhaseNone" using transition_target [OF assms(2)] by (auto simp: migrationPhase_def)
  then show ?thesis
    using assms lifecycle_after [OF _ assms(2)] by (simp add: dynamic_ok_def may_move_def)
qed

lemma dynamic_may_move:
  assumes "dynamic_ok plan s cs" and "validateMigrationTransition (workflowResumePhase s) q = Inr ()"
    and "settled q \<and> workflowResumePhase s \<noteq> q \<longrightarrow> cs \<noteq> [] \<and> (\<forall>c\<in>set cs. done_flag (workflowResumePhase s) c)"
  shows "may_move plan s cs q"
proof -
  have "workflowResumePhase s \<noteq> PhaseNone"
    using assms(1) by (auto simp: dynamic_ok_def validateMigrationLifecycle_def workflowResumePhase_def split: if_splits)
  then show ?thesis
    using assms transition_target(1) [OF assms(2)] checkpoints_step [of plan "workflowResumePhase s" cs q]
    by (auto simp: may_move_def dynamic_ok_def landing_def)
qed

text \<open>The status of a failed or interrupted stage.\<close>

lemma lifecycle_failure:
  assumes "validateMigrationLifecycle s = Inr ()"
    and "reason \<noteq> [] \<longrightarrow> reason = FailureDestinationCapacityExhausted \<and> workflowResumePhase s = PhaseFinalSyncing"
  shows "validateMigrationLifecycle (s\<lparr>ws_ErrorCategory := c, ws_FailureReason := reason\<rparr>) = Inr ()"
  using assms by (auto simp: validateMigrationLifecycle_def workflowResumePhase_def split: if_splits)

lemma resume_failure [simp]:
  "workflowResumePhase (s\<lparr>ws_ErrorCategory := c, ws_FailureReason := reason\<rparr>) = workflowResumePhase s"
  "workflowResumePhase (s\<lparr>ws_ErrorCategory := c, ws_FailureReason := reason, ws_Message := m, ws_UpdatedAt := t\<rparr>) = workflowResumePhase s"
  by (simp_all add: workflowResumePhase_def)

lemma lifecycle_message [simp]:
  "validateMigrationLifecycle (s\<lparr>ws_Message := m, ws_UpdatedAt := t\<rparr>) = validateMigrationLifecycle s"
  by (simp add: validateMigrationLifecycle_def workflowResumePhase_def)

section \<open>The checkpoints a stage starts with\<close>

lemma fresh_checkpoints:
  assumes "distinct (map volume_name (mp_Volumes plan))"
  shows "checkpoints_ok plan PhaseReserving (map fresh_volume (mp_Volumes plan))"
proof -
  have "checkpoint_name (fresh_volume v) = volume_name v" for v
    by (simp add: checkpoint_name_def fresh_volume_def fresh_reservation_def)
  moreover have "volume_valid plan PhaseReserving v (fresh_volume u)" for u v
    by (simp add: validate_checkpoint_Inr validateMigrationVolumeCheckpoint_Inr validateMigrationVolumePhase_Inr
        reservation_ok_def activation_ok_def bad_reference_def fresh_volume_def fresh_reservation_def)
  ultimately show ?thesis using assms by (auto simp: checkpoints_ok_def comp_def)
qed

lemma reset_checkpoints:
  assumes "checkpoints_ok plan PhaseFinalSynced cs"
  shows "checkpoints_ok plan PhaseFinalSyncing (map reset_sync cs)"
proof -
  have name: "checkpoint_name (reset_sync c) = checkpoint_name c" for c by (simp add: reset_sync_def)
  have "volume_valid plan PhaseFinalSyncing v (reset_sync c)" if "volume_valid plan PhaseFinalSynced v c" for v c
    using that by (simp add: validate_checkpoint_Inr validateMigrationVolumeCheckpoint_Inr validateMigrationVolumePhase_Inr reset_sync_def)
  then show ?thesis using assms by (auto simp: checkpoints_ok_def name comp_def image_image)
qed

end
