(* ===== verification/MigrationSafety.thy ===== *)
theory MigrationSafety
  imports MigrationRecord SwitcherSafety
begin

text \<open>
  What the stages of an offline migration may do. A stage announces itself in the saved record before it
  acts: claims and volumes are written only while the last saved phase is Reserving, Activating or
  RollingBack, claims are deleted only in the last two, and data is copied only in FinalSyncing. The phases
  that are saved follow the graph of the lifecycle, and every saved record passes the validation that the
  next stage starts with, as long as the API server answers truthfully.
\<close>

section \<open>What a stage may do\<close>

text \<open>A rollback into another namespace records the restored claim there, which the validation does not
  expect; \<open>straight\<close> leaves that case out.\<close>

definition straight :: "mig \<Rightarrow> Phase \<Rightarrow> bool" where
  "straight d p \<longleftrightarrow> (p \<in> {PhaseRollingBack, PhaseRolledBack} \<longrightarrow> mp_SourceNamespace (plan_of d) = mp_DestinationNamespace (plan_of d))"

definition sound :: "mig \<Rightarrow> mig hist \<Rightarrow> mig \<Rightarrow> bool" where
  "sound d h s \<longleftrightarrow> frame d s \<and>
     (honest h \<and> straight d (resume_phase s) \<longrightarrow> dynamic_ok (plan_of d) (ws_of s) (vols_of s))"

lemma sound_mono: "sound d h s \<Longrightarrow> suffix h h' \<Longrightarrow> sound d h' s"
  by (auto simp: sound_def dest: honest_suffix)

fun permitted :: "Phase \<Rightarrow> 's event \<Rightarrow> bool" where
  "permitted p (EvCopy q r) = (p = PhaseFinalSyncing)"
| "permitted p (EvDeletePVC ns n uid rv r) = (p \<in> {PhaseActivating, PhaseRollingBack})"
| "permitted p (EvDeletePV n uid rv r) = False"
| "permitted p (EvCreatePVC dry c r) = (dry \<or> p \<in> {PhaseReserving, PhaseActivating, PhaseRollingBack})"
| "permitted p (EvUpdatePVC c r) = (p = PhaseReserving)"
| "permitted p (EvUpdatePV v r) = (p \<in> {PhaseReserving, PhaseActivating, PhaseRollingBack})"
| "permitted p e = True"

definition acts :: "'s event \<Rightarrow> bool" where
  "acts e \<longleftrightarrow> writes_storage e \<or> is_copy e"

definition mig_guard :: "mig \<Rightarrow> mig event \<Rightarrow> mig hist \<Rightarrow> bool" where
  "mig_guard d e h \<longleftrightarrow>
     (\<forall>s r. e = EvSave s r \<longrightarrow> sound d h s \<and> mig_step (resume_phase (last_saved d h)) (resume_phase s))
   \<and> (acts e \<longrightarrow> fenced h \<and> permitted (resume_phase (last_saved d h)) e)"

text \<open>Within one phase.\<close>

definition stage_guard :: "mig \<Rightarrow> Phase \<Rightarrow> mig event \<Rightarrow> mig hist \<Rightarrow> bool" where
  "stage_guard d p e h \<longleftrightarrow>
     (\<forall>s r. e = EvSave s r \<longrightarrow> sound d h s \<and> resume_phase s = p) \<and> (acts e \<longrightarrow> fenced h \<and> permitted p e)"

abbreviation in_phase :: "mig \<Rightarrow> Phase \<Rightarrow> mig hist \<Rightarrow> bool" where
  "in_phase d p h \<equiv> resume_phase (last_saved d h) = p"

lemma in_phase_step: "stage_guard d p e h \<Longrightarrow> in_phase d p h \<Longrightarrow> in_phase d p (e # h)"
proof (cases "is_save e")
  case True
  then obtain s r where "e = EvSave s r" by (cases e) auto
  then show "stage_guard d p e h \<Longrightarrow> in_phase d p h \<Longrightarrow> in_phase d p (e # h)"
    by (cases r) (auto simp: stage_guard_def)
qed (simp add: last_saved_skip)

lemma segment:
  assumes "wp (stage_guard d p) m Q h" and "in_phase d p h"
  shows "wp (mig_guard d) m (\<lambda>x h'. Q x h' \<and> in_phase d p h') h"
  by (rule wp_conseq [OF wp_stable [OF assms(1), where I = "in_phase d p"]])
     (use assms(2) in_phase_step in \<open>auto simp: stage_guard_def mig_guard_def intro: mig_step.stay\<close>)

section \<open>What only looks, and tools\<close>

text \<open>The image prober and the reader of backend usage run Pods of their own; the record, claims, volumes and
  transfers are none of their business. A runner makes at least one attempt.\<close>

definition tool_run :: "'s event \<Rightarrow> 's hist \<Rightarrow> bool" where
  "tool_run e h \<longleftrightarrow> \<not> is_save e \<and> \<not> acts e"

definition env_ok :: "migration_env \<Rightarrow> bool" where
  "env_ok e \<longleftrightarrow>
     (\<forall>probe options h. me_prober e = Some probe \<longrightarrow> wp tool_run (probe options) (\<lambda>_ _. True) h)
   \<and> (\<forall>reader c v h. me_usage e = Some reader \<longrightarrow> wp tool_run (reader c v) (\<lambda>_ _. True) h)"

lemma tool_run_read: "is_read e \<Longrightarrow> tool_run e h"
  by (auto simp: tool_run_def acts_def is_read_no_save is_read_no_write is_read_no_engine)

lemma tool_run_cleanup [simp]: "tool_run (EvCopyCleanup q r) h"
  by (simp add: tool_run_def acts_def)

lemma stage_guard_tool: "tool_run e h \<Longrightarrow> stage_guard d p e h"
  by (auto simp: tool_run_def stage_guard_def)

lemma mig_guard_tool: "tool_run e h \<Longrightarrow> mig_guard d e h"
  by (auto simp: tool_run_def mig_guard_def)

lemma wp_reads_tool: "wp only_reads m Q h \<Longrightarrow> wp tool_run m Q h"
  by (erule wp_conseq) (auto simp: guard_simps tool_run_read)

lemma storage_reads:
  "wp only_reads (verifySourceStorage w a b) (\<lambda>_ _. True) h"
  "wp only_reads (verifyRollbackStorageVolume w sid a b active) (\<lambda>_ _. True) h"
  "wp only_reads (verifyActiveStorageVolume w sid a ns b active) (\<lambda>_ _. True) h"
  "wp only_reads (unrecordedActivePVC w a b ns) (\<lambda>_ _. True) h"
  unfolding verifySourceStorage_def verifyRollbackStorageVolume_def verifyActiveStorageVolume_def verified_claim_def
    verified_volume_def unrecordedActivePVC_def Let_def
  by (auto simp: io_rules guard_simps split: sum.splits intro!: io_intros)

lemma offline_reads:
  "wp only_reads (VerifyVolumesOfflineForSession w sid vs) (\<lambda>_ _. True) h"
  "wp only_reads (VerifyActivationRecovery w sid vs) (\<lambda>_ _. True) h"
  "wp only_reads (VerifyVolumeOffline w v) (\<lambda>_ _. True) h"
  unfolding VerifyVolumesOfflineForSession_def VerifyActivationRecovery_def VerifyVolumeOffline_def VerifyVolumesOffline_def
  by (auto simp: io_rules guard_simps intro!: wp_conseq [OF verifyOfflineBindings_wp])

lemma source_reads:
  "wp only_reads (probeSourcePVC w a) (\<lambda>_ _. True) h"
  "wp only_reads (volume_going w n) (\<lambda>_ _. True) h"
  "wp only_reads (rollbackDestinationConsumed w ns n sid) (\<lambda>_ _. True) h"
  "wp only_reads (RequireNamespace w n) (\<lambda>_ _. True) h"
  unfolding probeSourcePVC_def volume_going_def rollbackDestinationConsumed_def RequireNamespace_def
  by (auto simp: io_rules guard_simps split: sum.splits intro!: io_intros)

lemma scan_sources_reads: "wp only_reads (scan_sources w ns vs scan) (\<lambda>_ _. True) h"
  by (induction vs arbitrary: scan h) (auto simp: io_rules split: sum.splits intro!: wp_conseq [OF source_reads(1)])

lemma deletion_reads:
  "wp only_reads (deletionSourceMissing w ns v) (\<lambda>_ _. True) h"
  "wp only_reads (deletionDestinationSettling w b) (\<lambda>_ _. True) h"
  unfolding deletionSourceMissing_def deletionDestinationSettling_def
  by (auto simp: io_rules guard_simps split: sum.splits
      intro!: io_intros wp_conseq [OF source_reads(1)] wp_conseq [OF source_reads(2)])

lemma deletionSourcePairSettling_reads: "wp only_reads (deletionSourcePairSettling w ns vs) (\<lambda>_ _. True) h"
  by (induction w ns vs arbitrary: h rule: deletionSourcePairSettling.induct)
     (auto simp: io_rules split: sum.splits intro!: wp_conseq [OF deletion_reads(1)])

lemma unrecorded_reads: "wp only_reads (validateUnrecordedRollbackStorage w sid a b c active) (\<lambda>_ _. True) h"
  unfolding validateUnrecordedRollbackStorage_def
  by (auto simp: io_rules guard_simps split: sum.splits option.splits
      intro!: io_intros wp_conseq [OF offline_reads(2)] wp_conseq [OF storage_reads(2)])

lemma skip_reads: "wp only_reads (deletionValidationSkip w ns v b) (\<lambda>_ _. True) h"
  unfolding deletionValidationSkip_def
  by (auto simp: io_rules split: sum.splits intro!: wp_conseq [OF deletion_reads(1)] wp_conseq [OF deletion_reads(2)])

lemma sync_source_reads: "wp only_reads (validateFinalSyncSources w ns vs op) (\<lambda>_ _. True) h"
  unfolding validateFinalSyncSources_def scanPlannedSourcePVCs_def
  by (auto simp: io_rules split: sum.splits option.splits intro!: wp_conseq [OF scan_sources_reads])

lemma shrink_tool:
  assumes "env_ok e"
  shows "wp tool_run (VerifyVolumeShrinkUsage w (me_usage e) a b c d skip) (\<lambda>_ _. True) h"
proof -
  have reader: "wp tool_run (reader x y) (\<lambda>_ _. True) h" if "me_usage e = Some reader" for reader x y h
    using assms that by (simp add: env_ok_def)
  show ?thesis
    unfolding VerifyVolumeShrinkUsage_def
    by (auto simp: io_rules split: option.split prod.split sum.split intro!: wp_conseq [OF reader])
qed

lemma probe_tool:
  assumes "env_ok e"
  shows "wp tool_run (case me_prober e of None \<Rightarrow> io_ret (Inr []) | Some probe \<Rightarrow> probe options) (\<lambda>_ _. True) h"
  using assms by (auto simp: env_ok_def io_rules split: option.split)

lemma finalSyncProbes_tool:
  assumes "env_ok e"
  shows "wp tool_run (finalSyncProbes e sid plan) (\<lambda>_ _. True) h"
  using assms by (auto simp: finalSyncProbes_def transferFinalSyncProbes_def env_ok_def io_rules split: option.split)

lemma cleanup_tool: "wp tool_run (cleanupCopyToolPods order w a b op) (\<lambda>_ _. True) h"
  by (rule wp_conseq [OF cleanupCopyToolPods_wp]) (auto simp: tool_guard_def tool_run_def acts_def dest: tool_guard_quiet tool_run_read)

text \<open>The validations. When one passes, the record itself was found valid.\<close>

abbreviation valid_in :: "mig world \<Rightarrow> mig \<Rightarrow> bool" where
  "valid_in w obj \<equiv> validateClusterMigrationObject (w_parse_quantity w) (Some obj) = Inr ()"

lemma validateReservedVolume_reads:
  "wp only_reads (validateReservedVolume w e sid n img b v c) (\<lambda>_ _. True) h"
  unfolding validateReservedVolume_def
  by (auto simp: io_rules split: sum.splits intro!: wp_conseq [OF ValidateVolumeReservation_wp])

lemma validate_reservations_tool: "env_ok e \<Longrightarrow> wp tool_run (validate_reservations w e obj vs) (\<lambda>_ _. True) h"
  by (induction vs arbitrary: h)
     (auto simp: io_rules Let_def validateReservationVolume_def split: sum.splits
       intro!: wp_conseq [OF shrink_tool] wp_conseq [OF wp_reads_tool [OF ValidateVolumeReservation_wp]])

lemma ValidateReservation_tool:
  "env_ok e \<Longrightarrow> wp tool_run (ValidateReservation w e obj)
     (\<lambda>r h'. r = Inr () \<longrightarrow> valid_in w obj \<and> resume_phase obj \<in> {PhasePlanned, PhaseReserving, PhaseReserved}) h"
  unfolding ValidateReservation_def
  by (auto simp: io_rules split: sum.splits intro!: wp_conseq [OF validate_reservations_tool])

lemma validate_sync_volumes_tool: "env_ok e \<Longrightarrow> wp tool_run (validate_sync_volumes w e obj vs) (\<lambda>_ _. True) h"
  by (induction vs arbitrary: h)
     (auto simp: io_rules Let_def split: sum.splits
       intro!: wp_conseq [OF shrink_tool] wp_conseq [OF wp_reads_tool [OF validateReservedVolume_reads]])

lemma ValidateFinalSync_tool:
  "env_ok e \<Longrightarrow> wp tool_run (ValidateFinalSync w e obj)
     (\<lambda>r h'. r = Inr () \<longrightarrow> valid_in w obj \<and> migrationFinalSyncPhase (resume_phase obj)) h"
  unfolding ValidateFinalSync_def
  by (auto simp: io_rules split: sum.splits intro!: wp_conseq [OF validate_sync_volumes_tool]
      wp_conseq [OF wp_reads_tool [OF sync_source_reads]] wp_conseq [OF wp_reads_tool [OF offline_reads(1)]])

lemma verify_active_reads: "wp only_reads (verify_active w obj vs) (\<lambda>_ _. True) h"
  by (induction vs arbitrary: h) (auto simp: io_rules Let_def split: sum.splits intro!: wp_conseq [OF storage_reads(3)])

lemma verify_restored_reads: "wp only_reads (verify_restored w obj vs) (\<lambda>_ _. True) h"
  by (induction vs arbitrary: h) (auto simp: io_rules Let_def split: sum.splits intro!: wp_conseq [OF storage_reads(2)])

lemma verify_sources_reads: "wp only_reads (verify_sources w ns vs) (\<lambda>_ _. True) h"
  by (induction vs arbitrary: h) (auto simp: io_rules Let_def split: sum.splits intro!: wp_conseq [OF storage_reads(1)])

lemma rollback_consumers_reads: "wp only_reads (rollback_consumers w obj vs) (\<lambda>_ _. True) h"
  by (induction vs arbitrary: h) (auto simp: io_rules Let_def split: sum.splits intro!: wp_conseq [OF source_reads(3)])

lemma validate_activations_reads: "wp only_reads (validate_activations w obj vs) (\<lambda>_ _. True) h"
  by (induction vs arbitrary: h)
     (auto simp: io_rules Let_def split: sum.splits option.splits prod.splits
       intro!: wp_conseq [OF storage_reads(3)] wp_conseq [OF storage_reads(4)] wp_conseq [OF offline_reads(1)])

lemma admission_reads:
  "wp only_reads (validateMigrationPVCAdmission w []) (\<lambda>_ _. True) h"
  "wp only_reads (validateMigrationPVCAdmission w [x]) (\<lambda>_ _. True) h"
  by (rule wp_conseq [OF validateMigrationPVCAdmission_wp]; simp)+

lemma ValidateActivation_reads:
  "wp only_reads (ValidateActivation w obj) (\<lambda>r h'. r = Inr () \<longrightarrow> valid_in w obj
     \<and> resume_phase obj \<in> {PhaseActivated, PhaseCompleted, PhaseResuming, PhaseFinalSynced, PhaseActivating}) h"
  unfolding ValidateActivation_def verifyActiveVolumes_def
  by (auto simp: io_rules split: sum.splits prod.splits
      intro!: wp_conseq [OF verify_active_reads] wp_conseq [OF validate_activations_reads]
        wp_conseq [OF admission_reads(1)] wp_conseq [OF admission_reads(2)] wp_conseq [OF offline_reads(1)] wp_conseq [OF offline_reads(2)])

lemma validate_rollback_volume_reads: "wp only_reads (validate_rollback_volume w obj v) (\<lambda>_ _. True) h"
  unfolding validate_rollback_volume_def Let_def
  by (auto simp: io_rules split: sum.splits option.splits prod.splits
      intro!: wp_conseq [OF storage_reads(2)] wp_conseq [OF storage_reads(3)] wp_conseq [OF storage_reads(4)]
        wp_conseq [OF unrecorded_reads])

lemma validate_rollbacks_reads: "wp only_reads (validate_rollbacks w obj vs) (\<lambda>_ _. True) h"
  by (induction vs arbitrary: h)
     (auto simp: io_rules split: sum.splits intro!: wp_conseq [OF validate_rollback_volume_reads])

lemma ValidateRollback_reads:
  "wp only_reads (ValidateRollback w obj) (\<lambda>r h'. r = Inr () \<longrightarrow> valid_in w obj) h"
  unfolding ValidateRollback_def verifyRestoredVolumes_def
  by (auto simp: io_rules split: sum.splits
      intro!: wp_conseq [OF verify_restored_reads] wp_conseq [OF validate_rollbacks_reads]
        wp_conseq [OF offline_reads(1)] wp_conseq [OF offline_reads(2)])

lemma ValidateAbort_reads:
  "wp only_reads (ValidateAbort w obj) (\<lambda>r h'. r = Inr () \<longrightarrow> valid_in w obj) h"
  unfolding ValidateAbort_def
  by (auto simp: io_rules split: sum.splits option.splits
      intro!: wp_conseq [OF deletionSourcePairSettling_reads] wp_conseq [OF verify_sources_reads])

lemma cleanup_interrupted_tool: "wp tool_run (cleanup_interrupted w e obj vs) (\<lambda>_ _. True) h"
  by (induction vs arbitrary: h)
     (auto simp: io_rules Let_def split: sum.splits option.splits
       intro!: io_intros wp_conseq [OF wp_reads_tool [OF skip_reads]]
         wp_conseq [OF wp_reads_tool [OF validateReservedVolume_reads]] wp_conseq [OF cleanup_tool])

section \<open>Transitions and failures\<close>

lemma transition_general:
  assumes reads: "\<And>e h'. is_read e \<Longrightarrow> G e h'"
    and save: "\<And>m r. validateMigrationTransition (resume_phase obj) q = Inr () \<Longrightarrow>
      workflowResumePhase m = landing (ws_of obj) q \<Longrightarrow>
      (may_move plan (ws_of obj) (vols_of obj) q \<Longrightarrow> dynamic_ok plan m (vols_of obj)) \<Longrightarrow>
      G (EvSave (with_ws m obj) r) (EvCheck None None # h)"
    and moved: "\<And>m. validateMigrationTransition (resume_phase obj) q = Inr () \<Longrightarrow>
      workflowResumePhase m = landing (ws_of obj) q \<Longrightarrow> ws_Phase m = q \<Longrightarrow>
      (may_move plan (ws_of obj) (vols_of obj) q \<Longrightarrow> dynamic_ok plan m (vols_of obj)) \<Longrightarrow>
      Q (with_ws m obj, Inr ()) (EvCheck None None # EvSave (with_ws m obj) (Inr ()) # EvCheck None None # h)"
    and failed: "\<And>err h'. Q (obj, Inl err) h'"
  shows "wp G (transition w obj q msg) Q h"
proof (cases "validateMigrationTransition (resume_phase obj) q")
  case (Inl err)
  then show ?thesis by (simp add: transition_def io_rules failed)
next
  case (Inr u)
  then have ok: "validateMigrationTransition (resume_phase obj) q = Inr ()" by simp
  define m where "m now = RecordWorkflowTransition
    (if ws_StartedAt (ws_of obj) = 0 then (ws_of obj)\<lparr>ws_StartedAt := now\<rparr> else ws_of obj) q msg now" for now
  have resume: "workflowResumePhase (m now) = landing (ws_of obj) q" and phase: "ws_Phase (m now) = q" for now
    by (simp_all add: m_def RecordWorkflowTransition_Phase)
  have dynamic: "dynamic_ok plan (m now) (vols_of obj)" if "may_move plan (ws_of obj) (vols_of obj) q" for now
    unfolding m_def using that ok by (intro dynamic_after) (auto simp: may_move_def)
  show ?thesis
    unfolding transition_def Inr Let_def m_def [symmetric] sum.case
    by (auto simp: io_rules reads failed split: sum.split
        intro!: io_intros wp_persistCheckpoint save [OF ok resume dynamic] moved [OF ok resume phase dynamic])
qed

text \<open>A transition of the record whose phase was saved last.\<close>

lemma transition_wp:
  assumes "frame d obj" and "in_phase d (resume_phase obj) h"
    and "validateMigrationTransition (resume_phase obj) q = Inr () \<Longrightarrow> honest h \<Longrightarrow> straight d (landing (ws_of obj) q) \<Longrightarrow>
      may_move (plan_of d) (ws_of obj) (vols_of obj) q"
  shows "wp (mig_guard d) (transition w obj q msg) (\<lambda>(obj', r) h'. r = Inr () \<longrightarrow>
    sound d h' obj' \<and> resume_phase obj' = landing (ws_of obj) q \<and> last_saved d h' = obj' \<and> ws_Phase (ws_of obj') = q
    \<and> vols_of obj' = vols_of obj) h"
proof -
  have step: "mig_step (resume_phase obj) (landing (ws_of obj) q)" if "validateMigrationTransition (resume_phase obj) q = Inr ()"
    using transition_target(1) [OF that] by (cases "q = PhaseFailed") (auto simp: landing_def intro: mig_step.stay)
  show ?thesis
  proof (rule transition_general [where plan = "plan_of d"], goal_cases)
    case (1 e h')
    then show ?case by (rule mig_guard_tool [OF tool_run_read])
  next
    case (2 m r)
    then show ?case using assms step by (auto simp: mig_guard_def sound_def acts_def)
  next
    case (3 m)
    then show ?case using assms by (auto simp: sound_def)
  qed simp
qed

lemma fail_status:
  assumes "sound d h obj" and "resume_phase obj = p"
    and "reason \<noteq> [] \<longrightarrow> reason = FailureDestinationCapacityExhausted \<and> p = PhaseFinalSyncing"
  shows "sound d h (with_ws ((ws_of obj)\<lparr>ws_ErrorCategory := c, ws_FailureReason := reason\<rparr>) obj)"
    "sound d h (with_ws ((ws_of obj)\<lparr>ws_ErrorCategory := c, ws_FailureReason := [], ws_Message := m, ws_UpdatedAt := t\<rparr>) obj)"
  using assms lifecycle_failure [of "ws_of obj" reason c] lifecycle_failure [of "ws_of obj" "[]" c]
  by (auto simp: sound_def dynamic_ok_def)

lemma transition_failed_wp:
  assumes "sound d h obj" and "resume_phase obj = p"
  shows "wp (stage_guard d p) (transition w obj PhaseFailed msg) (\<lambda>_ _. True) h"
proof -
  have move: "may_move (plan_of d) (ws_of obj) (vols_of obj) PhaseFailed" if "honest h" "straight d p"
    using assms that by (auto simp: sound_def may_move_def landing_def dynamic_ok_def)
  show ?thesis
  proof (rule transition_general [where plan = "plan_of d"], goal_cases)
    case (1 e h')
    then show ?case by (rule stage_guard_tool [OF tool_run_read])
  next
    case (2 m r)
    then show ?case using assms move by (auto simp: stage_guard_def sound_def acts_def landing_def)
  qed simp_all
qed

lemma migration_fail_wp:
  assumes "sound d h obj" and "resume_phase obj = p"
  shows "wp (stage_guard d p) (migration_fail w e obj cause) (\<lambda>(obj', r) h'. \<exists>err. r = Inl err) h"
proof -
  define reason where "reason = (if resume_phase obj = PhaseFinalSyncing then failureReason (me_runner e) cause else [])"
  have reason: "reason \<noteq> [] \<longrightarrow> reason = FailureDestinationCapacityExhausted \<and> p = PhaseFinalSyncing"
    using assms(2) by (auto simp: reason_def failureReason_def)
  have error: "\<exists>err. to_res (errors_join [Some cause, x]) = Inl err" for x
    by (cases "errors_join [Some cause, x]") (auto simp: errors_join_eq_None)
  have read: "is_read e' \<Longrightarrow> stage_guard d p e' h'" for e' h'
    by (rule stage_guard_tool [OF tool_run_read])
  have failing: "wp (stage_guard d p)
      (transition w' (with_ws ((ws_of obj)\<lparr>ws_ErrorCategory := c, ws_FailureReason := reason\<rparr>) obj) PhaseFailed msg)
      (\<lambda>_ _. True) h'" if "suffix h h'" for w' c msg h'
    using fail_status(1) [OF sound_mono [OF assms(1) that] assms(2) reason] assms(2)
    by (intro transition_failed_wp) simp_all
  have keeping: "stage_guard d p (EvSave (with_ws ((ws_of obj)\<lparr>ws_ErrorCategory := c, ws_FailureReason := [],
      ws_Message := m, ws_UpdatedAt := t\<rparr>) obj) r) h'" if "suffix h h'" for c m t r h'
    using fail_status(2) [OF sound_mono [OF assms(1) that] assms(2)] assms(2) reason
    by (auto simp: stage_guard_def acts_def)
  show ?thesis
    unfolding migration_fail_def recordWorkflowFailure_def reason_def [symmetric] Let_def
    by (auto simp: io_rules read error split: option.split sum.split prod.split
        intro!: io_intros wp_persistCheckpoint keeping wp_conseq [OF failing] simp: suffix_Cons)
qed

section \<open>Loops over the volumes\<close>

text \<open>The record inside a loop over the planned volumes: the volumes in \<open>D\<close> are done.\<close>

definition looping :: "mig \<Rightarrow> (VolumeSpec \<Rightarrow> nat) \<Rightarrow> Phase \<Rightarrow> VolumeSpec set \<Rightarrow> mig \<Rightarrow> mig hist \<Rightarrow> bool" where
  "looping d idx p D obj h \<longleftrightarrow> frame d obj \<and> resume_phase obj = p \<and>
     (honest h \<and> straight d p \<longrightarrow> dynamic_ok (plan_of d) (ws_of obj) (vols_of obj) \<and> tracks (plan_of d) idx (vols_of obj)
        \<and> (\<forall>v\<in>D. done_flag p (vols_of obj ! idx v)))"

lemma looping_mono: "looping d idx p D obj h \<Longrightarrow> suffix h h' \<Longrightarrow> D' \<subseteq> D \<Longrightarrow> looping d idx p D' obj h'"
  by (auto simp: looping_def dest: honest_suffix)

lemma looping_sound: "looping d idx p D obj h \<Longrightarrow> sound d h obj \<and> resume_phase obj = p"
  by (auto simp: looping_def sound_def)

lemma looping_fields:
  assumes "looping d idx p D obj h"
  shows "plan_of obj = plan_of d" "name_of obj = name_of d" "resume_phase obj = p"
  using assms by (auto simp: looping_def frame_def)

abbreviation plan_vols :: "mig \<Rightarrow> VolumeSpec list" where
  "plan_vols d \<equiv> mp_Volumes (plan_of d)"

lemma looping_volume:
  assumes "looping d idx p D obj h" and "v \<in> set (plan_vols d)" and "honest h" and "straight d p"
  shows "volume_valid (plan_of d) p v (vols_of obj ! idx v)" "checkpoint_name (vols_of obj ! idx v) = volume_name v"
  using assms checkpoint_at [of "plan_of d" p "vols_of obj" idx v] by (auto simp: looping_def dynamic_ok_def)

lemma looping_done:
  assumes "looping d idx p D obj h" and "done_flag p (vols_of obj ! idx v)"
  shows "looping d idx p (insert v D) obj h"
  using assms by (auto simp: looping_def)

lemma looping_update:
  assumes loop: "looping d idx p D obj h" and "suffix h h'" and names: "distinct (map volume_name (plan_vols d))"
    and v: "v \<in> set (plan_vols d)" and D: "D \<subseteq> set (plan_vols d)" "D' \<subseteq> insert v D"
    and valid: "honest h' \<Longrightarrow> straight d p \<Longrightarrow> volume_valid (plan_of d) p v (vols_of obj ! idx v) \<Longrightarrow>
      checkpoint_name (vols_of obj ! idx v) = volume_name v \<Longrightarrow>
      volume_valid (plan_of d) p v (f (vols_of obj ! idx v)) \<and> checkpoint_name (f (vols_of obj ! idx v)) = volume_name v"
    and finished: "v \<in> D' \<Longrightarrow> done_flag p (f (vols_of obj ! idx v))"
  shows "looping d idx p D' (with_volume (idx v) f obj) h'"
proof -
  let ?cs = "vols_of obj" and ?c = "f (vols_of obj ! idx v)"
  have here: "looping d idx p D obj h'" by (rule looping_mono [OF loop assms(2)]) simp
  have "dynamic_ok (plan_of d) (ws_of obj) (?cs[idx v := ?c]) \<and> tracks (plan_of d) idx (?cs[idx v := ?c])
      \<and> (\<forall>u\<in>D'. done_flag p (?cs[idx v := ?c] ! idx u))" if h': "honest h'" "straight d p"
  proof -
    have old: "checkpoints_ok (plan_of d) p ?cs" "tracks (plan_of d) idx ?cs" "\<forall>u\<in>D. done_flag p (?cs ! idx u)"
      "validateMigrationLifecycle (ws_of obj) = Inr ()" "ws_Phase (ws_of obj) \<noteq> PhaseNone" "resume_phase obj = p"
      using here h' by (auto simp: looping_def dynamic_ok_def)
    note new = valid [OF h' looping_volume [OF here v h']]
    have "done_flag p (?cs[idx v := ?c] ! idx u)" if "u \<in> D'" for u
    proof (cases "u = v")
      case True
      then show ?thesis using finished that checkpoint_at(3) [OF old(1,2) v] by simp
    next
      case False
      then have "u \<in> D" "idx u \<noteq> idx v" using that D v tracks_inj [OF old(2) names] by auto
      then show ?thesis using old(3) by simp
    qed
    then show ?thesis
      using old new checkpoints_update [OF old(1,2) names v] tracks_update [OF old(2) v] by (auto simp: dynamic_ok_def)
  qed
  then show ?thesis using loop by (auto simp: looping_def)
qed

text \<open>What the loops rely on.\<close>

definition loop_env :: "mig world \<Rightarrow> migration_env \<Rightarrow> mig \<Rightarrow> bool" where
  "loop_env w e d \<longleftrightarrow> retry_contract w \<and> env_ok e \<and> planned_ok (w_parse_quantity w) (plan_of d)"

lemma loop_envD:
  assumes "loop_env w e d"
  shows "retry_contract w" "env_ok e" "distinct (map volume_name (plan_vols d))"
  using assms by (auto simp: loop_env_def planned_ok_def)

text \<open>A loop handles one volume, marks it done and goes on, or fails.\<close>

locale volume_loop =
  fixes ok :: bool and d :: mig and idx :: "VolumeSpec \<Rightarrow> nat" and p :: Phase
    and loop :: "VolumeSpec list \<Rightarrow> mig \<Rightarrow> (mig \<times> unit res, mig) io"
  assumes loop_Nil: "loop [] obj = io_ret (obj, Inr ())"
    and loop_Cons: "ok \<Longrightarrow> v \<in> set (plan_vols d) \<Longrightarrow> D \<subseteq> set (plan_vols d) \<Longrightarrow> looping d idx p D obj h \<Longrightarrow>
      (\<And>obj' h'. looping d idx p (insert v D) obj' h' \<Longrightarrow> wp (stage_guard d p) (loop vs obj') Q h') \<Longrightarrow>
      (\<And>obj' err h'. Q (obj', Inl err) h') \<Longrightarrow> wp (stage_guard d p) (loop (v # vs) obj) Q h"
begin

lemma loop_wp:
  assumes "ok" and "set vs \<subseteq> set (plan_vols d)"
  shows "D \<subseteq> set (plan_vols d) \<Longrightarrow> looping d idx p D obj h \<Longrightarrow>
    wp (stage_guard d p) (loop vs obj) (\<lambda>(obj', r) h'. r = Inr () \<longrightarrow> looping d idx p (D \<union> set vs) obj' h') h"
  using assms(2)
proof (induction vs arbitrary: D obj h)
  case Nil
  then show ?case by (simp add: loop_Nil io_rules)
next
  case (Cons v vs)
  have "wp (stage_guard d p) (loop vs obj') (\<lambda>(obj', r) h'. r = Inr () \<longrightarrow> looping d idx p (D \<union> set (v # vs)) obj' h') h'"
    if "looping d idx p (insert v D) obj' h'" for obj' h'
    using Cons.IH [OF _ that] Cons.prems by simp
  then show ?case using Cons.prems assms(1) by (intro loop_Cons) auto
qed

text \<open>After the loop the record may move on: every volume is done.\<close>

lemma loop_segment:
  assumes "ok" and "looping d idx p {} obj h" and "in_phase d p h" and "set vs = set (plan_vols d)"
  shows "wp (mig_guard d) (loop vs obj) (\<lambda>(obj', r) h'. r = Inr () \<longrightarrow>
    looping d idx p (set (plan_vols d)) obj' h' \<and> in_phase d p h') h"
  by (rule wp_conseq [OF segment [OF loop_wp [OF assms(1) _ _ assms(2)] assms(3)]]) (use assms(4) in auto)

end

lemma or_fail_wp:
  assumes "wp (stage_guard d p) step (\<lambda>(obj, r) h'. sound d h' obj \<and> resume_phase obj = p
      \<and> (r = Inr () \<longrightarrow> wp (stage_guard d p) (k obj) Q h')) h"
    and "\<And>obj err h'. Q (obj, Inl err) h'"
  shows "wp (stage_guard d p) (or_fail w e step k) Q h"
proof -
  have fail: "wp (stage_guard d p) (migration_fail w e obj err) Q h'" if "sound d h' obj" "resume_phase obj = p" for obj err h'
    by (rule wp_conseq [OF migration_fail_wp [OF that]]) (auto simp: assms(2))
  show ?thesis
    unfolding or_fail_def io_rules
  proof (rule wp_conseq [OF assms(1)], goal_cases)
    case (2 y h')
    then show ?case by (cases y; cases "snd y") (simp_all add: fail)
  qed
qed

end
