(* ===== verification/MigrationStages.thy ===== *)
theory MigrationStages
  imports MigrationSafety
begin

text \<open>
  The stages of an offline migration, one by one: the four loops over the planned volumes (reservation,
  final sync, activation and rollback) as instances of the locale \<open>volume_loop\<close>, and the stages that
  announce them, run them and conclude them.
\<close>

text \<open>One round of a loop.\<close>

lemma or_fail_loop:
  assumes step: "wp (stage_guard d p) step (\<lambda>(obj, r) h'. looping d idx p (if r = Inr () then insert v D else {}) obj h') h"
    and go: "\<And>obj' h'. looping d idx p (insert v D) obj' h' \<Longrightarrow> wp (stage_guard d p) (k obj') Q h'"
    and stop: "\<And>obj' err h'. Q (obj', Inl err) h'"
  shows "wp (stage_guard d p) (or_fail w e step k) Q h"
proof (rule or_fail_wp, rule wp_conseq [OF step], goal_cases)
  case (2 y h')
  then show ?case using looping_sound [of d idx p _ "fst y" h'] go by (cases y) (auto split: if_splits)
qed (simp_all add: stop)

lemma join_failed [simp]: "to_res (errors_join [x, Some err]) \<noteq> Inr ()"
  by (cases "errors_join [x, Some err]") (auto simp: errors_join_eq_None)

section \<open>Reservation\<close>

lemma honestD: "honest h \<Longrightarrow> e \<in> set h \<Longrightarrow> truthful e"
  by (auto simp: honest_def list_all_iff)

text \<open>A reservation that was made leaves a checkpoint that passes the validation.\<close>

lemma reserve_result_ok:
  assumes "reserve_result sid src srcpv c st0 (st, r) h" and "honest h" and "reservation_ok v tns st0"
    and "c_Name c = destination_name v" "c_Namespace c = tns"
  shows "reservation_ok v tns st"
proof (cases "r = Inr ()")
  case True
  then obtain cr vol where "rs_DestinationPVC st = Some cr" "claim_recorded c cr" "rs_DestinationPV st = Some (volume_reference vol)"
    "\<exists>n. EvGetPV n (Inr vol) \<in> set h \<and> n \<noteq> []" "v_UID vol \<noteq> []"
    using assms(1) by (auto simp: reserve_result_def reservation_evidence_def)
  then show ?thesis
    using assms(4,5) honestD [OF assms(2)]
    by (fastforce simp: reservation_ok_def bad_reference_def claim_recorded_def volume_reference_def no_reference_def)
next
  case False
  then show ?thesis
    using assms by (auto simp: reserve_result_def reservation_ok_def bad_reference_def claim_recorded_def split: option.splits)
qed

lemma reserve_guard_stage:
  assumes "reserve_guard sid src srcpv c e h"
  shows "stage_guard d PhaseReserving e h"
  using reserve_guard_quiet [OF assms] reserve_guard_fenced [OF assms]
  by (cases e) (auto simp: stage_guard_def acts_def)

lemma reservationManifest_names:
  "reservationManifest parse dst cap sc mode modes = Inr c \<Longrightarrow> c_Name c = r_Name dst \<and> c_Namespace c = r_Namespace dst"
  by (auto simp: reservationManifest_def split: option.splits)

lemma reservation_record:
  assumes "looping d idx PhaseReserving D obj h" and "suffix h h'" and "distinct (map volume_name (plan_vols d))"
    and "v \<in> set (plan_vols d)" "D \<subseteq> set (plan_vols d)"
    and "\<not> rs_Reserved (mv_Reservation (vols_of obj ! idx v))"
    and "reserve_result sid src srcpv c (mv_Reservation (vols_of obj ! idx v)) (st, r) h'"
    and "c_Name c = destination_name v" "c_Namespace c = mp_TemporaryNamespace (plan_of d)" "r_Name src = volume_name v"
  shows "looping d idx PhaseReserving (if r = Inr () then insert v D else {}) (with_reservation (idx v) st obj) h'"
  unfolding with_reservation_def
proof (rule looping_update [OF assms(1-5)], goal_cases)
  case 2
  then have "reservation_ok v (mp_TemporaryNamespace (plan_of d)) st"
    by (intro reserve_result_ok [OF assms(7) _ _ assms(8,9)])
       (auto simp: validate_checkpoint_Inr validateMigrationVolumeCheckpoint_Inr)
  with 2 show ?case
    using assms(6,7,10) by (auto simp: volume_valid_reservation reserve_result_def checkpoint_name_def)
next
  case 3
  then show ?case
    using assms(7) by (auto simp: reserve_result_def done_flag_def split: if_splits)
qed auto

text \<open>A record is saved within its phase.\<close>

lemma persist_stage:
  assumes "sound d h obj" and "resume_phase obj = p"
  shows "wp (stage_guard d p) (persistCheckpoint w (Some (save_state w' obj))) (\<lambda>_ _. True) h"
proof (rule wp_persistCheckpoint, goal_cases)
  case (2 r)
  have "sound d (EvCheck None None # h) obj" by (rule sound_mono [OF assms(1)]) (simp add: suffix_def)
  then show ?case using assms(2) by (simp add: stage_guard_def acts_def)
qed (simp_all add: stage_guard_tool tool_run_read)

lemma reserveVolumeCheckpoint_wp:
  fixes obj :: mig and idx :: "VolumeSpec \<Rightarrow> nat" and v :: VolumeSpec
  defines "st0 \<equiv> mv_Reservation (vols_of obj ! idx v)"
  assumes "retry_contract w" and loop: "looping d idx PhaseReserving D obj h" "distinct (map volume_name (plan_vols d))"
    "v \<in> set (plan_vols d)" "D \<subseteq> set (plan_vols d)" and "\<not> rs_Reserved st0"
    and names: "c_Name c = destination_name v" "c_Namespace c = mp_TemporaryNamespace (plan_of d)" "r_Name src = volume_name v"
  shows "wp (stage_guard d PhaseReserving) (reserveVolumeCheckpoint w rv q src srcpv cap c st0 (\<lambda>st. with_reservation (idx v) st obj))
    (\<lambda>(st, r) h'. looping d idx PhaseReserving (if r = Inr () then insert v D else {}) (with_reservation (idx v) st obj) h') h"
proof -
  have saved: "looping d idx PhaseReserving (if r = Inr () then insert v D else {}) (with_reservation (idx v) st obj) h2"
    if "reserve_result (rq_SessionID q) src srcpv c st0 (st, r) h1" "suffix h h1" "suffix h1 h2" for st r h1 h2
    using reservation_record [OF loop(1) that(2) loop(2-4) _ _ names] that assms(7) looping_mono unfolding st0_def by blast
  have kept: "looping d idx PhaseReserving {} (with_reservation (idx v) st0 obj) h1" if "suffix h h1" for h1
    using saved [of st0 "Inl err" h1 h1 for err] that by (simp add: reserve_result_def)
  have persist: "wp (stage_guard d PhaseReserving) (persistCheckpoint w (Some (save_state w (with_reservation (idx v) st obj))))
      (\<lambda>_ _. True) h1" if "reserve_result (rq_SessionID q) src srcpv c st0 (st, r) h1" "suffix h h1" for st r h1
    using looping_sound [OF saved [OF that suffix_order.refl]] by (blast intro: persist_stage)
  have none: "looping d idx PhaseReserving {} x h2" if "looping d idx PhaseReserving S x h2" for S x h2
    using looping_mono [OF that] by simp
  show ?thesis
    unfolding reserveVolumeCheckpoint_def
  proof (rule wp_try_st_step [where P = "\<lambda>_ _. True"], goal_cases)
    case 1
    show ?case by (auto simp: io_rules stage_guard_tool tool_run_read intro!: io_intros)
  next
    case (2 err h1)
    then show ?case by (simp add: kept)
  next
    case (3 x h1)
    show ?case
      unfolding io_rules
    proof (rule wp_conseq [OF ReserveVolume_wp [OF assms(2)]], goal_cases)
      case (1 e h2)
      then show ?case by (blast intro: reserve_guard_stage)
    next
      case (2 y h2)
      obtain st r where y: "y = (st, r)" by (cases y)
      have r: "reserve_result (rq_SessionID q) src srcpv c st0 (st, r) h2" "suffix h h2"
        using 2 3 y by (auto intro: suffix_order.trans)
      show ?case
        unfolding y io_rules prod.case
        by (rule wp_conseq [OF persist [OF r]])
           (auto simp: io_rules kept suffix_order.trans [OF r(2)] split: sum.split intro: none saved [OF r]
             dest: saved [OF r])
    qed
  qed
qed

interpretation reserving: volume_loop "loop_env w e d" d idx PhaseReserving "reserve_volumes w e idx" for w e d idx
proof
  fix v D obj h vs and Q :: "mig \<times> unit res \<Rightarrow> mig hist \<Rightarrow> bool"
  assume env: "loop_env w e d" and v: "v \<in> set (plan_vols d)" "D \<subseteq> set (plan_vols d)"
    and loop: "looping d idx PhaseReserving D obj h"
    and go: "\<And>obj' h'. looping d idx PhaseReserving (insert v D) obj' h' \<Longrightarrow> wp (stage_guard d PhaseReserving) (reserve_volumes w e idx vs obj') Q h'"
    and stop: "\<And>obj' err h'. Q (obj', Inl err) h'"
  note f = looping_fields [OF loop]
  show "wp (stage_guard d PhaseReserving) (reserve_volumes w e idx (v # vs) obj) Q h"
  proof (cases "rs_Reserved (mv_Reservation (vols_of obj ! idx v))")
    case True
    then have "done_flag PhaseReserving (vols_of obj ! idx v)" by (simp add: done_flag_def)
    with True go [OF looping_done [OF loop]] show ?thesis by simp
  next
    case False
    note step = reserveVolumeCheckpoint_wp [OF loop_envD(1) [OF env] loop loop_envD(3) [OF env] v False]
    show ?thesis
      unfolding reserve_volumes.simps Let_def f using False
      by (auto simp: io_rules looping_mono [OF loop] destination_name_def volume_name_def qualifiedResourceReference_def
          split: sum.split intro!: or_fail_loop go stop wp_conseq [OF step] dest!: reservationManifest_names)
  qed
qed simp

section \<open>Final sync\<close>

text \<open>What a transfer does to the record and the cluster, for any invariant \<open>P\<close> of the record that the
  attempt counter keeps.\<close>

definition transfer_stage :: "(mig \<Rightarrow> bool) \<Rightarrow> mig event \<Rightarrow> mig hist \<Rightarrow> bool" where
  "transfer_stage P e h \<longleftrightarrow> (\<forall>s r. e = EvSave s r \<longrightarrow> P s) \<and> (acts e \<longrightarrow> is_copy e \<and> fenced h)"

definition slot_keeps :: "mig copy_slot \<Rightarrow> bool \<Rightarrow> (mig \<Rightarrow> bool) \<Rightarrow> bool" where
  "slot_keeps slot b P \<longleftrightarrow> (\<forall>s. P s \<longrightarrow> b \<longrightarrow> 0 \<le> sl_attempts slot s)
     \<and> (\<forall>s a t. P s \<longrightarrow> (b \<longrightarrow> 0 \<le> a) \<longrightarrow> P (sl_put slot a t s))"

lemma transfer_stage_tool: "tool_run e h \<Longrightarrow> transfer_stage P e h"
  by (auto simp: tool_run_def transfer_stage_def)

lemma transfer_stage_read [simp]: "is_read e \<Longrightarrow> transfer_stage P e h"
  by (rule transfer_stage_tool) (rule tool_run_read)

lemma transfer_stage_save [simp]: "transfer_stage P (EvSave s r) h \<longleftrightarrow> P s"
  by (auto simp: transfer_stage_def acts_def)

lemma transfer_stage_copy [simp]: "transfer_stage P (EvCopy q r) h \<longleftrightarrow> fenced h"
  by (auto simp: transfer_stage_def acts_def)

lemma copy_attempt_stage:
  assumes "fenced h"
  shows "wp (transfer_stage P) (copy_attempt w s q) (\<lambda>_ _. True) h"
  unfolding copy_attempt_def
  by (auto simp: io_rules assms guard_simps transfer_stage_tool
      intro!: io_intros wp_conseq [OF copy_error_wp] wp_conseq [OF cleanup_tool])

lemma attempt_failed_stage:
  assumes slot: "slot_keeps slot b P" and "P started"
    and again: "\<And>obj h'. P obj \<Longrightarrow> wp (transfer_stage P) (again obj) (\<lambda>(obj', r) h'. P obj') h'"
  shows "wp (transfer_stage P) (attempt_failed w s slot was_last i prev started cleanupErr failure again) (\<lambda>(obj', r) h'. P obj') h"
proof -
  have P: "P (sl_put slot (sl_attempts slot started) t obj)" if "P obj" for t obj
    using slot \<open>P started\<close> that by (auto simp: slot_keeps_def)
  show ?thesis
    unfolding attempt_failed_def Let_def
    by (auto simp: io_rules guard_simps P \<open>P started\<close> split: sum.splits
        intro!: wp_persistCheckpoint again io_intros wp_conseq [OF backoff_sleep_wp])
qed

lemma copy_loop_stage:
  assumes slot: "slot_keeps slot b P" and validate: "\<And>h. wp only_reads validate (\<lambda>_ _. True) h"
    and mount: "\<And>h. wp only_reads mount (\<lambda>_ _. True) h"
  shows "P obj \<Longrightarrow> wp (transfer_stage P) (copy_loop n i w s slot q validate mount err obj) (\<lambda>(obj', r) h'. P obj') h"
proof (induction n arbitrary: i err obj h)
  case 0
  then show ?case by (simp add: copy_loop.simps io_rules)
next
  case (Suc n)
  have P: "P (sl_put slot (sl_attempts slot obj + 1) t obj)"
    "P (sl_put slot (sl_attempts slot obj) t (sl_put slot (sl_attempts slot obj + 1) t' obj))" for t t'
    using slot Suc.prems by (fastforce simp: slot_keeps_def)+
  show ?case
    unfolding copy_loop.simps Let_def
    by (auto simp: io_rules guard_simps P Suc split: sum.splits option.splits prod.splits
        intro!: wp_persistCheckpoint wp_conseq [OF validate] wp_conseq [OF mount] wp_conseq [OF copy_attempt_stage]
          attempt_failed_stage [OF slot] Suc.IH)
qed

lemma copyWithRetry_stage:
  assumes "retry_contract w" and slot: "slot_keeps slot b P" and "\<And>h. wp only_reads validate (\<lambda>_ _. True) h"
    and "\<And>h. wp only_reads mount (\<lambda>_ _. True) h" and "P obj"
  shows "wp (transfer_stage P) (copyWithRetry w s slot a b' probes q validate mount obj) (\<lambda>(obj', r) h'. P obj') h"
proof -
  have prepare: "wp (transfer_stage P) (prepareTransfer w s a b' probes q) (\<lambda>r h'. \<forall>x. r = Inr x \<longrightarrow> True) h"
    by (rule wp_conseq [OF prepareTransfer_wp [OF assms(1)]])
       (auto simp: account_guard_def transfer_stage_def acts_def is_read_no_save is_read_no_write is_read_no_engine)
  show ?thesis
    unfolding copyWithRetry_def
    by (rule wp_try_st_step, rule prepare) (use assms in \<open>auto intro: copy_loop_stage\<close>)
qed

lemma sync_record:
  assumes "looping d idx PhaseFinalSyncing D obj h" and "suffix h h'" and "distinct (map volume_name (plan_vols d))"
    and "v \<in> set (plan_vols d)" "D \<subseteq> set (plan_vols d)" "D' \<subseteq> insert v D"
    and "honest h \<Longrightarrow> straight d PhaseFinalSyncing \<Longrightarrow> 0 \<le> sy_Attempts (mv_Sync (vols_of obj ! idx v)) \<Longrightarrow>
      0 \<le> sy_Attempts (f (mv_Sync (vols_of obj ! idx v)))"
    and "v \<in> D' \<Longrightarrow> sy_FinalCompletedAt (f (mv_Sync (vols_of obj ! idx v))) \<noteq> None"
  shows "looping d idx PhaseFinalSyncing D' (with_sync (idx v) f obj) h'"
  unfolding with_sync_def
proof (rule looping_update [OF assms(1-6)], goal_cases)
  case 1
  then show ?case
    using assms(7) honest_suffix [OF _ assms(2)] by (auto simp: volume_valid_sync validate_checkpoint_Inr validateMigrationVolumeCheckpoint_Inr)
qed (simp add: done_flag_def assms(8))

lemma sync_slot_keeps:
  fixes h :: "mig hist"
  assumes "distinct (map volume_name (plan_vols d))" and "v \<in> set (plan_vols d)" "D \<subseteq> set (plan_vols d)" "v \<notin> D"
  shows "slot_keeps (sync_slot (idx v)) (honest h \<and> straight d PhaseFinalSyncing) (\<lambda>s. looping d idx PhaseFinalSyncing D s h)"
  unfolding slot_keeps_def sync_slot_def copy_slot.simps
proof (intro conjI allI impI, goal_cases)
  case (1 s)
  then show ?case
    using looping_volume [OF _ assms(2)] by (auto simp: validate_checkpoint_Inr validateMigrationVolumeCheckpoint_Inr)
next
  case (2 s a t)
  then show ?case using assms by (intro sync_record [where D = D]) auto
qed

lemma checkpointFinalCopy_stage:
  assumes "looping d idx PhaseFinalSyncing D obj h" and "distinct (map volume_name (plan_vols d))"
    and "v \<in> set (plan_vols d)" "D \<subseteq> set (plan_vols d)"
  shows "wp (stage_guard d PhaseFinalSyncing) (checkpointFinalCopy w (idx v) c obj)
    (\<lambda>(obj', r) h'. r = Inr () \<longrightarrow> looping d idx PhaseFinalSyncing (insert v D) obj' h') h"
proof -
  have completed: "looping d idx PhaseFinalSyncing (insert v D)
      (with_sync (idx v) (\<lambda>s. s\<lparr>sy_FinalCompletedAt := Some t, sy_ChecksumVerified := c, sy_LastError := []\<rparr>) obj) h'"
    if "suffix h h'" for t h'
    by (rule sync_record [OF assms(1) that assms(2-4)]) auto
  show ?thesis
    unfolding checkpointFinalCopy_def Let_def
    by (auto simp: io_rules completed split: sum.splits
        intro!: wp_conseq [OF persist_stage] dest: looping_sound [OF completed] simp: looping_sound [OF completed])
qed

lemma sync_check_reads: "wp only_reads (sync_check w e obj i v) (\<lambda>_ _. True) h"
  unfolding sync_check_def
  by (auto simp: io_rules split: sum.splits intro!: wp_conseq [OF validateReservedVolume_reads] wp_conseq [OF offline_reads(3)])

lemma transfer_stage_guard:
  assumes "transfer_stage (\<lambda>s. looping d idx PhaseFinalSyncing D s h) e h'" and "suffix h h'"
  shows "stage_guard d PhaseFinalSyncing e h'"
  using assms looping_sound [OF looping_mono [OF _ assms(2)], of d idx PhaseFinalSyncing D _ D]
  by (cases e) (auto simp: transfer_stage_def stage_guard_def acts_def)

lemma sync_copy_stage:
  assumes "retry_contract w" and "looping d idx PhaseFinalSyncing D obj h" and "distinct (map volume_name (plan_vols d))"
    and "v \<in> set (plan_vols d)" "D \<subseteq> set (plan_vols d)" "v \<notin> D"
  shows "wp (stage_guard d PhaseFinalSyncing)
    (copyWithRetry w s (sync_slot (idx v)) a b probes q (sync_check w e obj i u) (io_ret (Inr False)) obj)
    (\<lambda>(obj', r) h'. looping d idx PhaseFinalSyncing D obj' h') h"
proof (rule wp_conseq [OF copyWithRetry_stage [OF assms(1) sync_slot_keeps [OF assms(3-6)] sync_check_reads _ assms(2)]], goal_cases)
  case (1 h')
  show ?case by (simp add: io_rules)
next
  case (2 e h')
  then show ?case by (blast intro: transfer_stage_guard)
next
  case (3 y h')
  then show ?case by (auto intro: looping_mono)
qed

interpretation syncing: volume_loop "loop_env w e d" d idx PhaseFinalSyncing "sync_volumes w e probes idx" for w e d idx probes
proof
  fix v D obj h vs and Q :: "mig \<times> unit res \<Rightarrow> mig hist \<Rightarrow> bool"
  assume env: "loop_env w e d" and v: "v \<in> set (plan_vols d)" "D \<subseteq> set (plan_vols d)"
    and loop: "looping d idx PhaseFinalSyncing D obj h"
    and go: "\<And>obj' h'. looping d idx PhaseFinalSyncing (insert v D) obj' h' \<Longrightarrow>
      wp (stage_guard d PhaseFinalSyncing) (sync_volumes w e probes idx vs obj') Q h'"
    and stop: "\<And>obj' err h'. Q (obj', Inl err) h'"
  let ?G = "stage_guard d PhaseFinalSyncing" and ?D = "D - {v}"
  note names = loop_envD(3) [OF env]
  show "wp ?G (sync_volumes w e probes idx (v # vs) obj) Q h"
  proof (cases "sy_FinalCompletedAt (mv_Sync (vols_of obj ! idx v)) = None")
    case False
    then have "done_flag PhaseFinalSyncing (vols_of obj ! idx v)" by (simp add: done_flag_def)
    with False go [OF looping_done [OF loop]] show ?thesis by (simp add: Let_def)
  next
    case True
    have rest: "looping d idx PhaseFinalSyncing ?D obj h" "v \<notin> ?D" "?D \<subseteq> set (plan_vols d)"
      using looping_mono [OF loop, of h ?D] v by auto
    have complete: "wp ?G (io_then_st (checkpointFinalCopy w (idx v) c obj1) (\<lambda>obj2 _. sync_volumes w e probes idx vs obj2)) Q h1"
      if "looping d idx PhaseFinalSyncing ?D obj1 h1" for c obj1 h1
      unfolding io_rules
      by (rule wp_conseq [OF checkpointFinalCopy_stage [OF that names v(1) rest(3)]])
         (auto simp: go stop io_rules split: sum.splits)
    show ?thesis
      unfolding sync_volumes.simps Let_def using True
      by (auto intro!: or_fail_wp stop complete wp_conseq [OF sync_copy_stage [OF loop_envD(1) [OF env] rest(1) names v(1) rest(3,2)]]
          dest: looping_sound simp: looping_sound)
  qed
qed simp

section \<open>Activation and rollback\<close>

lemma activation_record:
  assumes "looping d idx p D obj h" and "suffix h h'" and "distinct (map volume_name (plan_vols d))"
    and "v \<in> set (plan_vols d)" "D \<subseteq> set (plan_vols d)" "D' \<subseteq> insert v D" and p: "p = PhaseActivating \<or> p = PhaseRollingBack"
    and "act_ok (straight d p) v (mp_DestinationNamespace (plan_of d)) st h'"
    and "v \<in> D' \<Longrightarrow> done_flag p ((vols_of obj ! idx v)\<lparr>mv_Activation := st\<rparr>)"
  shows "looping d idx p D' (with_activation (idx v) st obj) h'"
  unfolding with_activation_def
proof (rule looping_update [OF assms(1-6)], goal_cases)
  case 1
  then show ?case using assms(8) p by (simp add: volume_valid_activation act_ok_def)
qed (simp add: assms(9))

lemma recorded_activation:
  assumes "looping d idx p D obj h" and "v \<in> set (plan_vols d)"
  shows "act_ok (straight d p) v (mp_DestinationNamespace (plan_of d)) (mv_Activation (vols_of obj ! idx v)) h"
  using looping_volume [OF assms] by (auto simp: act_ok_def validate_checkpoint_Inr validateMigrationVolumeCheckpoint_Inr)

text \<open>What the switcher publishes is saved as part of a sound record.\<close>

abbreviation loop_save :: "mig \<Rightarrow> (VolumeSpec \<Rightarrow> nat) \<Rightarrow> Phase \<Rightarrow> mig hist \<Rightarrow> mig \<Rightarrow> mig hist \<Rightarrow> bool" where
  "loop_save d idx p h s h' \<equiv> suffix h h' \<longrightarrow> looping d idx p {} s h'"

lemma publish_saves:
  assumes "looping d idx p D obj h" and "distinct (map volume_name (plan_vols d))" and "v \<in> set (plan_vols d)"
    and p: "p = PhaseActivating \<or> p = PhaseRollingBack"
  shows "saves_where (act_ok (straight d p) v (mp_DestinationNamespace (plan_of d))) (loop_save d idx p h)
      (publish w (\<lambda>st. with_activation (idx v) st obj))"
    "saves_only (publish w (\<lambda>st. with_activation (idx v) st obj))"
proof -
  let ?ok = "act_ok (straight d p) v (mp_DestinationNamespace (plan_of d))"
  have S: "loop_save d idx p h (with_activation (idx v) st obj) (EvCheck None None # h')" if "?ok st h'" for st h'
  proof
    assume h: "suffix h (EvCheck None None # h')"
    have ok: "?ok st (EvCheck None None # h')" by (rule act_ok_mono [OF that]) (simp add: suffix_def)
    have "looping d idx p {} obj h" using looping_mono [OF assms(1)] by simp
    then show "looping d idx p {} (with_activation (idx v) st obj) (EvCheck None None # h')"
      by (rule activation_record [OF _ h assms(2,3) _ _ p ok]) simp_all
  qed
  show "saves_where ?ok (loop_save d idx p h) (publish w (\<lambda>st. with_activation (idx v) st obj))"
    unfolding saves_where_def publish_def
    using S by (auto intro!: wp_persistCheckpoint simp: save_guard_skip) (auto simp: save_guard_def)
  show "saves_only (publish w (\<lambda>st. with_activation (idx v) st obj))"
    unfolding saves_only_def publish_def by (auto intro!: wp_persistCheckpoint)
qed

lemma switch_guard_stage:
  assumes "save_guard (loop_save d idx p h) e h'" and "suffix h h'" and p: "p = PhaseActivating \<or> p = PhaseRollingBack"
    and "(\<exists>sid st0 vol c. activation_guard sid st0 vol c e h') \<or> (\<exists>sid vol c. rollback_guard sid vol c e h')"
  shows "stage_guard d p e h'"
proof -
  have saves: "\<forall>s r. e = EvSave s r \<longrightarrow> sound d h' s \<and> resume_phase s = p" and copy: "\<not> is_copy e"
    using assms(1,2) looping_sound by (auto simp: save_guard_def)
  have fence: "writes_storage e \<Longrightarrow> fenced h'"
    using assms(4) guard_fenced(1,2) by blast
  have "writes_storage e \<Longrightarrow> permitted p e"
    using assms(4) p
    by (cases e) (auto simp: activation_guard_def rollback_guard_def pv_update_guard_def pair_guard_def delete_guard_def create_guard_def)
  then show ?thesis using saves copy fence by (auto simp: stage_guard_def acts_def)
qed

lemma activateMigrationVolume_stage:
  fixes obj :: mig and idx :: "VolumeSpec \<Rightarrow> nat" and v :: VolumeSpec
  defines "st0 \<equiv> mv_Activation (vols_of obj ! idx v)"
  assumes w: "retry_contract w" and loop: "looping d idx PhaseActivating D obj h" and names: "distinct (map volume_name (plan_vols d))"
    and v: "v \<in> set (plan_vols d)" "D \<subseteq> set (plan_vols d)" and "r_Name (b_SourcePVC vol) = volume_name v"
  shows "wp (stage_guard d PhaseActivating)
    (activateMigrationVolume w sid (mp_DestinationNamespace (plan_of d)) vol c st0 (\<lambda>st. with_activation (idx v) st obj))
    (\<lambda>(st, r) h'. looping d idx PhaseActivating (if r = Inr () then insert v D else {}) (with_activation (idx v) st obj) h') h"
proof -
  let ?dns = "mp_DestinationNamespace (plan_of d)"
  note pub = publish_saves [OF loop names v(1) disjI1 [OF refl], of w]
  have start: "act_ok (straight d PhaseActivating) v ?dns st0 h" unfolding st0_def by (rule recorded_activation [OF loop v(1)])
  have recorded: "looping d idx PhaseActivating S (with_activation (idx v) st obj) h'"
    if "suffix h h'" "act_ok (straight d PhaseActivating) v ?dns st h'" "S \<subseteq> insert v D" "v \<in> S \<Longrightarrow> a_ActivatedAt st \<noteq> None" for S st h'
    by (rule activation_record [OF loop that(1) names v that(3) _ that(2)]) (auto simp: done_flag_def that(4))
  have kept: "act_ok (straight d PhaseActivating) v ?dns st0 h'" if "suffix h h'" for h' by (rule act_ok_mono [OF start that])
  have switch: "wp (stage_guard d PhaseActivating)
      (ActivatePVC w sid ?dns vol (Some c) (Some st0) (publish w (\<lambda>st. with_activation (idx v) st obj)))
      (\<lambda>(st, r) h'. looping d idx PhaseActivating (if r = Inr () then insert v D else {}) (with_activation (idx v) (the st) obj) h') h"
  proof (rule wp_conseq [OF wp_conj [OF ActivatePVC_wp [OF w pub(2)] ActivatePVC_saves [OF w pub(1) start assms(7)]]], goal_cases)
    case (1 e h')
    then show ?case by (blast intro: switch_guard_stage)
  next
    case (2 y h')
    then show ?case by (auto simp: act_result_def activated_def intro!: recorded split: if_splits)
  qed
  show ?thesis
    unfolding activateMigrationVolume_def
    by (auto simp: io_rules stage_guard_tool split: sum.splits
        intro!: recorded kept wp_conseq [OF wp_reads_tool [OF storage_reads(3)]] wp_conseq [OF switch])
qed

lemma rollbackMigrationVolume_stage:
  fixes obj :: mig and idx :: "VolumeSpec \<Rightarrow> nat" and v :: VolumeSpec
  defines "st0 \<equiv> mv_Activation (vols_of obj ! idx v)"
  assumes w: "retry_contract w" and loop: "looping d idx PhaseRollingBack D obj h" and names: "distinct (map volume_name (plan_vols d))"
    and v: "v \<in> set (plan_vols d)" "D \<subseteq> set (plan_vols d)" and "r_Name (b_SourcePVC vol) = volume_name v"
    and "r_Namespace (b_SourcePVC vol) = mp_SourceNamespace (plan_of d)"
  shows "wp (stage_guard d PhaseRollingBack)
    (rollbackMigrationVolume w sid ns vol c st0 (\<lambda>st. with_activation (idx v) st obj))
    (\<lambda>(st, r) h'. looping d idx PhaseRollingBack (if r = Inr () then insert v D else {}) (with_activation (idx v) st obj) h') h"
proof -
  let ?dns = "mp_DestinationNamespace (plan_of d)"
  note pub = publish_saves [OF loop names v(1) disjI2 [OF refl], of w]
  have start: "act_ok (straight d PhaseRollingBack) v ?dns st0 h" unfolding st0_def by (rule recorded_activation [OF loop v(1)])
  have same: "straight d PhaseRollingBack \<longrightarrow> r_Namespace (b_SourcePVC vol) = ?dns" by (simp add: straight_def assms(8))
  have recorded: "looping d idx PhaseRollingBack S (with_activation (idx v) st obj) h'"
    if "suffix h h'" "act_ok (straight d PhaseRollingBack) v ?dns st h'" "S \<subseteq> insert v D" "v \<in> S \<Longrightarrow> a_RolledBackAt st \<noteq> None" for S st h'
    by (rule activation_record [OF loop that(1) names v that(3) _ that(2)]) (auto simp: done_flag_def that(4))
  have switch: "wp (stage_guard d PhaseRollingBack)
      (RollbackPVC w sid ns vol (Some c) (Some st0) (publish w (\<lambda>st. with_activation (idx v) st obj)))
      (\<lambda>(st, r) h'. looping d idx PhaseRollingBack (if r = Inr () then insert v D else {}) (with_activation (idx v) (the st) obj) h') h"
  proof (rule wp_conseq [OF wp_conj [OF RollbackPVC_wp [OF w pub(2)] RollbackPVC_saves [OF w pub(1) start assms(7) same]]], goal_cases)
    case (1 e h')
    then show ?case by (blast intro: switch_guard_stage)
  next
    case (2 y h')
    then show ?case by (auto simp: rollback_result_def rolled_back_def intro!: recorded split: if_splits)
  qed
  show ?thesis
    unfolding rollbackMigrationVolume_def
    by (auto simp: io_rules intro!: wp_conseq [OF switch])
qed

lemma bindings_source:
  "r_Name (b_SourcePVC (volume_bindings obj i v)) = volume_name v"
  "r_Namespace (b_SourcePVC (volume_bindings obj i v)) = mp_SourceNamespace (plan_of obj)"
  by (simp_all add: volume_bindings_def plannedMigrationBindings_def qualifiedResourceReference_def volume_name_def)

interpretation activating: volume_loop "loop_env w e d" d idx PhaseActivating "activate_volumes w e idx" for w e d idx
proof
  fix v D obj h vs and Q :: "mig \<times> unit res \<Rightarrow> mig hist \<Rightarrow> bool"
  assume env: "loop_env w e d" and v: "v \<in> set (plan_vols d)" "D \<subseteq> set (plan_vols d)"
    and loop: "looping d idx PhaseActivating D obj h"
    and go: "\<And>obj' h'. looping d idx PhaseActivating (insert v D) obj' h' \<Longrightarrow> wp (stage_guard d PhaseActivating) (activate_volumes w e idx vs obj') Q h'"
    and stop: "\<And>obj' err h'. Q (obj', Inl err) h'"
  note f = looping_fields [OF loop]
  note step = activateMigrationVolume_stage [OF loop_envD(1) [OF env] loop loop_envD(3) [OF env] v bindings_source(1)]
  show "wp (stage_guard d PhaseActivating) (activate_volumes w e idx (v # vs) obj) Q h"
    unfolding activate_volumes.simps Let_def f
    by (auto simp: io_rules looping_mono [OF loop] split: sum.split intro!: or_fail_loop go stop wp_conseq [OF step])
qed simp

interpretation rolling_back: volume_loop "loop_env w e d" d idx PhaseRollingBack "rollback_volumes w e idx" for w e d idx
proof
  fix v D obj h vs and Q :: "mig \<times> unit res \<Rightarrow> mig hist \<Rightarrow> bool"
  assume env: "loop_env w e d" and v: "v \<in> set (plan_vols d)" "D \<subseteq> set (plan_vols d)"
    and loop: "looping d idx PhaseRollingBack D obj h"
    and go: "\<And>obj' h'. looping d idx PhaseRollingBack (insert v D) obj' h' \<Longrightarrow> wp (stage_guard d PhaseRollingBack) (rollback_volumes w e idx vs obj') Q h'"
    and stop: "\<And>obj' err h'. Q (obj', Inl err) h'"
  have source: "r_Namespace (b_SourcePVC (volume_bindings obj i v)) = mp_SourceNamespace (plan_of d)" for i
    using looping_fields [OF loop] by (simp add: bindings_source)
  note step = rollbackMigrationVolume_stage [OF loop_envD(1) [OF env] loop loop_envD(3) [OF env] v bindings_source(1) source]
  show "wp (stage_guard d PhaseRollingBack) (rollback_volumes w e idx (v # vs) obj) Q h"
  proof (cases "a_RolledBackAt (mv_Activation (vols_of obj ! idx v)) = None")
    case False
    then have "done_flag PhaseRollingBack (vols_of obj ! idx v)" by (simp add: done_flag_def)
    with False go [OF looping_done [OF loop]] show ?thesis by (simp add: Let_def)
  next
    case True
    then show ?thesis
      unfolding rollback_volumes.simps Let_def
      by (auto simp: io_rules intro!: or_fail_loop go stop wp_conseq [OF step])
  qed
qed simp

end
