(* ===== verification/ReserverSafety.thy ===== *)
theory ReserverSafety
  imports Reserver Runs
begin

text \<open>
  What a reservation guarantees, and a concrete one: the claim \<open>a\<close> on volume \<open>p\<close> is acquired, its volume is
  retained, and the claim \<open>b\<close> that the session reserved earlier is found bound to the retained volume \<open>q\<close>.
\<close>

section \<open>A concrete reservation\<close>

definition reserve_source :: ObjectReference where
  "reserve_source = PVCReference demo_src"

definition reserve_source_volume :: ObjectReference where
  "reserve_source_volume = PVReference (demo_pv ''p'' ''x1'' demo_src)"

definition reserve_desired :: pvc where
  "reserve_desired = (demo_pvc ''b'' [] [] Map.empty)\<lparr>c_Phase := ClaimPending\<rparr>"

definition reserved_claim :: pvc where
  "reserved_claim = (reservation_claim ''s'' reserve_source reserve_source_volume (demo_pvc ''b'' ''u2'' ''q'' Map.empty))"

definition reserved_volume :: pv where
  "reserved_volume = (demo_pv ''q'' ''x2'' reserved_claim)
     \<lparr>v_Labels := demo_labels ResourceRoleDestination, v_ReclaimPolicy := ReclaimRetain\<rparr>"

definition reserve_world :: "'s world" where
  "reserve_world = static_world
     (\<lambda>ns n. if n = ''a'' then Inr demo_src else if n = ''b'' then Inr reserved_claim else Inl (ApiError NotFound))
     (\<lambda>n. if n = ''p'' then Inr (demo_pv ''p'' ''x1'' demo_src)
          else if n = ''q'' then Inr reserved_volume else Inl (ApiError NotFound))"

definition reserve_request :: ReservationRequest where
  "reserve_request = \<lparr>rq_SessionID = ''s'', rq_TargetNode = [], rq_ToolImage = []\<rparr>"

definition unreserved :: ClusterVolumeReservationStatus where
  "unreserved = \<lparr>rs_SourcePVCName = [], rs_DestinationPVC = None, rs_DestinationPV = None, rs_DestinationPolicy = [],
     rs_Reserved = False\<rparr>"

definition demo_reserver :: reserver where
  "demo_reserver = \<lparr>rv_trustedToolImage = [], rv_lib = \<lparr>tl_ParseNormalizedNamed = (\<lambda>s. None), tl_IsDNS1123Label = (\<lambda>n. True)\<rparr>\<rparr>"

abbreviation demo_reservation :: "(ClusterVolumeReservationStatus \<times> unit res, unit) io" where
  "demo_reservation \<equiv> ReserveVolume demo_reserver reserve_world reserve_request reserve_source reserve_source_volume [] reserve_desired
     unreserved"

lemma reserve_world_retry [simp]: "retry_contract reserve_world"
  by (simp add: reserve_world_def)

lemmas reserve_run_defs =
  ReserveVolume_def prepareReservation_def verifySourceIdentity_def source_volume_ok_def validateReservationPVOwnership_def
  HasWritableAccessMode_def validateReservationCheckpoint_def validateDestinationPlacement_def AcquirePVC_def acquire_attempt_def
  validatePVCOwnershipInput_def retainPV_def reserveVolumeLive_def loadOrCreateReservationPVC_def validateDestinationPVC_def
  cleanupReservationPod_def get_pod_def finalizeLiveReservation_def wrong_node_def retain_destination_def
  validateDestinationPVNode_def validateRetainedDestinationPV_def volume_reference_def recorded_policy_def record_live_def
  checkpoint_claim_def checkpoint_volume_def reservation_claim_def accessModesEqual_def effectiveVolumeMode_def
  retain_pv_def pin_policy_def marked_pv_def no_reference_def Let_def

lemmas reserve_demo_defs =
  reserve_source_def reserve_source_volume_def reserve_desired_def reserved_claim_def reserved_volume_def reserve_world_def
  reserve_request_def unreserved_def demo_labels_def

lemma demo_reservation_succeeds: "snd (fst (demo_reservation [])) = Inr ()"
  by (simp add: reserve_run_defs reserve_demo_defs run_defs step_defs demo_defs)

fun updates_claim :: "'s event \<Rightarrow> bool" where
  "updates_claim (EvUpdatePVC c r) = True"
| "updates_claim e = False"

lemma demo_reservation_updates: "list_ex updates_claim (snd (demo_reservation []))"
  by (simp add: reserve_run_defs reserve_demo_defs run_defs step_defs demo_defs)

section \<open>Properties\<close>

text \<open>C13: a volume that is reported reserved is reserved. The checkpoint names the planned claim and its
  volume by their UIDs; the claim was read bound, marked for this session and at least as large as asked
  for, and the volume was read referring to that claim, retained and marked as its destination.\<close>

theorem reserve_success:
  assumes "retry_contract w"
    and "ReserveVolume rv w q src srcpv cap d st [] = ((st', Inr ()), es)"
  shows "rs_Reserved st' \<and> rs_SourcePVCName st' = r_Name src \<and>
    (\<exists>cr vr b v n. rs_DestinationPVC st' = Some cr \<and> rs_DestinationPV st' = Some vr
      \<and> EvGetPVC (c_Namespace d) (c_Name d) (Inr b) \<in> set es \<and> EvGetPV n (Inr v) \<in> set es
      \<and> r_Namespace cr = c_Namespace d \<and> r_Name cr = c_Name d \<and> r_UID cr = c_UID b \<and> r_UID vr = v_UID v \<and> r_Name vr = v_Name v
      \<and> c_Phase b = ClaimBound \<and> mget (c_Annotations b) SessionKey = rq_SessionID q \<and> storage_request d \<le> storage_request b
      \<and> claimRef_is v b \<and> v_ReclaimPolicy v = ReclaimRetain
      \<and> mget (v_Labels v) SessionKey = rq_SessionID q \<and> mget (v_Labels v) ResourceRoleLabel = ResourceRoleDestination)"
proof -
  let ?c = "reservation_claim (rq_SessionID q) src srcpv d"
  from wp_run [OF ReserveVolume_wp [OF assms(1)] assms(2)]
  obtain cr vr where st': "rs_Reserved st'" "rs_SourcePVCName st' = r_Name src" "rs_DestinationPVC st' = Some cr"
      "rs_DestinationPV st' = Some vr" "claim_recorded d cr" "reservation_evidence (rq_SessionID q) ?c (r_UID cr) vr es"
    by (auto simp: reserve_result_def)
  from st'(6) obtain b v n where ev: "EvGetPVC (c_Namespace ?c) (c_Name ?c) (Inr b) \<in> set es" "c_Phase b = ClaimBound"
      "validateDestinationPVC b ?c [] = Inr ()" "r_UID cr = c_UID b" "EvGetPV n (Inr v) \<in> set es"
      "validateRetainedDestinationPV v (v_UID v) b (rq_SessionID q) = Inr ()" "vr = volume_reference v"
    by (auto simp: reservation_evidence_def)
  have claim: "mget (c_Annotations b) SessionKey = rq_SessionID q" "storage_request d \<le> storage_request b"
    using ev(3) by (auto simp: validateDestinationPVC_def reservation_claim_def storage_request_def Let_def split: if_splits)
  have volume: "claimRef_is v b" "v_ReclaimPolicy v = ReclaimRetain" "mget (v_Labels v) SessionKey = rq_SessionID q"
      "mget (v_Labels v) ResourceRoleLabel = ResourceRoleDestination"
    using ev(6) by (auto simp: validateRetainedDestinationPV_def validateReservationPVOwnership_def Let_def split: if_splits sum.splits)
  have refs: "r_UID vr = v_UID v" "r_Name vr = v_Name v" "r_Namespace cr = c_Namespace d" "r_Name cr = c_Name d"
      "c_Namespace ?c = c_Namespace d" "c_Name ?c = c_Name d"
    using ev(7) st'(5) by (simp_all add: volume_reference_def claim_recorded_def reservation_claim_def)
  show ?thesis
    using st'(1-4) ev(1,2,4,5) claim volume refs by (intro conjI exI [of _ cr] exI [of _ vr] exI [of _ b] exI [of _ v] exI [of _ n]) simp_all
qed

theorem reserve_success_witness:
  "\<exists>st' es. demo_reservation [] = ((st', Inr ()), es) \<and> rs_Reserved st' \<and> rs_SourcePVCName st' = ''a''"
proof -
  obtain st' es where run: "demo_reservation [] = ((st', Inr ()), es)"
    using demo_reservation_succeeds by (metis prod.collapse)
  have "rs_Reserved st' \<and> rs_SourcePVCName st' = ''a''"
    using reserve_success [OF reserve_world_retry run] by (simp add: reserve_source_def demo_defs)
  with run show ?thesis by blast
qed



end
