(* ===== verification/Spec2Isabelle.thy ===== *)
theory Spec2Isabelle
  imports Lifecycle SwitcherSafety WorkflowLease Paths Admission VolumeCopy MigrationObject MigrationStages ReserverSafety
begin

text \<open>
  A verification development for \<^verbatim>\<open>pvc-migrate\<close>, a Kubernetes controller and command-line tool that
  moves persistent volume claims between storage classes, nodes and namespaces.

  \<^bold>\<open>The program.\<close> A workflow (a custom resource or a ConfigMap session) goes through phases. An
  executor (\<^verbatim>\<open>internal/app\<close>) holds the session lease of the workflow
  (\<^verbatim>\<open>internal/kube/session_lease.go\<close>), copies the data, and then lets the switcher
  (\<^verbatim>\<open>internal/kube/switcher*.go\<close>) rebind the claim name to the destination volume, or back. Every
  step that must not be lost is checkpointed in the status of the workflow.

  \<^bold>\<open>Theories.\<close>
  \<^item> \<^theory_text>\<open>Prelude\<close>: Go maps, histories as lists, generic lemmas, named collections.
  \<^item> \<^theory_text>\<open>Errors\<close>: \<^verbatim>\<open>internal/domain/errors.go\<close> and the \<^verbatim>\<open>errors\<close> package.
  \<^item> \<^theory_text>\<open>Lifecycle\<close>: the workflow registry, phases, bounded status
    (\<^verbatim>\<open>internal/domain/workflow_*.go\<close>, \<^verbatim>\<open>identity_lifecycle.go\<close>).
  \<^item> \<^theory_text>\<open>Kube\<close>: objects and the pure checks on them (\<^verbatim>\<open>metadata.go\<close>, \<^verbatim>\<open>references.go\<close>,
    \<^verbatim>\<open>pvc_finalizers.go\<close>, \<^verbatim>\<open>resource_state.go\<close>).
  \<^item> \<^theory_text>\<open>Effects\<close>: API calls as events of a history, the world that answers them, the lease fence
    (\<^verbatim>\<open>lease_fence.go\<close>), waiting (\<^verbatim>\<open>client.go\<close>), and the calculus \<^verbatim>\<open>wp\<close>.
  \<^item> \<^theory_text>\<open>Ownership\<close>, \<^theory_text>\<open>Binding\<close>, \<^theory_text>\<open>Activation\<close>, \<^theory_text>\<open>Rollback\<close>, \<^theory_text>\<open>Offline\<close>: \<^verbatim>\<open>ownership.go\<close> and the
    switcher, function by function; \<^theory_text>\<open>StaticWorld\<close>, \<^theory_text>\<open>Runs\<close>: concrete worlds and runs;
    \<^theory_text>\<open>SwitcherSafety\<close>: what the switcher guarantees.
  \<^item> \<^theory_text>\<open>Names\<close>: bounded names (\<^verbatim>\<open>names.go\<close>).
  \<^item> \<^theory_text>\<open>Lease\<close>, \<^theory_text>\<open>LeaseProtocol\<close>, \<^theory_text>\<open>LeaseSafety\<close>: the session lease, several workers over one lease,
    and mutual exclusion.
\<close>

end
